(* ===== verification/Prelude.thy ===== *)
theory Prelude
  imports Complex_Main
begin

text \<open>
  Shared vocabulary of the development: Python text operations on strings, the values of
  the \<open>json\<close> module, Python's exceptions, the clock, and rows of an SQLite table held in
  rowid order with the SQL operations the program issues on them.

  A \<open>char\<close> stands for a Unicode code point below 256, so \<open>length\<close> counts what
  Python's \<open>len\<close> counts; text beyond that range is outside the model. Floating point
  numbers are read as real numbers (no rounding, no infinities, no NaN unless a definition
  says so). Python's unbounded integers are \<open>int\<close>.
\<close>

section \<open>Automation\<close>

named_theorems store_simps \<open>how the operations act on the tables and on each other\<close>
named_theorems col_defs \<open>definitions of the column assignments and row predicates\<close>
named_theorems advisor_simps \<open>how the operations on the runs of the advisor act on its tables\<close>

section \<open>Text\<close>

definition space_chars :: string where
  "space_chars =
     [CHR 0x09, CHR 0x0A, CHR 0x0B, CHR 0x0C, CHR 0x0D, CHR 0x1C, CHR 0x1D, CHR 0x1E,
      CHR 0x1F, CHR 0x20, CHR 0x85, CHR 0xA0]"

definition py_space :: "char \<Rightarrow> bool" where
  "py_space c \<longleftrightarrow> c \<in> set space_chars"

text \<open>\<open>str.strip()\<close>, \<open>str.lower()\<close>, \<open>str.startswith\<close> and \<open>needle in haystack\<close>.\<close>

definition strip :: "string \<Rightarrow> string" where
  "strip s = rev (dropWhile py_space (rev (dropWhile py_space s)))"

definition lower_char :: "char \<Rightarrow> char" where
  "lower_char c =
     (let n = (of_char c :: nat)
      in if (65 \<le> n \<and> n \<le> 90) \<or> (192 \<le> n \<and> n \<le> 222 \<and> n \<noteq> 215) then char_of (n + 32) else c)"

definition lower :: "string \<Rightarrow> string" where
  "lower s = map lower_char s"

definition starts_with :: "string \<Rightarrow> string \<Rightarrow> bool" where
  "starts_with p s \<longleftrightarrow> take (length p) s = p"

fun contains :: "string \<Rightarrow> string \<Rightarrow> bool" where
  "contains n [] = (n = [])"
| "contains n (c # cs) = (starts_with n (c # cs) \<or> contains n cs)"

text \<open>\<open>s.split(c)\<close> for one character.\<close>

fun split_on :: "char \<Rightarrow> string \<Rightarrow> string list" where
  "split_on d [] = [[]]"
| "split_on d (c # cs) =
     (case split_on d cs of
        [] \<Rightarrow> [[c]]
      | p # ps \<Rightarrow> if c = d then [] # p # ps else (c # p) # ps)"

text \<open>\<open>str(x or "")\<close> for an optional text, and \<open>text or None\<close>.\<close>

definition or_empty :: "string option \<Rightarrow> string" where
  "or_empty x = (case x of None \<Rightarrow> '''' | Some s \<Rightarrow> s)"

definition or_none :: "string \<Rightarrow> string option" where
  "or_none s = (if s = '''' then None else Some s)"

definition text_or :: "string \<Rightarrow> string \<Rightarrow> string" where
  "text_or s d = (if s = '''' then d else s)"

text \<open>Decimal rendering of an integer, as \<open>str(n)\<close> and f-strings print it.\<close>

fun nat_digits :: "nat \<Rightarrow> string" where
  "nat_digits n =
     (if n < 10 then [char_of (48 + n)] else nat_digits (n div 10) @ [char_of (48 + n mod 10)])"

declare nat_digits.simps [simp del]

definition int_text :: "int \<Rightarrow> string" where
  "int_text i = (if i < 0 then CHR ''-'' # nat_digits (nat (- i)) else nat_digits (nat i))"

lemma strip_Nil [simp]: "strip [] = []"
  by (simp add: strip_def)

lemma lower_Nil [simp]: "lower [] = []"
  by (simp add: lower_def)

lemma lower_append [simp]: "lower (a @ b) = lower a @ lower b"
  by (simp add: lower_def)

lemma length_lower [simp]: "length (lower s) = length s"
  by (simp add: lower_def)

lemma starts_with_Nil [simp]: "starts_with [] s"
  by (simp add: starts_with_def)

lemma starts_with_Cons [simp]:
  "starts_with (p # ps) (c # cs) \<longleftrightarrow> p = c \<and> starts_with ps cs"
  by (auto simp: starts_with_def)

lemma starts_with_Cons_Nil [simp]: "\<not> starts_with (p # ps) []"
  by (simp add: starts_with_def)

lemma starts_with_append [simp]: "starts_with p (p @ s)"
  by (simp add: starts_with_def)

lemma starts_with_iff: "starts_with p s \<longleftrightarrow> (\<exists>r. s = p @ r)"
  by (metis append_eq_conv_conj starts_with_append starts_with_def append_take_drop_id)

lemma dropWhile_rev_ends:
  "xs \<noteq> [] \<Longrightarrow> \<not> P (hd xs) \<Longrightarrow> hd (rev (dropWhile P (rev xs))) = hd xs"
  by (induction xs rule: rev_induct) (auto simp: hd_append)

text \<open>Stripping twice is stripping once.\<close>

lemma strip_strip [simp]: "strip (strip s) = strip s"
proof -
  let ?a = "dropWhile py_space s"
  let ?b = "dropWhile py_space (rev ?a)"
  have b: "dropWhile py_space ?b = ?b"
    by simp
  have "dropWhile py_space (rev ?b) = rev ?b"
  proof (cases "?a = []")
    case True
    then have "?b = []" by (simp only: rev.simps dropWhile.simps)
    then show ?thesis by (simp only: rev.simps dropWhile.simps)
  next
    case False
    then have hd_a: "\<not> py_space (hd ?a)"
      using hd_dropWhile by blast
    have "hd (rev ?b) = hd ?a"
      using dropWhile_rev_ends [of ?a py_space] False hd_a by simp
    with hd_a have "\<not> py_space (hd (rev ?b))"
      by simp
    then show ?thesis
      by (simp only: dropWhile_eq_self_iff) simp
  qed
  with b show ?thesis
    by (simp add: strip_def)
qed

lemma py_space_code:
  "py_space c \<longleftrightarrow> (of_char c :: nat) \<in> {9, 10, 11, 12, 13, 28, 29, 30, 31, 32, 133, 160}"
proof -
  have "py_space c \<longleftrightarrow> (of_char c :: nat) \<in> of_char ` set space_chars"
    by (auto simp: py_space_def)
  also have "(of_char ` set space_chars :: nat set) = {9, 10, 11, 12, 13, 28, 29, 30, 31, 32, 133, 160}"
    by (simp add: space_chars_def)
  finally show ?thesis .
qed

lemma lower_char_code:
  "(of_char (lower_char c) :: nat) =
     (let n = of_char c in if (65 \<le> n \<and> n \<le> 90) \<or> (192 \<le> n \<and> n \<le> 222 \<and> n \<noteq> 215) then n + 32 else n)"
  by (auto simp: lower_char_def Let_def)

lemma lower_char_idem: "lower_char (lower_char c) = lower_char c"
proof -
  have "(of_char (lower_char (lower_char c)) :: nat) = of_char (lower_char c)"
    by (simp add: lower_char_code Let_def)
  then show ?thesis by simp
qed

lemma py_space_lower: "py_space (lower_char c) = py_space c"
  by (auto simp: py_space_code lower_char_code Let_def)

lemma lower_lower [simp]: "lower (lower s) = lower s"
  by (simp add: lower_def lower_char_idem)

lemma strip_lower: "strip (lower s) = lower (strip s)"
proof -
  have "dropWhile py_space (map lower_char t) = map lower_char (dropWhile py_space t)" for t
    by (induction t) (simp_all add: py_space_lower)
  then show ?thesis by (simp add: strip_def lower_def rev_map)
qed

text \<open>A text that starts with a word keeps it when stripped.\<close>

lemma strip_prefix:
  assumes "p \<noteq> []" and "\<not> py_space (hd p)" and "\<not> py_space (last p)"
  shows "strip (p @ s) = p @ rev (dropWhile py_space (rev s))"
proof -
  have head: "dropWhile py_space (p @ s) = p @ s"
    using assms(1,2) by (cases p) auto
  have tail: "dropWhile py_space (rev p) = rev p"
    using assms(1,3) by (cases p rule: rev_cases) auto
  show ?thesis
  proof (cases "\<forall>c \<in> set s. py_space c")
    case True
    then have "dropWhile py_space (rev s @ rev p) = rev p"
      using tail by (simp add: dropWhile_append)
    moreover have "dropWhile py_space (rev s) = []" using True by simp
    ultimately show ?thesis by (simp only: strip_def head rev_append) simp
  next
    case False
    then have "dropWhile py_space (rev s @ rev p) = dropWhile py_space (rev s) @ rev p"
      by (auto simp: dropWhile_append)
    then show ?thesis by (simp only: strip_def head rev_append) simp
  qed
qed

lemma or_none_Some [simp]: "or_none s = Some x \<longleftrightarrow> s = x \<and> x \<noteq> ''''"
  by (auto simp: or_none_def)

lemma or_none_None [simp]: "or_none s = None \<longleftrightarrow> s = ''''"
  by (simp add: or_none_def)

lemma or_empty_simps [simp]: "or_empty None = ''''" "or_empty (Some s) = s"
  by (simp_all add: or_empty_def)

lemma find_Some_mem: "find P xs = Some x \<Longrightarrow> P x \<and> x \<in> set xs"
  by (induction xs) (auto split: if_splits)

section \<open>JSON values\<close>

text \<open>
  The values \<open>json.loads\<close> returns. An object keeps its keys in insertion order, each
  key once. The columns that hold JSON text are held parsed.
\<close>

datatype json =
    JNull
  | JBool bool
  | JInt int
  | JReal real
  | JStr string
  | JList "json list"
  | JObj "(string \<times> json) list"

text \<open>\<open>d.get(k)\<close>: \<open>None\<close> where the key is absent or the value is no object.\<close>

definition jget :: "string \<Rightarrow> json \<Rightarrow> json" where
  "jget k v =
     (case v of JObj kvs \<Rightarrow> (case map_of kvs k of None \<Rightarrow> JNull | Some x \<Rightarrow> x) | _ \<Rightarrow> JNull)"

text \<open>\<open>d[k] = v\<close> on an object: in place where the key exists, at the end otherwise.\<close>

fun alist_set :: "'k \<Rightarrow> 'v \<Rightarrow> ('k \<times> 'v) list \<Rightarrow> ('k \<times> 'v) list" where
  "alist_set k v [] = [(k, v)]"
| "alist_set k v ((k', v') # kvs) =
     (if k' = k then (k, v) # kvs else (k', v') # alist_set k v kvs)"

definition is_obj :: "json \<Rightarrow> bool" where
  "is_obj v = (case v of JObj _ \<Rightarrow> True | _ \<Rightarrow> False)"

definition jset :: "string \<Rightarrow> json \<Rightarrow> json \<Rightarrow> json" where
  "jset k v d = (case d of JObj kvs \<Rightarrow> JObj (alist_set k v kvs) | _ \<Rightarrow> d)"

text \<open>Python's truth value.\<close>

definition truthy :: "json \<Rightarrow> bool" where
  "truthy v =
     (case v of
        JNull \<Rightarrow> False
      | JBool b \<Rightarrow> b
      | JInt n \<Rightarrow> n \<noteq> 0
      | JReal r \<Rightarrow> r \<noteq> 0
      | JStr s \<Rightarrow> s \<noteq> ''''
      | JList xs \<Rightarrow> xs \<noteq> []
      | JObj kvs \<Rightarrow> kvs \<noteq> [])"

text \<open>
  \<open>str(v)\<close>. How Python prints a float, a list or a dictionary is a parameter
  \<open>repr\<close> of every definition that can meet one.
\<close>

definition py_str :: "(json \<Rightarrow> string) \<Rightarrow> json \<Rightarrow> string" where
  "py_str repr v =
     (case v of
        JNull \<Rightarrow> ''None''
      | JBool b \<Rightarrow> (if b then ''True'' else ''False'')
      | JInt n \<Rightarrow> int_text n
      | JStr s \<Rightarrow> s
      | _ \<Rightarrow> repr v)"

text \<open>\<open>str(v or d)\<close> for a text \<open>d\<close>.\<close>

definition str_or :: "(json \<Rightarrow> string) \<Rightarrow> json \<Rightarrow> string \<Rightarrow> string" where
  "str_or repr v d = (if truthy v then py_str repr v else d)"

definition jopt :: "string option \<Rightarrow> json" where
  "jopt x = (case x of None \<Rightarrow> JNull | Some s \<Rightarrow> JStr s)"

definition jopt_real :: "real option \<Rightarrow> json" where
  "jopt_real x = (case x of None \<Rightarrow> JNull | Some s \<Rightarrow> JReal s)"

definition jopt_int :: "int option \<Rightarrow> json" where
  "jopt_int x = (case x of None \<Rightarrow> JNull | Some s \<Rightarrow> JInt s)"

lemma jget_JObj [simp]:
  "jget k (JObj ((k', v) # kvs)) = (if k' = k then v else jget k (JObj kvs))"
  "jget k (JObj []) = JNull"
  by (auto simp: jget_def)

lemma jget_JNull [simp]: "jget k JNull = JNull"
  by (simp add: jget_def)

lemma map_of_alist_set [simp]: "map_of (alist_set k v kvs) = (map_of kvs)(k \<mapsto> v)"
  by (induction k v kvs rule: alist_set.induct) auto

lemma jget_jset: "is_obj d \<Longrightarrow> jget k (jset k' v d) = (if k = k' then v else jget k d)"
  by (auto simp: jget_def jset_def is_obj_def split: json.splits)

lemma py_str_JStr [simp]: "py_str r (JStr s) = s"
  by (simp add: py_str_def)

lemma truthy_simps [simp]:
  "truthy JNull = False" "truthy (JBool b) = b" "truthy (JInt n) = (n \<noteq> 0)"
  "truthy (JStr s) = (s \<noteq> '''')"
  by (simp_all add: truthy_def)

lemma str_or_simps [simp]:
  "str_or r JNull d = d" "str_or r (JStr s) '''' = s"
  by (simp_all add: str_or_def)

lemma str_or_JStr: "str_or r (JStr s) d = (if s = '''' then d else s)"
  by (simp add: str_or_def)

lemma str_or_jopt [simp]: "str_or r (jopt x) '''' = or_empty x"
  by (cases x) (simp_all add: jopt_def)

section \<open>The runtime the code asks\<close>

text \<open>
  Process environment variables, the SHA-256 hex digest of a text, the canonical JSON
  text of a value (sorted keys, compact separators) and the printing of values named
  above. The theorems hold for every such runtime unless they say otherwise.
\<close>

record runtime =
  rt_env :: "string \<Rightarrow> string option"
  rt_sha256 :: "string \<Rightarrow> string"
  rt_dumps :: "json \<Rightarrow> string"
  rt_repr :: "json \<Rightarrow> string"

text \<open>
  The readings of \<open>time.time()\<close> inside one call: each place that reads the clock has
  an index of its own, so two readings of one call are independent; \<open>later k t\<close> are
  the readings left to a callee.
\<close>

type_synonym clock = "nat \<Rightarrow> real"

definition later :: "nat \<Rightarrow> clock \<Rightarrow> clock" where
  "later k t = (\<lambda>i. t (k + i))"

section \<open>Numbers written as text\<close>

text \<open>
  The digits of a number literal, as \<open>int(raw)\<close> and \<open>float(raw)\<close> take them:
  one underscore may stand between two digits. \<open>plain_digits\<close> drops the underscores and
  is \<open>None\<close> for anything else.
\<close>

definition digit_chars :: string where
  "digit_chars = ''0123456789''"

fun plain_digits :: "string \<Rightarrow> string option" where
  "plain_digits [] = None"
| "plain_digits [c] = (if c \<in> set digit_chars then Some [c] else None)"
| "plain_digits (c # d # cs) =
     (if c \<notin> set digit_chars then None
      else map_option ((#) c) (plain_digits (if d = CHR ''_'' then cs else d # cs)))"

definition digit_val :: "char \<Rightarrow> int" where
  "digit_val c = int (of_char c) - 48"

definition digits_val :: "string \<Rightarrow> int" where
  "digits_val s = foldl (\<lambda>acc c. 10 * acc + digit_val c) 0 s"

definition parse_nat :: "string \<Rightarrow> int option" where
  "parse_nat s = map_option digits_val (plain_digits s)"

text \<open>An optional sign, then a number \<open>p\<close> reads; its negation is \<open>neg\<close>.\<close>

definition signed :: "('a \<Rightarrow> 'a) \<Rightarrow> (string \<Rightarrow> 'a option) \<Rightarrow> string \<Rightarrow> 'a option" where
  "signed neg p s =
     (case s of
        [] \<Rightarrow> None
      | c # cs \<Rightarrow>
          if c = CHR ''-'' then map_option neg (p cs)
          else if c = CHR ''+'' then p cs
          else p (c # cs))"

definition parse_int :: "string \<Rightarrow> int option" where
  "parse_int s = signed uminus parse_nat (strip s)"

text \<open>
  \<open>float(raw)\<close>. Where a definition keeps the values that are not finite they have a
  datatype of their own; the finite ones are reals.
\<close>

datatype py_float = Fin real | PInf | NInf | NaN

definition neg_float :: "py_float \<Rightarrow> py_float" where
  "neg_float x = (case x of Fin r \<Rightarrow> Fin (- r) | PInf \<Rightarrow> NInf | NInf \<Rightarrow> PInf | NaN \<Rightarrow> NaN)"

definition split_at :: "char list \<Rightarrow> string \<Rightarrow> string \<times> string option" where
  "split_at seps s =
     (takeWhile (\<lambda>c. c \<notin> set seps) s,
      case dropWhile (\<lambda>c. c \<notin> set seps) s of [] \<Rightarrow> None | _ # rest \<Rightarrow> Some rest)"

definition optional_digits :: "string \<Rightarrow> string option" where
  "optional_digits s = (if s = '''' then Some '''' else plain_digits s)"

text \<open>Digits with an optional point, at least one digit in all.\<close>

definition parse_decimal :: "string \<Rightarrow> real option" where
  "parse_decimal s =
     (case split_at ''.'' s of
        (whole, None) \<Rightarrow> map_option real_of_int (parse_nat whole)
      | (whole, Some places) \<Rightarrow>
          if whole = '''' \<and> places = '''' then None
          else (case (optional_digits whole, optional_digits places) of
                  (Some a, Some b) \<Rightarrow>
                    Some (real_of_int (digits_val a) + real_of_int (digits_val b) / 10 ^ length b)
                | _ \<Rightarrow> None))"

definition scale10 :: "real \<Rightarrow> int \<Rightarrow> real" where
  "scale10 m e = (if 0 \<le> e then m * 10 ^ nat e else m / 10 ^ nat (- e))"

definition parse_unsigned_float :: "string \<Rightarrow> py_float option" where
  "parse_unsigned_float s =
     (if lower s \<in> set [''inf'', ''infinity''] then Some PInf
      else if lower s = ''nan'' then Some NaN
      else (case split_at ''eE'' s of
              (mantissa, None) \<Rightarrow> map_option Fin (parse_decimal mantissa)
            | (mantissa, Some expo) \<Rightarrow>
                (case (parse_decimal mantissa, signed uminus parse_nat expo) of
                   (Some m, Some e) \<Rightarrow> Some (Fin (scale10 m e))
                 | _ \<Rightarrow> None)))"

definition parse_float :: "string \<Rightarrow> py_float option" where
  "parse_float s = signed neg_float parse_unsigned_float (strip s)"

text \<open>\<open>int(x)\<close> on a float: towards zero.\<close>

definition py_trunc :: "real \<Rightarrow> int" where
  "py_trunc x = (if 0 \<le> x then \<lfloor>x\<rfloor> else \<lceil>x\<rceil>)"

definition py_int :: "json \<Rightarrow> int option" where
  "py_int v =
     (case v of
        JInt n \<Rightarrow> Some n
      | JBool b \<Rightarrow> Some (if b then 1 else 0)
      | JReal r \<Rightarrow> Some (if 0 \<le> r then \<lfloor>r\<rfloor> else \<lceil>r\<rceil>)
      | JStr s \<Rightarrow> parse_int s
      | _ \<Rightarrow> None)"

definition json_or :: "json \<Rightarrow> json \<Rightarrow> json" where
  "json_or a b = (if truthy a then a else b)"

definition dict_of :: "json \<Rightarrow> (string \<times> json) list" where
  "dict_of v = (case v of JObj kvs \<Rightarrow> kvs | _ \<Rightarrow> [])"

definition float_of_json :: "json \<Rightarrow> real option" where
  "float_of_json v =
     (case v of
        JInt n \<Rightarrow> Some (real_of_int n)
      | JBool b \<Rightarrow> Some (if b then 1 else 0)
      | JReal r \<Rightarrow> Some r
      | JStr s \<Rightarrow> (case parse_float s of Some (Fin r) \<Rightarrow> Some r | _ \<Rightarrow> None)
      | _ \<Rightarrow> None)"

section \<open>Exceptions\<close>

text \<open>
  The exceptions that leave the modelled functions, under their Python class names
  (\<open>ConversionError\<close> is what \<open>int\<close> and \<open>float\<close> raise on a value that has no number). An
  operation on the database returns its outcome and the state it leaves, also when it
  raises: whether the caller then rolls back is the caller's business.
\<close>

datatype exn =
    KeyError string
  | ValueError string
  | RuntimeError string
  | LeaseLost string
  | AlreadyFinished string
  | IdempotencyCollision string string string string
  | ConversationBusy "string option" string string "string option" "real option"
  | PresetValidationError string
  | OSError string
  | AssertionError
  | ProgrammingError string
  | IntegrityError
  | ConversionError
  | TypeError string

type_synonym ('a, 's) outcome = "(exn + 'a) \<times> 's"

definition returned :: "('a, 's) outcome \<Rightarrow> bool" where
  "returned r = (case fst r of Inl _ \<Rightarrow> False | Inr _ \<Rightarrow> True)"

lemma returned_simps [simp]: "returned (Inr x, w)" "\<not> returned (Inl e, w)"
  by (simp_all add: returned_def)

end
