(* ===== verification/Deadline.thy ===== *)
theory Deadline
  imports Prelude
begin

text \<open>
  The contract of a block that may be extended and never shortened while it is in force.
  It is what \<open>core/chatgpt_web_hold.py\<close> promises of its hold and
  \<open>core/rate_limit.py\<close> of its cooldowns; \<open>Pause\<close> and \<open>RateLimit\<close>
  interpret it on those.
\<close>

locale extend_only =
  fixes extend :: "real \<Rightarrow> real \<Rightarrow> 's \<Rightarrow> 's"
    and deadline :: "'s \<Rightarrow> real"
  assumes extend_reaches: "until \<le> deadline (extend now until s)"
    and extend_keeps: "0 \<le> now \<Longrightarrow> now < deadline s \<Longrightarrow> deadline s \<le> deadline (extend now until s)"
    and extend_bound: "deadline (extend now until s) \<le> max (deadline s) (max now until)"
begin

text \<open>A sequence of requests, each with the time it is made at.\<close>

definition extend_all :: "(real \<times> real) list \<Rightarrow> 's \<Rightarrow> 's" where
  "extend_all calls s = fold (\<lambda>(now, until) s. extend now until s) calls s"

lemma extend_all_simps [simp]:
  "extend_all [] s = s"
  "extend_all ((now, until) # calls) s = extend_all calls (extend now until s)"
  by (simp_all add: extend_all_def)

lemma extend_all_append [simp]: "extend_all (xs @ ys) s = extend_all ys (extend_all xs s)"
  by (simp add: extend_all_def)

text \<open>A deadline in force stays: requests made before it passes never bring it forward.\<close>

lemma never_shortened:
  "d \<le> deadline s \<Longrightarrow> \<forall>(now, until) \<in> set calls. 0 \<le> now \<and> now < d \<Longrightarrow> d \<le> deadline (extend_all calls s)"
proof (induction calls arbitrary: s)
  case (Cons c calls)
  obtain now until where c: "c = (now, until)" by fastforce
  with Cons.prems have "0 \<le> now" "now < deadline s" by auto
  then have "d \<le> deadline (extend now until s)"
    using extend_keeps Cons.prems(1) order_trans by blast
  with Cons c show ?case by auto
qed simp

text \<open>Every request in a sequence is honoured by the final deadline.\<close>

lemma every_request_honoured:
  assumes "(now, until) \<in> set calls"
    and "\<forall>(n, u) \<in> set calls. 0 \<le> n \<and> n < until"
  shows "until \<le> deadline (extend_all calls s)"
proof -
  obtain xs ys where calls: "calls = xs @ (now, until) # ys"
    using assms(1) by (meson split_list)
  have "until \<le> deadline (extend now until (extend_all xs s))"
    by (rule extend_reaches)
  then have "until \<le> deadline (extend_all ys (extend now until (extend_all xs s)))"
    by (rule never_shortened) (use assms(2) calls in auto)
  then show ?thesis by (simp add: calls)
qed

end

end
