(* ===== verification/RateLimit.thy ===== *)
theory RateLimit
  imports Deadline
begin

text \<open>
  The rate limits of \<open>core/rate_limit.py\<close>: minimum spacing between actions
  (\<open>try_reserve\<close>), cooldowns that may only be extended, and a quota per fixed window.
  The state is the three tables the module owns; \<open>now\<close> is the clock reading of the
  call.
\<close>

section \<open>State\<close>

record cooldown_row =
  cd_until :: real
  cd_updated_at :: real
  cd_reason :: string
  cd_payload :: json

record limits =
  last_ts :: "string \<Rightarrow> real option"
  cooldowns :: "string \<Rightarrow> cooldown_row option"
  usage :: "string \<times> int \<Rightarrow> int option"

definition empty_limits :: limits where
  "empty_limits = \<lparr>last_ts = (\<lambda>_. None), cooldowns = (\<lambda>_. None), usage = (\<lambda>_. None)\<rparr>"

section \<open>Operations\<close>

definition set_last_ts :: "string \<Rightarrow> real \<Rightarrow> limits \<Rightarrow> limits" where
  "set_last_ts k now s = s\<lparr>last_ts := (last_ts s)(k \<mapsto> now)\<rparr>"

definition try_reserve :: "string \<Rightarrow> int \<Rightarrow> real \<Rightarrow> limits \<Rightarrow> (real, limits) outcome" where
  "try_reserve key min_interval now s =
     (if min_interval \<le> 0 then (Inr 0, s)
      else let k = strip key
           in if k = '''' then (Inl (ValueError ''key is empty''), s)
              else let last0 = (case last_ts s k of None \<Rightarrow> 0 | Some x \<Rightarrow> x);
                       s1 = (if now < last0 then set_last_ts k now s else s);
                       last = (if now < last0 then now else last0);
                       next_allowed = last + real_of_int min_interval
                   in if now < next_allowed then (Inr (next_allowed - now), s1)
                      else (Inr 0, set_last_ts k now s1))"

definition cooldown_wait_seconds :: "string \<Rightarrow> real \<Rightarrow> limits \<Rightarrow> (real, limits) outcome" where
  "cooldown_wait_seconds key now s =
     (let k = strip key
      in if k = '''' then (Inl (ValueError ''key is empty''), s)
         else case cooldowns s k of
                None \<Rightarrow> (Inr 0, s)
              | Some r \<Rightarrow>
                  if cd_until r \<le> now
                  then (Inr 0, s\<lparr>cooldowns := (cooldowns s)(k := None)\<rparr>)
                  else (Inr (max 0 (cd_until r - now)), s))"

definition set_cooldown_until ::
    "string \<Rightarrow> real \<Rightarrow> string \<Rightarrow> json \<Rightarrow> real \<Rightarrow> limits \<Rightarrow> (real, limits) outcome" where
  "set_cooldown_until key until reason payload now s =
     (let k = strip key
      in if k = '''' then (Inl (ValueError ''key is empty''), s)
         else let desired = max now until;
                  existing = (case cooldowns s k of None \<Rightarrow> 0 | Some r \<Rightarrow> cd_until r);
                  effective = max existing desired;
                  row = \<lparr>cd_until = effective, cd_updated_at = now, cd_reason = reason,
                         cd_payload = (if payload = JNull then JObj [] else payload)\<rparr>
              in (Inr effective, s\<lparr>cooldowns := (cooldowns s)(k \<mapsto> row)\<rparr>))"

definition window_start :: "int \<Rightarrow> real \<Rightarrow> int" where
  "window_start win now = \<lfloor>now / real_of_int win\<rfloor> * win"

definition drop_old_windows :: "string \<Rightarrow> int \<Rightarrow> limits \<Rightarrow> limits" where
  "drop_old_windows k start s =
     s\<lparr>usage := (\<lambda>(k', w). if k' = k \<and> w < start then None else usage s (k', w))\<rparr>"

text \<open>\<open>in_tx\<close>: the caller already holds a transaction, so a refusal does not roll the
  clean-up back.\<close>

definition try_reserve_fixed_window ::
    "bool \<Rightarrow> string \<Rightarrow> int \<Rightarrow> int \<Rightarrow> real \<Rightarrow> limits \<Rightarrow> (real, limits) outcome" where
  "try_reserve_fixed_window in_tx key window_seconds max_per_window now s =
     (if max_per_window \<le> 0 then (Inr 0, s)
      else if window_seconds \<le> 0 then (Inr 0, s)
      else let k = strip key
           in if k = '''' then (Inl (ValueError ''key is empty''), s)
              else let start = window_start window_seconds now;
                       next_window = real_of_int (start + window_seconds);
                       s1 = drop_old_windows k start s;
                       cur = (case usage s1 (k, start) of None \<Rightarrow> 0 | Some n \<Rightarrow> n)
                   in if cur \<ge> max_per_window
                      then (Inr (max 0 (next_window - now)), if in_tx then s1 else s)
                      else (Inr 0, s1\<lparr>usage := (usage s1)
                              ((k, start) \<mapsto> (case usage s1 (k, start) of None \<Rightarrow> 1 | Some n \<Rightarrow> n + 1))\<rparr>))"

section \<open>Spacing\<close>

text \<open>Repeated attempts at the given times, and the times at which one was granted.\<close>

fun reserve_run :: "string \<Rightarrow> int \<Rightarrow> real list \<Rightarrow> limits \<Rightarrow> real list" where
  "reserve_run key m [] s = []"
| "reserve_run key m (now # nows) s =
     (case try_reserve key m now s of
        (Inr r, s') \<Rightarrow> (if r = 0 then now # reserve_run key m nows s' else reserve_run key m nows s')
      | (Inl _, s') \<Rightarrow> reserve_run key m nows s')"

definition last_of :: "string \<Rightarrow> limits \<Rightarrow> real" where
  "last_of key s = (case last_ts s (strip key) of None \<Rightarrow> 0 | Some x \<Rightarrow> x)"

lemma last_of_set [simp]: "last_of key (set_last_ts (strip key) now s) = now"
  by (simp add: last_of_def set_last_ts_def)

lemma try_reserve_cases:
  assumes "0 < m" and "strip key \<noteq> ''''"
  obtains
    (clamped) "now < last_of key s" "try_reserve key m now s = (Inr (real_of_int m), set_last_ts (strip key) now s)"
  | (wait) "last_of key s \<le> now" "now < last_of key s + m"
      "try_reserve key m now s = (Inr (last_of key s + m - now), s)"
  | (granted) "last_of key s + m \<le> now"
      "try_reserve key m now s = (Inr 0, set_last_ts (strip key) now s)"
proof -
  note run = try_reserve_def last_of_def Let_def
  consider "now < last_of key s" | "last_of key s \<le> now" "now < last_of key s + m"
    | "last_of key s + m \<le> now"
    by linarith
  then show thesis
  proof cases
    case 1
    with assms show thesis by (intro clamped) (simp_all add: run)
  next
    case 2
    with assms show thesis by (intro wait) (simp_all add: run)
  next
    case 3
    moreover from 3 assms have "last_of key s \<le> now" by simp
    ultimately show thesis using assms by (intro granted) (simp_all add: run)
  qed
qed

lemma reserve_run_times: "t \<in> set (reserve_run key m nows s) \<Longrightarrow> t \<in> set nows"
proof (induction nows arbitrary: s)
  case (Cons now nows)
  then show ?case
    by (cases "try_reserve key m now s") (auto split: sum.splits if_splits)
qed simp

text \<open>After an instant \<open>last_of\<close> not later than the attempts, a grant is at least the
  interval later.\<close>

lemma reserve_run_after_last:
  assumes "0 < m" and "strip key \<noteq> ''''"
  shows "sorted nows \<Longrightarrow> \<forall>t \<in> set nows. last_of key s \<le> t \<Longrightarrow>
           t \<in> set (reserve_run key m nows s) \<Longrightarrow> last_of key s + m \<le> t"
proof (induction nows arbitrary: s)
  case (Cons now nows)
  from assms show ?case
  proof (cases rule: try_reserve_cases [of m key now s])
    case clamped
    with Cons.prems show ?thesis by simp
  next
    case wait
    with Cons show ?thesis by (auto split: if_splits)
  next
    case granted
    then have "t = now \<or> t \<in> set (reserve_run key m nows (set_last_ts (strip key) now s))"
      using Cons.prems(3) by simp
    then have "now \<le> t"
      using Cons.prems(1) by (auto dest: reserve_run_times)
    with granted show ?thesis by simp
  qed
qed simp

lemma reserve_run_spaced:
  assumes "0 < m" and "strip key \<noteq> ''''" and "sorted nows"
  shows "sorted_wrt (\<lambda>a b. a + real_of_int m \<le> b) (reserve_run key m nows s)"
  using assms(3)
proof (induction nows arbitrary: s)
  case (Cons now nows)
  from assms(1,2) show ?case
  proof (cases rule: try_reserve_cases [of m key now s])
    case granted
    let ?s = "set_last_ts (strip key) now s"
    have "now + m \<le> t" if "t \<in> set (reserve_run key m nows ?s)" for t
      using reserve_run_after_last [OF assms(1,2), of nows ?s t] Cons.prems that by simp
    with granted Cons show ?thesis by simp
  qed (use Cons assms(1) in auto)
qed simp

section \<open>Cooldowns\<close>

definition cooldown_deadline :: "string \<Rightarrow> limits \<Rightarrow> real" where
  "cooldown_deadline k s = (case cooldowns s k of None \<Rightarrow> 0 | Some r \<Rightarrow> cd_until r)"

definition extend_cooldown :: "string \<Rightarrow> string \<Rightarrow> json \<Rightarrow> real \<Rightarrow> real \<Rightarrow> limits \<Rightarrow> limits" where
  "extend_cooldown key reason payload now until s =
     snd (set_cooldown_until key until reason payload now s)"

text \<open>The key as the code normalises it; a blank key is refused.\<close>

definition cooldown_key :: "string \<Rightarrow> string" where
  "cooldown_key key = (if strip key = '''' then ''cooldown'' else strip key)"

lemma strip_cooldown_key [simp]: "strip (cooldown_key key) = cooldown_key key"
proof -
  have "strip ''cooldown'' = ''cooldown''" by code_simp
  then show ?thesis by (simp add: cooldown_key_def)
qed

lemma cooldown_key_not_blank [simp]: "cooldown_key key \<noteq> ''''"
  by (simp add: cooldown_key_def)

lemma cooldown_deadline_set:
  assumes "strip key = k" and "k \<noteq> ''''"
  shows "cooldown_deadline k (snd (set_cooldown_until key until reason payload now s)) =
           max (cooldown_deadline k s) (max now until)"
  using assms by (auto simp: cooldown_deadline_def set_cooldown_until_def Let_def)

interpretation cooldown: extend_only
  "extend_cooldown (cooldown_key key) reason payload" "cooldown_deadline (cooldown_key key)"
  for key reason payload
  by unfold_locales (auto simp: extend_cooldown_def cooldown_deadline_set)

section \<open>Fixed windows\<close>

fun window_run :: "bool \<Rightarrow> string \<Rightarrow> int \<Rightarrow> int \<Rightarrow> real list \<Rightarrow> limits \<Rightarrow> real list" where
  "window_run tx key win m [] s = []"
| "window_run tx key win m (now # nows) s =
     (case try_reserve_fixed_window tx key win m now s of
        (Inr r, s') \<Rightarrow>
          (if r = 0 then now # window_run tx key win m nows s' else window_run tx key win m nows s')
      | (Inl _, s') \<Rightarrow> window_run tx key win m nows s')"

definition used :: "string \<Rightarrow> int \<Rightarrow> limits \<Rightarrow> int" where
  "used key w s = (case usage s (strip key, w) of None \<Rightarrow> 0 | Some n \<Rightarrow> n)"

lemma window_start_bounds:
  assumes "0 < win"
  shows "real_of_int (window_start win now) \<le> now" and "now < real_of_int (window_start win now + win)"
proof -
  let ?q = "now / real_of_int win"
  have q: "of_int \<lfloor>?q\<rfloor> \<le> ?q" "?q < of_int \<lfloor>?q\<rfloor> + 1" by linarith+
  have "of_int \<lfloor>?q\<rfloor> * real_of_int win \<le> now"
    by (rule pos_le_divide_eq [THEN iffD1, OF _ q(1)]) (use assms in simp)
  moreover have "now < (of_int \<lfloor>?q\<rfloor> + 1) * real_of_int win"
    by (rule pos_divide_less_eq [THEN iffD1, OF _ q(2)]) (use assms in simp)
  ultimately show "real_of_int (window_start win now) \<le> now" "now < real_of_int (window_start win now + win)"
    by (simp_all add: window_start_def algebra_simps)
qed

lemma window_start_mono: "0 < win \<Longrightarrow> a \<le> b \<Longrightarrow> window_start win a \<le> window_start win b"
  unfolding window_start_def by (intro mult_right_mono floor_mono divide_right_mono) auto

lemma try_window_cases:
  assumes "0 < win" and "0 < m" and "strip key \<noteq> ''''"
  obtains
    (refused) r s' where "try_reserve_fixed_window tx key win m now s = (Inr r, s')" "0 < r"
      "m \<le> used key (window_start win now) s"
      "\<And>w. window_start win now \<le> w \<Longrightarrow> used key w s' = used key w s"
  | (granted) s' where "try_reserve_fixed_window tx key win m now s = (Inr 0, s')"
      "used key (window_start win now) s < m"
      "used key (window_start win now) s' = used key (window_start win now) s + 1"
      "\<And>w. window_start win now < w \<Longrightarrow> used key w s' = used key w s"
proof (cases "m \<le> used key (window_start win now) s")
  case True
  let ?s = "if tx then drop_old_windows (strip key) (window_start win now) s else s"
  let ?r = "max 0 (real_of_int (window_start win now + win) - now)"
  show thesis
  proof (rule refused)
    show "try_reserve_fixed_window tx key win m now s = (Inr ?r, ?s)"
      using assms True by (simp add: try_reserve_fixed_window_def used_def drop_old_windows_def Let_def)
    show "0 < ?r" using window_start_bounds(2) [OF assms(1), of now] by simp
    show "m \<le> used key (window_start win now) s" by (rule True)
    show "\<And>w. window_start win now \<le> w \<Longrightarrow> used key w ?s = used key w s"
      by (simp add: used_def drop_old_windows_def)
  qed
next
  case False
  let ?k = "strip key" and ?w = "window_start win now"
  let ?s1 = "drop_old_windows ?k ?w s"
  let ?s = "?s1\<lparr>usage := (usage ?s1)((?k, ?w) \<mapsto> used key ?w s + 1)\<rparr>"
  show thesis
  proof (rule granted)
    show "try_reserve_fixed_window tx key win m now s = (Inr 0, ?s)"
      using assms False
      by (auto simp: try_reserve_fixed_window_def used_def drop_old_windows_def Let_def
          split: option.splits)
    show "used key ?w s < m" using False by simp
    show "used key ?w ?s = used key ?w s + 1" by (simp add: used_def)
    show "\<And>w. ?w < w \<Longrightarrow> used key w ?s = used key w s"
      by (simp add: used_def drop_old_windows_def)
  qed
qed

lemma window_run_times: "set (window_run tx key win m nows s) \<subseteq> set nows"
proof (induction nows arbitrary: s)
  case (Cons now nows)
  then show ?case
    by (cases "try_reserve_fixed_window tx key win m now s") (auto split: sum.splits if_splits)
qed simp

text \<open>Grants in a window, counted with what the window has used before the run.\<close>

lemma window_run_quota:
  assumes "0 < win" and "0 < m" and "strip key \<noteq> ''''"
  shows "sorted nows \<Longrightarrow> 0 \<le> used key w s \<Longrightarrow>
     int (length (filter (\<lambda>t. window_start win t = w) (window_run tx key win m nows s)))
       \<le> max 0 (m - used key w s)"
proof (induction nows arbitrary: s)
  case (Cons now nows)
  have after: "window_start win t > w" if "t \<in> set nows" "window_start win now > w" for t
    using that Cons.prems(1) window_start_mono [OF assms(1), of now t] by force
  have gone: "filter (\<lambda>t. window_start win t = w) (window_run tx key win m nows s') = []"
    if "window_start win now > w" for s'
  proof -
    have "set (window_run tx key win m nows s') \<subseteq> set nows"
      by (rule window_run_times)
    with after [OF _ that] show ?thesis by (fastforce simp: filter_empty_conv)
  qed
  from assms show ?case
  proof (cases rule: try_window_cases [of win m key tx now s])
    case (refused r s')
    then show ?thesis
      using Cons.IH [of s'] Cons.prems gone [of s']
      by (cases "window_start win now \<le> w") auto
  next
    case (granted s')
    then show ?thesis
      using Cons.IH [of s'] Cons.prems gone [of s']
      by (cases "window_start win now" w rule: linorder_cases) auto
  qed
qed simp

section \<open>Properties\<close>

text \<open>C16. Reservations of one key are spaced: of the attempts made at ascending times, two
  that are granted are at least the interval apart, whatever was reserved before.\<close>

theorem reservations_are_spaced:
  assumes "0 < m" and "strip key \<noteq> ''''" and "sorted nows"
  shows "sorted_wrt (\<lambda>a b. a + real_of_int m \<le> b) (reserve_run key m nows s)"
  by (rule reserve_run_spaced [OF assms])

theorem reservations_are_spaced_witness:
  "sorted_wrt (\<lambda>a b. a + 10 \<le> b) (reserve_run ''k'' 10 [20, 25, 31] empty_limits)"
proof -
  have "strip ''k'' \<noteq> ''''" by code_simp
  then show ?thesis using reservations_are_spaced [of 10 "''k''" "[20, 25, 31]" empty_limits] by simp
qed

text \<open>A refused reservation tells the truth: the wait is at most the interval, a retry
  when it has passed is granted, and one before that is told the rest of it.\<close>

theorem reservation_wait_is_exact:
  assumes "0 < m" and "strip key \<noteq> ''''"
    and "try_reserve key m now s = (Inr r, s')" and "r \<noteq> 0" and "now \<le> again" and "0 \<le> now"
  shows "0 < r \<and> r \<le> real_of_int m \<and>
    fst (try_reserve key m again s') = Inr (if now + r \<le> again then 0 else now + r - again)"
  using assms(1,2)
proof (cases rule: try_reserve_cases [of m key now s])
  case clamped
  then have "r = real_of_int m" "last_of key s' = now" using assms(3) by auto
  with assms(1,2,5) show ?thesis
    by (cases rule: try_reserve_cases [of m key again s', OF assms(1,2)]) auto
next
  case wait
  then have "r = last_of key s + real_of_int m - now" "s' = s" using assms(3) by auto
  with assms(1,5) wait show ?thesis
    by (cases rule: try_reserve_cases [of m key again s', OF assms(1,2)]) auto
next
  case granted
  with assms(3,4) show ?thesis by simp
qed

theorem reservation_wait_is_exact_witness:
  "fst (try_reserve ''k'' 10 27 (set_last_ts ''k'' 20 empty_limits)) = Inr 3"
proof -
  have k: "strip ''k'' = ''k''" by code_simp
  have "try_reserve ''k'' 10 25 (set_last_ts ''k'' 20 empty_limits) = (Inr 5, set_last_ts ''k'' 20 empty_limits)"
    by (simp add: try_reserve_def k set_last_ts_def)
  from reservation_wait_is_exact [OF _ _ this, of 27] show ?thesis by (simp add: k)
qed

text \<open>No window grants more than its quota, counted with what it had granted before the
  attempts.\<close>

theorem window_quota_is_kept:
  assumes "0 < win" and "0 < m" and "strip key \<noteq> ''''" and "sorted nows" and "0 \<le> used key w s"
  shows "int (length (filter (\<lambda>t. window_start win t = w) (window_run tx key win m nows s)))
           \<le> max 0 (m - used key w s)"
  by (rule window_run_quota [OF assms])

theorem window_quota_is_kept_witness:
  "int (length (filter (\<lambda>t. window_start 60 t = 0) (window_run False ''k'' 60 1 [1, 2, 61] empty_limits))) \<le> 1"
proof -
  have "strip ''k'' \<noteq> ''''" by code_simp
  then show ?thesis
    using window_quota_is_kept [of 60 1 "''k''" "[1, 2, 61]" 0 empty_limits False]
    by (simp add: used_def empty_limits_def)
qed

text \<open>A cooldown is never cut short: while one runs to \<open>d\<close>, any later settings of it
  leave a wait of at least what is left until \<open>d\<close>.\<close>

theorem cooldown_never_shortened:
  assumes "d \<le> cooldown_deadline (cooldown_key key) s"
    and "\<forall>(n, u) \<in> set calls. 0 \<le> n \<and> n < d" and "0 \<le> now" and "now < d"
  shows "\<exists>r s'. cooldown_wait_seconds (cooldown_key key) now
      (cooldown.extend_all key reason payload calls s) = (Inr r, s') \<and> d - now \<le> r
    \<and> s' = cooldown.extend_all key reason payload calls s"
proof -
  let ?s = "cooldown.extend_all key reason payload calls s"
  have d: "d \<le> cooldown_deadline (cooldown_key key) ?s"
    by (rule cooldown.never_shortened [OF assms(1,2)])
  with assms(3,4) obtain row where "cooldowns ?s (cooldown_key key) = Some row" "d \<le> cd_until row"
    by (auto simp: cooldown_deadline_def split: option.splits)
  then show ?thesis using assms(4) by (simp add: cooldown_wait_seconds_def Let_def)
qed

theorem cooldown_never_shortened_witness:
  "\<exists>r s'. cooldown_wait_seconds (cooldown_key ''k'') 40
      (cooldown.extend_all ''k'' ''again'' JNull [(30, 50)]
         (extend_cooldown (cooldown_key ''k'') ''first'' JNull 20 100 empty_limits)) = (Inr r, s')
    \<and> 60 \<le> r
    \<and> s' = cooldown.extend_all ''k'' ''again'' JNull [(30, 50)]
         (extend_cooldown (cooldown_key ''k'') ''first'' JNull 20 100 empty_limits)"
  using cooldown_never_shortened [of 100 "''k''"
      "extend_cooldown (cooldown_key ''k'') ''first'' JNull 20 100 empty_limits" "[(30, 50)]" 40]
  by (simp add: extend_cooldown_def cooldown_deadline_set)

end
