(* ===== verification/Table.thy ===== *)
theory Table
  imports Prelude
begin

text \<open>
  Rows of an SQLite table, held as a list in rowid order, and the statements the program
  issues on them: \<open>SELECT ... WHERE key = ?\<close>, \<open>UPDATE ... WHERE\<close> with its
  \<open>rowcount\<close>, \<open>INSERT\<close> at the end, and \<open>ORDER BY ... LIMIT 1\<close>.
  The locale \<open>row_store\<close> is the contract between a table and its clients: an
  assignment never writes the primary key.
\<close>

section \<open>Statements\<close>

definition row_get :: "('r \<Rightarrow> 'k) \<Rightarrow> 'k \<Rightarrow> 'r list \<Rightarrow> 'r option" where
  "row_get key k rows = find (\<lambda>r. key r = k) rows"

definition row_update :: "('r \<Rightarrow> bool) \<Rightarrow> ('r \<Rightarrow> 'r) \<Rightarrow> 'r list \<Rightarrow> 'r list" where
  "row_update c f rows = map (\<lambda>r. if c r then f r else r) rows"

definition row_count :: "('r \<Rightarrow> bool) \<Rightarrow> 'r list \<Rightarrow> nat" where
  "row_count c rows = length (filter c rows)"

text \<open>
  \<open>ORDER BY key LIMIT 1\<close>: the first of the rows with the least key, in rowid order
  (SQLite leaves the order of equal keys open; rowid order is the one a sorter gives).
\<close>

fun first_by :: "('r \<Rightarrow> 'k::linorder) \<Rightarrow> 'r list \<Rightarrow> 'r option" where
  "first_by key [] = None"
| "first_by key (r # rs) =
     (case first_by key rs of
        None \<Rightarrow> Some r
      | Some r' \<Rightarrow> (if key r \<le> key r' then Some r else Some r'))"

definition keys_distinct :: "('r \<Rightarrow> 'k) \<Rightarrow> 'r list \<Rightarrow> bool" where
  "keys_distinct key rows \<longleftrightarrow> distinct (map key rows)"

lemma row_get_Nil [simp]: "row_get key k [] = None"
  by (simp add: row_get_def)

lemma row_get_Cons [simp]:
  "row_get key k (r # rows) = (if key r = k then Some r else row_get key k rows)"
  by (simp add: row_get_def)

lemma row_get_Some: "row_get key k rows = Some r \<Longrightarrow> r \<in> set rows \<and> key r = k"
  by (induction rows) (auto split: if_splits)

lemma row_get_None: "row_get key k rows = None \<longleftrightarrow> k \<notin> key ` set rows"
  by (induction rows) auto

lemma row_get_mem:
  "keys_distinct key rows \<Longrightarrow> r \<in> set rows \<Longrightarrow> row_get key (key r) rows = Some r"
proof (induction rows)
  case (Cons a rows)
  then show ?case
    by (cases "r = a") (auto simp: keys_distinct_def dest: image_eqI [where f = key])
qed simp

lemma row_get_append:
  "row_get key k (xs @ ys) =
     (case row_get key k xs of None \<Rightarrow> row_get key k ys | Some r \<Rightarrow> Some r)"
  by (induction xs) auto

lemma set_row_update: "r \<in> set (row_update c f rows) \<longleftrightarrow> (\<exists>s \<in> set rows. r = (if c s then f s else s))"
  by (auto simp: row_update_def)

lemma row_count_pos: "0 < row_count c rows \<longleftrightarrow> (\<exists>r \<in> set rows. c r)"
  by (induction rows) (auto simp: row_count_def)

lemma row_count_0 [simp]: "row_count c rows = 0 \<longleftrightarrow> (\<forall>r \<in> set rows. \<not> c r)"
  by (induction rows) (auto simp: row_count_def)

text \<open>A statement guarded by the primary key looks at one row.\<close>

lemma row_count_key_0:
  assumes "keys_distinct key rows"
  shows "row_count (\<lambda>r. key r = k \<and> P r) rows = 0 \<longleftrightarrow>
           (case row_get key k rows of None \<Rightarrow> True | Some r \<Rightarrow> \<not> P r)"
proof (cases "row_get key k rows")
  case None
  then have "k \<notin> key ` set rows" by (simp add: row_get_None)
  with None show ?thesis by auto
next
  case (Some r)
  moreover have "\<And>s. s \<in> set rows \<Longrightarrow> key s = k \<Longrightarrow> s = r"
    using Some row_get_mem [OF assms] by fastforce
  ultimately show ?thesis
    using row_get_Some [OF Some] by auto
qed

lemma row_count_key_le:
  "keys_distinct key rows \<Longrightarrow> row_count (\<lambda>r. key r = k \<and> P r) rows \<le> 1"
proof (induction rows)
  case (Cons r rows)
  show ?case
  proof (cases "key r = k")
    case True
    with Cons.prems have "\<forall>s \<in> set rows. key s \<noteq> k"
      by (auto simp: keys_distinct_def image_iff)
    then have "filter (\<lambda>r. key r = k \<and> P r) rows = []"
      by (auto simp: filter_empty_conv)
    then show ?thesis by (simp add: row_count_def)
  next
    case False
    with Cons show ?thesis by (simp add: row_count_def keys_distinct_def)
  qed
qed (simp add: row_count_def)

lemma first_by_mem: "first_by key rows = Some r \<Longrightarrow> r \<in> set rows"
  by (induction rows arbitrary: r) (auto split: option.splits if_splits)

lemma first_by_None [simp]: "first_by key rows = None \<longleftrightarrow> rows = []"
  by (cases rows) (auto split: option.splits)

lemma first_by_least: "first_by key rows = Some r \<Longrightarrow> s \<in> set rows \<Longrightarrow> key r \<le> key s"
proof (induction rows arbitrary: r s)
  case (Cons a rows)
  then show ?case
    by (fastforce split: option.splits if_splits)
qed simp

section \<open>Text in SQL\<close>

text \<open>\<open>LIKE\<close>: a percent sign for any text, an underscore for any character, ASCII
  letters compared without case.\<close>

definition ascii_lower :: "char \<Rightarrow> char" where
  "ascii_lower c = (let n = (of_char c :: nat) in if 65 \<le> n \<and> n \<le> 90 then char_of (n + 32) else c)"

function (sequential) sql_like :: "string \<Rightarrow> string \<Rightarrow> bool" where
  "sql_like [] s = (s = [])"
| "sql_like (p # ps) [] = (p = CHR ''%'' \<and> sql_like ps [])"
| "sql_like (p # ps) (c # cs) =
     (if p = CHR ''%'' then sql_like ps (c # cs) \<or> sql_like (p # ps) cs
      else (p = CHR ''_'' \<or> ascii_lower p = ascii_lower c) \<and> sql_like ps cs)"
  by pat_completeness auto
termination by (relation "measure (\<lambda>(p, s). length p + length s)") auto

section \<open>The contract of a keyed table\<close>

locale row_store =
  fixes key :: "'r \<Rightarrow> 'k"
    and assign :: "'u \<Rightarrow> 'r \<Rightarrow> 'r"
  assumes key_assign: "key (assign u r) = key r"
begin

lemma row_get_update:
  "row_get key k (row_update c (assign u) rows) =
     map_option (\<lambda>r. if c r then assign u r else r) (row_get key k rows)"
  by (induction rows) (auto simp: row_update_def key_assign)

lemma map_key_update: "map key (row_update c (assign u) rows) = map key rows"
  by (induction rows) (auto simp: row_update_def key_assign)

lemma keys_distinct_update [simp]:
  "keys_distinct key (row_update c (assign u) rows) = keys_distinct key rows"
  by (simp add: keys_distinct_def map_key_update)

text \<open>A row outside the \<open>WHERE\<close> is untouched.\<close>

lemma row_get_frame:
  "(\<And>r. c r \<Longrightarrow> key r \<noteq> k) \<Longrightarrow>
     row_get key k (row_update c (assign u) rows) = row_get key k rows"
  by (induction rows) (auto simp: row_update_def key_assign)

text \<open>A row invariant that every assignment in the \<open>WHERE\<close> keeps is kept.\<close>

lemma all_update:
  "(\<And>r. c r \<Longrightarrow> P r \<Longrightarrow> P (assign u r)) \<Longrightarrow> \<forall>r \<in> set rows. P r \<Longrightarrow>
     \<forall>r \<in> set (row_update c (assign u) rows). P r"
  by (auto simp: set_row_update)

end

end
