(* ===== verification/StateMachine.thy ===== *)
theory StateMachine
  imports Prelude
begin

text \<open>
  The job life cycle: \<open>core/state_machine.py\<close> and \<open>core/phase.py\<close>, and the
  contract a life cycle with terminal states offers (\<open>lifecycle\<close>), interpreted here
  on jobs and in \<open>TaskMachine\<close> on tasks.
\<close>

section \<open>Life cycles\<close>

locale lifecycle =
  fixes allowed :: "'s \<Rightarrow> 's \<Rightarrow> bool"
    and final :: "'s \<Rightarrow> bool"
  assumes final_absorbs: "final s \<Longrightarrow> allowed s t \<Longrightarrow> t = s"
begin

text \<open>Once final, always the same: no run of allowed moves leaves a final state.\<close>

lemma final_run: "allowed\<^sup>*\<^sup>* s t \<Longrightarrow> final s \<Longrightarrow> t = s"
  by (induction rule: rtranclp_induct) (auto dest: final_absorbs)

text \<open>Two runs from one state that both end in final states cannot be extended into each
  other unless they ended alike.\<close>

lemma final_unique: "allowed\<^sup>*\<^sup>* s t \<Longrightarrow> final t \<Longrightarrow> allowed\<^sup>*\<^sup>* t u \<Longrightarrow> final u \<and> u = t"
  using final_run by blast

end

section \<open>Job status\<close>

datatype job_status =
    QUEUED | IN_PROGRESS | NEEDS_FOLLOWUP | COOLDOWN | BLOCKED | COMPLETED | ERROR | CANCELED

fun status_value :: "job_status \<Rightarrow> string" where
  "status_value QUEUED = ''queued''"
| "status_value IN_PROGRESS = ''in_progress''"
| "status_value NEEDS_FOLLOWUP = ''needs_followup''"
| "status_value COOLDOWN = ''cooldown''"
| "status_value BLOCKED = ''blocked''"
| "status_value COMPLETED = ''completed''"
| "status_value ERROR = ''error''"
| "status_value CANCELED = ''canceled''"

definition all_statuses :: "job_status list" where
  "all_statuses =
     [QUEUED, IN_PROGRESS, NEEDS_FOLLOWUP, COOLDOWN, BLOCKED, COMPLETED, ERROR, CANCELED]"

text \<open>\<open>JobStatus(text)\<close>: \<open>None\<close> where the enum raises.\<close>

definition status_of :: "string \<Rightarrow> job_status option" where
  "status_of s = find (\<lambda>st. status_value st = s) all_statuses"

definition terminal_statuses :: "job_status list" where
  "terminal_statuses = [COMPLETED, ERROR, CANCELED]"

text \<open>\<open>is_terminal\<close> on a status and on a text.\<close>

definition is_terminal :: "job_status \<Rightarrow> bool" where
  "is_terminal s \<longleftrightarrow> s \<in> set terminal_statuses"

definition is_terminal_text :: "string \<Rightarrow> bool" where
  "is_terminal_text s = (case status_of s of None \<Rightarrow> False | Some st \<Rightarrow> is_terminal st)"

definition allowed_moves :: "(job_status \<times> job_status) list" where
  "allowed_moves =
     [(QUEUED, IN_PROGRESS),
      (QUEUED, CANCELED),
      (IN_PROGRESS, COMPLETED),
      (IN_PROGRESS, ERROR),
      (IN_PROGRESS, NEEDS_FOLLOWUP),
      (IN_PROGRESS, COOLDOWN),
      (IN_PROGRESS, BLOCKED),
      (IN_PROGRESS, CANCELED),
      (NEEDS_FOLLOWUP, QUEUED),
      (COOLDOWN, QUEUED),
      (BLOCKED, QUEUED)]"

text \<open>The verdict: \<open>None\<close> for \<open>ok\<close>, otherwise the error text.\<close>

definition can_transition :: "job_status \<Rightarrow> job_status \<Rightarrow> string option" where
  "can_transition src dst =
     (if src = dst then None
      else if is_terminal src
      then Some (''terminal status cannot transition: '' @ status_value src @ '' -> '' @ status_value dst)
      else if (src, dst) \<in> set allowed_moves then None
      else Some (''invalid transition: '' @ status_value src @ '' -> '' @ status_value dst))"

definition may_move :: "job_status \<Rightarrow> job_status \<Rightarrow> bool" where
  "may_move src dst \<longleftrightarrow> can_transition src dst = None"

lemma status_of_value [simp]: "status_of (status_value s) = Some s"
  by (cases s) (simp_all add: status_of_def all_statuses_def)

lemma status_value_inject [simp]: "status_value s = status_value t \<longleftrightarrow> s = t"
  by (metis status_of_value option.inject)

lemma is_terminal_simps [simp]:
  "is_terminal COMPLETED" "is_terminal ERROR" "is_terminal CANCELED"
  "\<not> is_terminal QUEUED" "\<not> is_terminal IN_PROGRESS" "\<not> is_terminal NEEDS_FOLLOWUP"
  "\<not> is_terminal COOLDOWN" "\<not> is_terminal BLOCKED"
  by (simp_all add: is_terminal_def terminal_statuses_def)

lemma is_terminal_cases: "is_terminal s \<longleftrightarrow> s = COMPLETED \<or> s = ERROR \<or> s = CANCELED"
  by (cases s) simp_all

lemma may_move_iff:
  "may_move s t \<longleftrightarrow> s = t \<or> \<not> is_terminal s \<and> (s, t) \<in> set allowed_moves"
  by (simp add: may_move_def can_transition_def)

text \<open>A move into a terminal status comes from a running job, or is the cancellation of a
  queued one.\<close>

lemma may_move_terminal:
  "may_move s t \<Longrightarrow> s \<noteq> t \<Longrightarrow> is_terminal t \<Longrightarrow> s = IN_PROGRESS \<or> (s = QUEUED \<and> t = CANCELED)"
  by (cases s; cases t) (auto simp: may_move_iff allowed_moves_def)

interpretation job_life: lifecycle may_move is_terminal
  by unfold_locales (auto simp: may_move_iff)

section \<open>Phases\<close>

datatype phase = Send | Wait

definition phase_value :: "phase \<Rightarrow> string" where
  "phase_value p = (case p of Send \<Rightarrow> ''send'' | Wait \<Rightarrow> ''wait'')"

definition normalize_db_phase :: "string option \<Rightarrow> phase" where
  "normalize_db_phase value = (if lower (strip (or_empty value)) = ''wait'' then Wait else Send)"

datatype exec_phase = ExecSend | ExecWait | ExecFull

definition normalize_execution_phase :: "string option \<Rightarrow> exec_phase" where
  "normalize_execution_phase value =
     (let raw = lower (strip (or_empty value))
      in if raw = ''send'' then ExecSend
         else if raw = ''wait'' then ExecWait
         else if raw \<in> set [''all'', ''full'', ''both''] then ExecFull
         else ExecFull)"

lemma normalize_phase_value [simp]: "normalize_db_phase (Some (phase_value p)) = p"
  by (cases p) (simp_all add: normalize_db_phase_def phase_value_def strip_def py_space_def
      space_chars_def lower_def lower_char_def)

end
