(* ===== verification/Store.thy ===== *)
theory Store
  imports Table StateMachine
begin

text \<open>
  The job database of \<open>core/db.py\<close> (the tables \<open>jobs\<close>, \<open>job_events\<close>,
  \<open>idempotency\<close>, \<open>meta\<close>) and the artifact directory of
  \<open>core/artifacts.py\<close>, as one state record \<open>world\<close>. JSON columns are held
  parsed. Writing a file always succeeds in the model, job ids are single path components
  (\<open>uuid4().hex\<close>), and a path is the text relative to the artifact directory.
\<close>

section \<open>Rows\<close>

record job =
  j_id :: string
  j_kind :: string
  j_input :: json
  j_params :: json
  j_client :: "json option"
  j_phase :: phase
  j_status :: job_status
  j_created_at :: real
  j_updated_at :: real
  j_not_before :: real
  j_attempts :: int
  j_max_attempts :: int
  j_cancel_requested_at :: "real option"
  j_lease_owner :: "string option"
  j_lease_expires_at :: "real option"
  j_lease_token :: "string option"
  j_parent_job_id :: "string option"
  j_conversation_url :: "string option"
  j_conversation_id :: "string option"
  j_export_format :: "string option"
  j_export_path :: "string option"
  j_export_sha256 :: "string option"
  j_export_chars :: "int option"
  j_answer_format :: "string option"
  j_answer_path :: "string option"
  j_answer_sha256 :: "string option"
  j_answer_chars :: "int option"
  j_last_error_type :: "string option"
  j_last_error :: "string option"

record event =
  ev_job :: string
  ev_ts :: real
  ev_type :: string
  ev_payload :: "json option"

record idem_row =
  idem_key :: string
  idem_hash :: string
  idem_job :: string
  idem_created_at :: real

text \<open>A \<open>meta\<close> value: a text, or the text \<open>str(x)\<close> of a float, which reads back
  as \<open>x\<close>.\<close>

datatype meta_val = MText string | MFloat real

text \<open>A file under the artifact directory.\<close>

datatype artifact = FText string | FJson json

record world =
  jobs :: "job list"
  events :: "event list"
  idempotency :: "idem_row list"
  meta :: "string \<Rightarrow> meta_val option"
  event_files :: "(string \<times> string \<times> json option) list"
  files :: "string \<Rightarrow> artifact option"

definition empty_world :: world where
  "empty_world = \<lparr>jobs = [], events = [], idempotency = [], meta = (\<lambda>_. None),
     event_files = [], files = (\<lambda>_. None)\<rparr>"

section \<open>Database helpers\<close>

definition get_job :: "string \<Rightarrow> world \<Rightarrow> job option" where
  "get_job jid w = row_get j_id jid (jobs w)"

definition insert_event :: "real \<Rightarrow> string \<Rightarrow> string \<Rightarrow> json option \<Rightarrow> world \<Rightarrow> world" where
  "insert_event ts jid ty payload w =
     w\<lparr>events := events w @ [\<lparr>ev_job = jid, ev_ts = ts, ev_type = ty, ev_payload = payload\<rparr>]\<rparr>"

definition append_event :: "string \<Rightarrow> string \<Rightarrow> json option \<Rightarrow> world \<Rightarrow> world" where
  "append_event jid ty payload w = w\<lparr>event_files := event_files w @ [(jid, ty, payload)]\<rparr>"

text \<open>The pair \<open>insert_event\<close>, \<open>artifacts.append_event\<close> the operations end with.\<close>

definition record_event :: "real \<Rightarrow> string \<Rightarrow> string \<Rightarrow> json \<Rightarrow> world \<Rightarrow> world" where
  "record_event ts jid ty payload w =
     append_event jid ty (Some payload) (insert_event ts jid ty (Some payload) w)"

definition meta_get :: "string \<Rightarrow> world \<Rightarrow> meta_val option" where
  "meta_get k w = meta w k"

definition meta_set :: "string \<Rightarrow> meta_val \<Rightarrow> world \<Rightarrow> world" where
  "meta_set k v w = w\<lparr>meta := (meta w)(k \<mapsto> v)\<rparr>"

text \<open>Events of a job of one type, in id order; and the type of its latest event.\<close>

definition job_events :: "string \<Rightarrow> string \<Rightarrow> world \<Rightarrow> event list" where
  "job_events jid ty w = filter (\<lambda>e. ev_job e = jid \<and> ev_type e = ty) (events w)"

definition latest_event_type :: "string \<Rightarrow> world \<Rightarrow> string option" where
  "latest_event_type jid w =
     (case rev (filter (\<lambda>e. ev_job e = jid) (events w)) of [] \<Rightarrow> None | e # _ \<Rightarrow> Some (ev_type e))"

section \<open>Artifacts\<close>

record answer_meta =
  am_path :: string
  am_sha256 :: string
  am_chars :: int
  am_format :: string

definition job_dir :: "string \<Rightarrow> string" where
  "job_dir jid = ''jobs/'' @ jid"

definition normalize_answer_format :: "string option \<Rightarrow> string \<times> string" where
  "normalize_answer_format fmt =
     (let f = lower (strip (text_or (or_empty fmt) ''text''));
          normalized = (if f = ''markdown'' then ''markdown'' else ''text'')
      in (normalized, if normalized = ''markdown'' then ''md'' else ''txt''))"

definition answer_rel_path :: "string \<Rightarrow> string option \<Rightarrow> string" where
  "answer_rel_path jid fmt = job_dir jid @ ''/answer.'' @ snd (normalize_answer_format fmt)"

definition result_path :: "string \<Rightarrow> string" where
  "result_path jid = job_dir jid @ ''/result.json''"

definition with_newline :: "string \<Rightarrow> string" where
  "with_newline answer =
     (if answer \<noteq> '''' \<and> last answer = CHR 0x0A then answer else answer @ [CHR 0x0A])"

definition compute_answer_meta :: "runtime \<Rightarrow> string \<Rightarrow> string \<Rightarrow> string option \<Rightarrow> answer_meta \<times> string" where
  "compute_answer_meta rt jid answer fmt =
     (let text = with_newline answer
      in (\<lparr>am_path = answer_rel_path jid fmt,
           am_sha256 = rt_sha256 rt text,
           am_chars = int (length text),
           am_format = fst (normalize_answer_format fmt)\<rparr>, text))"

definition write_file :: "string \<Rightarrow> artifact \<Rightarrow> world \<Rightarrow> world" where
  "write_file path f w = w\<lparr>files := (files w)(path \<mapsto> f)\<rparr>"

definition unlink :: "string \<Rightarrow> world \<Rightarrow> world" where
  "unlink path w = w\<lparr>files := (files w)(path := None)\<rparr>"

text \<open>\<open>Path.replace\<close>: the target gets the source's content, the source is gone.\<close>

definition replace_file :: "string \<Rightarrow> string \<Rightarrow> world \<Rightarrow> world" where
  "replace_file src dst w = w\<lparr>files := ((files w)(dst := files w src))(src := None)\<rparr>"

definition stage_path :: "string \<Rightarrow> string \<Rightarrow> string" where
  "stage_path path token = path @ ''.staging.'' @ token"

definition write_answer_staged ::
    "runtime \<Rightarrow> string \<Rightarrow> string \<Rightarrow> string \<Rightarrow> string option \<Rightarrow> world \<Rightarrow> (answer_meta \<times> string, world) outcome" where
  "write_answer_staged rt jid token answer fmt w =
     (if token = '''' then (Inl (ValueError ''lease_token is empty''), w)
      else let (m, text) = compute_answer_meta rt jid answer fmt;
               stage = stage_path (am_path m) token
           in (Inr (m, stage), write_file stage (FText text) w))"

definition write_result :: "string \<Rightarrow> json \<Rightarrow> world \<Rightarrow> world" where
  "write_result jid payload w = write_file (result_path jid) (FJson payload) w"

definition write_result_staged :: "string \<Rightarrow> string \<Rightarrow> json \<Rightarrow> world \<Rightarrow> (string, world) outcome" where
  "write_result_staged jid token payload w =
     (if token = '''' then (Inl (ValueError ''lease_token is empty''), w)
      else let path = stage_path (result_path jid) token in (Inr path, write_file path (FJson payload) w))"

section \<open>Column assignments\<close>

text \<open>
  The \<open>updates\<close> dictionary of \<open>transition()\<close>: one constructor per whitelisted
  column, and \<open>U_other\<close> for a key outside the whitelist. \<open>transition()\<close> also
  assigns the status.
\<close>

datatype col_update =
    U_phase phase
  | U_not_before real
  | U_cancel_requested_at "real option"
  | U_last_error_type "string option"
  | U_last_error "string option"
  | U_max_attempts int
  | U_lease_owner "string option"
  | U_lease_expires_at "real option"
  | U_lease_token "string option"
  | U_updated_at real
  | U_conversation_url "string option"
  | U_conversation_id "string option"
  | U_export_format "string option"
  | U_export_path "string option"
  | U_export_sha256 "string option"
  | U_export_chars "int option"
  | U_answer_format "string option"
  | U_answer_path "string option"
  | U_answer_sha256 "string option"
  | U_answer_chars "int option"
  | U_other string

fun apply_update :: "col_update \<Rightarrow> job \<Rightarrow> job" where
  "apply_update (U_phase v) j = j\<lparr>j_phase := v\<rparr>"
| "apply_update (U_not_before v) j = j\<lparr>j_not_before := v\<rparr>"
| "apply_update (U_cancel_requested_at v) j = j\<lparr>j_cancel_requested_at := v\<rparr>"
| "apply_update (U_last_error_type v) j = j\<lparr>j_last_error_type := v\<rparr>"
| "apply_update (U_last_error v) j = j\<lparr>j_last_error := v\<rparr>"
| "apply_update (U_max_attempts v) j = j\<lparr>j_max_attempts := v\<rparr>"
| "apply_update (U_lease_owner v) j = j\<lparr>j_lease_owner := v\<rparr>"
| "apply_update (U_lease_expires_at v) j = j\<lparr>j_lease_expires_at := v\<rparr>"
| "apply_update (U_lease_token v) j = j\<lparr>j_lease_token := v\<rparr>"
| "apply_update (U_updated_at v) j = j\<lparr>j_updated_at := v\<rparr>"
| "apply_update (U_conversation_url v) j = j\<lparr>j_conversation_url := v\<rparr>"
| "apply_update (U_conversation_id v) j = j\<lparr>j_conversation_id := v\<rparr>"
| "apply_update (U_export_format v) j = j\<lparr>j_export_format := v\<rparr>"
| "apply_update (U_export_path v) j = j\<lparr>j_export_path := v\<rparr>"
| "apply_update (U_export_sha256 v) j = j\<lparr>j_export_sha256 := v\<rparr>"
| "apply_update (U_export_chars v) j = j\<lparr>j_export_chars := v\<rparr>"
| "apply_update (U_answer_format v) j = j\<lparr>j_answer_format := v\<rparr>"
| "apply_update (U_answer_path v) j = j\<lparr>j_answer_path := v\<rparr>"
| "apply_update (U_answer_sha256 v) j = j\<lparr>j_answer_sha256 := v\<rparr>"
| "apply_update (U_answer_chars v) j = j\<lparr>j_answer_chars := v\<rparr>"
| "apply_update (U_other _) j = j"

definition apply_updates :: "col_update list \<Rightarrow> job \<Rightarrow> job" where
  "apply_updates us j = fold apply_update us j"

text \<open>The key that is not allowed, if the dictionary holds one.\<close>

fun disallowed_key :: "col_update list \<Rightarrow> string option" where
  "disallowed_key [] = None"
| "disallowed_key (U_other k # us) = Some k"
| "disallowed_key (u # us) = disallowed_key us"

fun phase_update :: "col_update list \<Rightarrow> phase option" where
  "phase_update [] = None"
| "phase_update (U_phase p # us) = Some p"
| "phase_update (u # us) = phase_update us"

lemma apply_updates_simps [simp]:
  "apply_updates [] j = j"
  "apply_updates (u # us) j = apply_updates us (apply_update u j)"
  by (simp_all add: apply_updates_def)

lemma apply_update_id [simp]: "j_id (apply_update u j) = j_id j"
  by (cases u) simp_all

lemma apply_update_status [simp]: "j_status (apply_update u j) = j_status j"
  by (cases u) simp_all

lemma apply_update_kept [simp]:
  "j_kind (apply_update u j) = j_kind j"
  "j_input (apply_update u j) = j_input j"
  "j_params (apply_update u j) = j_params j"
  "j_created_at (apply_update u j) = j_created_at j"
  "j_attempts (apply_update u j) = j_attempts j"
  "j_parent_job_id (apply_update u j) = j_parent_job_id j"
  by (cases u; simp)+

lemma apply_updates_kept [simp]:
  "j_id (apply_updates us j) = j_id j"
  "j_status (apply_updates us j) = j_status j"
  "j_kind (apply_updates us j) = j_kind j"
  "j_input (apply_updates us j) = j_input j"
  "j_params (apply_updates us j) = j_params j"
  "j_created_at (apply_updates us j) = j_created_at j"
  "j_attempts (apply_updates us j) = j_attempts j"
  "j_parent_job_id (apply_updates us j) = j_parent_job_id j"
  by (induction us arbitrary: j) simp_all

section \<open>The jobs table keeps its contract\<close>

text \<open>What an \<open>UPDATE\<close> statement of the program assigns: the columns of the
  whitelist, and where it says so the status and the attempts.\<close>

datatype statement = Assign "job_status option" bool "col_update list"

fun run_statement :: "statement \<Rightarrow> job \<Rightarrow> job" where
  "run_statement (Assign st bump us) j =
     (let j1 = (case st of None \<Rightarrow> j | Some s \<Rightarrow> j\<lparr>j_status := s\<rparr>);
          j2 = (if bump \<and> \<not> (j_phase j = Wait \<or> j_status j = IN_PROGRESS)
                then j1\<lparr>j_attempts := j_attempts j + 1\<rparr> else j1)
      in apply_updates us j2)"

lemma run_statement_id [simp]: "j_id (run_statement s j) = j_id j"
  by (cases s) (auto simp: Let_def split: option.splits)

interpretation job_rows: row_store j_id run_statement
  by unfold_locales simp

definition update_jobs :: "(job \<Rightarrow> bool) \<Rightarrow> statement \<Rightarrow> world \<Rightarrow> world" where
  "update_jobs c s w = w\<lparr>jobs := row_update c (run_statement s) (jobs w)\<rparr>"

definition count_jobs :: "(job \<Rightarrow> bool) \<Rightarrow> world \<Rightarrow> nat" where
  "count_jobs c w = row_count c (jobs w)"

section \<open>How the helpers act on each other\<close>

lemma insert_event_sel [store_simps]:
  "jobs (insert_event ts i ty p w) = jobs w"
  "idempotency (insert_event ts i ty p w) = idempotency w"
  "meta (insert_event ts i ty p w) = meta w"
  "files (insert_event ts i ty p w) = files w"
  "event_files (insert_event ts i ty p w) = event_files w"
  "events (insert_event ts i ty p w) =
     events w @ [\<lparr>ev_job = i, ev_ts = ts, ev_type = ty, ev_payload = p\<rparr>]"
  by (simp_all add: insert_event_def)

lemma append_event_sel [store_simps]:
  "jobs (append_event i ty p w) = jobs w"
  "idempotency (append_event i ty p w) = idempotency w"
  "meta (append_event i ty p w) = meta w"
  "files (append_event i ty p w) = files w"
  "events (append_event i ty p w) = events w"
  "event_files (append_event i ty p w) = event_files w @ [(i, ty, p)]"
  by (simp_all add: append_event_def)

lemma record_event_sel [store_simps]:
  "jobs (record_event ts i ty p w) = jobs w"
  "idempotency (record_event ts i ty p w) = idempotency w"
  "meta (record_event ts i ty p w) = meta w"
  "files (record_event ts i ty p w) = files w"
  "event_files (record_event ts i ty p w) = event_files w @ [(i, ty, Some p)]"
  "events (record_event ts i ty p w) =
     events w @ [\<lparr>ev_job = i, ev_ts = ts, ev_type = ty, ev_payload = Some p\<rparr>]"
  by (simp_all add: record_event_def store_simps)

lemma update_jobs_sel [store_simps]:
  "jobs (update_jobs c s w) = row_update c (run_statement s) (jobs w)"
  "idempotency (update_jobs c s w) = idempotency w"
  "meta (update_jobs c s w) = meta w"
  "files (update_jobs c s w) = files w"
  "events (update_jobs c s w) = events w"
  "event_files (update_jobs c s w) = event_files w"
  by (simp_all add: update_jobs_def)

lemma file_sel [store_simps]:
  "jobs (write_file p f w) = jobs w" "jobs (unlink p w) = jobs w"
  "jobs (replace_file p q w) = jobs w" "jobs (write_result i v w) = jobs w"
  "events (write_file p f w) = events w" "events (unlink p w) = events w"
  "events (replace_file p q w) = events w" "events (write_result i v w) = events w"
  "idempotency (write_file p f w) = idempotency w" "idempotency (unlink p w) = idempotency w"
  "idempotency (replace_file p q w) = idempotency w" "idempotency (write_result i v w) = idempotency w"
  "meta (write_file p f w) = meta w" "meta (unlink p w) = meta w"
  "meta (replace_file p q w) = meta w" "meta (write_result i v w) = meta w"
  by (simp_all add: write_file_def unlink_def replace_file_def write_result_def)

lemma files_sel [store_simps]:
  "files (write_file p f w) = (files w)(p \<mapsto> f)"
  "files (unlink p w) = (files w)(p := None)"
  "files (replace_file p q w) = ((files w)(q := files w p))(p := None)"
  "files (write_result i v w) = (files w)(result_path i \<mapsto> FJson v)"
  by (simp_all add: write_file_def unlink_def replace_file_def write_result_def)

lemma get_job_same_jobs: "jobs w = jobs w' \<Longrightarrow> get_job i w = get_job i w'"
  by (simp add: get_job_def)

lemma get_job_sel [store_simps]:
  "get_job i (insert_event ts k ty p w) = get_job i w"
  "get_job i (append_event k ty q w) = get_job i w"
  "get_job i (record_event ts k ty v w) = get_job i w"
  "get_job i (write_file a f w) = get_job i w"
  "get_job i (unlink a w) = get_job i w"
  "get_job i (replace_file a b w) = get_job i w"
  "get_job i (write_result k v w) = get_job i w"
  by (simp_all add: get_job_def store_simps)

lemma get_job_update_jobs [store_simps]:
  "get_job i (update_jobs c s w) =
     map_option (\<lambda>j. if c j then run_statement s j else j) (get_job i w)"
  by (simp add: get_job_def store_simps job_rows.row_get_update)

lemma get_job_id: "get_job i w = Some j \<Longrightarrow> j_id j = i"
  by (auto simp: get_job_def dest: row_get_Some)

lemma get_job_mem: "get_job i w = Some j \<Longrightarrow> j \<in> set (jobs w)"
  by (auto simp: get_job_def dest: row_get_Some)

definition ids_distinct :: "world \<Rightarrow> bool" where
  "ids_distinct w \<longleftrightarrow> keys_distinct j_id (jobs w)"

lemma get_job_of_mem: "ids_distinct w \<Longrightarrow> j \<in> set (jobs w) \<Longrightarrow> get_job (j_id j) w = Some j"
  by (simp add: ids_distinct_def get_job_def row_get_mem)

lemma ids_distinct_sel [store_simps]:
  "ids_distinct (insert_event ts k ty p w) = ids_distinct w"
  "ids_distinct (append_event k ty q w) = ids_distinct w"
  "ids_distinct (record_event ts k ty v w) = ids_distinct w"
  "ids_distinct (write_file a f w) = ids_distinct w"
  "ids_distinct (unlink a w) = ids_distinct w"
  "ids_distinct (replace_file a b w) = ids_distinct w"
  "ids_distinct (write_result k v w) = ids_distinct w"
  "ids_distinct (update_jobs c s w) = ids_distinct w"
  by (simp_all add: ids_distinct_def store_simps)

text \<open>The row count of a statement guarded by a job id tells whether that job satisfies the
  rest of the guard.\<close>

lemma count_jobs_id_0:
  "ids_distinct w \<Longrightarrow>
     count_jobs (\<lambda>j. j_id j = i \<and> P j) w = 0 \<longleftrightarrow>
       (case get_job i w of None \<Rightarrow> True | Some j \<Rightarrow> \<not> P j)"
  by (simp only: ids_distinct_def count_jobs_def get_job_def row_count_key_0)

end
