(* ===== verification/Transition.thy ===== *)
theory Transition
  imports Store
begin

text \<open>
  \<open>transition()\<close> of \<open>core/job_store.py\<close>, the one statement through which workers
  change the status of a job, and what it does on every branch. Clock readings: \<open>t 0\<close>
  is the new \<open>updated_at\<close>, \<open>t 1\<close> the reading the lease is checked against,
  \<open>t 2\<close> and \<open>t 3\<close> stamp the events.
\<close>

section \<open>Lease guards\<close>

text \<open>\<open>lease_owner = ? AND lease_token = ?\<close> and
  \<open>lease_expires_at IS NULL OR lease_expires_at >= ?\<close>.\<close>

definition owns_lease :: "string \<Rightarrow> string \<Rightarrow> job \<Rightarrow> bool" where
  "owns_lease owner token j \<longleftrightarrow> j_lease_owner j = Some owner \<and> j_lease_token j = Some token"

definition lease_unexpired :: "real \<Rightarrow> job \<Rightarrow> bool" where
  "lease_unexpired now j = (case j_lease_expires_at j of None \<Rightarrow> True | Some e \<Rightarrow> now \<le> e)"

definition expected_lease_ok :: "string option \<Rightarrow> string option \<Rightarrow> job \<Rightarrow> bool" where
  "expected_lease_ok owner token j =
     (case (owner, token) of (Some ow, Some tk) \<Rightarrow> owns_lease ow tk j | _ \<Rightarrow> True)"

section \<open>The operation\<close>

text \<open>\<open>return get_job(...)\<close> after an update. The row is there (lemma
  \<open>transition_cases\<close> and its fellows), so the other branch is never taken.\<close>

definition reread :: "string \<Rightarrow> world \<Rightarrow> exn + job" where
  "reread jid w = (case get_job jid w of Some j \<Rightarrow> Inr j | None \<Rightarrow> Inl (KeyError jid))"

definition status_payload :: "job_status \<Rightarrow> job_status \<Rightarrow> json" where
  "status_payload src dst =
     JObj [(''from'', JStr (status_value src)), (''to'', JStr (status_value dst))]"

definition phase_payload :: "phase \<Rightarrow> phase \<Rightarrow> json" where
  "phase_payload src dst =
     JObj [(''from'', JStr (phase_value src)), (''to'', JStr (phase_value dst))]"

definition transition_where ::
    "string \<Rightarrow> job_status \<Rightarrow> string option \<Rightarrow> string option \<Rightarrow> bool \<Rightarrow> real \<Rightarrow> job \<Rightarrow> bool" where
  "transition_where jid src owner token live now j \<longleftrightarrow>
     j_id j = jid \<and> (j_status j = src \<and> expected_lease_ok owner token j \<and> (live \<longrightarrow> lease_unexpired now j))"

definition transition_events ::
    "clock \<Rightarrow> string \<Rightarrow> job \<Rightarrow> job_status \<Rightarrow> col_update list \<Rightarrow> world \<Rightarrow> world" where
  "transition_events t jid job dst updates w =
     (let w1 = record_event (t 2) jid ''status_changed'' (status_payload (j_status job) dst) w
      in case phase_update updates of
           None \<Rightarrow> w1
         | Some new_phase \<Rightarrow>
             if new_phase \<noteq> j_phase job
             then record_event (t 3) jid ''phase_changed'' (phase_payload (j_phase job) new_phase) w1
             else w1)"

definition transition ::
    "clock \<Rightarrow> string \<Rightarrow> job_status \<Rightarrow> col_update list \<Rightarrow> string option \<Rightarrow> string option \<Rightarrow> bool \<Rightarrow>
      world \<Rightarrow> (job, world) outcome" where
  "transition t jid dst updates owner token live w =
     (case get_job jid w of
        None \<Rightarrow> (Inl (KeyError jid), w)
      | Some job \<Rightarrow>
          (case can_transition (j_status job) dst of
             Some msg \<Rightarrow> (Inl (RuntimeError msg), w)
           | None \<Rightarrow>
               (case disallowed_key updates of
                  Some k \<Rightarrow> (Inl (ValueError (''transition() update key not allowed: '' @ k)), w)
                | None \<Rightarrow>
                    (let guard = transition_where jid (j_status job) owner token live (t 1);
                         changed = count_jobs guard w
                     in if changed = 0
                        then (Inl (if owner \<noteq> None \<or> token \<noteq> None \<or> live
                                   then LeaseLost ''lease lost (job was reclaimed or lease expired)''
                                   else RuntimeError ''failed to transition job (concurrent update?)''), w)
                        else let w1 = update_jobs guard (Assign (Some dst) False (U_updated_at (t 0) # updates)) w;
                                 w2 = transition_events t jid job dst updates w1
                             in (reread jid w2, w2)))))"

section \<open>Facts\<close>

lemma transition_events_sel [store_simps]:
  "jobs (transition_events t i j d us w) = jobs w"
  "get_job k (transition_events t i j d us w) = get_job k w"
  "ids_distinct (transition_events t i j d us w) = ids_distinct w"
  "idempotency (transition_events t i j d us w) = idempotency w"
  "meta (transition_events t i j d us w) = meta w"
  "files (transition_events t i j d us w) = files w"
  by (simp_all add: transition_events_def Let_def store_simps split: option.splits)

lemma run_assign_simps [simp]:
  "run_statement (Assign None False us) j = apply_updates us j"
  "run_statement (Assign (Some s) False us) j = apply_updates us (j\<lparr>j_status := s\<rparr>)"
  by simp_all

text \<open>The job after a successful transition.\<close>

definition moved :: "real \<Rightarrow> job_status \<Rightarrow> col_update list \<Rightarrow> job \<Rightarrow> job" where
  "moved now dst updates j = apply_updates (U_updated_at now # updates) (j\<lparr>j_status := dst\<rparr>)"

lemma moved_status [simp]: "j_status (moved now dst us j) = dst"
  by (simp add: moved_def)

lemma moved_kept [simp]:
  "j_id (moved now dst us j) = j_id j" "j_kind (moved now dst us j) = j_kind j"
  "j_attempts (moved now dst us j) = j_attempts j"
  "j_params (moved now dst us j) = j_params j" "j_input (moved now dst us j) = j_input j"
  by (simp_all add: moved_def)

text \<open>What holds when a transition is let through.\<close>

definition transition_ok ::
    "job_status \<Rightarrow> col_update list \<Rightarrow> string option \<Rightarrow> string option \<Rightarrow> bool \<Rightarrow> real \<Rightarrow> job \<Rightarrow> bool" where
  "transition_ok dst updates owner token live now job \<longleftrightarrow>
     may_move (j_status job) dst \<and> disallowed_key updates = None \<and>
     expected_lease_ok owner token job \<and> (live \<longrightarrow> lease_unexpired now job)"

lemma count_transition_where:
  "ids_distinct w \<Longrightarrow> get_job jid w = Some job \<Longrightarrow>
     count_jobs (transition_where jid (j_status job) owner token live now) w = 0 \<longleftrightarrow>
       \<not> (expected_lease_ok owner token job \<and> (live \<longrightarrow> lease_unexpired now job))"
  using count_jobs_id_0 [of w jid
      "\<lambda>j. j_status j = j_status job \<and> expected_lease_ok owner token j \<and> (live \<longrightarrow> lease_unexpired now j)"]
  by (simp add: transition_where_def [abs_def])

text \<open>A transition either raises and changes nothing, or moves its one job.\<close>

lemma transition_ok_result:
  assumes "ids_distinct w" and "get_job jid w = Some job"
    and "transition_ok dst updates owner token live (t 1) job"
  shows "transition t jid dst updates owner token live w =
     (Inr (moved (t 0) dst updates job),
      transition_events t jid job dst updates
        (update_jobs (transition_where jid (j_status job) owner token live (t 1))
           (Assign (Some dst) False (U_updated_at (t 0) # updates)) w))"
proof -
  have "transition_where jid (j_status job) owner token live (t 1) job"
    using assms(3) get_job_id [OF assms(2)] by (simp add: transition_where_def transition_ok_def)
  then show ?thesis
    using assms
    by (simp add: transition_def transition_ok_def may_move_def count_transition_where
        reread_def store_simps moved_def Let_def)
qed

lemma transition_not_ok:
  assumes "ids_distinct w" and "get_job jid w = Some job"
    and "\<not> transition_ok dst updates owner token live (t 1) job"
  shows "\<exists>e. transition t jid dst updates owner token live w = (Inl e, w)"
  using assms
  by (auto simp: transition_def transition_ok_def may_move_def count_transition_where
      Let_def split: option.splits)

lemma transition_no_job:
  "get_job jid w = None \<Longrightarrow> transition t jid dst updates owner token live w = (Inl (KeyError jid), w)"
  by (simp add: transition_def)

lemma transition_cases:
  assumes "ids_distinct w"
  obtains
    (raised) e where "transition t jid dst updates owner token live w = (Inl e, w)"
  | (moves) job w' where "get_job jid w = Some job"
      "transition_ok dst updates owner token live (t 1) job"
      "transition t jid dst updates owner token live w = (Inr (moved (t 0) dst updates job), w')"
      "w' = transition_events t jid job dst updates
        (update_jobs (transition_where jid (j_status job) owner token live (t 1))
           (Assign (Some dst) False (U_updated_at (t 0) # updates)) w)"
proof (cases "get_job jid w")
  case None
  then show thesis by (intro raised) (rule transition_no_job)
next
  case (Some job)
  show thesis
  proof (cases "transition_ok dst updates owner token live (t 1) job")
    case True
    then show thesis
      using Some assms by (intro moves [of job]) (auto simp: transition_ok_result)
  next
    case False
    then show thesis
      using transition_not_ok [OF assms Some] raised by blast
  qed
qed

text \<open>The rows after a transition: the job moved, every other row as it was.\<close>

lemma transition_rows:
  assumes "ids_distinct w" and "get_job jid w = Some job"
    and "transition_ok dst updates owner token live now job"
  shows "get_job i (update_jobs (transition_where jid (j_status job) owner token live now)
            (Assign (Some dst) False (U_updated_at now0 # updates)) w) =
          (if i = jid then Some (moved now0 dst updates job) else get_job i w)"
proof (cases "i = jid")
  case True
  have "transition_where jid (j_status job) owner token live now job"
    using assms(3) get_job_id [OF assms(2)] by (simp add: transition_where_def transition_ok_def)
  with True assms(2) show ?thesis by (simp add: store_simps moved_def)
next
  case False
  then have "\<not> transition_where jid (j_status job) owner token live now j" if "get_job i w = Some j" for j
    using get_job_id [OF that] by (simp add: transition_where_def)
  with False show ?thesis by (cases "get_job i w") (simp_all add: store_simps)
qed

text \<open>Both ways of ending, as facts about the result.\<close>

lemma transition_returned:
  assumes "ids_distinct w" and "get_job jid w = Some job"
    and "transition t jid dst us ow tk live w = (Inr j', w')"
  shows "j' = moved (t 0) dst us job" and "transition_ok dst us ow tk live (t 1) job"
    and "get_job i w' = (if i = jid then Some j' else get_job i w)"
    and "files w' = files w" and "ids_distinct w'"
proof -
  have ok: "transition_ok dst us ow tk live (t 1) job"
    using transition_not_ok [OF assms(1,2), of dst us ow tk live t] assms(3) by auto
  note res = transition_ok_result [where t = t, OF assms(1,2) ok]
  show "j' = moved (t 0) dst us job" using res assms(3) by simp
  then show "get_job i w' = (if i = jid then Some j' else get_job i w)"
    using res assms(3) transition_rows [OF assms(1,2) ok] by (auto simp: store_simps)
  show "files w' = files w" "ids_distinct w'"
    using res assms(1,3) by (auto simp: store_simps)
  show "transition_ok dst us ow tk live (t 1) job" by (rule ok)
qed

lemma transition_raised:
  assumes "ids_distinct w" and "transition t jid dst us ow tk live w = (Inl e, w')"
  shows "w' = w"
  using assms(1)
  by (cases rule: transition_cases [where t = t and jid = jid and dst = dst and updates = us
      and owner = ow and token = tk and live = live]) (use assms(2) in auto)

text \<open>A permitted move without the lease.\<close>

lemma transition_fenced:
  assumes "ids_distinct w" and "get_job jid w = Some job"
    and "may_move (j_status job) dst" and "disallowed_key us = None"
    and "\<not> transition_ok dst us (Some ow) (Some tk) True (t 1) job"
  shows "transition t jid dst us (Some ow) (Some tk) True w =
           (Inl (LeaseLost ''lease lost (job was reclaimed or lease expired)''), w)"
proof -
  have "count_jobs (transition_where jid (j_status job) (Some ow) (Some tk) True (t 1)) w = 0"
    unfolding count_transition_where [OF assms(1,2)] using assms(3-5) by (simp add: transition_ok_def)
  then show ?thesis
    using assms(2-4) by (simp add: transition_def may_move_def Let_def)
qed

end
