(* ===== verification/Completion.thy ===== *)
theory Completion
  imports Store
begin

text \<open>
  The completion contract of \<open>core/completion_contract.py\<close>: how final an answer is, and
  the canonical answer record readers rely on. Contracts, records and job-like values are
  JSON objects, as in the code; \<open>rt\<close> supplies \<open>str()\<close> of odd values.
\<close>

section \<open>Parameters of a job\<close>

text \<open>\<open>int(v)\<close>: \<open>None\<close> where it raises.\<close>

definition norm_text :: "runtime \<Rightarrow> json \<Rightarrow> string" where
  "norm_text rt v = lower (strip (str_or (rt_repr rt) v ''''))"

definition stripped :: "runtime \<Rightarrow> json \<Rightarrow> string option" where
  "stripped rt v = or_none (strip (str_or (rt_repr rt) v ''''))"

definition parse_job_params_json :: "json \<Rightarrow> json" where
  "parse_job_params_json raw = (if is_obj raw then raw else JObj [])"

definition min_chars_required_from_params :: "json \<Rightarrow> int" where
  "min_chars_required_from_params params =
     (let v = jget ''min_chars'' params
      in if truthy v then (case py_int v of None \<Rightarrow> 0 | Some n \<Rightarrow> max 0 n) else 0)"

definition research_purposes :: "string list" where
  "research_purposes =
     [''analysis'', ''consult'', ''dual_review'', ''grounded_rerun'', ''report'', ''report_grade'',
      ''research'', ''review'', ''write_report'']"

definition research_presets :: "string list" where
  "research_presets =
     [''deep_research'', ''deep-research'', ''deepresearch'', ''pro_extended'', ''thinking_extended'',
      ''thinking_heavy'']"

definition is_research_contract_params :: "runtime \<Rightarrow> json \<Rightarrow> bool" where
  "is_research_contract_params rt params \<longleftrightarrow>
     truthy (jget ''deep_research'' params)
     \<or> norm_text rt (jget ''purpose'' params) \<in> set research_purposes
     \<or> (norm_text rt (jget ''preset'' params) \<in> set research_presets
        \<and> min_chars_required_from_params params \<ge> 1200)"

text \<open>The export file of a conversation, resolved and read in one step: only a file that was written
  as JSON and is an object counts. A text file that happens to parse as JSON does not occur among
  the artifacts; a path is taken as the artifacts name it.\<close>

definition nonblank_str :: "json \<Rightarrow> bool" where
  "nonblank_str v = (case v of JStr s \<Rightarrow> strip s \<noteq> '''' | _ \<Rightarrow> False)"

definition widget_export_available_from_path :: "string option \<Rightarrow> world \<Rightarrow> bool" where
  "widget_export_available_from_path path w =
     (let raw = strip (or_empty path)
      in if raw = '''' then False
         else case files w raw of
                Some (FJson parsed) \<Rightarrow>
                  (let widget = jget ''deep_research_widget_export'' parsed
                   in case widget of
                        JStr s \<Rightarrow> strip s \<noteq> ''''
                      | JObj _ \<Rightarrow>
                          list_ex (\<lambda>k. nonblank_str (jget k widget)) [''markdown'', ''text'', ''report_markdown'']
                      | _ \<Rightarrow> False)
              | _ \<Rightarrow> False)"

section \<open>The contract\<close>

definition normalized_completion_quality :: "runtime \<Rightarrow> json \<Rightarrow> string option" where
  "normalized_completion_quality rt v = or_none (norm_text rt v)"

definition completed_quality_is_non_final :: "string option \<Rightarrow> bool" where
  "completed_quality_is_non_final q = (case q of None \<Rightarrow> False | Some s \<Rightarrow> s \<noteq> ''final'')"

record contract_in =
  ci_status :: string
  ci_kind :: "string option"
  ci_answer_chars :: "int option"
  ci_answer_path :: "string option"
  ci_job_id :: "string option"
  ci_authoritative_path :: "string option"
  ci_min_chars :: int
  ci_last_event :: "string option"
  ci_reason :: "string option"
  ci_quality :: "string option"
  ci_export_path :: "string option"
  ci_widget_export :: bool
  ci_research :: bool

definition strip_opt :: "string option \<Rightarrow> string option" where
  "strip_opt x = or_none (strip (or_empty x))"

definition lower_opt :: "string option \<Rightarrow> string option" where
  "lower_opt x = or_none (lower (strip (or_empty x)))"

fun first_some :: "string option list \<Rightarrow> string \<Rightarrow> string" where
  "first_some [] d = d"
| "first_some (None # xs) d = first_some xs d"
| "first_some (Some x # xs) d = x"

definition drop_nulls :: "(string \<times> json) list \<Rightarrow> (string \<times> json) list" where
  "drop_nulls kvs = filter (\<lambda>kv. snd kv \<noteq> JNull) kvs"

text \<open>\<open>answer_state\<close> and \<open>finality_reason\<close>.\<close>

definition contract_verdict :: "contract_in \<Rightarrow> string \<times> string" where
  "contract_verdict c =
     (let status = lower (strip (ci_status c));
          last = lower_opt (ci_last_event c);
          reason = strip_opt (ci_reason c);
          quality = lower_opt (ci_quality c);
          chars = (case ci_answer_chars c of None \<Rightarrow> 0 | Some n \<Rightarrow> n);
          export = strip_opt (ci_export_path c) \<noteq> None;
          blocked = (last = Some ''completion_guard_research_contract_blocked''
                     \<or> reason = Some ''ResearchCompletionNotFinal'')
      in if status = ''completed'' then
           (if completed_quality_is_non_final quality
            then (''provisional'', first_some [quality] ''completed_nonfinal'')
            else (''final'', ''completed''))
         else if status = ''needs_followup'' then
           (if ci_research c \<or> chars > 0 \<or> export \<or> blocked then ''provisional'' else ''partial'',
            first_some [reason, last] status)
         else if status \<in> set [''blocked'', ''error'', ''canceled'', ''cancelled''] then
           (if chars > 0 \<or> export \<or> blocked then ''provisional'' else ''partial'',
            first_some [reason, last] status)
         else if status \<in> set [''in_progress'', ''queued'', ''cooldown''] then
           (if last = Some ''completion_guard_downgraded''
               \<or> last = Some ''completion_guard_research_contract_blocked''
            then ''provisional'' else ''partial'',
            first_some [last] status)
         else (''partial'', first_some [last] (text_or status ''unknown'')))"

definition resolved_answer_path :: "contract_in \<Rightarrow> string option" where
  "resolved_answer_path c =
     (case strip_opt (ci_authoritative_path c) of Some p \<Rightarrow> Some p | None \<Rightarrow> strip_opt (ci_answer_path c))"

definition contract_provenance :: "contract_in \<Rightarrow> json" where
  "contract_provenance c =
     (let local = strip_opt (ci_answer_path c); resolved = resolved_answer_path c
      in JObj (drop_nulls
           [(''contract_class'', JStr (if ci_research c then ''research'' else ''generic'')),
            (''canonical_source'',
               if resolved \<noteq> None \<and> local \<noteq> None \<and> resolved \<noteq> local
               then JStr ''conversation_authoritative_resolution''
               else if resolved \<noteq> None then JStr ''answer_artifact'' else JNull),
            (''last_event_type'', jopt (lower_opt (ci_last_event c))),
            (''completion_quality'', jopt (lower_opt (ci_quality c))),
            (''conversation_export_path'', jopt (strip_opt (ci_export_path c))),
            (''authoritative_job_id'', jopt (strip_opt (ci_job_id c)))]))"

definition build_completion_contract :: "contract_in \<Rightarrow> json" where
  "build_completion_contract c =
     JObj [(''kind'', jopt (strip_opt (ci_kind c))),
           (''answer_state'', JStr (fst (contract_verdict c))),
           (''finality_reason'', JStr (snd (contract_verdict c))),
           (''answer_chars'', jopt_int (ci_answer_chars c)),
           (''min_chars_required'', JInt (ci_min_chars c)),
           (''authoritative_job_id'', jopt (strip_opt (ci_job_id c))),
           (''authoritative_answer_path'', jopt (resolved_answer_path c)),
           (''answer_provenance'', contract_provenance c),
           (''export_available'', JBool (strip_opt (ci_export_path c) \<noteq> None)),
           (''widget_export_available'', JBool (ci_widget_export c))]"

section \<open>The canonical answer record\<close>

text \<open>\<open>_normalized_contract_dict\<close> and \<open>_normalized_canonical_answer_dict\<close> on JSON values.\<close>

definition normalized_dict :: "json \<Rightarrow> json" where
  "normalized_dict raw = (if is_obj raw then raw else JObj [])"

definition contract_answer_state :: "runtime \<Rightarrow> json \<Rightarrow> string" where
  "contract_answer_state rt contract =
     text_or (lower (strip (str_or (rt_repr rt) (jget ''answer_state'' contract) ''partial''))) ''partial''"

definition build_canonical_answer_record :: "runtime \<Rightarrow> json \<Rightarrow> json \<Rightarrow> json \<Rightarrow> json" where
  "build_canonical_answer_record rt status answer_format completion_contract =
     (let contract = normalized_dict completion_contract;
          state = contract_answer_state rt contract;
          path = stripped rt (jget ''authoritative_answer_path'' contract);
          provenance = jget ''answer_provenance'' contract
      in JObj [(''record_version'', JStr ''v1''),
               (''ready'', JBool (norm_text rt status = ''completed'' \<and> state = ''final'' \<and> path \<noteq> None)),
               (''answer_state'', JStr state),
               (''finality_reason'', jopt (stripped rt (jget ''finality_reason'' contract))),
               (''authoritative_job_id'', jopt (stripped rt (jget ''authoritative_job_id'' contract))),
               (''authoritative_answer_path'', jopt path),
               (''answer_chars'', jget ''answer_chars'' contract),
               (''answer_format'', jopt (stripped rt answer_format)),
               (''answer_provenance'', if is_obj provenance then provenance else JObj []),
               (''export_available'', JBool (truthy (jget ''export_available'' contract))),
               (''widget_export_available'', JBool (truthy (jget ''widget_export_available'' contract)))])"

section \<open>Reading a job or a result\<close>

definition first_truthy :: "json list \<Rightarrow> json" where
  "first_truthy vs = (case filter truthy vs of [] \<Rightarrow> JNull | v # _ \<Rightarrow> v)"

definition terminal_nonfinal_statuses :: "string list" where
  "terminal_nonfinal_statuses = [''blocked'', ''error'', ''canceled'', ''cancelled'', ''needs_followup'']"

definition in_progress_statuses :: "string list" where
  "in_progress_statuses = [''queued'', ''in_progress'', ''cooldown'']"

definition fallback_verdict :: "string \<Rightarrow> string option \<Rightarrow> string option \<Rightarrow> string option \<Rightarrow> string \<times> string" where
  "fallback_verdict status quality answer_path export_path =
     (if status = ''completed'' then
        (if completed_quality_is_non_final quality
         then (''provisional'', first_some [quality] ''completed_nonfinal'')
         else (''final'', ''completed''))
      else if status \<in> set terminal_nonfinal_statuses then
        (if answer_path \<noteq> None \<or> export_path \<noteq> None then ''provisional'' else ''partial'',
         first_some [quality] status)
      else if status \<in> set in_progress_statuses then
        (if export_path \<noteq> None then ''provisional'' else ''partial'', first_some [quality] status)
      else (''partial'', first_some [quality] (text_or status ''unknown'')))"

definition completion_contract_from_job_like :: "runtime \<Rightarrow> json \<Rightarrow> json" where
  "completion_contract_from_job_like rt job =
     (let contract = normalized_dict (jget ''completion_contract'' job)
      in if truthy contract then contract
         else let status = norm_text rt (jget ''status'' job);
                  quality = normalized_completion_quality rt (jget ''completion_quality'' job);
                  answer_path = stripped rt (first_truthy
                    [jget ''authoritative_answer_path'' job, jget ''path'' job, jget ''answer_path'' job]);
                  export_path = stripped rt (jget ''conversation_export_path'' job);
                  verdict = fallback_verdict status quality answer_path export_path
              in JObj [(''kind'', jopt (stripped rt (jget ''kind'' job))),
                       (''answer_state'', JStr (fst verdict)),
                       (''finality_reason'', JStr (snd verdict)),
                       (''answer_chars'', jopt_int (py_int (jget ''answer_chars'' job))),
                       (''min_chars_required'', JInt 0),
                       (''authoritative_job_id'', jopt (stripped rt (jget ''job_id'' job))),
                       (''authoritative_answer_path'', jopt answer_path),
                       (''answer_provenance'', JObj (drop_nulls
                          [(''contract_class'', JStr ''fallback''),
                           (''canonical_source'', if answer_path \<noteq> None then JStr ''answer_artifact'' else JNull),
                           (''completion_quality'', jopt quality),
                           (''conversation_export_path'', jopt export_path)])),
                       (''export_available'', JBool (export_path \<noteq> None)),
                       (''widget_export_available'', JBool False)])"

definition canonical_answer_from_job_like :: "runtime \<Rightarrow> json \<Rightarrow> json" where
  "canonical_answer_from_job_like rt job =
     (let rec = normalized_dict (jget ''canonical_answer'' job)
      in if truthy rec then rec
         else build_canonical_answer_record rt (jget ''status'' job) (jget ''answer_format'' job)
                (completion_contract_from_job_like rt job))"

definition get_completion_answer_state :: "runtime \<Rightarrow> json \<Rightarrow> string" where
  "get_completion_answer_state rt job = contract_answer_state rt (completion_contract_from_job_like rt job)"

definition is_research_final :: "runtime \<Rightarrow> json \<Rightarrow> bool" where
  "is_research_final rt job \<longleftrightarrow> get_completion_answer_state rt job = ''final''"

definition is_authoritative_answer_ready :: "runtime \<Rightarrow> json \<Rightarrow> bool" where
  "is_authoritative_answer_ready rt job \<longleftrightarrow> truthy (jget ''ready'' (canonical_answer_from_job_like rt job))"

definition get_authoritative_job_id :: "runtime \<Rightarrow> json \<Rightarrow> string option" where
  "get_authoritative_job_id rt job =
     stripped rt (jget ''authoritative_job_id'' (canonical_answer_from_job_like rt job))"

definition get_authoritative_answer_path :: "runtime \<Rightarrow> json \<Rightarrow> string option" where
  "get_authoritative_answer_path rt job =
     stripped rt (jget ''authoritative_answer_path'' (canonical_answer_from_job_like rt job))"

definition get_answer_provenance :: "runtime \<Rightarrow> json \<Rightarrow> json" where
  "get_answer_provenance rt job =
     (let p = jget ''answer_provenance'' (canonical_answer_from_job_like rt job)
      in if is_obj p then p else JObj [])"

section \<open>Facts\<close>

lemma strip_opt_stripped [simp]: "stripped rt (jopt (strip_opt x)) = strip_opt x"
  by (auto simp: stripped_def strip_opt_def jopt_def or_none_def)

lemma stripped_again [simp]: "stripped rt (jopt (stripped rt v)) = stripped rt v"
  by (auto simp: stripped_def jopt_def or_none_def)

lemma stripped_resolved [simp]: "stripped rt (jopt (resolved_answer_path c)) = resolved_answer_path c"
proof (cases "strip_opt (ci_authoritative_path c)")
  case None
  then show ?thesis
    using strip_opt_stripped [of rt "ci_answer_path c"] by (simp add: resolved_answer_path_def)
next
  case (Some p)
  then show ?thesis
    using strip_opt_stripped [of rt "ci_authoritative_path c"] by (simp add: resolved_answer_path_def)
qed

lemma state_texts:
  "lower (strip ''final'') = ''final''" "lower (strip ''provisional'') = ''provisional''"
  "lower (strip ''partial'') = ''partial''"
  by code_simp+

lemma contract_verdict_state: "fst (contract_verdict c) \<in> {''final'', ''provisional'', ''partial''}"
  by (simp add: contract_verdict_def Let_def)

lemma fallback_verdict_state: "fst (fallback_verdict s q p e) \<in> {''final'', ''provisional'', ''partial''}"
  by (simp add: fallback_verdict_def)

lemma answer_state_of:
  "jget ''answer_state'' c = JStr s \<Longrightarrow> s \<in> {''final'', ''provisional'', ''partial''} \<Longrightarrow>
     contract_answer_state rt c = s"
  by (auto simp: contract_answer_state_def str_or_JStr state_texts text_or_def)

lemma build_contract_get:
  "jget ''answer_state'' (build_completion_contract c) = JStr (fst (contract_verdict c))"
  "jget ''authoritative_answer_path'' (build_completion_contract c) = jopt (resolved_answer_path c)"
  "jget ''authoritative_job_id'' (build_completion_contract c) = jopt (strip_opt (ci_job_id c))"
  by (simp_all add: build_completion_contract_def)

lemma build_contract_state: "contract_answer_state rt (build_completion_contract c) = fst (contract_verdict c)"
  by (rule answer_state_of) (simp_all only: build_contract_get contract_verdict_state)

lemma normalized_build [simp]: "normalized_dict (build_completion_contract c) = build_completion_contract c"
  by (simp add: normalized_dict_def build_completion_contract_def is_obj_def)

lemma canonical_get:
  "jget ''ready'' (build_canonical_answer_record rt st fmt c) =
     JBool (norm_text rt st = ''completed'' \<and> contract_answer_state rt (normalized_dict c) = ''final''
            \<and> stripped rt (jget ''authoritative_answer_path'' (normalized_dict c)) \<noteq> None)"
  "jget ''authoritative_answer_path'' (build_canonical_answer_record rt st fmt c) =
     jopt (stripped rt (jget ''authoritative_answer_path'' (normalized_dict c)))"
  "jget ''authoritative_job_id'' (build_canonical_answer_record rt st fmt c) =
     jopt (stripped rt (jget ''authoritative_job_id'' (normalized_dict c)))"
  by (simp_all add: build_canonical_answer_record_def Let_def)

lemma contract_final_iff:
  "fst (contract_verdict c) = ''final'' \<longleftrightarrow>
     lower (strip (ci_status c)) = ''completed'' \<and> \<not> completed_quality_is_non_final (lower_opt (ci_quality c))"
  by (simp add: contract_verdict_def Let_def)

lemma norm_text_JStr [simp]: "norm_text rt (JStr s) = lower (strip s)"
  by (simp add: norm_text_def)

section \<open>Properties\<close>

text \<open>An answer counts as final exactly when its job completed with no quality mark
  other than \<open>final\<close>; and the canonical record built from the contract is ready exactly
  when, besides, the path of an answer is known.\<close>

theorem canonical_ready_iff_final:
  "jget ''ready'' (build_canonical_answer_record rt (JStr (ci_status c)) fmt (build_completion_contract c)) =
     JBool (lower (strip (ci_status c)) = ''completed''
            \<and> \<not> completed_quality_is_non_final (lower_opt (ci_quality c))
            \<and> resolved_answer_path c \<noteq> None)
   \<and> jget ''authoritative_answer_path''
       (build_canonical_answer_record rt (JStr (ci_status c)) fmt (build_completion_contract c))
     = jopt (resolved_answer_path c)"
  using contract_final_iff [of c]
  by (auto simp: canonical_get build_contract_state build_contract_get)

end
