(* ===== verification/Providers.thy ===== *)
theory Providers
  imports Prelude
begin

text \<open>
  The provider registry: \<open>providers/spec.py\<close>, \<open>providers/registry.py\<close> and
  \<open>providers/policy.py\<close>. A provider is a value of \<open>provider_spec\<close>; the registry
  holds ChatGPT and Gemini. \<open>validate_ask_preset\<close> checks and canonicalises the
  preset a client asks for; the error detail of a refusal is its error code. The
  capability profile (a read-only rendering of a spec) is not modelled.
\<close>

section \<open>Provider specs\<close>

record provider_spec =
  provider_id :: string
  kind_namespace :: string
  ask_kind :: string
  rate_limit_key :: string
  min_interval_attr :: string
  default_preset :: string
  has_true_non_pro :: bool
  auto_semantics :: string
  safe_non_pro_fallback :: "string option"
  deep_research_support :: string
  premium_presets :: "string list"
  supported_presets :: "string list"
  preset_aliases :: "(string \<times> string) list"

text \<open>\<open>re.sub(r"[\s\-]+", "_", raw)\<close> and \<open>.strip("_")\<close>.\<close>

definition dash_or_space :: "char \<Rightarrow> bool" where
  "dash_or_space c \<longleftrightarrow> py_space c \<or> c = CHR ''-''"

fun collapse_runs :: "bool \<Rightarrow> string \<Rightarrow> string" where
  "collapse_runs inside [] = []"
| "collapse_runs inside (c # cs) =
     (if dash_or_space c
      then (if inside then collapse_runs True cs else CHR ''_'' # collapse_runs True cs)
      else c # collapse_runs False cs)"

definition strip_underscores :: "string \<Rightarrow> string" where
  "strip_underscores s =
     rev (dropWhile (\<lambda>c. c = CHR ''_'') (rev (dropWhile (\<lambda>c. c = CHR ''_'') s)))"

definition normalize_preset :: "provider_spec \<Rightarrow> string \<Rightarrow> string" where
  "normalize_preset spec value =
     (let raw = lower (strip value)
      in if raw = '''' then ''''
         else let raw' = strip_underscores (collapse_runs False raw)
              in case map_of (preset_aliases spec) raw' of None \<Rightarrow> raw' | Some p \<Rightarrow> p)"

section \<open>The registry\<close>

definition common_preset_aliases :: "(string \<times> string) list" where
  "common_preset_aliases = [(''default'', ''auto''), (''defaults'', ''auto'')]"

definition chatgpt_preset_aliases :: "(string \<times> string) list" where
  "chatgpt_preset_aliases =
     common_preset_aliases @
     [(''research'', ''deep_research''),
      (''deep_research'', ''deep_research''),
      (''deep-research'', ''deep_research''),
      (''deepresearch'', ''deep_research'')]"

definition gemini_preset_aliases :: "(string \<times> string) list" where
  "gemini_preset_aliases =
     [(''default'', ''pro''),
      (''defaults'', ''pro''),
      (''auto'', ''pro''),
      (''thinking'', ''pro''),
      (''prothinking'', ''pro''),
      (''pro_thinking'', ''pro''),
      (''pro_extended'', ''pro''),
      (''thinking_heavy'', ''pro''),
      (''thinking_extended'', ''pro''),
      (''gemini_pro'', ''pro''),
      (''deepthink'', ''deep_think''),
      (''prodeepthink'', ''deep_think''),
      (''pro_deep_think'', ''deep_think'')]"

definition chatgpt_spec :: provider_spec where
  "chatgpt_spec =
     \<lparr>provider_id = ''chatgpt'',
      kind_namespace = ''chatgpt_web.'',
      ask_kind = ''chatgpt_web.ask'',
      rate_limit_key = ''chatgpt_web_send'',
      min_interval_attr = ''min_prompt_interval_seconds'',
      default_preset = ''auto'',
      has_true_non_pro = True,
      auto_semantics = ''true_non_pro'',
      safe_non_pro_fallback = Some ''auto'',
      deep_research_support = ''flag_only'',
      premium_presets = [''pro_extended'', ''thinking_heavy'', ''thinking_extended'', ''deep_research''],
      supported_presets =
        [''auto'', ''pro_extended'', ''thinking_heavy'', ''thinking_extended'', ''deep_research''],
      preset_aliases = chatgpt_preset_aliases\<rparr>"

definition gemini_spec :: provider_spec where
  "gemini_spec =
     \<lparr>provider_id = ''gemini'',
      kind_namespace = ''gemini_web.'',
      ask_kind = ''gemini_web.ask'',
      rate_limit_key = ''gemini_web_send'',
      min_interval_attr = ''gemini_min_prompt_interval_seconds'',
      default_preset = ''pro'',
      has_true_non_pro = False,
      auto_semantics = ''alias_to_pro'',
      safe_non_pro_fallback = None,
      deep_research_support = ''tool_path'',
      premium_presets = [''pro'', ''deep_think''],
      supported_presets = [''pro'', ''deep_think''],
      preset_aliases = gemini_preset_aliases\<rparr>"

definition provider_specs :: "provider_spec list" where
  "provider_specs = [chatgpt_spec, gemini_spec]"

definition web_ask_kinds :: "string list" where
  "web_ask_kinds = map ask_kind provider_specs"

definition worker_autofix_kinds :: "string list" where
  "worker_autofix_kinds = web_ask_kinds @ [''gemini_web.generate_image'']"

definition removed_ask_kinds :: "string list" where
  "removed_ask_kinds = [''qwen_web.ask'']"

definition provider_spec_for_provider_id :: "string option \<Rightarrow> provider_spec option" where
  "provider_spec_for_provider_id p =
     find (\<lambda>s. provider_id s = strip (or_empty p)) provider_specs"

definition is_web_ask_kind :: "string option \<Rightarrow> bool" where
  "is_web_ask_kind kind \<longleftrightarrow> strip (or_empty kind) \<in> set web_ask_kinds"

definition is_worker_autofix_kind :: "string option \<Rightarrow> bool" where
  "is_worker_autofix_kind kind \<longleftrightarrow> lower (strip (or_empty kind)) \<in> set worker_autofix_kinds"

definition provider_spec_for_ask_kind :: "string option \<Rightarrow> provider_spec option" where
  "provider_spec_for_ask_kind kind =
     find (\<lambda>s. ask_kind s = strip (or_empty kind)) provider_specs"

definition provider_spec_for_kind :: "string option \<Rightarrow> provider_spec option" where
  "provider_spec_for_kind kind =
     find (\<lambda>s. starts_with (kind_namespace s) (strip (or_empty kind))) provider_specs"

definition is_provider_web_kind :: "string option \<Rightarrow> bool" where
  "is_provider_web_kind kind \<longleftrightarrow> provider_spec_for_kind kind \<noteq> None"

definition provider_id_for_kind :: "string option \<Rightarrow> string option" where
  "provider_id_for_kind kind = map_option provider_id (provider_spec_for_kind kind)"

definition safe_non_pro_preset_for_kind :: "string option \<Rightarrow> string option" where
  "safe_non_pro_preset_for_kind kind =
     (case provider_spec_for_ask_kind kind of None \<Rightarrow> None | Some s \<Rightarrow> safe_non_pro_fallback s)"

definition provider_platform :: "(string \<times> string) list" where
  "provider_platform = [(''chatgpt'', ''chatgpt''), (''gemini'', ''gemini'')]"

definition conversation_platform :: "string option \<Rightarrow> string" where
  "conversation_platform kind =
     (case provider_id_for_kind kind of
        None \<Rightarrow> ''unknown''
      | Some pid \<Rightarrow> (case map_of provider_platform pid of None \<Rightarrow> pid | Some p \<Rightarrow> p))"

definition ask_rate_limit_key :: "string option \<Rightarrow> string option" where
  "ask_rate_limit_key kind = map_option rate_limit_key (provider_spec_for_ask_kind kind)"

text \<open>\<open>policy_from_config\<close>: the configured interval (\<open>None\<close> where the attribute is
  missing, unset or no integer), never negative.\<close>

definition policy_min_interval :: "(string \<Rightarrow> int option) \<Rightarrow> provider_spec \<Rightarrow> int" where
  "policy_min_interval cfg spec = max 0 (case cfg (min_interval_attr spec) of None \<Rightarrow> 0 | Some n \<Rightarrow> n)"

definition ask_min_prompt_interval_seconds :: "(string \<Rightarrow> int option) \<Rightarrow> string option \<Rightarrow> int option" where
  "ask_min_prompt_interval_seconds cfg kind =
     map_option (policy_min_interval cfg) (provider_spec_for_ask_kind kind)"

section \<open>Presets\<close>

text \<open>
  \<open>validate_ask_preset\<close> rewrites \<open>params\<close> in place; the model returns the new
  object.
\<close>

definition validate_ask_preset :: "string \<Rightarrow> json \<Rightarrow> exn + json" where
  "validate_ask_preset kind params =
     (let kind_l = lower (strip kind)
      in if kind_l \<in> set removed_ask_kinds then Inl (PresetValidationError ''provider_removed'')
         else case provider_spec_for_ask_kind (Some kind) of
                None \<Rightarrow> Inr params
              | Some spec \<Rightarrow>
                  if \<not> is_obj params
                  then Inl (PresetValidationError ''params must be an object'')
                  else case jget ''preset'' params of
                         JStr raw \<Rightarrow>
                           if strip raw = '''' then Inl (PresetValidationError ''missing_preset'')
                           else let preset = normalize_preset spec raw
                                in if preset \<notin> set (supported_presets spec)
                                   then Inl (PresetValidationError ''invalid_preset'')
                                   else if kind = ''chatgpt_web.ask'' \<and> preset = ''deep_research''
                                   then Inr (jset ''preset'' (JStr ''thinking_heavy'')
                                              (jset ''deep_research'' (JBool True) params))
                                   else Inr (jset ''preset'' (JStr preset) params)
                       | _ \<Rightarrow> Inl (PresetValidationError ''missing_preset''))"

section \<open>Facts\<close>

lemma web_ask_kinds_simp: "web_ask_kinds = [''chatgpt_web.ask'', ''gemini_web.ask'']"
  by (simp add: web_ask_kinds_def provider_specs_def chatgpt_spec_def gemini_spec_def)

lemma provider_specs_set: "spec \<in> set provider_specs \<longleftrightarrow> spec = chatgpt_spec \<or> spec = gemini_spec"
  by (simp add: provider_specs_def)

lemma provider_spec_for_ask_kind_mem:
  "provider_spec_for_ask_kind kind = Some spec \<Longrightarrow>
     spec \<in> set provider_specs \<and> ask_kind spec = strip (or_empty kind)"
  by (auto simp: provider_spec_for_ask_kind_def dest: find_Some_mem)

text \<open>The supported presets are fixed points of the normalisation, and none is blank.\<close>

lemma supported_presets_checked:
  "list_all (\<lambda>spec. list_all (\<lambda>p. normalize_preset spec p = p \<and> strip p \<noteq> '''')
     (supported_presets spec)) provider_specs"
  by code_simp

lemma normalize_supported:
  "spec \<in> set provider_specs \<Longrightarrow> p \<in> set (supported_presets spec) \<Longrightarrow> normalize_preset spec p = p"
  and supported_not_blank:
  "spec \<in> set provider_specs \<Longrightarrow> p \<in> set (supported_presets spec) \<Longrightarrow> strip p \<noteq> ''''"
  using supported_presets_checked by (auto simp: list_all_iff)

section \<open>Properties\<close>

lemma alist_set_same: "map_of kvs k = Some v \<Longrightarrow> alist_set k v kvs = kvs"
  by (induction k v kvs rule: alist_set.induct) (auto split: if_splits)

lemma jset_same: "is_obj d \<Longrightarrow> jget k d = v \<Longrightarrow> v \<noteq> JNull \<Longrightarrow> jset k v d = d"
  by (auto simp: is_obj_def jget_def jset_def alist_set_same split: json.splits option.splits)

lemma is_obj_jset [simp]: "is_obj (jset k v d) = is_obj d"
  by (simp add: is_obj_def jset_def split: json.splits)

lemma validate_ask_preset_ok:
  assumes "validate_ask_preset kind params = Inr p'" and "provider_spec_for_ask_kind (Some kind) = Some spec"
  shows "is_obj p' \<and> (\<exists>s \<in> set (supported_presets spec). jget ''preset'' p' = JStr s
     \<and> \<not> (kind = ''chatgpt_web.ask'' \<and> s = ''deep_research''))"
proof -
  have spec: "spec \<in> set provider_specs" "ask_kind spec = strip kind"
    using provider_spec_for_ask_kind_mem [OF assms(2)] by simp_all
  have heavy: "''thinking_heavy'' \<in> set (supported_presets spec)" if "kind = ''chatgpt_web.ask''"
  proof -
    have "strip ''chatgpt_web.ask'' = ''chatgpt_web.ask''" by code_simp
    then show ?thesis
      using spec that by (auto simp: provider_specs_set chatgpt_spec_def gemini_spec_def)
  qed
  show ?thesis
    using assms heavy
    by (auto simp: validate_ask_preset_def Let_def jget_jset split: if_splits json.splits)
qed

text \<open>The presets that pass validation are supported ones, under their canonical name,
  and validating the parameters again changes nothing.\<close>

theorem validated_presets_are_supported:
  assumes "validate_ask_preset kind params = Inr p'" and "provider_spec_for_ask_kind (Some kind) = Some spec"
  shows "(\<exists>s \<in> set (supported_presets spec). jget ''preset'' p' = JStr s) \<and> validate_ask_preset kind p' = Inr p'"
proof -
  obtain s where s: "s \<in> set (supported_presets spec)" "jget ''preset'' p' = JStr s" "is_obj p'"
    "\<not> (kind = ''chatgpt_web.ask'' \<and> s = ''deep_research'')"
    using validate_ask_preset_ok [OF assms] by blast
  have spec: "spec \<in> set provider_specs"
    using provider_spec_for_ask_kind_mem [OF assms(2)] by simp
  note stable = normalize_supported [OF spec s(1)] supported_not_blank [OF spec s(1)]
  have "lower (strip kind) \<notin> set removed_ask_kinds"
    using assms(1) by (auto simp: validate_ask_preset_def Let_def)
  then show ?thesis
    using assms(2) s stable jset_same [OF s(3,2)] by (auto simp: validate_ask_preset_def Let_def)
qed

theorem validated_presets_are_supported_witness:
  "\<exists>p'. validate_ask_preset ''chatgpt_web.ask'' (JObj [(''preset'', JStr ''Deep-Research'')]) = Inr p'
    \<and> validate_ask_preset ''chatgpt_web.ask'' p' = Inr p'"
proof -
  have run: "validate_ask_preset ''chatgpt_web.ask'' (JObj [(''preset'', JStr ''Deep-Research'')]) =
      Inr (JObj [(''preset'', JStr ''thinking_heavy''), (''deep_research'', JBool True)])"
    by code_simp
  have "provider_spec_for_ask_kind (Some ''chatgpt_web.ask'') = Some chatgpt_spec"
    by code_simp
  from validated_presets_are_supported [OF run this] run show ?thesis by blast
qed

end
