(* ===== verification/Results.thy ===== *)
theory Results
  imports Transition Completion Providers
begin

text \<open>
  How a worker reports the outcome of a job it holds: error, retryable failure, release to
  the wait phase, cancellation and answer (\<open>store_error_result\<close>,
  \<open>store_retryable_result\<close>, \<open>release_for_wait\<close>, \<open>store_canceled_result\<close>,
  \<open>store_answer_result\<close> of \<open>core/job_store.py\<close>), with the helpers they use.
\<close>

section \<open>Settings\<close>

definition truthy_env :: "runtime \<Rightarrow> string \<Rightarrow> bool \<Rightarrow> bool" where
  "truthy_env rt name d =
     (case rt_env rt name of
        None \<Rightarrow> d
      | Some raw0 \<Rightarrow>
          (let raw = lower (strip raw0)
           in if raw = '''' then d
              else if raw \<in> set [''1'', ''true'', ''yes'', ''y'', ''on''] then True
              else if raw \<in> set [''0'', ''false'', ''no'', ''n'', ''off''] then False
              else d))"

definition env_int :: "runtime \<Rightarrow> string \<Rightarrow> int \<Rightarrow> int" where
  "env_int rt name d =
     (case rt_env rt name of
        None \<Rightarrow> d
      | Some raw0 \<Rightarrow>
          (let raw = strip raw0
           in if raw = '''' then d else case parse_int raw of None \<Rightarrow> d | Some n \<Rightarrow> n))"

definition retryable_send_attempts_cap :: "runtime \<Rightarrow> int" where
  "retryable_send_attempts_cap rt = max 1 (env_int rt ''CHATGPTREST_RETRYABLE_SEND_ATTEMPTS_CAP'' 20)"

definition retryable_send_max_extensions :: "runtime \<Rightarrow> int" where
  "retryable_send_max_extensions rt = max 0 (env_int rt ''CHATGPTREST_RETRYABLE_SEND_MAX_EXTENSIONS'' 1)"

section \<open>Reading failures\<close>

definition counts_as_extension :: "runtime \<Rightarrow> event \<Rightarrow> bool" where
  "counts_as_extension rt e =
     (let payload = (case ev_payload e of None \<Rightarrow> JObj [] | Some v \<Rightarrow> if truthy v then v else JObj [])
      in is_obj payload \<and> norm_text rt (jget ''phase'' payload) \<noteq> ''wait'')"

definition retryable_send_extensions_used :: "runtime \<Rightarrow> string \<Rightarrow> world \<Rightarrow> int" where
  "retryable_send_extensions_used rt jid w =
     int (length (filter (counts_as_extension rt) (job_events jid ''max_attempts_extended'' w)))"

definition looks_like_sticky_upload_surface_closed :: "string \<Rightarrow> string \<Rightarrow> bool" where
  "looks_like_sticky_upload_surface_closed error_type error =
     (let et = lower (strip error_type); msg = lower (strip error)
      in if \<not> contains ''targetclosed'' et
            \<and> \<not> contains ''target page, context or browser has been closed'' msg
         then False
         else if contains ''set_input_files'' msg then True
         else contains (''input[type='' @ [CHR 0x27] @ ''file'' @ [CHR 0x27] @ '']'') msg
              \<or> contains (''input[type='' @ [CHR 0x22] @ ''file'' @ [CHR 0x22] @ '']'') msg)"

definition looks_like_qwen_cdp_unavailable :: "string \<Rightarrow> string \<Rightarrow> bool" where
  "looks_like_qwen_cdp_unavailable error_type error =
     (let et = lower (strip error_type); msg = lower (strip error)
      in contains ''qwen cdp connect failed'' msg
         \<or> (contains ''qwen_cdp_url'' msg \<and> contains ''cdp connect failed'' msg)
         \<or> (contains ''qwen chrome'' msg \<and> contains ''cdp'' msg)
         \<or> (contains ''qwen'' msg \<and> contains ''connect_over_cdp'' msg)
         \<or> (et \<in> set [''infraerror'', ''runtimeerror''] \<and> contains ''cdp connect failed'' msg
            \<and> contains ''qwen'' msg))"

definition looks_like_unsent_web_send_transport_failure :: "string \<Rightarrow> string \<Rightarrow> bool" where
  "looks_like_unsent_web_send_transport_failure error_type error =
     (let haystack = lower (error_type @ [CHR 0x0A] @ error)
      in list_ex (\<lambda>n. contains n haystack)
           [''sse stream timeout'', ''deadline exceeded'', ''target crashed'', ''target closed'',
            ''page crashed''])"

definition normalize_error_fields :: "string \<Rightarrow> string \<Rightarrow> string \<times> string" where
  "normalize_error_fields error_type error =
     (let et = text_or error_type ''RuntimeError''
      in (et, if strip error = '''' then ''<'' @ et @ '': empty error>'' else error))"

section \<open>Retry-exhausted diagnostics\<close>

definition list_len :: "json \<Rightarrow> int" where
  "list_len v = (case v of JList xs \<Rightarrow> int (length xs) | _ \<Rightarrow> 0)"

definition item_bytes :: "json \<Rightarrow> int" where
  "item_bytes item =
     (if is_obj item
      then (let b = jget ''bytes'' item
            in if truthy b then (case py_int b of None \<Rightarrow> 0 | Some n \<Rightarrow> n) else 0)
      else 0)"

definition attachment_stats_for_recovery_event :: "job \<Rightarrow> json" where
  "attachment_stats_for_recovery_event job =
     (let client_obj = (case j_client job of Some v \<Rightarrow> v | None \<Rightarrow> JObj []);
          staged = jget ''files'' (jget ''mcp_attachment_staging'' client_obj);
          items = (case staged of JList xs \<Rightarrow> xs | _ \<Rightarrow> [])
      in JObj [(''file_count'', JInt (list_len (jget ''file_paths'' (j_input job)))),
               (''staged_file_count'', JInt (list_len staged)),
               (''staged_total_bytes'', JInt (sum_list (map item_bytes items))),
               (''mcp_staged'', JBool (items \<noteq> []))])"

definition record_web_send_retry_exhausted_event ::
    "real \<Rightarrow> job \<Rightarrow> job_status \<Rightarrow> phase \<Rightarrow> string \<Rightarrow> string \<Rightarrow> string \<Rightarrow> string option \<Rightarrow> world \<Rightarrow> world" where
  "record_web_send_retry_exhausted_event ts job status ph error_type error terminal_type guard_reason w =
     (if ph \<noteq> Send \<or> \<not> is_web_ask_kind (Some (j_kind job)) then w
      else if \<not> looks_like_unsent_web_send_transport_failure error_type error then w
      else record_event ts (j_id job) ''web_send_retry_exhausted''
        (JObj [(''kind'', JStr (j_kind job)),
               (''status'', JStr (status_value status)),
               (''phase'', JStr (phase_value ph)),
               (''attempts'', JInt (j_attempts job)),
               (''max_attempts'', JInt (j_max_attempts job)),
               (''error_type'', JStr error_type),
               (''terminal_error_type'', JStr terminal_type),
               (''error_preview'', JStr (take 500 (strip error))),
               (''guard_reason'', jopt guard_reason),
               (''safe_next_action'', JStr (''retry_same_request_with_larger_send_timeout_or_slimmer_attachments_''
                  @ ''before_opening_more_parallel_chatgpt_web_jobs'')),
               (''recommended_params'',
                  JObj [(''send_timeout_seconds'', JInt 240), (''max_wait_seconds'', JInt 7200)]),
               (''attachment_stats'', attachment_stats_for_recovery_event job)]) w)"

section \<open>Errors\<close>

text \<open>
  The issue ledger (\<open>core/client_issues.py\<close>) is asked for an issue on a terminal error;
  its answer, \<open>None\<close> where it raised, is a parameter. Its tables are not part of the
  state.
\<close>

record issue_answer =
  ia_issue_id :: string
  ia_created :: bool
  ia_reopened :: bool
  ia_fingerprint :: string

type_synonym ledger = "job \<Rightarrow> string \<Rightarrow> string \<Rightarrow> issue_answer option"

fun ws_runs :: "bool \<Rightarrow> string \<Rightarrow> string" where
  "ws_runs inside [] = []"
| "ws_runs inside (c # cs) =
     (if py_space c
      then (if inside then ws_runs True cs else CHR '' '' # ws_runs True cs)
      else c # ws_runs False cs)"

definition ws_single :: "nat \<Rightarrow> string \<Rightarrow> string" where
  "ws_single max_chars value = take max_chars (strip (ws_runs False value))"

definition issue_autoreport_statuses :: "string option \<Rightarrow> string list" where
  "issue_autoreport_statuses raw =
     (let value = text_or (strip (or_empty raw)) ''error,blocked,needs_followup'';
          out = filter (\<lambda>p. p \<noteq> '''') (map (\<lambda>p. lower (strip p)) (split_on (CHR '','') value))
      in if out = [] then [''error'', ''blocked'', ''needs_followup''] else out)"

definition auto_report :: "runtime \<Rightarrow> ledger \<Rightarrow> real \<Rightarrow> job \<Rightarrow> job_status \<Rightarrow> string \<Rightarrow> string \<Rightarrow> world \<Rightarrow> world" where
  "auto_report rt ledger ts job status error_type error w =
     (let status_n = status_value status
      in if \<not> truthy_env rt ''CHATGPTREST_ISSUE_AUTOREPORT_ENABLED'' True then w
         else if status_n \<notin> set (issue_autoreport_statuses (rt_env rt ''CHATGPTREST_ISSUE_AUTOREPORT_STATUSES''))
         then w
         else let kind_n = text_or (ws_single 200 (j_kind job)) ''job_error'';
                  error_type_n = text_or (ws_single 120 error_type) ''RuntimeError''
              in case ledger job error_type_n error of
                   None \<Rightarrow> w
                 | Some a \<Rightarrow>
                     insert_event ts (j_id job) ''issue_auto_reported''
                       (Some (JObj [(''issue_id'', JStr (ia_issue_id a)),
                              (''created'', JBool (ia_created a)),
                              (''reopened'', JBool (ia_reopened a)),
                              (''status'', JStr status_n),
                              (''error_type'', JStr error_type_n),
                              (''kind'', JStr kind_n),
                              (''fingerprint_hash'', JStr (ia_fingerprint a))])) w)"

definition result_head :: "bool \<Rightarrow> job \<Rightarrow> (string \<times> json) list" where
  "result_head ok job =
     [(''ok'', JBool ok),
      (''job_id'', JStr (j_id job)),
      (''status'', JStr (status_value (j_status job))),
      (''phase'', JStr (phase_value (j_phase job))),
      (''conversation_url'', jopt (j_conversation_url job)),
      (''conversation_id'', jopt (j_conversation_id job))]"

definition error_statuses :: "job_status list" where
  "error_statuses = [BLOCKED, COOLDOWN, NEEDS_FOLLOWUP]"

definition store_error_result ::
    "runtime \<Rightarrow> ledger \<Rightarrow> clock \<Rightarrow> string \<Rightarrow> string \<Rightarrow> string \<Rightarrow> string \<Rightarrow> string \<Rightarrow> job_status \<Rightarrow>
      world \<Rightarrow> (job, world) outcome" where
  "store_error_result rt ledger t jid worker token error_type error status w =
     (case get_job jid w of
        None \<Rightarrow> (Inl (KeyError jid), w)
      | Some job \<Rightarrow>
          (let (et, msg) = normalize_error_fields error_type error
           in if j_status job = status \<and> j_last_error_type job = Some et \<and> j_last_error job = Some msg
              then (Inr job, w)
              else if is_terminal (j_status job)
              then (Inl (AlreadyFinished (''job already finished: '' @ status_value (j_status job))), w)
              else if j_status job \<noteq> IN_PROGRESS
              then (Inl (RuntimeError (''job not in progress: '' @ status_value (j_status job))), w)
              else if status \<noteq> ERROR \<and> status \<notin> set error_statuses
              then (Inl (ValueError (''invalid error result status: '' @ status_value status)), w)
              else (case transition t jid status
                           [U_last_error_type (Some et), U_last_error (Some msg)]
                           (Some worker) (Some token) True w of
                      (Inl e, w1) \<Rightarrow> (Inl e, w1)
                    | (Inr new_job, w1) \<Rightarrow>
                        (let w2 = write_result jid
                               (JObj (result_head False new_job @
                                 [(''error_type'', JStr et), (''error'', JStr msg)])) w1
                         in (Inr new_job,
                             if status = ERROR then auto_report rt ledger (t 4) job status et msg w2 else w2)))))"

section \<open>Retryable failures\<close>

text \<open>Whether the attempts of a job that used them all are extended, and why not.\<close>

definition extension_decision ::
    "runtime \<Rightarrow> job \<Rightarrow> string \<Rightarrow> string \<Rightarrow> world \<Rightarrow> string option \<times> int option" where
  "extension_decision rt job et msg w =
     (if is_web_ask_kind (Some (j_kind job)) \<and> truthy_env rt ''CHATGPTREST_RETRYABLE_SEND_EXTEND_MAX_ATTEMPTS'' True
      then (if looks_like_sticky_upload_surface_closed et msg
            then (Some ''sticky_upload_surface_closed'', None)
            else let cap = retryable_send_attempts_cap rt;
                     n = retryable_send_extensions_used rt (j_id job) w;
                     n_cap = retryable_send_max_extensions rt
                 in if n_cap \<ge> 0 \<and> n \<ge> n_cap
                    then (Some (''retryable_extension_limit_reached:'' @ int_text n @ ''/'' @ int_text n_cap), None)
                    else if j_max_attempts job \<ge> cap
                    then (Some (''retryable_attempts_cap_reached:'' @ int_text (j_max_attempts job) @ ''/''
                            @ int_text cap), None)
                    else (None, Some (min cap (max (j_max_attempts job + 1) (j_attempts job + 1)))))
      else (None, None))"

definition exhausted_message :: "job \<Rightarrow> job_status \<Rightarrow> string \<Rightarrow> string \<Rightarrow> string option \<Rightarrow> string" where
  "exhausted_message job status et msg guard_reason =
     ''Reached max_attempts='' @ int_text (j_max_attempts job) @ '' while retrying ('' @ status_value status
       @ ''): '' @ et @ '': '' @ msg
       @ (case guard_reason of None \<Rightarrow> '''' | Some g \<Rightarrow> '' [guard='' @ g @ '']'')"

definition attempts_used_up :: "phase \<Rightarrow> job \<Rightarrow> bool" where
  "attempts_used_up ph job \<longleftrightarrow> ph \<noteq> Wait \<and> j_max_attempts job > 0 \<and> j_attempts job \<ge> j_max_attempts job"

text \<open>The job gives up: no attempts left and no extension.\<close>

definition store_exhausted ::
    "runtime \<Rightarrow> ledger \<Rightarrow> clock \<Rightarrow> job \<Rightarrow> string \<Rightarrow> string \<Rightarrow> job_status \<Rightarrow> phase \<Rightarrow> string \<Rightarrow> string \<Rightarrow>
      string option \<Rightarrow> world \<Rightarrow> (job, world) outcome" where
  "store_exhausted rt ledger t job worker token status ph et msg guard_reason w =
     (let w1 = (case guard_reason of
                  None \<Rightarrow> w
                | Some g \<Rightarrow>
                    record_event (t 0) (j_id job) ''max_attempts_extension_skipped''
                      (JObj [(''status'', JStr (status_value status)),
                             (''phase'', JStr (phase_value ph)),
                             (''attempts'', JInt (j_attempts job)),
                             (''max_attempts'', JInt (j_max_attempts job)),
                             (''error_type'', JStr et),
                             (''guard_reason'', JStr g)]) w);
          text = exhausted_message job status et msg guard_reason;
          qwen = (lower (strip (j_kind job)) = ''qwen_web.ask'' \<and> looks_like_qwen_cdp_unavailable et msg);
          terminal_status = (if qwen then NEEDS_FOLLOWUP else ERROR);
          terminal_type = (if qwen then ''QwenCdpUnavailable'' else ''MaxAttemptsExceeded'');
          w2 = record_web_send_retry_exhausted_event (t 1) job terminal_status ph et msg terminal_type
                 guard_reason w1
      in store_error_result rt ledger (later 2 t) (j_id job) worker token terminal_type text terminal_status w2)"

definition extension_payload :: "job \<Rightarrow> int \<Rightarrow> job_status \<Rightarrow> phase \<Rightarrow> string \<Rightarrow> json" where
  "extension_payload job n status ph et =
     JObj [(''previous_max_attempts'', JInt (j_max_attempts job)),
           (''new_max_attempts'', JInt n),
           (''attempts'', JInt (j_attempts job)),
           (''status'', JStr (status_value status)),
           (''phase'', JStr (phase_value ph)),
           (''error_type'', JStr et)]"

definition retry_updates :: "job \<Rightarrow> real \<Rightarrow> string \<Rightarrow> string \<Rightarrow> int option \<Rightarrow> phase option \<Rightarrow> col_update list" where
  "retry_updates job not_before et msg extended phase_arg =
     [U_not_before not_before, U_last_error_type (Some et), U_last_error (Some msg)]
     @ (case extended of
          None \<Rightarrow> [] | Some n \<Rightarrow> if n > j_max_attempts job then [U_max_attempts n] else [])
     @ (case phase_arg of None \<Rightarrow> [] | Some p \<Rightarrow> [U_phase p])"

text \<open>The job is put aside until \<open>not_before\<close>.\<close>

definition store_retry ::
    "clock \<Rightarrow> job \<Rightarrow> string \<Rightarrow> string \<Rightarrow> job_status \<Rightarrow> real \<Rightarrow> string \<Rightarrow> string \<Rightarrow> phase option \<Rightarrow> phase \<Rightarrow>
      int option \<Rightarrow> world \<Rightarrow> (job, world) outcome" where
  "store_retry t job worker token status not_before et msg phase_arg ph extended w =
     (if j_status job = status \<and> j_not_before job = not_before
         \<and> j_last_error_type job = Some et \<and> j_last_error job = Some msg
      then (Inr job, w)
      else if is_terminal (j_status job)
      then (Inl (AlreadyFinished (''job already finished: '' @ status_value (j_status job))), w)
      else if j_status job \<noteq> IN_PROGRESS
      then (Inl (RuntimeError (''job not in progress: '' @ status_value (j_status job))), w)
      else (case transition t (j_id job) status (retry_updates job not_before et msg extended phase_arg)
                   (Some worker) (Some token) True w of
              (Inl e, w1) \<Rightarrow> (Inl e, w1)
            | (Inr new_job, w1) \<Rightarrow>
                (let w2 = (case extended of
                             None \<Rightarrow> w1
                           | Some n \<Rightarrow>
                               if n > j_max_attempts job
                               then record_event (t 4) (j_id job) ''max_attempts_extended''
                                      (extension_payload job n status ph et) w1
                               else w1);
                     w3 = write_result (j_id job)
                            (JObj (result_head False new_job @
                              [(''not_before'', JReal not_before), (''retryable'', JBool True),
                               (''error_type'', JStr et), (''error'', JStr msg)])) w2
                 in (Inr new_job, w3))))"

definition store_retryable_result ::
    "runtime \<Rightarrow> ledger \<Rightarrow> clock \<Rightarrow> string \<Rightarrow> string \<Rightarrow> string \<Rightarrow> job_status \<Rightarrow> real \<Rightarrow> string \<Rightarrow> string \<Rightarrow>
      string option \<Rightarrow> world \<Rightarrow> (job, world) outcome" where
  "store_retryable_result rt ledger t jid worker token status not_before error_type error phase_arg w =
     (if status \<notin> set error_statuses
      then (Inl (ValueError (''invalid retryable status: '' @ status_value status)), w)
      else case get_job jid w of
             None \<Rightarrow> (Inl (KeyError jid), w)
           | Some job \<Rightarrow>
               (let ph = (case phase_arg of Some _ \<Rightarrow> normalize_db_phase phase_arg | None \<Rightarrow> j_phase job);
                    (et, msg) = normalize_error_fields error_type error;
                    (guard_reason, extended) =
                      (if attempts_used_up ph job then extension_decision rt job et msg w else (None, None))
                in if attempts_used_up ph job \<and> extended = None
                   then store_exhausted rt ledger t job worker token status ph et msg guard_reason w
                   else store_retry t job worker token status not_before et msg
                          (map_option (\<lambda>p. normalize_db_phase (Some p)) phase_arg) ph extended w))"

section \<open>Release to the wait phase\<close>

definition running_lease_where :: "string \<Rightarrow> string \<Rightarrow> string \<Rightarrow> real \<Rightarrow> job \<Rightarrow> bool" where
  "running_lease_where jid worker token now j \<longleftrightarrow>
     j_id j = jid \<and> (j_status j = IN_PROGRESS \<and> owns_lease worker token j \<and> lease_unexpired now j)"

definition release_for_wait ::
    "clock \<Rightarrow> string \<Rightarrow> string \<Rightarrow> string \<Rightarrow> real \<Rightarrow> world \<Rightarrow> (job, world) outcome" where
  "release_for_wait t jid worker token not_before w =
     (case get_job jid w of
        None \<Rightarrow> (Inl (KeyError jid), w)
      | Some job \<Rightarrow>
          if is_terminal (j_status job)
          then (Inl (AlreadyFinished (''job already finished: '' @ status_value (j_status job))), w)
          else if j_status job \<noteq> IN_PROGRESS
          then (Inl (RuntimeError (''job not in progress: '' @ status_value (j_status job))), w)
          else (let now = t 0;
                    guard = running_lease_where jid worker token now;
                    changed = count_jobs guard w
                in if changed = 0 then (Inl (LeaseLost ''lease lost (cannot release for wait)''), w)
                   else let w1 = update_jobs guard (Assign None False
                              [U_phase Wait, U_not_before not_before, U_lease_owner None,
                               U_lease_expires_at None, U_lease_token None, U_updated_at now]) w;
                            w2 = (if j_phase job \<noteq> Wait
                                  then record_event (t 1) jid ''phase_changed'' (phase_payload (j_phase job) Wait) w1
                                  else w1);
                            w3 = record_event (t 2) jid ''wait_requeued''
                                   (JObj [(''not_before'', JReal not_before)]) w2
                        in (reread jid w3, w3)))"

section \<open>Cancellation by the worker\<close>

definition cancel_time :: "real \<Rightarrow> job \<Rightarrow> real" where
  "cancel_time now job =
     (case j_cancel_requested_at job of Some x \<Rightarrow> if x \<noteq> 0 then x else now | None \<Rightarrow> now)"

definition canceled_payload :: "job \<Rightarrow> string option \<Rightarrow> json" where
  "canceled_payload job reason =
     JObj (result_head False job @ [(''canceled'', JBool True), (''reason'', jopt reason)])"

definition store_canceled_result ::
    "clock \<Rightarrow> string \<Rightarrow> string \<Rightarrow> string \<Rightarrow> string option \<Rightarrow> world \<Rightarrow> (job, world) outcome" where
  "store_canceled_result t jid worker token reason w =
     (case get_job jid w of
        None \<Rightarrow> (Inl (KeyError jid), w)
      | Some job \<Rightarrow>
          if j_status job = CANCELED then (Inr job, w)
          else if is_terminal (j_status job)
          then (Inl (AlreadyFinished (''job already finished: '' @ status_value (j_status job))), w)
          else if j_status job \<noteq> IN_PROGRESS
          then (Inl (RuntimeError (''job not in progress: '' @ status_value (j_status job))), w)
          else (let r = or_none (or_empty reason)
                in case transition (later 1 t) jid CANCELED
                          [U_cancel_requested_at (Some (cancel_time (t 0) job)),
                           U_last_error_type (case r of None \<Rightarrow> None | Some _ \<Rightarrow> Some ''Canceled''),
                           U_last_error r]
                          (Some worker) (Some token) True w of
                     (Inl e, w1) \<Rightarrow> (Inl e, w1)
                   | (Inr new_job, w1) \<Rightarrow>
                       (Inr new_job, write_result jid (canceled_payload new_job r) w1)))"

section \<open>Answers\<close>

definition answer_contract :: "runtime \<Rightarrow> job \<Rightarrow> answer_meta \<Rightarrow> world \<Rightarrow> json" where
  "answer_contract rt job m w =
     (let params = parse_job_params_json (j_params job);
          last = strip (or_empty (latest_event_type (j_id job) w))
      in build_completion_contract
           \<lparr>ci_status = status_value COMPLETED,
            ci_kind = Some (j_kind job),
            ci_answer_chars = Some (am_chars m),
            ci_answer_path = Some (am_path m),
            ci_job_id = Some (j_id job),
            ci_authoritative_path = Some (am_path m),
            ci_min_chars = min_chars_required_from_params params,
            ci_last_event = or_none last,
            ci_reason = None,
            ci_quality = Some (if last = ''completion_guard_completed_under_min_chars''
                               then ''completed_under_min_chars'' else ''final''),
            ci_export_path = j_export_path job,
            ci_widget_export = widget_export_available_from_path (j_export_path job) w,
            ci_research = is_research_contract_params rt params\<rparr>)"

definition answer_result_payload :: "job \<Rightarrow> answer_meta \<Rightarrow> json \<Rightarrow> json \<Rightarrow> json" where
  "answer_result_payload job m contract canonical =
     JObj [(''ok'', JBool True),
           (''job_id'', JStr (j_id job)),
           (''status'', JStr (status_value COMPLETED)),
           (''phase'', JStr (phase_value (j_phase job))),
           (''conversation_url'', jopt (j_conversation_url job)),
           (''conversation_id'', jopt (j_conversation_id job)),
           (''path'', JStr (am_path m)),
           (''answer_sha256'', JStr (am_sha256 m)),
           (''answer_chars'', JInt (am_chars m)),
           (''answer_format'', JStr (am_format m)),
           (''completion_contract'', contract),
           (''canonical_answer'', canonical)]"

definition answer_updates :: "answer_meta \<Rightarrow> col_update list" where
  "answer_updates m =
     [U_answer_path (Some (am_path m)), U_answer_sha256 (Some (am_sha256 m)),
      U_answer_chars (Some (am_chars m)), U_answer_format (Some (am_format m)),
      U_last_error_type None, U_last_error None]"

text \<open>After the job row is final: the staged files become the published ones and the events
  are written, in this order.\<close>

definition publish_steps ::
    "clock \<Rightarrow> string \<Rightarrow> answer_meta \<Rightarrow> string \<Rightarrow> string \<Rightarrow> json \<Rightarrow> json \<Rightarrow> (world \<Rightarrow> world) list" where
  "publish_steps t jid m stage result_stage contract canonical =
     [replace_file stage (am_path m),
      replace_file result_stage (result_path jid),
      insert_event (t 0) jid ''completion_contract_recorded'' (Some contract),
      insert_event (t 1) jid ''canonical_answer_recorded'' (Some canonical),
      append_event jid ''completion_contract_recorded'' (Some contract),
      append_event jid ''canonical_answer_recorded'' (Some canonical)]"

definition publish_answer :: "clock \<Rightarrow> string \<Rightarrow> answer_meta \<Rightarrow> string \<Rightarrow> string \<Rightarrow> json \<Rightarrow> json \<Rightarrow> world \<Rightarrow> world" where
  "publish_answer t jid m stage result_stage contract canonical w =
     fold (\<lambda>f. f) (publish_steps t jid m stage result_stage contract canonical) w"

text \<open>The step of index \<open>k\<close> raises: the staging files and what was published so far are
  removed. The row in the database stays final until the caller rolls back.\<close>

definition abort_publication ::
    "nat \<Rightarrow> clock \<Rightarrow> string \<Rightarrow> answer_meta \<Rightarrow> string \<Rightarrow> string \<Rightarrow> json \<Rightarrow> json \<Rightarrow> world \<Rightarrow> world" where
  "abort_publication k t jid m stage result_stage contract canonical w =
     (let published = take k [am_path m, result_path jid];
          w1 = fold (\<lambda>f. f) (take k (publish_steps t jid m stage result_stage contract canonical)) w
      in fold unlink published (unlink result_stage (unlink stage w1)))"

text \<open>\<open>io\<close>: the publication step that raises, if one does.\<close>

definition store_answer_result ::
    "runtime \<Rightarrow> nat option \<Rightarrow> clock \<Rightarrow> string \<Rightarrow> string \<Rightarrow> string \<Rightarrow> string \<Rightarrow> string \<Rightarrow> world \<Rightarrow> (job, world) outcome" where
  "store_answer_result rt io t jid worker token answer fmt w =
     (case get_job jid w of
        None \<Rightarrow> (Inl (KeyError jid), w)
      | Some job \<Rightarrow>
          (let m0 = fst (compute_answer_meta rt jid answer (Some fmt))
           in if j_status job = COMPLETED
              then (if j_answer_sha256 job = Some (am_sha256 m0) \<and> am_sha256 m0 \<noteq> ''''
                    then (Inr job, w)
                    else (Inl (AlreadyFinished ''job already completed with different result''), w))
              else if is_terminal (j_status job)
              then (Inl (AlreadyFinished (''job already finished: '' @ status_value (j_status job))), w)
              else if j_status job \<noteq> IN_PROGRESS
              then (Inl (RuntimeError (''job not in progress: '' @ status_value (j_status job))), w)
              else (case write_answer_staged rt jid token answer (Some fmt) w of
                      (Inl e, w1) \<Rightarrow> (Inl e, w1)
                    | (Inr (m, stage), w1) \<Rightarrow>
                        (let contract = answer_contract rt job m w1;
                             canonical = build_canonical_answer_record rt (JStr (status_value COMPLETED))
                                           (JStr (am_format m)) contract
                         in case write_result_staged jid token (answer_result_payload job m contract canonical) w1 of
                              (Inl e, w2) \<Rightarrow> (Inl e, w2)
                            | (Inr result_stage, w2) \<Rightarrow>
                                (case transition (later 2 t) jid COMPLETED (answer_updates m)
                                        (Some worker) (Some token) True w2 of
                                   (Inl e, w3) \<Rightarrow> (Inl e, unlink result_stage (unlink stage w3))
                                 | (Inr finalized, w3) \<Rightarrow>
                                     (case io of
                                        None \<Rightarrow> (Inr finalized, publish_answer t jid m stage result_stage contract canonical w3)
                                      | Some k \<Rightarrow>
                                          (Inl (OSError ''publication failed''),
                                           abort_publication k t jid m stage result_stage contract canonical w3)))))))"

end
