(* ===== verification/ConversationUrl.thy ===== *)
theory ConversationUrl
  imports Providers
begin

text \<open>
  The URL recognisers of \<open>core/job_store.py\<close>: which conversation a URL names (the key
  of the single-flight guard), which provider it belongs to, and whether a job of a given
  kind may use it. Each regular expression of the source is a scanner that reads the text
  the way \<open>re.search\<close> does, leftmost match first.
\<close>

section \<open>Scanners\<close>

fun search :: "(string \<Rightarrow> 'a option) \<Rightarrow> string \<Rightarrow> 'a option" where
  "search m [] = m []"
| "search m (c # cs) = (case m (c # cs) of Some x \<Rightarrow> Some x | None \<Rightarrow> search m cs)"

text \<open>The same with the character before the position, for \<open>(?:^|[/.])\<close>.\<close>

fun search_after :: "(char option \<Rightarrow> string \<Rightarrow> bool) \<Rightarrow> char option \<Rightarrow> string \<Rightarrow> bool" where
  "search_after m p [] = m p []"
| "search_after m p (c # cs) = (m p (c # cs) \<or> search_after m (Some c) cs)"

text \<open>A literal, compared as under \<open>re.I\<close> (\<open>lit\<close> in lower case): what follows it.\<close>

definition after_ci :: "string \<Rightarrow> string \<Rightarrow> string option" where
  "after_ci lit s =
     (if lower (take (length lit) s) = lit then Some (drop (length lit) s) else None)"

definition after_cs :: "string \<Rightarrow> string \<Rightarrow> string option" where
  "after_cs lit s = (if starts_with lit s then Some (drop (length lit) s) else None)"

definition hex_char :: "char \<Rightarrow> bool" where
  "hex_char c \<longleftrightarrow> c \<in> set ''0123456789abcdefABCDEF''"

definition hex_dash_char :: "char \<Rightarrow> bool" where
  "hex_dash_char c \<longleftrightarrow> hex_char c \<or> c = CHR ''-''"

definition ascii_alnum :: "char \<Rightarrow> bool" where
  "ascii_alnum c \<longleftrightarrow>
     (let n = (of_char c :: nat)
      in (48 \<le> n \<and> n \<le> 57) \<or> (65 \<le> n \<and> n \<le> 90) \<or> (97 \<le> n \<and> n \<le> 122))"

definition thread_char :: "char \<Rightarrow> bool" where
  "thread_char c \<longleftrightarrow> ascii_alnum c \<or> c = CHR ''_'' \<or> c = CHR ''-''"

text \<open>\<open>\w\<close> on code points below 256, and \<open>\b\<close> after a word character.\<close>

definition word_char :: "char \<Rightarrow> bool" where
  "word_char c \<longleftrightarrow>
     (let n = (of_char c :: nat)
      in ascii_alnum c \<or> n = 95 \<or> n = 170 \<or> n = 178 \<or> n = 179 \<or> n = 181 \<or> n = 185 \<or> n = 186
         \<or> (188 \<le> n \<and> n \<le> 190) \<or> (192 \<le> n \<and> n \<noteq> 215 \<and> n \<noteq> 247))"

definition word_end :: "string \<Rightarrow> bool" where
  "word_end rest = (case rest of [] \<Rightarrow> True | c # _ \<Rightarrow> \<not> word_char c)"

section \<open>Conversation ids\<close>

definition fixed_id :: "(char \<Rightarrow> bool) \<Rightarrow> nat \<Rightarrow> string \<Rightarrow> string option" where
  "fixed_id p n rest =
     (if length (take n rest) = n \<and> list_all p (take n rest) then Some (take n rest) else None)"

definition chatgpt_id_here :: "string \<Rightarrow> string option" where
  "chatgpt_id_here s =
     (case after_ci ''/c/'' s of None \<Rightarrow> None | Some rest \<Rightarrow> fixed_id hex_dash_char 36 rest)"

definition gemini_id_here :: "string \<Rightarrow> string option" where
  "gemini_id_here s =
     (case after_cs ''/app/'' s of
        None \<Rightarrow> None
      | Some rest \<Rightarrow>
          (let g = takeWhile thread_char rest in if 8 \<le> length g then Some g else None))"

definition qwen_id_here :: "string \<Rightarrow> string option" where
  "qwen_id_here s =
     (case after_ci ''/chat/'' s of None \<Rightarrow> None | Some rest \<Rightarrow> fixed_id hex_char 32 rest)"

definition chatgpt_conversation_id_re :: "string \<Rightarrow> string option" where
  "chatgpt_conversation_id_re s = search chatgpt_id_here s"

definition gemini_conversation_id_re :: "string \<Rightarrow> string option" where
  "gemini_conversation_id_re s = search gemini_id_here s"

definition qwen_conversation_id_re :: "string \<Rightarrow> string option" where
  "qwen_conversation_id_re s = search qwen_id_here s"

definition host_here :: "string \<Rightarrow> char option \<Rightarrow> string \<Rightarrow> bool" where
  "host_here host p s \<longleftrightarrow>
     (p = None \<or> p = Some (CHR ''/'') \<or> p = Some (CHR ''.''))
     \<and> (case after_ci host s of None \<Rightarrow> False | Some rest \<Rightarrow> word_end rest)"

definition chatgpt_url_host :: "string \<Rightarrow> bool" where
  "chatgpt_url_host s \<longleftrightarrow>
     search_after (host_here ''chatgpt.com'') None s \<or> search_after (host_here ''chat.openai.com'') None s"

definition gemini_url_host :: "string \<Rightarrow> bool" where
  "gemini_url_host s \<longleftrightarrow> search_after (host_here ''gemini.google.com'') None s"

definition qwen_url_host :: "string \<Rightarrow> bool" where
  "qwen_url_host s \<longleftrightarrow> search_after (host_here ''qianwen.com'') None s"

section \<open>Base application URLs\<close>

text \<open>\<open>(?:\?.*)?$\<close> on a stripped text: the end, or a query on one line.\<close>

definition query_or_end :: "string \<Rightarrow> bool" where
  "query_or_end r = (case r of [] \<Rightarrow> True | c # q \<Rightarrow> c = CHR ''?'' \<and> CHR 0x0A \<notin> set q)"

definition slash_query_end :: "string \<Rightarrow> bool" where
  "slash_query_end r \<longleftrightarrow>
     query_or_end r \<or> (case r of [] \<Rightarrow> False | c # r' \<Rightarrow> c = CHR ''/'' \<and> query_or_end r')"

definition after_scheme :: "string \<Rightarrow> string option" where
  "after_scheme s =
     (case after_ci ''https://'' s of Some r \<Rightarrow> Some r | None \<Rightarrow> after_ci ''http://'' s)"

definition base_app_here :: "string list \<Rightarrow> string \<Rightarrow> bool" where
  "base_app_here hosts s =
     (case after_scheme s of
        None \<Rightarrow> False
      | Some r \<Rightarrow> list_ex (\<lambda>h. case after_ci h r of None \<Rightarrow> False | Some r' \<Rightarrow> slash_query_end r') hosts)"

definition gemini_is_base_app_url :: "string \<Rightarrow> bool" where
  "gemini_is_base_app_url url =
     (let raw = strip url
      in if raw = '''' then False
         else if gemini_conversation_id_re raw \<noteq> None then False
         else base_app_here [''gemini.google.com/app''] raw)"

definition chatgpt_is_base_app_url :: "string \<Rightarrow> bool" where
  "chatgpt_is_base_app_url url =
     (let raw = strip url
      in if raw = '''' then False
         else if chatgpt_conversation_id_re raw \<noteq> None then False
         else base_app_here [''chatgpt.com'', ''chat.openai.com''] raw)"

definition gemini_is_thread_url :: "string \<Rightarrow> bool" where
  "gemini_is_thread_url url \<longleftrightarrow> gemini_conversation_id_re (strip url) \<noteq> None"

section \<open>The conversation of a URL\<close>

definition conversation_id :: "runtime \<Rightarrow> string \<Rightarrow> string option" where
  "conversation_id rt url =
     (let raw = strip url
      in if raw = '''' then None
         else case chatgpt_conversation_id_re raw of
                Some g \<Rightarrow> Some (lower g)
              | None \<Rightarrow>
           (case gemini_conversation_id_re raw of
              Some g \<Rightarrow> Some (lower g)
            | None \<Rightarrow>
           (case qwen_conversation_id_re raw of
              Some g \<Rightarrow> Some (lower g)
            | None \<Rightarrow>
                if chatgpt_url_host raw \<or> gemini_url_host raw \<or> qwen_url_host raw then None
                else Some (take 32 (rt_sha256 rt raw)))))"

definition url_platform :: "string \<Rightarrow> string option" where
  "url_platform url =
     (let raw = strip url
      in if raw = '''' then None
         else if gemini_url_host raw then Some ''gemini''
         else if qwen_url_host raw then Some ''qwen''
         else if chatgpt_url_host raw then Some ''chatgpt''
         else None)"

text \<open>\<open>_validate_conversation_url_for_kind\<close>: \<open>None\<close> for no objection.\<close>

definition validate_conversation_url_for_kind :: "string \<Rightarrow> string \<Rightarrow> exn option" where
  "validate_conversation_url_for_kind kind conversation_url =
     (let url = strip conversation_url
      in if url = '''' then None
         else let platform = url_platform url;
                  k = strip kind;
                  provider = provider_id_for_kind (Some k)
              in if platform = Some ''gemini'' \<and> provider = Some ''chatgpt''
                 then Some (ValueError (''conversation_url host looks like Gemini ('' @ url @
                        ''); cannot use kind='' @ k @
                        ''. Use kind=gemini_web.ask (or chatgptrest_gemini_ask_submit).''))
                 else if platform = Some ''chatgpt'' \<and> provider = Some ''gemini''
                 then Some (ValueError (''conversation_url host looks like ChatGPT ('' @ url @
                        ''); cannot use kind='' @ k @
                        ''. Use kind=chatgpt_web.ask (or chatgptrest_chatgpt_ask_submit).''))
                 else if platform = Some ''qwen'' \<and> (provider = Some ''chatgpt'' \<or> provider = Some ''gemini'')
                 then Some (ValueError (''conversation_url host looks like Qwen ('' @ url @
                        ''); cannot use kind='' @ k @
                        ''. Qwen threads are retired; use a ChatGPT or Gemini conversation instead.''))
                 else if (platform = Some ''chatgpt'' \<or> platform = Some ''gemini'') \<and> provider = Some ''qwen''
                 then Some (ValueError (''conversation_url host is not Qwen ('' @ url @
                        ''); cannot use kind='' @ k @
                        ''. qwen_web.ask has been retired and is no longer available.''))
                 else None)"

section \<open>Facts\<close>

lemma conversation_id_strip [simp]: "conversation_id rt (strip url) = conversation_id rt url"
  by (simp add: conversation_id_def)

lemma conversation_id_Nil [simp]: "conversation_id rt [] = None"
  by (simp add: conversation_id_def)

text \<open>A recognised host without a thread id never becomes a key.\<close>

lemma conversation_id_known_host:
  assumes "chatgpt_url_host (strip url) \<or> gemini_url_host (strip url) \<or> qwen_url_host (strip url)"
    and "conversation_id rt url = Some cid"
  shows "\<exists>g. cid = lower g \<and> (chatgpt_conversation_id_re (strip url) = Some g
           \<or> gemini_conversation_id_re (strip url) = Some g
           \<or> qwen_conversation_id_re (strip url) = Some g)"
  using assms by (auto simp: conversation_id_def Let_def split: if_splits option.splits)

lemma fixed_id_exact:
  "length g = n \<Longrightarrow> list_all p g \<Longrightarrow> fixed_id p n (g @ rest) = Some g"
  by (simp add: fixed_id_def)

text \<open>Inside the known prefix of a ChatGPT thread URL there is no earlier match.\<close>

lemma chatgpt_thread_id:
  assumes "length g = 36" and "list_all hex_dash_char g"
  shows "chatgpt_conversation_id_re (''https://chatgpt.com/c/'' @ g @ rest) = Some g"
proof -
  have here: "chatgpt_id_here (CHR ''/'' # CHR ''c'' # CHR ''/'' # g @ rest) = Some g"
    using fixed_id_exact [OF assms]
    by (simp add: chatgpt_id_here_def after_ci_def lower_def lower_char_def)
  then show ?thesis
    by (simp add: chatgpt_conversation_id_re_def chatgpt_id_here_def after_ci_def lower_def
        lower_char_def)
qed

section \<open>Properties\<close>

lemma chatgpt_thread_key:
  assumes "length g = 36" and "list_all hex_dash_char g"
  shows "conversation_id rt (''https://chatgpt.com/c/'' @ g @ rest) = Some (lower g)"
proof -
  have edge: "\<not> py_space (last (''https://chatgpt.com/c/'' @ g))"
  proof -
    have "g \<noteq> []" using assms(1) by auto
    then have "hex_dash_char (last g)" using assms(2) by (simp add: list_all_iff)
    then show ?thesis using \<open>g \<noteq> []\<close>
      by (auto simp: hex_dash_char_def hex_char_def py_space_code)
  qed
  have "\<not> py_space (hd (''https://chatgpt.com/c/'' @ g))" by (simp add: py_space_code)
  then have "strip ((''https://chatgpt.com/c/'' @ g) @ rest) =
      (''https://chatgpt.com/c/'' @ g) @ rev (dropWhile py_space (rev rest))"
    using edge by (intro strip_prefix) simp_all
  then have "strip (''https://chatgpt.com/c/'' @ g @ rest) =
      ''https://chatgpt.com/c/'' @ g @ rev (dropWhile py_space (rev rest))" by simp
  then show ?thesis
    using chatgpt_thread_id [OF assms] by (simp add: conversation_id_def Let_def)
qed

text \<open>Two URLs of one ChatGPT thread get one conversation id, whatever follows the
  thread id and in whatever letter case it is written.\<close>

theorem chatgpt_thread_has_one_id:
  assumes "length g = 36" and "list_all hex_dash_char g" and "length h = 36" and "list_all hex_dash_char h"
    and "lower g = lower h"
  shows "conversation_id rt (''https://chatgpt.com/c/'' @ g @ rest) =
         conversation_id rt (''https://chatgpt.com/c/'' @ h @ rest2)
    \<and> conversation_id rt (''https://chatgpt.com/c/'' @ g @ rest) = Some (lower g)"
  using chatgpt_thread_key [OF assms(1,2)] chatgpt_thread_key [OF assms(3,4)] assms(5) by simp

theorem chatgpt_thread_has_one_id_witness:
  "\<forall>rt. conversation_id rt ''https://chatgpt.com/c/0123456789abcdef0123456789abcdef0123?model=x'' =
   conversation_id rt ''https://chatgpt.com/c/0123456789ABCDEF0123456789ABCDEF0123''"
proof -
  let ?g = "''0123456789abcdef0123456789abcdef0123''" and ?h = "''0123456789ABCDEF0123456789ABCDEF0123''"
  have "list_all hex_dash_char ?g" "list_all hex_dash_char ?h" "lower ?g = lower ?h" by code_simp+
  then show ?thesis
    using chatgpt_thread_has_one_id [of ?g ?h _ "''?model=x''" "''''"] by simp
qed

end
