(* ===== verification/Lease.thy ===== *)
theory Lease
  imports Results ConversationUrl
begin

text \<open>
  What else a worker does with a job it holds: renew the lease, note the conversation the
  job runs in, store the export of that conversation (\<open>renew_lease\<close>,
  \<open>set_conversation_url\<close>, \<open>store_conversation_export_result\<close> of
  \<open>core/job_store.py\<close>).
\<close>

section \<open>Operations\<close>

definition lease_payload :: "string \<Rightarrow> real \<Rightarrow> string \<Rightarrow> json" where
  "lease_payload worker expires token =
     JObj [(''worker_id'', JStr worker), (''lease_expires_at'', JReal expires), (''lease_token'', JStr token)]"

definition renew_lease ::
    "clock \<Rightarrow> string \<Rightarrow> string \<Rightarrow> string \<Rightarrow> int \<Rightarrow> world \<Rightarrow> (bool, world) outcome" where
  "renew_lease t jid worker token ttl w =
     (let now = t 0;
          expires = now + real_of_int ttl;
          guard = running_lease_where jid worker token now;
          changed = count_jobs guard w
      in if changed = 0 then (Inr False, w)
         else let w1 = update_jobs guard
                         (Assign None False [U_lease_expires_at (Some expires), U_updated_at now]) w
              in (Inr True, record_event (t 1) jid ''lease_renewed'' (lease_payload worker expires token) w1))"

text \<open>The update the three ways of noting a conversation share.\<close>

definition assign_conversation ::
    "runtime \<Rightarrow> clock \<Rightarrow> string \<Rightarrow> string \<Rightarrow> string \<Rightarrow> string \<Rightarrow> string \<Rightarrow> string \<Rightarrow> json \<Rightarrow>
      world \<Rightarrow> (job, world) outcome" where
  "assign_conversation rt t jid worker token url verb event payload w =
     (let now = t 0;
          guard = running_lease_where jid worker token now;
          changed = count_jobs guard w
      in if changed = 0
         then (Inl (LeaseLost (''lease lost (cannot '' @ verb @ '' conversation_url)'')), w)
         else let w1 = update_jobs guard
                         (Assign None False [U_conversation_url (Some url),
                            U_conversation_id (conversation_id rt url), U_updated_at now]) w;
                  w2 = record_event (t 1) jid event payload w1
              in (reread jid w2, w2))"

definition url_change_payload :: "string \<Rightarrow> string \<Rightarrow> string \<Rightarrow> string \<Rightarrow> json" where
  "url_change_payload existing url worker token =
     JObj [(''existing_conversation_url'', JStr existing), (''new_conversation_url'', JStr url),
           (''worker_id'', JStr worker), (''lease_token'', JStr token)]"

definition can_rebind_gemini_thread :: "job \<Rightarrow> string \<Rightarrow> string \<Rightarrow> bool" where
  "can_rebind_gemini_thread job existing url \<longleftrightarrow>
     lower (strip (j_kind job)) = ''gemini_web.ask''
     \<and> gemini_is_thread_url existing \<and> gemini_is_thread_url url"

definition can_upgrade_url :: "string \<Rightarrow> string \<Rightarrow> bool" where
  "can_upgrade_url existing url \<longleftrightarrow>
     (gemini_is_base_app_url existing \<and> gemini_conversation_id_re url \<noteq> None)
     \<or> (chatgpt_is_base_app_url existing \<and> chatgpt_conversation_id_re url \<noteq> None)"

text \<open>\<open>existing_id and new_id and existing_id == new_id\<close>.\<close>

definition same_conversation :: "runtime \<Rightarrow> string \<Rightarrow> string \<Rightarrow> bool" where
  "same_conversation rt a b \<longleftrightarrow>
     or_empty (conversation_id rt a) \<noteq> '''' \<and> conversation_id rt a = conversation_id rt b"

definition set_conversation_url ::
    "runtime \<Rightarrow> clock \<Rightarrow> string \<Rightarrow> string \<Rightarrow> string \<Rightarrow> string \<Rightarrow> world \<Rightarrow> (job, world) outcome" where
  "set_conversation_url rt t jid worker token conversation_url w =
     (case get_job jid w of
        None \<Rightarrow> (Inl (KeyError jid), w)
      | Some job \<Rightarrow>
          (let url = strip conversation_url
           in if url = '''' then (Inl (ValueError ''conversation_url is empty''), w)
              else let existing = strip (or_empty (j_conversation_url job));
                       changes = url_change_payload existing url worker token
                   in if existing = ''''
                      then assign_conversation rt t jid worker token url ''set'' ''conversation_url_set''
                             (JObj [(''conversation_url'', JStr url),
                                    (''conversation_id'', jopt (conversation_id rt url)),
                                    (''worker_id'', JStr worker), (''lease_token'', JStr token)]) w
                      else if existing = url then (Inr job, w)
                      else if same_conversation rt existing url then (Inr job, w)
                      else if can_rebind_gemini_thread job existing url
                      then assign_conversation rt t jid worker token url ''rebind gemini''
                             ''conversation_url_rebound'' changes w
                      else if can_upgrade_url existing url
                      then assign_conversation rt t jid worker token url ''upgrade''
                             ''conversation_url_upgraded'' changes w
                      else (Inr job, record_event (t 0) jid ''conversation_url_conflict'' changes w)))"

definition store_conversation_export_result ::
    "clock \<Rightarrow> string \<Rightarrow> string \<Rightarrow> string option \<Rightarrow> int option \<Rightarrow> string \<Rightarrow> world \<Rightarrow> (job, world) outcome" where
  "store_conversation_export_result t jid export_path sha256 chars0 fmt0 w =
     (case get_job jid w of
        None \<Rightarrow> (Inl (KeyError jid), w)
      | Some job \<Rightarrow>
          (let path = strip export_path
           in if path = '''' then (Inl (ValueError ''conversation_export_path is empty''), w)
              else let sha = or_none (strip (or_empty sha256));
                       chars = (case chars0 of None \<Rightarrow> 0 | Some n \<Rightarrow> n);
                       fmt = text_or (lower (strip (text_or fmt0 ''json''))) ''json''
                   in if sha \<noteq> None \<and> j_export_sha256 job = sha \<and> j_export_path job = Some path
                      then (Inr job, w)
                      else let w1 = update_jobs (\<lambda>j. j_id j = jid \<and> True)
                                      (Assign None False
                                        [U_export_format (Some fmt), U_export_path (Some path),
                                         U_export_sha256 sha, U_export_chars (Some chars),
                                         U_updated_at (t 0)]) w;
                               w2 = record_event (t 1) jid ''conversation_exported''
                                      (JObj [(''conversation_export_format'', JStr fmt),
                                             (''conversation_export_path'', JStr path),
                                             (''conversation_export_sha256'', jopt sha),
                                             (''conversation_export_chars'', JInt chars)]) w1
                           in (reread jid w2, w2)))"

section \<open>Guarded updates\<close>

text \<open>What a worker must be to change a job: its lease holder, in time, on a running job.\<close>

definition holds_lease :: "string \<Rightarrow> string \<Rightarrow> real \<Rightarrow> job \<Rightarrow> bool" where
  "holds_lease worker token now j \<longleftrightarrow>
     j_status j = IN_PROGRESS \<and> owns_lease worker token j \<and> lease_unexpired now j"

lemma running_lease_where_eq:
  "running_lease_where jid worker token now = (\<lambda>j. j_id j = jid \<and> holds_lease worker token now j)"
  by (simp add: fun_eq_iff running_lease_where_def holds_lease_def)

lemma running_lease_0:
  "ids_distinct w \<Longrightarrow> count_jobs (running_lease_where jid worker token now) w = 0 \<longleftrightarrow>
     (case get_job jid w of None \<Rightarrow> True | Some j \<Rightarrow> \<not> holds_lease worker token now j)"
  by (simp only: running_lease_where_eq count_jobs_id_0)

text \<open>An update guarded by a job id changes that job, if it satisfies the guard, and no other.\<close>

lemma update_one:
  assumes "get_job jid w = Some job"
  shows "get_job i (update_jobs (\<lambda>r. j_id r = jid \<and> P r) s w) =
           (if i = jid then Some (if P job then run_statement s job else job) else get_job i w)"
proof (cases "i = jid")
  case True
  with assms get_job_id [OF assms] show ?thesis by (simp add: store_simps)
next
  case False
  then have "j_id r \<noteq> jid" if "get_job i w = Some r" for r
    using get_job_id [OF that] by simp
  with False show ?thesis by (cases "get_job i w") (simp_all add: store_simps)
qed

lemma update_one_lease:
  assumes "get_job jid w = Some job" and "holds_lease worker token now job"
  shows "get_job i (update_jobs (running_lease_where jid worker token now) s w) =
           (if i = jid then Some (run_statement s job) else get_job i w)"
  by (simp only: running_lease_where_eq update_one [OF assms(1)] assms(2) if_True)

section \<open>Noting a conversation\<close>

lemma assign_conversation_returned:
  assumes "ids_distinct w" and "get_job jid w = Some job"
    and "assign_conversation rt t jid worker token url v e p w = (Inr j', w')"
  shows "j_conversation_url j' = Some url \<and> j_conversation_id j' = conversation_id rt url
    \<and> holds_lease worker token (t 0) job"
proof -
  define guard where "guard = running_lease_where jid worker token (t 0)"
  define s where "s = Assign None False
      [U_conversation_url (Some url), U_conversation_id (conversation_id rt url), U_updated_at (t 0)]"
  have count: "count_jobs guard w \<noteq> 0"
    using assms(3) by (auto simp: assign_conversation_def guard_def Let_def split: if_splits)
  then have lease: "holds_lease worker token (t 0) job"
    using running_lease_0 [OF assms(1), of jid worker token "t 0"] assms(2) by (simp add: guard_def)
  have "get_job jid (update_jobs guard s w) = Some (run_statement s job)"
    unfolding guard_def update_one_lease [OF assms(2) lease] by simp
  then have "j' = run_statement s job"
    using assms(3) count
    by (auto simp: assign_conversation_def Let_def guard_def [symmetric] s_def [symmetric] reread_def
        get_job_sel split: option.splits)
  then show ?thesis using lease by (simp add: s_def)
qed

end
