(* ===== verification/Fence.thy ===== *)
theory Fence
  imports Lease
begin

text \<open>
  The contract of the operations a worker runs on a job it holds
  (\<open>leased_operation\<close>): such an operation changes nothing in the table unless at one
  of its clock readings the caller holds the lease of the running job, and then it takes
  that one job one step of its life. Interpreted on \<open>renew_lease\<close>,
  \<open>set_conversation_url\<close>, \<open>release_for_wait\<close>, \<open>store_error_result\<close>,
  \<open>store_retryable_result\<close>, \<open>store_canceled_result\<close> and
  \<open>store_answer_result\<close>.
\<close>

section \<open>The life of a job\<close>

text \<open>What of a row the queue depends on.\<close>

record life =
  l_status :: job_status
  l_phase :: phase
  l_holder :: "(string \<times> string) option"
  l_expires :: "real option"
  l_attempts :: int
  l_max :: int

definition life_of :: "job \<Rightarrow> life" where
  "life_of j =
     \<lparr>l_status = j_status j, l_phase = j_phase j,
      l_holder = (case (j_lease_owner j, j_lease_token j) of
                    (Some w, Some k) \<Rightarrow> Some (w, k) | _ \<Rightarrow> None),
      l_expires = j_lease_expires_at j, l_attempts = j_attempts j, l_max = j_max_attempts j\<rparr>"

text \<open>The allowance a failing send may be given: one attempt more than were used.\<close>

definition allowance :: "life \<Rightarrow> int \<Rightarrow> bool" where
  "allowance l m \<longleftrightarrow>
     m = l_max l \<or> (0 < l_max l \<and> l_max l \<le> l_attempts l \<and> l_max l < m \<and> m \<le> l_attempts l + 1)"

inductive work_step :: "life \<Rightarrow> life \<Rightarrow> bool" where
  renewed: "work_step l (l\<lparr>l_expires := Some e\<rparr>)"
| released: "work_step l (l\<lparr>l_phase := Wait, l_holder := None, l_expires := None\<rparr>)"
| finished: "d \<notin> {QUEUED, IN_PROGRESS} \<Longrightarrow> work_step l (l\<lparr>l_status := d\<rparr>)"
| put_off: "d \<in> set error_statuses \<Longrightarrow> allowance l m \<Longrightarrow>
     work_step l (l\<lparr>l_status := d, l_phase := p, l_max := m\<rparr>)"

text \<open>The columns that say which request a row is never change.\<close>

definition same_request :: "job \<Rightarrow> job \<Rightarrow> bool" where
  "same_request j j' \<longleftrightarrow>
     j_id j' = j_id j \<and> j_kind j' = j_kind j \<and> j_input j' = j_input j \<and> j_params j' = j_params j
     \<and> j_created_at j' = j_created_at j \<and> j_parent_job_id j' = j_parent_job_id j"

definition work_effect :: "job \<Rightarrow> job \<Rightarrow> bool" where
  "work_effect j j' \<longleftrightarrow>
     same_request j j' \<and> (life_of j' = life_of j \<or> work_step (life_of j) (life_of j'))"

lemma same_request_apply_updates [simp]: "same_request j (apply_updates us j')  = same_request j j'"
  by (simp add: same_request_def)

lemma same_request_status [simp]: "same_request j (j'\<lparr>j_status := s\<rparr>) = same_request j j'"
  by (simp add: same_request_def)

lemma same_request_refl [simp]: "same_request j j"
  by (simp add: same_request_def)

lemma same_request_trans: "same_request a b \<Longrightarrow> same_request b c \<Longrightarrow> same_request a c"
  by (simp add: same_request_def)

lemma same_request_moved [simp]: "same_request j (moved now dst us j)"
  by (simp add: same_request_def moved_def)

section \<open>One change of one row\<close>

definition changes_row :: "string \<Rightarrow> job \<Rightarrow> job list \<Rightarrow> job list \<Rightarrow> bool" where
  "changes_row jid job' rows rows' \<longleftrightarrow>
     (\<forall>i. row_get j_id i rows' = (if i = jid then Some job' else row_get j_id i rows))"

definition leased_change ::
    "clock \<Rightarrow> string \<Rightarrow> string \<Rightarrow> string \<Rightarrow> job list \<Rightarrow> job list \<Rightarrow> bool" where
  "leased_change t jid worker token rows rows' \<longleftrightarrow>
     keys_distinct j_id rows' \<and>
     (rows' = rows \<or>
      (\<exists>k job job'. row_get j_id jid rows = Some job \<and> holds_lease worker token (t k) job
         \<and> work_effect job job' \<and> changes_row jid job' rows rows'))"

lemma leased_change_refl: "ids_distinct w \<Longrightarrow> leased_change t jid worker token (jobs w) (jobs w)"
  by (simp add: leased_change_def ids_distinct_def)

lemma leased_change_later:
  "leased_change (later n t) jid worker token rows rows' \<Longrightarrow> leased_change t jid worker token rows rows'"
  by (auto simp: leased_change_def later_def)

lemma leased_changeI:
  assumes "ids_distinct w'" and "get_job jid w = Some job" and "holds_lease worker token (t k) job"
    and "work_effect job job'" and "\<And>i. get_job i w' = (if i = jid then Some job' else get_job i w)"
  shows "leased_change t jid worker token (jobs w) (jobs w')"
  using assms unfolding leased_change_def ids_distinct_def changes_row_def get_job_def by blast

text \<open>A statement under the lease guard.\<close>

lemma lease_update_change:
  fixes w w' :: world
  assumes "ids_distinct w" and "count_jobs (running_lease_where jid worker token (t k)) w \<noteq> 0"
    and "\<And>job. get_job jid w = Some job \<Longrightarrow> work_effect job (run_statement s job)"
    and "jobs w' = jobs (update_jobs (running_lease_where jid worker token (t k)) s w)"
  shows "leased_change t jid worker token (jobs w) (jobs w')"
proof -
  from assms(1,2) obtain job where job: "get_job jid w = Some job" "holds_lease worker token (t k) job"
    by (auto simp: running_lease_0 split: option.splits)
  have same: "get_job i w' = get_job i (update_jobs (running_lease_where jid worker token (t k)) s w)" for i
    by (rule get_job_same_jobs) (rule assms(4))
  have "ids_distinct w'"
    using assms(1,4) by (simp add: ids_distinct_def store_simps)
  then show ?thesis
    by (rule leased_changeI [where w = w and t = t and k = k and job = job
          and job' = "run_statement s job"])
       (use job assms(3) [OF job(1)] in \<open>simp_all only: same update_one_lease [OF job]\<close>)
qed

text \<open>A transition a worker asks for.\<close>

lemma transition_change:
  assumes "ids_distinct w" and "get_job jid w = Some job" and "j_status job = IN_PROGRESS"
    and "disallowed_key us = None \<Longrightarrow> work_effect job (moved (t 0) dst us job)"
    and "transition t jid dst us (Some worker) (Some token) True w = (r, w')"
  shows "leased_change t jid worker token (jobs w) (jobs w')"
  using assms(1)
proof (cases rule: transition_cases [where t = t and jid = jid and dst = dst and updates = us
      and owner = "Some worker" and token = "Some token" and live = True])
  case (raised e)
  then show ?thesis using assms by (simp add: leased_change_refl)
next
  case (moves job' w2)
  from moves(1) assms(2) have [simp]: "job' = job" by simp
  from moves(2) have ok: "transition_ok dst us (Some worker) (Some token) True (t 1) job" by simp
  have w': "w' = w2" using moves(3) assms(5) by simp
  show ?thesis
  proof (rule leased_changeI [where t = t and k = 1 and job = job and job' = "moved (t 0) dst us job"])
    show "get_job jid w = Some job" by (rule assms(2))
  next
    show "ids_distinct w'" using assms(1) by (simp add: w' moves(4) store_simps)
    show "holds_lease worker token (t 1) job"
      using ok assms(3) by (simp add: transition_ok_def holds_lease_def expected_lease_ok_def)
    show "work_effect job (moved (t 0) dst us job)"
      using ok by (intro assms(4)) (simp add: transition_ok_def)
    show "get_job i w' = (if i = jid then Some (moved (t 0) dst us job) else get_job i w)" for i
      by (simp only: w' moves(4) transition_events_sel transition_rows [OF assms(1,2) ok] \<open>job' = job\<close>)
  qed
qed

section \<open>The contract\<close>

locale leased_operation =
  fixes run :: "clock \<Rightarrow> string \<Rightarrow> string \<Rightarrow> string \<Rightarrow> world \<Rightarrow> 'r \<times> world"
  assumes run_change:
    "ids_distinct w \<Longrightarrow> leased_change t jid worker token (jobs w) (jobs (snd (run t jid worker token w)))"
begin

text \<open>Without the lease, nothing in the table changes.\<close>

lemma fence:
  assumes "ids_distinct w"
    and "\<And>job k. get_job jid w = Some job \<Longrightarrow> \<not> holds_lease worker token (t k) job"
  shows "jobs (snd (run t jid worker token w)) = jobs w"
  using run_change [OF assms(1), of t jid worker token] assms(2)
  by (auto simp: leased_change_def get_job_def)

lemma run_distinct: "ids_distinct w \<Longrightarrow> ids_distinct (snd (run t jid worker token w))"
  using run_change [of w t jid worker token] by (simp add: leased_change_def ids_distinct_def)

text \<open>No other job changes.\<close>

lemma frame:
  assumes "ids_distinct w" and "i \<noteq> jid"
  shows "get_job i (snd (run t jid worker token w)) = get_job i w"
  using run_change [OF assms(1), of t jid worker token] assms(2)
  by (auto simp: leased_change_def get_job_def changes_row_def)

lemma job_effect:
  assumes "ids_distinct w" and "get_job jid w = Some job"
  shows "\<exists>job'. get_job jid (snd (run t jid worker token w)) = Some job'
     \<and> (job' = job \<or> (\<exists>k. holds_lease worker token (t k) job) \<and> work_effect job job')"
proof (cases "jobs (snd (run t jid worker token w)) = jobs w")
  case True
  then show ?thesis using assms(2) get_job_same_jobs [OF True] by simp
next
  case False
  then obtain k job' where "holds_lease worker token (t k) job" "work_effect job job'"
    and "changes_row jid job' (jobs w) (jobs (snd (run t jid worker token w)))"
    using run_change [OF assms(1), of t jid worker token] assms(2)
    unfolding leased_change_def get_job_def by auto
  then show ?thesis by (auto simp: changes_row_def get_job_def)
qed

text \<open>
  A worker whose lease is gone may call as often as it likes: as long as somebody else's
  token is on the job, the job stays as it is.
\<close>

definition run_all :: "(clock \<times> string \<times> string) list \<Rightarrow> string \<Rightarrow> world \<Rightarrow> world" where
  "run_all calls jid w = fold (\<lambda>(t, worker, token) w. snd (run t jid worker token w)) calls w"

lemma stale_calls:
  assumes "ids_distinct w" and "get_job jid w = Some job"
    and "\<forall>(t, worker, token) \<in> set calls. \<not> owns_lease worker token job"
  shows "jobs (run_all calls jid w) = jobs w"
  using assms
proof (induction calls arbitrary: w)
  case Nil
  then show ?case by (simp add: run_all_def)
next
  case (Cons c calls)
  obtain t worker token where c: "c = (t, worker, token)" by (cases c)
  let ?w = "snd (run t jid worker token w)"
  have same: "jobs ?w = jobs w"
    using Cons.prems by (intro fence) (auto simp: c holds_lease_def)
  have "jobs (run_all calls jid ?w) = jobs ?w"
  proof (rule Cons.IH)
    show "ids_distinct ?w" using Cons.prems(1) by (rule run_distinct)
    show "get_job jid ?w = Some job"
      using Cons.prems(2) get_job_same_jobs [OF same] by simp
    show "\<forall>(t, worker, token) \<in> set calls. \<not> owns_lease worker token job"
      using Cons.prems(3) by simp
  qed
  with same show ?case by (simp add: run_all_def c)
qed

end

end
