(* ===== verification/WorkerOps.thy ===== *)
theory WorkerOps
  imports Fence
begin

text \<open>
  The operations of a worker keep the contract \<open>leased_operation\<close>: one interpretation
  per operation of \<open>core/job_store.py\<close> that takes a worker id and a lease token.
\<close>

section \<open>Effects of the assignments\<close>

lemma life_of_simps [simp]:
  "life_of (j\<lparr>j_updated_at := x1\<rparr>) = life_of j"
  "life_of (j\<lparr>j_not_before := x1\<rparr>) = life_of j"
  "life_of (j\<lparr>j_cancel_requested_at := x2\<rparr>) = life_of j"
  "life_of (j\<lparr>j_last_error_type := x3\<rparr>) = life_of j"
  "life_of (j\<lparr>j_last_error := x3\<rparr>) = life_of j"
  "life_of (j\<lparr>j_conversation_url := x3\<rparr>) = life_of j"
  "life_of (j\<lparr>j_conversation_id := x3\<rparr>) = life_of j"
  "life_of (j\<lparr>j_answer_path := x3\<rparr>) = life_of j"
  "life_of (j\<lparr>j_answer_sha256 := x3\<rparr>) = life_of j"
  "life_of (j\<lparr>j_answer_format := x3\<rparr>) = life_of j"
  "life_of (j\<lparr>j_answer_chars := x4\<rparr>) = life_of j"
  "life_of (j\<lparr>j_status := s\<rparr>) = (life_of j)\<lparr>l_status := s\<rparr>"
  "life_of (j\<lparr>j_phase := p\<rparr>) = (life_of j)\<lparr>l_phase := p\<rparr>"
  "life_of (j\<lparr>j_max_attempts := m\<rparr>) = (life_of j)\<lparr>l_max := m\<rparr>"
  "life_of (j\<lparr>j_lease_expires_at := e\<rparr>) = (life_of j)\<lparr>l_expires := e\<rparr>"
  by (simp_all add: life_of_def)

lemma life_of_sel [simp]:
  "l_status (life_of j) = j_status j" "l_phase (life_of j) = j_phase j"
  "l_attempts (life_of j) = j_attempts j" "l_max (life_of j) = j_max_attempts j"
  "l_expires (life_of j) = j_lease_expires_at j"
  by (simp_all add: life_of_def)

text \<open>A status is left and no other column of the life.\<close>

lemma effect_finished:
  "d \<notin> {QUEUED, IN_PROGRESS} \<Longrightarrow> life_of (moved now d us j) = (life_of j)\<lparr>l_status := d\<rparr> \<Longrightarrow>
     work_effect j (moved now d us j)"
  by (simp add: work_effect_def work_step.finished)

text \<open>A put-off job: its phase as it was or as told, its allowance within bounds.\<close>

lemma moved_retry:
  "life_of (moved now d (retry_updates job nb et msg ext pa) job) =
     (life_of job)\<lparr>l_status := d,
       l_phase := (case pa of None \<Rightarrow> j_phase job | Some p \<Rightarrow> p),
       l_max := (case ext of None \<Rightarrow> j_max_attempts job
                  | Some n \<Rightarrow> if n > j_max_attempts job then n else j_max_attempts job)\<rparr>"
  by (cases ext; cases pa) (simp_all add: moved_def retry_updates_def)

lemma effect_put_off:
  assumes "d \<in> set error_statuses"
    and "\<And>n. ext = Some n \<Longrightarrow> j_max_attempts job < n \<Longrightarrow> allowance (life_of job) n"
  shows "work_effect job (moved now d (retry_updates job nb et msg ext pa) job)"
proof -
  have "allowance (life_of job) (case ext of None \<Rightarrow> j_max_attempts job
          | Some n \<Rightarrow> if n > j_max_attempts job then n else j_max_attempts job)"
    using assms(2) by (auto simp: allowance_def [where m = "j_max_attempts job"] split: option.splits)
  then show ?thesis
    using work_step.put_off [OF assms(1)] by (simp add: work_effect_def moved_retry)
qed

lemma extension_allowance:
  assumes "extension_decision rt job et msg w = (g, Some n)" and "attempts_used_up ph job"
    and "j_max_attempts job < n"
  shows "allowance (life_of job) n"
proof -
  from assms(1) have "n \<le> max (j_max_attempts job + 1) (j_attempts job + 1)"
    by (auto simp: extension_decision_def Let_def split: if_splits)
  with assms(2,3) show ?thesis
    by (auto simp: allowance_def attempts_used_up_def)
qed

section \<open>The transition-based operations\<close>

lemma store_error_change:
  assumes "ids_distinct w"
  shows "leased_change t jid worker token (jobs w)
           (jobs (snd (store_error_result rt ledger t jid worker token ety error status w)))"
proof (cases "get_job jid w")
  case None
  then show ?thesis using assms by (simp add: store_error_result_def leased_change_refl)
next
  case (Some job)
  obtain et msg where n: "normalize_error_fields ety error = (et, msg)" by fastforce
  let ?us = "[U_last_error_type (Some et), U_last_error (Some msg)]"
  show ?thesis
  proof (cases "j_status job = IN_PROGRESS \<and> \<not> (status \<noteq> ERROR \<and> status \<notin> set error_statuses)
      \<and> \<not> (j_status job = status \<and> j_last_error_type job = Some et \<and> j_last_error job = Some msg)")
    case False
    then show ?thesis
      using assms Some n by (auto simp: store_error_result_def leased_change_refl)
  next
    case True
    obtain r w1 where tr: "transition t jid status ?us (Some worker) (Some token) True w = (r, w1)"
      by fastforce
    have "status \<notin> {QUEUED, IN_PROGRESS}"
      using True by (auto simp: error_statuses_def)
    then have "leased_change t jid worker token (jobs w) (jobs w1)"
      using True by (intro transition_change [OF assms Some _ _ tr] effect_finished)
        (simp_all add: moved_def)
    moreover have "jobs (snd (store_error_result rt ledger t jid worker token ety error status w)) = jobs w1"
      using True Some n tr
      by (auto simp: store_error_result_def auto_report_def Let_def store_simps split: sum.splits option.splits)
    ultimately show ?thesis by simp
  qed
qed

interpretation error_op: leased_operation
    "\<lambda>t jid worker token. store_error_result rt ledger t jid worker token ety error status"
  for rt ledger ety error status
  by unfold_locales (rule store_error_change)

lemma store_canceled_change:
  assumes "ids_distinct w"
  shows "leased_change t jid worker token (jobs w)
           (jobs (snd (store_canceled_result t jid worker token reason w)))"
proof (cases "get_job jid w")
  case None
  then show ?thesis using assms by (simp add: store_canceled_result_def leased_change_refl)
next
  case (Some job)
  show ?thesis
  proof (cases "j_status job = IN_PROGRESS")
    case False
    then show ?thesis
      using assms Some by (simp add: store_canceled_result_def leased_change_refl)
  next
    case True
    let ?r = "or_none (or_empty reason)"
    let ?us = "[U_cancel_requested_at (Some (cancel_time (t 0) job)),
                U_last_error_type (case ?r of None \<Rightarrow> None | Some _ \<Rightarrow> Some ''Canceled''), U_last_error ?r]"
    obtain r w1 where tr: "transition (later 1 t) jid CANCELED ?us (Some worker) (Some token) True w = (r, w1)"
      by fastforce
    have "leased_change (later 1 t) jid worker token (jobs w) (jobs w1)"
      using True by (intro transition_change [OF assms Some _ _ tr] effect_finished)
        (simp_all add: moved_def)
    moreover have "jobs (snd (store_canceled_result t jid worker token reason w)) = jobs w1"
      using True Some tr
      by (simp add: store_canceled_result_def store_simps split: sum.splits)
    ultimately show ?thesis by (metis leased_change_later)
  qed
qed

interpretation cancel_op: leased_operation
    "\<lambda>t jid worker token. store_canceled_result t jid worker token reason" for reason
  by unfold_locales (rule store_canceled_change)

lemma record_exhausted_jobs [store_simps]:
  "jobs (record_web_send_retry_exhausted_event ts job st ph et e tt g w) = jobs w"
  by (simp add: record_web_send_retry_exhausted_event_def store_simps)

lemma ids_distinct_same_jobs: "jobs w' = jobs w \<Longrightarrow> ids_distinct w' = ids_distinct w"
  by (simp add: ids_distinct_def)

lemma store_exhausted_change:
  assumes "ids_distinct w" and "j_id job = jid"
  shows "leased_change t jid worker token (jobs w)
           (jobs (snd (store_exhausted rt ledger t job worker token status ph et msg g w)))"
proof -
  have "\<exists>ty tx st w2. store_exhausted rt ledger t job worker token status ph et msg g w =
          store_error_result rt ledger (later 2 t) jid worker token ty tx st w2 \<and> jobs w2 = jobs w"
    unfolding store_exhausted_def Let_def assms(2)
    by (intro exI conjI, rule refl) (simp add: store_simps split: option.splits)
  then obtain ty tx st w2 where
    eq: "store_exhausted rt ledger t job worker token status ph et msg g w =
           store_error_result rt ledger (later 2 t) jid worker token ty tx st w2"
    and same: "jobs w2 = jobs w"
    by blast
  have "ids_distinct w2"
    using assms(1) ids_distinct_same_jobs [OF same] by simp
  from store_error_change [OF this, of "later 2 t" jid worker token rt ledger ty tx st]
  show ?thesis by (simp add: eq same leased_change_later)
qed

lemma store_retry_change:
  assumes "ids_distinct w" and "get_job jid w = Some job" and "status \<in> set error_statuses"
    and "\<And>n. ext = Some n \<Longrightarrow> j_max_attempts job < n \<Longrightarrow> allowance (life_of job) n"
  shows "leased_change t jid worker token (jobs w)
           (jobs (snd (store_retry t job worker token status nb et msg pa ph ext w)))"
proof (cases "\<not> (j_status job = status \<and> j_not_before job = nb \<and> j_last_error_type job = Some et
      \<and> j_last_error job = Some msg) \<and> j_status job = IN_PROGRESS")
  case False
  then show ?thesis
    using assms(1) by (auto simp: store_retry_def leased_change_refl)
next
  case True
  obtain r w1 where tr: "transition t jid status (retry_updates job nb et msg ext pa)
      (Some worker) (Some token) True w = (r, w1)" by fastforce
  have "leased_change t jid worker token (jobs w) (jobs w1)"
    using True by (intro transition_change [OF assms(1,2) _ _ tr] effect_put_off assms(3,4)) simp_all
  moreover have "jobs (snd (store_retry t job worker token status nb et msg pa ph ext w)) = jobs w1"
    using True tr get_job_id [OF assms(2)]
    by (auto simp: store_retry_def Let_def store_simps split: sum.splits option.splits)
  ultimately show ?thesis by simp
qed

lemma store_retryable_change:
  assumes "ids_distinct w"
  shows "leased_change t jid worker token (jobs w)
           (jobs (snd (store_retryable_result rt ledger t jid worker token status nb ety error pa w)))"
proof (cases "status \<in> set error_statuses \<and> get_job jid w \<noteq> None")
  case False
  then show ?thesis
    using assms by (auto simp: store_retryable_result_def leased_change_refl)
next
  case True
  then obtain job where job: "get_job jid w = Some job" by blast
  obtain et msg where n: "normalize_error_fields ety error = (et, msg)" by fastforce
  define ph where "ph = (case pa of Some _ \<Rightarrow> normalize_db_phase pa | None \<Rightarrow> j_phase job)"
  obtain g ext where d: "(if attempts_used_up ph job then extension_decision rt job et msg w else (None, None)) = (g, ext)"
    by fastforce
  have ext: "allowance (life_of job) m" if "ext = Some m" "j_max_attempts job < m" for m
    using d that extension_allowance [of rt job et msg w g m ph] by (auto split: if_splits)
  have eq: "store_retryable_result rt ledger t jid worker token status nb ety error pa w =
    (if attempts_used_up ph job \<and> ext = None
     then store_exhausted rt ledger t job worker token status ph et msg g w
     else store_retry t job worker token status nb et msg
            (map_option (\<lambda>p. normalize_db_phase (Some p)) pa) ph ext w)"
    using True job n d by (simp add: store_retryable_result_def ph_def Let_def)
  show ?thesis
    unfolding eq using True ext
    by (auto intro!: store_exhausted_change [OF assms get_job_id [OF job]] store_retry_change [OF assms job])
qed

interpretation retry_op: leased_operation
    "\<lambda>t jid worker token. store_retryable_result rt ledger t jid worker token status nb ety error pa"
  for rt ledger status nb ety error pa
  by unfold_locales (rule store_retryable_change)

section \<open>The operations that update the row themselves\<close>

lemma effect_renewed: "work_effect j (run_statement (Assign None False [U_lease_expires_at (Some e), U_updated_at n]) j)"
  using work_step.renewed [of "life_of j" e] by (simp add: work_effect_def same_request_def)

lemma effect_released:
  "work_effect j (run_statement (Assign None False
     [U_phase Wait, U_not_before nb, U_lease_owner None, U_lease_expires_at None, U_lease_token None,
      U_updated_at n]) j)"
proof -
  have "life_of (run_statement (Assign None False
     [U_phase Wait, U_not_before nb, U_lease_owner None, U_lease_expires_at None, U_lease_token None,
      U_updated_at n]) j) = (life_of j)\<lparr>l_phase := Wait, l_holder := None, l_expires := None\<rparr>"
    by (simp add: life_of_def)
  then show ?thesis
    using work_step.released [of "life_of j"] by (simp add: work_effect_def same_request_def)
qed

lemma renew_change:
  assumes "ids_distinct w"
  shows "leased_change t jid worker token (jobs w) (jobs (snd (renew_lease t jid worker token ttl w)))"
proof (cases "count_jobs (running_lease_where jid worker token (t 0)) w = 0")
  case True
  then show ?thesis by (simp add: renew_lease_def Let_def leased_change_refl assms)
next
  case False
  show ?thesis
    by (rule lease_update_change [where t = t and k = 0 and
          s = "Assign None False [U_lease_expires_at (Some (t 0 + real_of_int ttl)), U_updated_at (t 0)]",
          OF assms False effect_renewed])
       (use False in \<open>simp add: renew_lease_def Let_def store_simps\<close>)
qed

interpretation renew_op: leased_operation "\<lambda>t jid worker token. renew_lease t jid worker token ttl" for ttl
  by unfold_locales (rule renew_change)

lemma release_change:
  assumes "ids_distinct w"
  shows "leased_change t jid worker token (jobs w) (jobs (snd (release_for_wait t jid worker token nb w)))"
proof (cases "count_jobs (running_lease_where jid worker token (t 0)) w = 0 \<or> get_job jid w = None")
  case True
  then show ?thesis
    by (auto simp: release_for_wait_def Let_def leased_change_refl assms split: option.splits)
next
  case False
  then obtain job where job: "get_job jid w = Some job" "holds_lease worker token (t 0) job"
    by (auto simp: running_lease_0 [OF assms])
  show ?thesis
    by (rule lease_update_change [where t = t and k = 0 and
          s = "Assign None False [U_phase Wait, U_not_before nb, U_lease_owner None,
                 U_lease_expires_at None, U_lease_token None, U_updated_at (t 0)]",
          OF assms _ effect_released])
       (use False job in \<open>simp_all add: release_for_wait_def holds_lease_def Let_def store_simps\<close>)
qed

interpretation release_op: leased_operation "\<lambda>t jid worker token. release_for_wait t jid worker token nb" for nb
  by unfold_locales (rule release_change)

lemma assign_conversation_change:
  assumes "ids_distinct w"
  shows "leased_change t jid worker token (jobs w)
           (jobs (snd (assign_conversation rt t jid worker token url v e p w)))"
proof (cases "count_jobs (running_lease_where jid worker token (t 0)) w = 0")
  case True
  then show ?thesis by (simp add: assign_conversation_def Let_def leased_change_refl assms)
next
  case False
  show ?thesis
    by (rule lease_update_change [where t = t and k = 0 and
          s = "Assign None False [U_conversation_url (Some url),
                 U_conversation_id (conversation_id rt url), U_updated_at (t 0)]", OF assms False])
       (use False in \<open>simp_all add: assign_conversation_def work_effect_def same_request_def Let_def store_simps\<close>)
qed

lemma set_url_change:
  assumes "ids_distinct w"
  shows "leased_change t jid worker token (jobs w)
           (jobs (snd (set_conversation_url rt t jid worker token url w)))"
  using assms
  by (auto simp: set_conversation_url_def Let_def leased_change_refl store_simps
      split: option.splits intro: assign_conversation_change)

interpretation url_op: leased_operation
    "\<lambda>t jid worker token. set_conversation_url rt t jid worker token url" for rt url
  by unfold_locales (rule set_url_change)

section \<open>Answers\<close>

lemma fold_frame: "(\<And>f x. f \<in> set fs \<Longrightarrow> g (f x) = g x) \<Longrightarrow> g (fold (\<lambda>f. f) fs w) = g w"
  by (induction fs arbitrary: w) simp_all

lemma fold_unlink_sel [store_simps]:
  "jobs (fold unlink ps w) = jobs w" "meta (fold unlink ps w) = meta w"
  "idempotency (fold unlink ps w) = idempotency w" "events (fold unlink ps w) = events w"
  by (induction ps arbitrary: w) (simp_all add: store_simps)

lemma publish_steps_sel:
  "f \<in> set (publish_steps t jid m s r c k) \<Longrightarrow>
     jobs (f w) = jobs w \<and> meta (f w) = meta w \<and> idempotency (f w) = idempotency w"
  by (auto simp: publish_steps_def store_simps)

lemma abort_publication_sel [store_simps]:
  "jobs (abort_publication n t jid m s r c k w) = jobs w"
  "meta (abort_publication n t jid m s r c k w) = meta w"
  "idempotency (abort_publication n t jid m s r c k w) = idempotency w"
  unfolding abort_publication_def Let_def store_simps
  by (rule fold_frame, blast dest: in_set_takeD publish_steps_sel)+

lemma publish_answer_sel [store_simps]:
  "jobs (publish_answer t jid m s r c k w) = jobs w"
  "get_job i (publish_answer t jid m s r c k w) = get_job i w"
  "meta (publish_answer t jid m s r c k w) = meta w"
  "idempotency (publish_answer t jid m s r c k w) = idempotency w"
  by (simp_all add: publish_answer_def publish_steps_def store_simps)

lemma moved_answer: "life_of (moved now COMPLETED (answer_updates m) j) = (life_of j)\<lparr>l_status := COMPLETED\<rparr>"
  by (simp add: moved_def answer_updates_def)

text \<open>What a worker writes before it asks for the final transition.\<close>

definition staged_contract :: "runtime \<Rightarrow> job \<Rightarrow> string \<Rightarrow> answer_meta \<Rightarrow> string \<Rightarrow> world \<Rightarrow> json" where
  "staged_contract rt job token m tx w =
     answer_contract rt job m (write_file (stage_path (am_path m) token) (FText tx) w)"

definition staged_canonical :: "runtime \<Rightarrow> job \<Rightarrow> string \<Rightarrow> answer_meta \<Rightarrow> string \<Rightarrow> world \<Rightarrow> json" where
  "staged_canonical rt job token m tx w =
     build_canonical_answer_record rt (JStr (status_value COMPLETED)) (JStr (am_format m))
       (staged_contract rt job token m tx w)"

definition staged_world :: "runtime \<Rightarrow> job \<Rightarrow> string \<Rightarrow> answer_meta \<Rightarrow> string \<Rightarrow> world \<Rightarrow> world" where
  "staged_world rt job token m tx w =
     write_file (stage_path (result_path (j_id job)) token)
       (FJson (answer_result_payload job m (staged_contract rt job token m tx w)
                 (staged_canonical rt job token m tx w)))
       (write_file (stage_path (am_path m) token) (FText tx) w)"

lemma staged_world_sel [store_simps]:
  "jobs (staged_world rt job token m tx w) = jobs w"
  "get_job i (staged_world rt job token m tx w) = get_job i w"
  "ids_distinct (staged_world rt job token m tx w) = ids_distinct w"
  "meta (staged_world rt job token m tx w) = meta w"
  "idempotency (staged_world rt job token m tx w) = idempotency w"
  by (simp_all add: staged_world_def store_simps)

lemma store_answer_running:
  assumes "get_job jid w = Some job" and "j_status job = IN_PROGRESS" and "token \<noteq> ''''"
    and "compute_answer_meta rt jid answer (Some fmt) = (m, tx)"
  shows "store_answer_result rt io t jid worker token answer fmt w =
    (case transition (later 2 t) jid COMPLETED (answer_updates m) (Some worker) (Some token) True
            (staged_world rt job token m tx w) of
       (Inl e, w3) \<Rightarrow>
         (Inl e, unlink (stage_path (result_path jid) token) (unlink (stage_path (am_path m) token) w3))
     | (Inr finalized, w3) \<Rightarrow>
         (case io of
            None \<Rightarrow> (Inr finalized, publish_answer t jid m (stage_path (am_path m) token)
              (stage_path (result_path jid) token) (staged_contract rt job token m tx w)
              (staged_canonical rt job token m tx w) w3)
          | Some k \<Rightarrow> (Inl (OSError ''publication failed''),
              abort_publication k t jid m (stage_path (am_path m) token)
              (stage_path (result_path jid) token) (staged_contract rt job token m tx w)
              (staged_canonical rt job token m tx w) w3)))"
  using assms get_job_id [OF assms(1)]
  by (simp add: store_answer_result_def write_answer_staged_def write_result_staged_def Let_def
      staged_world_def staged_canonical_def staged_contract_def split: sum.splits prod.splits option.splits)

lemma store_answer_change:
  assumes "ids_distinct w"
  shows "leased_change t jid worker token (jobs w)
           (jobs (snd (store_answer_result rt io t jid worker token answer fmt w)))"
proof (cases "token \<noteq> '''' \<and> (\<exists>job. get_job jid w = Some job \<and> j_status job = IN_PROGRESS)")
  case False
  then show ?thesis
    using assms
    by (auto simp: store_answer_result_def write_answer_staged_def Let_def leased_change_refl
        split: option.splits prod.splits)
next
  case True
  then obtain job where job: "get_job jid w = Some job" "j_status job = IN_PROGRESS" "token \<noteq> ''''"
    by blast
  obtain m tx where m: "compute_answer_meta rt jid answer (Some fmt) = (m, tx)" by fastforce
  let ?w2 = "staged_world rt job token m tx w"
  obtain r w3 where tr: "transition (later 2 t) jid COMPLETED (answer_updates m)
      (Some worker) (Some token) True ?w2 = (r, w3)" by fastforce
  have "leased_change (later 2 t) jid worker token (jobs ?w2) (jobs w3)"
  proof (rule transition_change [OF _ _ job(2) _ tr])
    show "work_effect job (moved (later 2 t 0) COMPLETED (answer_updates m) job)"
      by (rule effect_finished) (simp_all add: moved_answer)
  qed (simp_all add: store_simps assms job(1))
  then have "leased_change t jid worker token (jobs w) (jobs w3)"
    unfolding staged_world_sel by (rule leased_change_later)
  moreover have "jobs (snd (store_answer_result rt io t jid worker token answer fmt w)) = jobs w3"
    by (simp add: store_answer_running [OF job m] tr store_simps split: sum.splits option.splits)
  ultimately show ?thesis by simp
qed

interpretation answer_op: leased_operation
    "\<lambda>t jid worker token. store_answer_result rt io t jid worker token answer fmt" for rt io answer fmt
  by unfold_locales (rule store_answer_change)

section \<open>Results\<close>

lemma store_retry_returned:
  assumes "ids_distinct w" and "get_job jid w = Some job" and "j_status job = IN_PROGRESS"
    and "status \<in> set error_statuses"
    and "store_retry t job worker token status nb et msg pa ph ext w = (Inr j', w')"
  shows "j' = moved (t 0) status (retry_updates job nb et msg ext pa) job \<and> get_job jid w' = Some j'
    \<and> holds_lease worker token (t 1) job"
proof -
  obtain r w1 where tr: "transition t jid status (retry_updates job nb et msg ext pa)
      (Some worker) (Some token) True w = (r, w1)" by fastforce
  have "status \<noteq> IN_PROGRESS" using assms(4) by (auto simp: error_statuses_def)
  with assms(3,5) tr get_job_id [OF assms(2)]
  have r: "r = Inr j'" and w': "jobs w' = jobs w1"
    by (auto simp: store_retry_def Let_def store_simps split: sum.splits option.splits)
  have tr': "transition t jid status (retry_updates job nb et msg ext pa)
      (Some worker) (Some token) True w = (Inr j', w1)" using tr r by simp
  note ret = transition_returned [OF assms(1,2) tr']
  show ?thesis
    using ret(1,2) ret(3) [of jid] get_job_same_jobs [OF w'] assms(3)
    by (simp add: transition_ok_def expected_lease_ok_def holds_lease_def)
qed

lemma retry_decision:
  assumes "get_job jid w = Some job" and "status \<in> set error_statuses"
  obtains ph et msg g ext where
    "ph = (case pa of Some _ \<Rightarrow> normalize_db_phase pa | None \<Rightarrow> j_phase job)"
    "normalize_error_fields ety error = (et, msg)"
    "(g, ext) = (if attempts_used_up ph job then extension_decision rt job et msg w else (None, None))"
    "store_retryable_result rt ledger t jid worker token status nb ety error pa w =
      (if attempts_used_up ph job \<and> ext = None
       then store_exhausted rt ledger t job worker token status ph et msg g w
       else store_retry t job worker token status nb et msg
              (map_option (\<lambda>p. normalize_db_phase (Some p)) pa) ph ext w)"
proof -
  define ph where "ph = (case pa of Some _ \<Rightarrow> normalize_db_phase pa | None \<Rightarrow> j_phase job)"
  obtain et msg where n: "normalize_error_fields ety error = (et, msg)" by fastforce
  obtain g ext where d: "(if attempts_used_up ph job then extension_decision rt job et msg w else (None, None)) = (g, ext)"
    by fastforce
  show thesis
    by (rule that [OF ph_def n d [symmetric]])
       (use assms n d in \<open>simp add: store_retryable_result_def ph_def Let_def\<close>)
qed

text \<open>The error path always stores the status it was asked for.\<close>

lemma store_error_returned:
  assumes "ids_distinct w" and "get_job jid w = Some job"
    and "store_error_result rt ledger t jid worker token ety error status w = (Inr j', w')"
  shows "j_status j' = status"
proof -
  obtain et msg where n: "normalize_error_fields ety error = (et, msg)" by fastforce
  obtain r w1 where tr: "transition t jid status [U_last_error_type (Some et), U_last_error (Some msg)]
      (Some worker) (Some token) True w = (r, w1)" by fastforce
  have "j_status x = status" if "r = Inr x" for x
    using transition_returned(1) [OF assms(1,2) tr [unfolded that]] by simp
  then show ?thesis
    using assms(2,3) n tr
    by (auto simp: store_error_result_def Let_def split: if_splits sum.splits)
qed

lemma store_exhausted_status:
  assumes "ids_distinct w" and "get_job jid w = Some job"
    and "store_exhausted rt ledger t job worker token status ph et msg g w = (Inr j', w')"
  shows "j_status j' = ERROR \<or> j_status j' = NEEDS_FOLLOWUP"
proof -
  have "\<exists>ty tx st w2. store_exhausted rt ledger t job worker token status ph et msg g w =
          store_error_result rt ledger (later 2 t) jid worker token ty tx st w2 \<and> jobs w2 = jobs w
          \<and> (st = ERROR \<or> st = NEEDS_FOLLOWUP)"
    unfolding store_exhausted_def Let_def get_job_id [OF assms(2)]
    by (intro exI conjI, rule refl) (simp_all add: store_simps split: option.splits)
  then obtain ty tx st w2 where
    eq: "store_exhausted rt ledger t job worker token status ph et msg g w =
           store_error_result rt ledger (later 2 t) jid worker token ty tx st w2"
    and same: "jobs w2 = jobs w" and st: "st = ERROR \<or> st = NEEDS_FOLLOWUP" by blast
  have "ids_distinct w2" "get_job jid w2 = Some job"
    using assms(1,2) ids_distinct_same_jobs [OF same] get_job_same_jobs [OF same] by simp_all
  then show ?thesis using store_error_returned st assms(3) eq by metis
qed

section \<open>Paths\<close>

lemma stage_path_fresh [simp]: "stage_path p k \<noteq> p" "p \<noteq> stage_path p k"
  by (simp_all add: stage_path_def)

lemma answer_result_paths [simp]:
  "answer_rel_path i f \<noteq> result_path i" "result_path i \<noteq> answer_rel_path i f"
  "stage_path (answer_rel_path i f) k \<noteq> stage_path (result_path i) k"
  "stage_path (result_path i) k \<noteq> stage_path (answer_rel_path i f) k"
  "stage_path (answer_rel_path i f) k \<noteq> result_path i" "result_path i \<noteq> stage_path (answer_rel_path i f) k"
  "stage_path (result_path i) k \<noteq> answer_rel_path i f" "answer_rel_path i f \<noteq> stage_path (result_path i) k"
  by (simp_all add: answer_rel_path_def result_path_def stage_path_def)

text \<open>The files after a publication.\<close>

lemma published_files:
  assumes "am_path m = answer_rel_path jid fmt" and "files w3 = files (staged_world rt job token m tx w)"
    and "j_id job = jid"
  shows "files (publish_answer t jid m (stage_path (am_path m) token) (stage_path (result_path jid) token) c k w3) =
    (files w)(stage_path (am_path m) token := None, am_path m := Some (FText tx),
       stage_path (result_path jid) token := None,
       result_path jid := Some (FJson (answer_result_payload job m (staged_contract rt job token m tx w)
                                         (staged_canonical rt job token m tx w))))"
  using assms by (simp add: publish_answer_def publish_steps_def store_simps staged_world_def fun_eq_iff)

lemma unpublished_files:
  assumes "am_path m = answer_rel_path jid fmt" and "j_id job = jid"
  shows "files (unlink (stage_path (result_path jid) token)
           (unlink (stage_path (am_path m) token) (staged_world rt job token m tx w))) =
    (files w)(stage_path (am_path m) token := None, stage_path (result_path jid) token := None)"
  using assms by (simp add: store_simps staged_world_def fun_eq_iff)

lemma compute_meta:
  "compute_answer_meta rt jid answer fmt = (m, tx) \<Longrightarrow>
     tx = with_newline answer \<and> am_path m = answer_rel_path jid fmt
     \<and> am_sha256 m = rt_sha256 rt (with_newline answer) \<and> am_chars m = int (length (with_newline answer))"
  by (auto simp: compute_answer_meta_def Let_def)

section \<open>A stored answer\<close>

lemma store_answer_returned:
  assumes "ids_distinct w" and "get_job jid w = Some job" and "j_status job = IN_PROGRESS"
    and "store_answer_result rt io t jid worker token answer fmt w = (Inr j', w')"
  shows "get_job jid w' = Some j' \<and> j_status j' = COMPLETED
    \<and> j_answer_sha256 j' = Some (rt_sha256 rt (with_newline answer))"
proof -
  have tok: "token \<noteq> ''''"
    using assms(2-4) by (auto simp: store_answer_result_def write_answer_staged_def Let_def)
  obtain m tx where m: "compute_answer_meta rt jid answer (Some fmt) = (m, tx)" by fastforce
  let ?w2 = "staged_world rt job token m tx w"
  obtain r w3 where tr: "transition (later 2 t) jid COMPLETED (answer_updates m) (Some worker) (Some token) True ?w2
      = (r, w3)" by fastforce
  have r: "r = Inr j'" and w': "get_job jid w' = get_job jid w3"
    using assms(4) by (auto simp: store_answer_running [OF assms(2,3) tok m] tr store_simps split: sum.splits option.splits)
  have pre: "ids_distinct ?w2" "get_job jid ?w2 = Some job"
    using assms(1,2) by (simp_all add: store_simps)
  note ret = transition_returned [OF pre tr [unfolded r]]
  have "j_answer_sha256 j' = Some (am_sha256 m)"
    by (simp add: ret(1) moved_def answer_updates_def)
  then show ?thesis using ret(1) ret(3) [of jid] w' compute_meta [OF m] by simp
qed

lemma store_answer_again:
  assumes "get_job jid w = Some j" and "j_status j = COMPLETED"
  shows "store_answer_result rt io t jid worker token answer fmt w =
    (if j_answer_sha256 j = Some (rt_sha256 rt (with_newline answer)) \<and> rt_sha256 rt (with_newline answer) \<noteq> ''''
     then (Inr j, w)
     else (Inl (AlreadyFinished ''job already completed with different result''), w))"
  using assms by (simp add: store_answer_result_def compute_answer_meta_def Let_def)

section \<open>The contract of a stored answer\<close>

lemma quality_texts:
  "lower (strip ''completed'') = ''completed''"
  "lower_opt (Some ''completed_under_min_chars'') = Some ''completed_under_min_chars''"
  "lower_opt (Some ''final'') = Some ''final''"
  by code_simp+

lemma answer_rel_path_strip: "strip_opt (Some (answer_rel_path jid fmt)) = Some (answer_rel_path jid fmt)"
proof -
  have "answer_rel_path jid fmt = (''jobs/'' @ jid @ ''/answer.'' @ snd (normalize_answer_format fmt))"
    by (simp add: answer_rel_path_def job_dir_def)
  moreover have "\<not> py_space (last (''jobs/'' @ jid @ ''/answer.'' @ snd (normalize_answer_format fmt)))"
    by (simp add: normalize_answer_format_def Let_def py_space_code)
  moreover have "\<not> py_space (hd (''jobs/'' @ jid @ ''/answer.'' @ snd (normalize_answer_format fmt)))"
    by (simp add: py_space_code)
  ultimately have "strip (answer_rel_path jid fmt) = answer_rel_path jid fmt"
    using strip_prefix [of "answer_rel_path jid fmt" "[]"] by simp
  then show ?thesis by (simp add: strip_opt_def answer_rel_path_def job_dir_def)
qed

lemma stored_contract_verdict:
  assumes "contract = answer_contract rt job m w" and "am_path m = answer_rel_path jid fmt"
  shows "contract_answer_state rt contract = ''final'' \<longleftrightarrow>
      strip (or_empty (latest_event_type (j_id job) w)) \<noteq> ''completion_guard_completed_under_min_chars''"
    and "stripped rt (jget ''authoritative_answer_path'' contract) = Some (am_path m)"
    and "is_obj contract"
proof -
  let ?under = "strip (or_empty (latest_event_type (j_id job) w)) = ''completion_guard_completed_under_min_chars''"
  obtain c where c: "contract = build_completion_contract c" "ci_status c = ''completed''"
      "ci_quality c = Some (if ?under then ''completed_under_min_chars'' else ''final'')"
      "ci_authoritative_path c = Some (am_path m)"
    unfolding assms(1) answer_contract_def Let_def by auto
  have "contract_answer_state rt contract = ''final'' \<longleftrightarrow> \<not> ?under"
    using contract_final_iff [of c]
    by (simp add: c build_contract_state quality_texts completed_quality_is_non_final_def)
  then show "contract_answer_state rt contract = ''final'' \<longleftrightarrow>
      strip (or_empty (latest_event_type (j_id job) w)) \<noteq> ''completion_guard_completed_under_min_chars''" .
  have "resolved_answer_path c = Some (am_path m)"
    by (simp add: resolved_answer_path_def c answer_rel_path_strip assms(2))
  then show "stripped rt (jget ''authoritative_answer_path'' contract) = Some (am_path m)"
    using stripped_resolved [of rt c] by (simp add: c build_contract_get)
  show "is_obj contract" by (simp add: c build_completion_contract_def is_obj_def)
qed

lemma payload_canonical:
  "jget ''canonical_answer'' (answer_result_payload job m contract canonical) = canonical"
  by (simp add: answer_result_payload_def)

lemma canonical_is_obj: "is_obj (build_canonical_answer_record rt st fmt c)"
  "truthy (build_canonical_answer_record rt st fmt c)"
  by (simp_all add: build_canonical_answer_record_def Let_def is_obj_def truthy_def)

section \<open>Failed publications\<close>

lemma files_of_events:
  "f \<in> set [insert_event a i ty p, insert_event b i ty2 p2, append_event i ty3 p3, append_event i ty4 p4] \<Longrightarrow>
     files (f w) = files w"
  by (auto simp: store_simps)

lemma aborted_files:
  assumes "am_path m = answer_rel_path jid fmt" and "files w3 = files (staged_world rt job token m tx w)"
    and "j_id job = jid"
  shows "files (abort_publication n t jid m (stage_path (am_path m) token) (stage_path (result_path jid) token) c k w3) =
    (\<lambda>p. if p = stage_path (am_path m) token \<or> p = stage_path (result_path jid) token then None
         else if (1 \<le> n \<and> p = am_path m) \<or> (2 \<le> n \<and> p = result_path jid) then None
         else files w p)"
proof -
  consider "n = 0" | "n = 1" | q where "n = Suc (Suc q)"
    by (metis One_nat_def not0_implies_Suc)
  then show ?thesis
  proof cases
    case 1
    then show ?thesis
      using assms by (simp add: abort_publication_def store_simps staged_world_def fun_eq_iff)
  next
    case 2
    then show ?thesis
      using assms by (simp add: abort_publication_def publish_steps_def store_simps staged_world_def fun_eq_iff)
  next
    case (3 q)
    let ?rest = "take q [insert_event (t 0) jid ''completion_contract_recorded'' (Some c),
      insert_event (t (Suc 0)) jid ''canonical_answer_recorded'' (Some k),
      append_event jid ''completion_contract_recorded'' (Some c),
      append_event jid ''canonical_answer_recorded'' (Some k)]"
    have rest: "files (fold (\<lambda>f. f) ?rest x) = files x" for x
      by (rule fold_frame) (blast dest: in_set_takeD intro: files_of_events)
    show ?thesis
      using assms
      by (simp add: 3 abort_publication_def publish_steps_def store_simps rest staged_world_def fun_eq_iff)
  qed
qed

end
