(* ===== verification/Pause.thy ===== *)
theory Pause
  imports Store Providers Deadline
begin

text \<open>
  The two switches that keep jobs from being claimed, both kept in the \<open>meta\<close> table:
  the pause of \<open>core/pause.py\<close> and the ChatGPT web hold of
  \<open>core/chatgpt_web_hold.py\<close>.
\<close>

section \<open>Values of the meta table\<close>

definition meta_text :: "runtime \<Rightarrow> meta_val option \<Rightarrow> string" where
  "meta_text rt v =
     (case v of None \<Rightarrow> '''' | Some (MText s) \<Rightarrow> s | Some (MFloat x) \<Rightarrow> rt_repr rt (JReal x))"

text \<open>
  \<open>float(raw) if raw else 0.0\<close> for the stripped text \<open>raw\<close>; \<open>None\<close> where it
  raises. A time is a real number here, so a stored text that reads as an infinity or as NaN
  is outside the model (it is read as the text that raises); the operations below never
  store one.
\<close>

definition meta_float :: "meta_val option \<Rightarrow> real option" where
  "meta_float v =
     (case v of
        None \<Rightarrow> Some 0
      | Some (MFloat x) \<Rightarrow> Some x
      | Some (MText s) \<Rightarrow> 
          if strip s = '''' then Some 0
          else (case parse_float s of Some (Fin x) \<Rightarrow> Some x | _ \<Rightarrow> None))"

section \<open>Pause\<close>

record pause_state =
  p_mode :: string
  p_until :: real
  p_reason :: "string option"

definition pause_is_active :: "real \<Rightarrow> pause_state \<Rightarrow> bool" where
  "pause_is_active now p \<longleftrightarrow> p_until p \<noteq> 0 \<and> now < p_until p \<and> p_mode p \<noteq> '''' \<and> p_mode p \<noteq> ''none''"

definition get_pause_state :: "runtime \<Rightarrow> world \<Rightarrow> pause_state" where
  "get_pause_state rt w =
     \<lparr>p_mode = text_or (lower (strip (meta_text rt (meta_get ''pause_mode'' w)))) ''none'',
      p_until = (case meta_float (meta_get ''pause_until'' w) of None \<Rightarrow> 0 | Some x \<Rightarrow> x),
      p_reason = or_none (strip (meta_text rt (meta_get ''pause_reason'' w)))\<rparr>"

definition set_pause_state :: "string \<Rightarrow> real \<Rightarrow> string option \<Rightarrow> world \<Rightarrow> pause_state \<times> world" where
  "set_pause_state mode until reason w =
     (let m = text_or (lower (strip mode)) ''none'';
          r = strip (or_empty reason);
          w1 = meta_set ''pause_mode'' (MText m) w;
          w2 = meta_set ''pause_until'' (MFloat until) w1;
          w3 = meta_set ''pause_reason'' (MText r) w2
      in (\<lparr>p_mode = m, p_until = until,
           p_reason = (if or_empty reason = '''' then None else Some r)\<rparr>, w3))"

definition clear_pause_state :: "world \<Rightarrow> pause_state \<times> world" where
  "clear_pause_state w = set_pause_state ''none'' 0 None w"

definition pause_filter_allows_job :: "real \<Rightarrow> pause_state \<Rightarrow> string option \<Rightarrow> string option \<Rightarrow> bool" where
  "pause_filter_allows_job now p phase kind =
     (if \<not> pause_is_active now p then True
      else let k = lower (strip (or_empty kind))
           in if starts_with ''repair.'' k then True
              else let reason = lower (strip (or_empty (p_reason p)));
                       provider = provider_id_for_kind (Some k)
                   in if starts_with ''auto_blocked:'' reason \<and> provider = Some ''gemini'' then True
                      else if lower (strip (p_mode p)) = ''all'' then False
                      else text_or (lower (strip (or_empty phase))) ''send'' = ''wait'')"

section \<open>ChatGPT web hold\<close>

record hold_state =
  h_reason :: string
  h_until :: real
  h_source :: "string option"
  h_note :: "string option"

definition hold_reasons :: "string list" where
  "hold_reasons = [''frontend_rate_limit'', ''manual_pro_session'']"

definition hold_is_active :: "real \<Rightarrow> hold_state \<Rightarrow> bool" where
  "hold_is_active now h \<longleftrightarrow> h_reason h \<noteq> '''' \<and> h_until h > now"

definition hold_retry_after_seconds :: "real \<Rightarrow> hold_state \<Rightarrow> int" where
  "hold_retry_after_seconds now h = max 1 (py_trunc (h_until h - now + 999 / 1000))"

definition get_chatgpt_web_hold :: "runtime \<Rightarrow> real \<Rightarrow> world \<Rightarrow> hold_state option" where
  "get_chatgpt_web_hold rt now w =
     (let reason = strip (meta_text rt (meta_get ''chatgpt_web_hold_reason'' w))
      in if reason \<notin> set hold_reasons then None
         else case meta_float (meta_get ''chatgpt_web_hold_until'' w) of
                None \<Rightarrow> None
              | Some until \<Rightarrow>
                  let state = \<lparr>h_reason = reason, h_until = until,
                        h_source = or_none (strip (meta_text rt (meta_get ''chatgpt_web_hold_source'' w))),
                        h_note = or_none (strip (meta_text rt (meta_get ''chatgpt_web_hold_note'' w)))\<rparr>
                  in if hold_is_active now state then Some state else None)"

definition set_chatgpt_web_hold ::
    "runtime \<Rightarrow> string \<Rightarrow> real \<Rightarrow> string \<Rightarrow> string \<Rightarrow> real \<Rightarrow> world \<Rightarrow> (hold_state, world) outcome" where
  "set_chatgpt_web_hold rt reason until source note now w =
     (let r = strip reason
      in if r \<notin> set hold_reasons
         then (Inl (ValueError (''unsupported ChatGPT Web hold reason: '' @ r)), w)
         else let desired = max until now;
                  effective = (case get_chatgpt_web_hold rt now w of
                                 None \<Rightarrow> desired | Some h \<Rightarrow> max (h_until h) desired);
                  w1 = meta_set ''chatgpt_web_hold_reason'' (MText r) w;
                  w2 = meta_set ''chatgpt_web_hold_until'' (MFloat effective) w1;
                  w3 = meta_set ''chatgpt_web_hold_source'' (MText (strip source)) w2;
                  w4 = meta_set ''chatgpt_web_hold_note'' (MText (strip note)) w3;
                  w5 = meta_set ''chatgpt_web_hold_updated_at'' (MFloat now) w4
              in (Inr \<lparr>h_reason = r, h_until = effective, h_source = or_none (strip source),
                       h_note = or_none (strip note)\<rparr>, w5))"

definition clear_chatgpt_web_hold :: "real \<Rightarrow> world \<Rightarrow> world" where
  "clear_chatgpt_web_hold now w =
     meta_set ''chatgpt_web_hold_updated_at'' (MFloat now)
       (meta_set ''chatgpt_web_hold_note'' (MText '''')
         (meta_set ''chatgpt_web_hold_source'' (MText '''')
           (meta_set ''chatgpt_web_hold_until'' (MText ''0'')
             (meta_set ''chatgpt_web_hold_reason'' (MText '''') w))))"

definition chatgpt_web_hold_blocks_kind :: "string option \<Rightarrow> bool" where
  "chatgpt_web_hold_blocks_kind kind \<longleftrightarrow> starts_with ''chatgpt_web.'' (lower (strip (or_empty kind)))"

section \<open>Facts\<close>

lemma meta_get_set [store_simps]: "meta_get k (meta_set k' v w) = (if k = k' then Some v else meta_get k w)"
  by (simp add: meta_get_def meta_set_def)

lemma meta_set_sel [store_simps]:
  "jobs (meta_set k v w) = jobs w" "events (meta_set k v w) = events w"
  "idempotency (meta_set k v w) = idempotency w" "files (meta_set k v w) = files w"
  by (simp_all add: meta_set_def)

lemma meta_text_simps [simp]: "meta_text rt (Some (MText s)) = s" "meta_text rt None = ''''"
  by (simp_all add: meta_text_def)

lemma meta_float_simps [simp]: "meta_float (Some (MFloat x)) = Some x" "meta_float None = Some 0"
  by (simp_all add: meta_float_def)

lemma get_pause_frame:
  "meta w = meta w' \<Longrightarrow> get_pause_state rt w = get_pause_state rt w'"
  by (simp add: get_pause_state_def meta_get_def)

lemma get_hold_frame:
  assumes "meta w = meta w'"
  shows "get_chatgpt_web_hold rt now w = get_chatgpt_web_hold rt now w'"
proof -
  have "\<And>k. meta_get k w = meta_get k w'" by (simp add: meta_get_def assms)
  then show ?thesis by (simp only: get_chatgpt_web_hold_def)
qed

text \<open>The time the stored hold runs to, 0 where no hold is stored.\<close>

definition hold_deadline :: "runtime \<Rightarrow> world \<Rightarrow> real" where
  "hold_deadline rt w =
     (if strip (meta_text rt (meta_get ''chatgpt_web_hold_reason'' w)) \<in> set hold_reasons
      then (case meta_float (meta_get ''chatgpt_web_hold_until'' w) of None \<Rightarrow> 0 | Some x \<Rightarrow> x)
      else 0)"

lemma hold_reason_not_blank: "r \<in> set hold_reasons \<Longrightarrow> r \<noteq> ''''"
  by (auto simp: hold_reasons_def)

lemma get_hold_Some:
  "get_chatgpt_web_hold rt now w = Some h \<Longrightarrow> h_until h = hold_deadline rt w \<and> now < h_until h"
  by (auto simp: get_chatgpt_web_hold_def hold_deadline_def hold_is_active_def Let_def
      split: if_splits option.splits)

lemma get_hold_None:
  "get_chatgpt_web_hold rt now w = None \<Longrightarrow> hold_deadline rt w \<le> max 0 now"
  by (auto simp: get_chatgpt_web_hold_def hold_deadline_def hold_is_active_def Let_def
      hold_reason_not_blank split: if_splits option.splits)

text \<open>The hold as the single number a later request sees.\<close>

definition extend_hold :: "runtime \<Rightarrow> string \<Rightarrow> string \<Rightarrow> real \<Rightarrow> real \<Rightarrow> world \<Rightarrow> world" where
  "extend_hold rt source note now until w =
     snd (set_chatgpt_web_hold rt ''manual_pro_session'' until source note now w)"

lemma hold_deadline_set:
  "strip reason \<in> set hold_reasons \<Longrightarrow>
     hold_deadline rt (snd (set_chatgpt_web_hold rt reason until source note now w)) =
       (case get_chatgpt_web_hold rt now w of
          None \<Rightarrow> max until now | Some h \<Rightarrow> max (h_until h) (max until now))"
  by (simp add: set_chatgpt_web_hold_def hold_deadline_def Let_def store_simps split: option.splits)

lemma strip_manual: "strip ''manual_pro_session'' = ''manual_pro_session''"
  by code_simp

lemma manual_reason: "strip ''manual_pro_session'' \<in> set hold_reasons"
  by (simp add: strip_manual hold_reasons_def)

interpretation web_hold: extend_only "extend_hold rt src memo" "hold_deadline rt"
  for rt src memo
proof unfold_locales
  fix now until :: real and w :: world
  note set = extend_hold_def hold_deadline_set [OF manual_reason]
  show "until \<le> hold_deadline rt (extend_hold rt src memo now until w)"
    by (auto simp: set split: option.splits)
  show "hold_deadline rt w \<le> hold_deadline rt (extend_hold rt src memo now until w)"
    if "0 \<le> now" "now < hold_deadline rt w"
    using that by (auto simp: set dest: get_hold_Some get_hold_None split: option.splits)
  show "hold_deadline rt (extend_hold rt src memo now until w) \<le>
          max (hold_deadline rt w) (max now until)"
    by (auto simp: set dest: get_hold_Some split: option.splits)
qed

section \<open>Properties\<close>

text \<open>A hold on the ChatGPT web kinds is never cut short: while one runs to \<open>d\<close>, any
  sequence of later holds leaves one in force that runs at least to \<open>d\<close>.\<close>

theorem hold_never_shortened:
  assumes "d \<le> hold_deadline rt w" and "\<forall>(n, u) \<in> set calls. 0 \<le> n \<and> n < d" and "0 \<le> now" and "now < d"
  shows "\<exists>h. get_chatgpt_web_hold rt now (web_hold.extend_all rt source memo calls w) = Some h \<and> d \<le> h_until h"
proof -
  let ?w = "web_hold.extend_all rt source memo calls w"
  have d: "d \<le> hold_deadline rt ?w" by (rule web_hold.never_shortened [OF assms(1,2)])
  then obtain h where "get_chatgpt_web_hold rt now ?w = Some h"
    using assms(3,4) get_hold_None [of rt now ?w] by (cases "get_chatgpt_web_hold rt now ?w") auto
  then show ?thesis using d get_hold_Some by fastforce
qed

theorem hold_never_shortened_witness:
  "\<forall>rt. \<exists>h. get_chatgpt_web_hold rt 40
      (web_hold.extend_all rt ''op'' '''' [(30, 50)] (extend_hold rt ''op'' '''' 20 100 empty_world)) = Some h
    \<and> 100 \<le> h_until h"
proof
  fix rt
  show "\<exists>h. get_chatgpt_web_hold rt 40
      (web_hold.extend_all rt ''op'' '''' [(30, 50)] (extend_hold rt ''op'' '''' 20 100 empty_world)) = Some h
    \<and> 100 \<le> h_until h"
    using hold_never_shortened [of 100 rt "extend_hold rt ''op'' '''' 20 100 empty_world" "[(30, 50)]" 40 "''op''" "''''"]
      web_hold.extend_reaches [of 100 rt "''op''" "''''" 20 empty_world] by simp
qed

text \<open>A pause that is set is the pause that is read, and clearing it lets every job
  through.\<close>

theorem pause_round_trip:
  assumes "reason \<noteq> None \<longrightarrow> strip (or_empty reason) \<noteq> ''''"
  shows "get_pause_state rt (snd (set_pause_state mode until reason w)) = fst (set_pause_state mode until reason w)
    \<and> pause_filter_allows_job now (get_pause_state rt (snd (clear_pause_state w))) ph kind"
proof -
  have none: "lower (strip ''none'') = ''none''" by code_simp
  have mode: "text_or (lower (strip (text_or (lower (strip mode)) ''none''))) ''none'' = text_or (lower (strip mode)) ''none''"
    by (simp add: text_or_def none strip_lower)
  have "get_pause_state rt (snd (set_pause_state mode until reason w)) = fst (set_pause_state mode until reason w)"
    using assms by (cases reason)
      (auto simp: get_pause_state_def set_pause_state_def Let_def store_simps mode or_none_def)
  moreover have "\<not> pause_is_active now (get_pause_state rt (snd (clear_pause_state w)))"
    by (simp add: clear_pause_state_def pause_is_active_def get_pause_state_def set_pause_state_def Let_def store_simps)
  ultimately show ?thesis by (simp add: pause_filter_allows_job_def)
qed

theorem pause_round_trip_witness:
  "\<forall>rt w. get_pause_state rt (snd (set_pause_state '' All '' 90 (Some '' why '') w)) =
     \<lparr>p_mode = ''all'', p_until = 90, p_reason = Some ''why''\<rparr>"
proof -
  have s: "strip '' why '' = ''why''" "lower (strip '' All '') = ''all''" by code_simp+
  show ?thesis
    using pause_round_trip [of "Some '' why ''" _ "'' All ''" 90]
    by (simp add: s set_pause_state_def Let_def text_or_def)
qed

end
