(* ===== verification/Claim.thy ===== *)
theory Claim
  imports Lease Pause "HOL-Library.Product_Lexorder"
begin

text \<open>
  How a worker takes a job: \<open>_build_claim_where\<close>, \<open>_build_claim_order_by\<close> and
  \<open>claim_next_job\<close> of \<open>core/job_store.py\<close>. The \<open>WHERE\<close> clause is one
  predicate on the table and the row, used for the \<open>SELECT\<close> and for the
  \<open>UPDATE\<close> as in the code.
\<close>

section \<open>SQL operators\<close>

text \<open>\<open>CAST(json_extract(x, path) AS INTEGER)\<close>, 0 for NULL: a text gives its leading
  integer.\<close>

fun leading_int :: "int \<Rightarrow> string \<Rightarrow> int" where
  "leading_int acc [] = acc"
| "leading_int acc (c # cs) =
     (if c \<in> set digit_chars then leading_int (10 * acc + digit_val c) cs else acc)"

definition sql_text_int :: "string \<Rightarrow> int" where
  "sql_text_int s0 =
     (case dropWhile (\<lambda>c. c \<in> set (take 5 space_chars) \<or> c = CHR '' '') s0 of
        [] \<Rightarrow> 0
      | c # cs \<Rightarrow>
          if c = CHR ''-'' then - leading_int 0 cs
          else if c = CHR ''+'' then leading_int 0 cs
          else leading_int 0 (c # cs))"

definition sql_json_int :: "json \<Rightarrow> int" where
  "sql_json_int v =
     (case v of
        JBool b \<Rightarrow> (if b then 1 else 0)
      | JInt n \<Rightarrow> n
      | JReal x \<Rightarrow> py_trunc x
      | JStr s \<Rightarrow> sql_text_int s
      | _ \<Rightarrow> 0)"

section \<open>The WHERE clause\<close>

record claim_filter =
  cf_now :: real
  cf_prefix :: "string option"
  cf_phase :: "phase option"
  cf_hold :: bool
  cf_pause_active :: bool
  cf_pause_all :: bool
  cf_auto_blocked :: bool

definition single_flight_free :: "job list \<Rightarrow> job \<Rightarrow> bool" where
  "single_flight_free rows j \<longleftrightarrow>
     j_phase j = Wait \<or> j_kind j \<notin> set web_ask_kinds \<or> j_conversation_id j = None
     \<or> \<not> list_ex (\<lambda>j2. j_kind j2 = j_kind j \<and> j_status j2 = IN_PROGRESS
                      \<and> j_conversation_id j2 = j_conversation_id j \<and> j_id j2 \<noteq> j_id j) rows"

definition pause_clause :: "claim_filter \<Rightarrow> job \<Rightarrow> bool" where
  "pause_clause f j \<longleftrightarrow>
     \<not> cf_pause_active f
     \<or> (cf_pause_all f \<and> sql_like ''repair.%'' (j_kind j))
     \<or> (\<not> cf_pause_all f \<and> (j_phase j = Wait \<or> sql_like ''repair.%'' (j_kind j)))
     \<or> (cf_auto_blocked f \<and> sql_like ''gemini_web.%'' (j_kind j))"

definition attempts_clause :: "job \<Rightarrow> bool" where
  "attempts_clause j \<longleftrightarrow> j_phase j = Wait \<or> j_status j = IN_PROGRESS \<or> j_attempts j < j_max_attempts j"

definition status_clause :: "real \<Rightarrow> job \<Rightarrow> bool" where
  "status_clause now j \<longleftrightarrow>
     j_status j = QUEUED \<or> j_status j = COOLDOWN
     \<or> (j_status j = IN_PROGRESS
        \<and> (case j_lease_expires_at j of None \<Rightarrow> True | Some e \<Rightarrow> e < now))"

definition claim_where :: "claim_filter \<Rightarrow> job list \<Rightarrow> job \<Rightarrow> bool" where
  "claim_where f rows j \<longleftrightarrow>
     j_not_before j \<le> cf_now f
     \<and> (case cf_prefix f of None \<Rightarrow> True | Some p \<Rightarrow> sql_like (p @ ''%'') (j_kind j))
     \<and> (case cf_phase f of None \<Rightarrow> True | Some p \<Rightarrow> j_phase j = p)
     \<and> (\<not> cf_hold f \<or> \<not> sql_like ''chatgpt_web.%'' (j_kind j))
     \<and> pause_clause f j
     \<and> attempts_clause j
     \<and> single_flight_free rows j
     \<and> status_clause (cf_now f) j"

section \<open>The ORDER BY clause\<close>

definition claim_rank :: "phase option \<Rightarrow> job \<Rightarrow> int" where
  "claim_rank phase_filter j =
     (case phase_filter of
        Some Send \<Rightarrow> (if sql_like ''repair.%'' (j_kind j) then 1 else 0)
      | Some Wait \<Rightarrow>
          (if j_kind j = ''gemini_web.ask'' \<and> j_conversation_id j \<noteq> None
              \<and> sql_json_int (jget ''deep_research'' (j_params j)) = 1
           then 0
           else if j_conversation_id j \<noteq> None then 1 else 2)
      | None \<Rightarrow> 0)"

definition claim_key :: "phase option \<Rightarrow> job \<Rightarrow> int \<times> real \<times> real" where
  "claim_key phase_filter j = (claim_rank phase_filter j, j_not_before j, j_created_at j)"

section \<open>Claiming\<close>

definition claim_filter_now :: "runtime \<Rightarrow> real \<Rightarrow> string option \<Rightarrow> string option \<Rightarrow> world \<Rightarrow> claim_filter" where
  "claim_filter_now rt now phase_arg kind_prefix w =
     (let pause = get_pause_state rt w; active = pause_is_active now pause
      in \<lparr>cf_now = now,
          cf_prefix = or_none (strip (or_empty kind_prefix)),
          cf_phase = (if or_empty phase_arg = '''' then None else Some (normalize_db_phase phase_arg)),
          cf_hold = (get_chatgpt_web_hold rt now w \<noteq> None),
          cf_pause_active = active,
          cf_pause_all = (active \<and> p_mode pause = ''all''),
          cf_auto_blocked = (active \<and> starts_with ''auto_blocked:'' (lower (strip (or_empty (p_reason pause)))))\<rparr>)"

text \<open>\<open>token\<close> is the fresh \<open>uuid4().hex\<close>.\<close>

definition claim_next_job ::
    "runtime \<Rightarrow> clock \<Rightarrow> string \<Rightarrow> string \<Rightarrow> int \<Rightarrow> string option \<Rightarrow> string option \<Rightarrow> world \<Rightarrow>
      job option \<times> world" where
  "claim_next_job rt t token worker ttl phase_arg kind_prefix w =
     (let now = t 0;
          expires = now + real_of_int ttl;
          f = claim_filter_now rt now phase_arg kind_prefix w
      in case first_by (claim_key (cf_phase f)) (filter (claim_where f (jobs w)) (jobs w)) of
           None \<Rightarrow> (None, w)
         | Some row \<Rightarrow>
             (let jid = j_id row;
                  reclaimed = (j_status row = IN_PROGRESS);
                  guard = (\<lambda>j. j_id j = jid \<and> claim_where f (jobs w) j);
                  changed = count_jobs guard w
              in if changed = 0 then (None, w)
                 else let w1 = update_jobs guard
                        (Assign (Some IN_PROGRESS) True
                          [U_updated_at now, U_lease_owner (Some worker), U_lease_expires_at (Some expires),
                           U_lease_token (Some token)]) w;
                       w2 = record_event (t 1) jid ''claimed''
                         (JObj [(''worker_id'', JStr worker), (''lease_expires_at'', JReal expires),
                                (''lease_token'', JStr token), (''reclaimed'', JBool reclaimed)]) w1
                   in (get_job jid w2, w2)))"

section \<open>Facts\<close>

text \<open>The row a claim leaves.\<close>

definition claimed :: "real \<Rightarrow> string \<Rightarrow> string \<Rightarrow> int \<Rightarrow> job \<Rightarrow> job" where
  "claimed now token worker ttl j =
     j\<lparr>j_status := IN_PROGRESS, j_updated_at := now, j_lease_owner := Some worker,
       j_lease_expires_at := Some (now + real_of_int ttl), j_lease_token := Some token,
       j_attempts := (if j_phase j = Wait \<or> j_status j = IN_PROGRESS then j_attempts j
                      else j_attempts j + 1)\<rparr>"

lemma run_claim:
  "run_statement (Assign (Some IN_PROGRESS) True
      [U_updated_at now, U_lease_owner (Some worker), U_lease_expires_at (Some (now + real_of_int ttl)),
       U_lease_token (Some token)]) j = claimed now token worker ttl j"
  by (simp add: claimed_def)

text \<open>A claim finds nothing, or takes the least of the claimable rows.\<close>

lemma claim_cases:
  assumes "ids_distinct w"
  obtains
    (nothing) "claim_next_job rt t token worker ttl ph pre w = (None, w)"
      "\<And>j. j \<in> set (jobs w) \<Longrightarrow> \<not> claim_where (claim_filter_now rt (t 0) ph pre w) (jobs w) j"
  | (takes) row w' f where "f = claim_filter_now rt (t 0) ph pre w"
      "row \<in> set (jobs w)" "claim_where f (jobs w) row"
      "\<And>j. j \<in> set (jobs w) \<Longrightarrow> claim_where f (jobs w) j \<Longrightarrow>
         claim_key (cf_phase f) row \<le> claim_key (cf_phase f) j"
      "claim_next_job rt t token worker ttl ph pre w = (Some (claimed (t 0) token worker ttl row), w')"
      "\<And>i. get_job i w' =
         (if i = j_id row then Some (claimed (t 0) token worker ttl row) else get_job i w)"
      "ids_distinct w'" "meta w' = meta w" "idempotency w' = idempotency w" "files w' = files w"
proof -
  define f where "f = claim_filter_now rt (t 0) ph pre w"
  define guard where "guard = (\<lambda>(r :: job) j. j_id j = j_id r \<and> claim_where f (jobs w) j)"
  note unfold = claim_next_job_def Let_def f_def [symmetric]
  show thesis
  proof (cases "first_by (claim_key (cf_phase f)) (filter (claim_where f (jobs w)) (jobs w))")
    case None
    then have "filter (claim_where f (jobs w)) (jobs w) = []" by simp
    then have none: "\<And>j. j \<in> set (jobs w) \<Longrightarrow> \<not> claim_where f (jobs w) j"
      by (auto simp: filter_empty_conv)
    show thesis
      by (rule nothing) (simp_all add: unfold None none)
  next
    case (Some row)
    then have row: "row \<in> set (jobs w)" "claim_where f (jobs w) row"
      using first_by_mem [OF Some] by auto
    have least: "claim_key (cf_phase f) row \<le> claim_key (cf_phase f) j"
      if "j \<in> set (jobs w)" "claim_where f (jobs w) j" for j
      using first_by_least [OF Some] that by simp
    have got: "get_job (j_id row) w = Some row"
      using get_job_of_mem [OF assms row(1)] .
    have count: "count_jobs (guard row) w \<noteq> 0"
      using row unfolding guard_def count_jobs_def row_count_0 by blast
    define s where "s = Assign (Some IN_PROGRESS) True
        [U_updated_at (t 0), U_lease_owner (Some worker), U_lease_expires_at (Some (t 0 + real_of_int ttl)),
         U_lease_token (Some token)]"
    define w1 where "w1 = update_jobs (guard row) s w"
    define w2 where "w2 = record_event (t 1) (j_id row) ''claimed''
        (JObj [(''worker_id'', JStr worker), (''lease_expires_at'', JReal (t 0 + real_of_int ttl)),
               (''lease_token'', JStr token), (''reclaimed'', JBool (j_status row = IN_PROGRESS))]) w1"
    have rows: "get_job i w2 =
        (if i = j_id row then Some (claimed (t 0) token worker ttl row) else get_job i w)" for i
      using row(2) by (simp only: w2_def w1_def get_job_sel guard_def update_one [OF got] if_True s_def run_claim)
    have "claim_next_job rt t token worker ttl ph pre w = (get_job (j_id row) w2, w2)"
      using count by (simp add: unfold Some guard_def w2_def w1_def s_def)
    then have "claim_next_job rt t token worker ttl ph pre w = (Some (claimed (t 0) token worker ttl row), w2)"
      by (simp add: rows)
    moreover have "ids_distinct w2" "meta w2 = meta w" "idempotency w2 = idempotency w" "files w2 = files w"
      using assms by (simp_all add: w2_def w1_def store_simps)
    ultimately show thesis
      using takes [OF f_def row least _ rows] by blast
  qed
qed

section \<open>The SQL filters and the Python filters\<close>

text \<open>What runs a job, by its kind: \<open>executors/factory.py\<close>. A kind without an executor is never
  worked on.\<close>

datatype executor =
    DummyExecutor | AdvisorOrchestrateExecutor | CodingPlanExecutor | LocalLLMExecutor
  | ChatGPTWebMcpExecutor | GeminiWebMcpExecutor | SreFixRequestExecutor
  | RepairAutofixExecutor | RepairOpenPrExecutor | RepairExecutor

definition executor_for_job :: "string \<Rightarrow> executor option" where
  "executor_for_job kind =
     (if starts_with ''dummy.'' kind then Some DummyExecutor
      else if kind = ''advisor.orchestrate'' then Some AdvisorOrchestrateExecutor
      else if kind = ''coding_plan.ask'' then Some CodingPlanExecutor
      else if kind = ''local_llm.ask'' then Some LocalLLMExecutor
      else let spec = provider_spec_for_kind (Some kind); p = map_option provider_id spec
           in if p = Some ''chatgpt'' then Some ChatGPTWebMcpExecutor
              else if p = Some ''gemini'' then Some GeminiWebMcpExecutor
              else if p = Some ''local_llm'' then Some LocalLLMExecutor
              else if kind \<in> {''sre.fix_request'', ''sre.diagnose''} then Some SreFixRequestExecutor
              else if kind = ''repair.autofix'' then Some RepairAutofixExecutor
              else if kind = ''repair.open_pr'' then Some RepairOpenPrExecutor
              else if starts_with ''repair.'' kind then Some RepairExecutor
              else None)"

text \<open>The kinds the claim is about: they have an executor, and no blanks around them (the route
  that creates jobs strips them).\<close>

definition served_kind :: "string \<Rightarrow> bool" where
  "served_kind k \<longleftrightarrow> executor_for_job k \<noteq> None \<and> strip k = k"

lemma starts_with_split: "starts_with p s \<Longrightarrow> s = p @ drop (length p) s"
  by (metis append_take_drop_id starts_with_def)

lemma starts_with_lower: "starts_with p k \<Longrightarrow> starts_with (lower p) (lower k)"
  by (drule starts_with_split) (metis append_eq_conv_conj lower_append starts_with_def)

lemma sql_like_any [simp]: "sql_like ''%'' s"
  by (induction s) simp_all

lemma served_kind_cases:
  assumes "served_kind k"
  obtains r where "k = ''dummy.'' @ r" | "k = ''advisor.orchestrate''" | "k = ''coding_plan.ask''"
    | "k = ''local_llm.ask''" | "k = ''sre.fix_request''" | "k = ''sre.diagnose''"
    | r where "k = ''chatgpt_web.'' @ r" | r where "k = ''gemini_web.'' @ r" | r where "k = ''repair.'' @ r"
proof -
  have k: "executor_for_job k \<noteq> None" "strip k = k" using assms by (auto simp: served_kind_def)
  have spec: "starts_with ''chatgpt_web.'' k \<or> starts_with ''gemini_web.'' k"
    if "provider_spec_for_kind (Some k) \<noteq> None"
    using that by (simp add: provider_spec_for_kind_def provider_specs_def k(2) or_empty_def
        chatgpt_spec_def gemini_spec_def split: if_splits)
  consider "starts_with ''dummy.'' k" | "k \<in> {''advisor.orchestrate'', ''coding_plan.ask'', ''local_llm.ask'',
      ''sre.fix_request'', ''sre.diagnose''}" | "provider_spec_for_kind (Some k) \<noteq> None" | "starts_with ''repair.'' k"
    using k(1) by (auto simp: executor_for_job_def Let_def split: if_splits)
  then show thesis
  proof cases
    case 1
    then show thesis by (rule that(1) [OF starts_with_split])
  next
    case 2
    then show thesis by (elim insertE emptyE) (rule that(2-6), assumption)+
  next
    case 3
    from spec [OF this] show thesis
    proof
      assume "starts_with ''chatgpt_web.'' k"
      then show thesis by (rule that(7) [OF starts_with_split])
    next
      assume "starts_with ''gemini_web.'' k"
      then show thesis by (rule that(8) [OF starts_with_split])
    qed
  next
    case 4
    then show thesis by (rule that(9) [OF starts_with_split])
  qed
qed

text \<open>The patterns of the SQL and the prefixes of the Python code agree on these kinds.\<close>

lemma kinds_like:
  assumes "served_kind k"
  shows "sql_like ''repair.%'' k = starts_with ''repair.'' (lower (strip k))
     \<and> sql_like ''gemini_web.%'' k = (provider_id_for_kind (Some (lower (strip k))) = Some ''gemini'')
     \<and> sql_like ''chatgpt_web.%'' k = chatgpt_web_hold_blocks_kind (Some k)"
proof -
  have k: "strip (lower k) = lower k" "strip k = k"
    using assms by (simp_all add: served_kind_def strip_lower)
  have like: "sql_like ''repair.%'' k = starts_with ''repair.'' (lower k)
     \<and> sql_like ''gemini_web.%'' k = starts_with ''gemini_web.'' (lower k)
     \<and> sql_like ''chatgpt_web.%'' k = starts_with ''chatgpt_web.'' (lower k)
     \<and> \<not> (starts_with ''gemini_web.'' (lower k) \<and> starts_with ''chatgpt_web.'' (lower k))"
    using assms by (cases rule: served_kind_cases) (simp_all add: ascii_lower_def lower_def lower_char_def)
  then show ?thesis
    by (auto simp: k provider_id_for_kind_def provider_spec_for_kind_def provider_specs_def
        chatgpt_web_hold_blocks_kind_def or_empty_def chatgpt_spec_def gemini_spec_def)
qed

lemma stored_mode: "lower (strip (p_mode (get_pause_state rt w))) = p_mode (get_pause_state rt w)"
proof -
  have "lower (strip ''none'') = ''none''" by code_simp
  then show ?thesis by (simp add: get_pause_state_def text_or_def strip_lower)
qed

lemma phase_text: "text_or (lower (strip (phase_value p))) ''send'' = ''wait'' \<longleftrightarrow> p = Wait"
proof -
  have "lower (strip ''send'') = ''send''" "lower (strip ''wait'') = ''wait''" by code_simp+
  then show ?thesis by (cases p) (simp_all add: phase_value_def text_or_def)
qed

text \<open>The pause clause of the SQL is the Python predicate \<open>create_job\<close> asks.\<close>

lemma pause_clause_agrees:
  assumes "served_kind (j_kind j)"
  shows "pause_clause (claim_filter_now rt now ph pre w) j =
           pause_filter_allows_job now (get_pause_state rt w) (Some (phase_value (j_phase j))) (Some (j_kind j))"
  using kinds_like [OF assms]
  by (auto simp: pause_clause_def pause_filter_allows_job_def claim_filter_now_def Let_def stored_mode
      phase_text)

text \<open>A row may run now, in the terms of the Python code: it is due, of the kind and the phase the
  worker asks for, let through by the pause and the hold, and neither its attempts, nor another
  job in its conversation, nor its status keep it back.\<close>

definition runnable_now :: "runtime \<Rightarrow> real \<Rightarrow> string option \<Rightarrow> string option \<Rightarrow> world \<Rightarrow> job \<Rightarrow> bool" where
  "runnable_now rt now ph pre w j \<longleftrightarrow>
     j_not_before j \<le> now
     \<and> (strip (or_empty pre) \<noteq> [] \<longrightarrow> sql_like (strip (or_empty pre) @ ''%'') (j_kind j))
     \<and> (or_empty ph \<noteq> [] \<longrightarrow> j_phase j = normalize_db_phase ph)
     \<and> (chatgpt_web_hold_blocks_kind (Some (j_kind j)) \<longrightarrow> get_chatgpt_web_hold rt now w = None)
     \<and> pause_filter_allows_job now (get_pause_state rt w) (Some (phase_value (j_phase j))) (Some (j_kind j))
     \<and> (j_phase j = Send \<and> j_status j \<noteq> IN_PROGRESS \<longrightarrow> j_attempts j < j_max_attempts j)
     \<and> single_flight_free (jobs w) j
     \<and> (j_status j \<in> {QUEUED, COOLDOWN}
        \<or> j_status j = IN_PROGRESS \<and> (\<forall>e. j_lease_expires_at j = Some e \<longrightarrow> e < now))"

lemma claim_where_runnable:
  assumes "served_kind (j_kind j)"
  shows "claim_where (claim_filter_now rt now ph pre w) (jobs w) j = runnable_now rt now ph pre w j"
proof -
  let ?f = "claim_filter_now rt now ph pre w"
  have f: "cf_hold ?f = (get_chatgpt_web_hold rt now w \<noteq> None)" "cf_now ?f = now"
    "cf_prefix ?f = or_none (strip (or_empty pre))"
    "cf_phase ?f = (if or_empty ph = [] then None else Some (normalize_db_phase ph))"
    by (simp_all add: claim_filter_now_def Let_def)
  have a: "attempts_clause j = (j_phase j = Send \<and> j_status j \<noteq> IN_PROGRESS \<longrightarrow> j_attempts j < j_max_attempts j)"
    by (cases "j_phase j") (auto simp: attempts_clause_def)
  have st: "status_clause now j = (j_status j \<in> {QUEUED, COOLDOWN}
        \<or> j_status j = IN_PROGRESS \<and> (\<forall>e. j_lease_expires_at j = Some e \<longrightarrow> e < now))"
    by (cases "j_lease_expires_at j") (auto simp: status_clause_def)
  have hold: "(\<not> cf_hold ?f \<or> \<not> sql_like ''chatgpt_web.%'' (j_kind j)) =
      (chatgpt_web_hold_blocks_kind (Some (j_kind j)) \<longrightarrow> get_chatgpt_web_hold rt now w = None)"
    using kinds_like [OF assms] f(1) by blast
  have "(case cf_prefix ?f of None \<Rightarrow> True | Some p \<Rightarrow> sql_like (p @ ''%'') (j_kind j)) =
      (strip (or_empty pre) \<noteq> [] \<longrightarrow> sql_like (strip (or_empty pre) @ ''%'') (j_kind j))"
    "(case cf_phase ?f of None \<Rightarrow> True | Some p \<Rightarrow> j_phase j = p) =
      (or_empty ph \<noteq> [] \<longrightarrow> j_phase j = normalize_db_phase ph)"
    by (simp_all add: f or_none_def)
  then show ?thesis
    unfolding claim_where_def runnable_now_def a st f(2) hold pause_clause_agrees [OF assms]
    by (simp only:)
qed

end
