(* ===== verification/JobLife.thy ===== *)
theory JobLife
  imports WorkerOps Claim
begin

text \<open>
  The life of one job as the rest of the system may rely on it: a step relation on the
  record \<open>life\<close> and its invariants. \<open>JobSystem\<close> shows that every operation on
  the database takes every job through this relation.
\<close>

section \<open>Steps\<close>

datatype act =
    Take string string
  | Work string string
  | Withdraw

definition expired :: "real \<Rightarrow> life \<Rightarrow> bool" where
  "expired now l = (case l_expires l of None \<Rightarrow> True | Some e \<Rightarrow> e < now)"

definition unexpired :: "real \<Rightarrow> life \<Rightarrow> bool" where
  "unexpired now l = (case l_expires l of None \<Rightarrow> True | Some e \<Rightarrow> now \<le> e)"

inductive life_step :: "real \<Rightarrow> act \<Rightarrow> life \<Rightarrow> life \<Rightarrow> bool" where
  take_waiting:
    "l_status l \<in> {QUEUED, COOLDOWN} \<Longrightarrow> l_phase l = Wait \<Longrightarrow>
     life_step now (Take w k) l
       (l\<lparr>l_status := IN_PROGRESS, l_holder := Some (w, k), l_expires := Some e\<rparr>)"
| take_sending:
    "l_status l \<in> {QUEUED, COOLDOWN} \<Longrightarrow> l_phase l = Send \<Longrightarrow> l_attempts l < l_max l \<Longrightarrow>
     life_step now (Take w k) l
       (l\<lparr>l_status := IN_PROGRESS, l_holder := Some (w, k), l_expires := Some e,
          l_attempts := l_attempts l + 1\<rparr>)"
| reclaim:
    "l_status l = IN_PROGRESS \<Longrightarrow> expired now l \<Longrightarrow>
     life_step now (Take w k) l (l\<lparr>l_holder := Some (w, k), l_expires := Some e\<rparr>)"
| work:
    "l_status l = IN_PROGRESS \<Longrightarrow> l_holder l = Some (w, k) \<Longrightarrow> unexpired now l \<Longrightarrow> work_step l l' \<Longrightarrow>
     life_step now (Work w k) l l'"
| withdraw:
    "\<not> is_terminal (l_status l) \<Longrightarrow> l_status l \<noteq> IN_PROGRESS \<or> l_phase l = Wait \<Longrightarrow>
     life_step now Withdraw l (l\<lparr>l_status := CANCELED\<rparr>)"
| withdraw_clearing:
    "\<not> is_terminal (l_status l) \<Longrightarrow> l_status l \<noteq> IN_PROGRESS \<or> l_phase l = Wait \<Longrightarrow>
     life_step now Withdraw l (l\<lparr>l_status := CANCELED, l_holder := None, l_expires := None\<rparr>)"

inductive_cases work_stepE: "work_step l l'"
inductive_cases life_stepE: "life_step now a l l'"
inductive_simps life_step_take: "life_step now (Take w k) l l'"
inductive_simps life_step_work: "life_step now (Work w k) l l'"
inductive_simps life_step_withdraw: "life_step now Withdraw l l'"

lemmas life_step_simps = life_step_take life_step_work life_step_withdraw

section \<open>What a step preserves\<close>

text \<open>A final job takes no step.\<close>

lemma final_no_step: "life_step now a l l' \<Longrightarrow> \<not> is_terminal (l_status l)"
  by (erule life_stepE) auto

definition life_move :: "life \<Rightarrow> life \<Rightarrow> bool" where
  "life_move l l' \<longleftrightarrow> l' = l \<or> (\<exists>now a. life_step now a l l')"

definition life_final :: "life \<Rightarrow> bool" where
  "life_final l \<longleftrightarrow> is_terminal (l_status l)"

interpretation job_lives: lifecycle life_move life_final
  by unfold_locales (auto simp: life_move_def life_final_def dest: final_no_step)

text \<open>Attempts stay within the allowance, and the allowance grows only with use.\<close>

definition within_allowance :: "life \<Rightarrow> bool" where
  "within_allowance l \<longleftrightarrow> 0 \<le> l_attempts l \<and> l_attempts l \<le> max 0 (l_max l)"

lemma work_within: "work_step l l' \<Longrightarrow> within_allowance l \<Longrightarrow> within_allowance l'"
  by (erule work_stepE) (auto simp: within_allowance_def allowance_def)

lemma step_within: "life_step now a l l' \<Longrightarrow> within_allowance l \<Longrightarrow> within_allowance l'"
  by (erule life_stepE) (auto simp: within_allowance_def dest: work_within)

lemma work_max: "work_step l l' \<Longrightarrow> l_max l \<le> l_max l' \<and> (within_allowance l \<longrightarrow> l_max l' \<le> l_max l + 1)"
  by (erule work_stepE) (auto simp: within_allowance_def allowance_def)

lemma step_max: "life_step now a l l' \<Longrightarrow> l_max l \<le> l_max l' \<and> (within_allowance l \<longrightarrow> l_max l' \<le> l_max l + 1)"
  by (erule life_stepE) (auto dest: work_max)

lemma step_attempts: "life_step now a l l' \<Longrightarrow> l_attempts l' = l_attempts l \<or> l_attempts l' = l_attempts l + 1"
  by (erule life_stepE) (auto elim: work_stepE)

text \<open>While a lease runs on a job that is being sent, only its holder moves the job.\<close>

lemma holder_only:
  assumes "life_step now a l l'" and "l_status l = IN_PROGRESS" and "l_phase l = Send"
    and "l_expires l = Some e" and "now \<le> e"
  shows "\<exists>w k. a = Work w k \<and> l_holder l = Some (w, k)"
  using assms by (auto elim!: life_stepE simp: expired_def)

text \<open>A job that runs again after it stopped was taken by somebody.\<close>

lemma starts_by_take:
  "life_step now a l l' \<Longrightarrow> l_status l \<noteq> IN_PROGRESS \<Longrightarrow> l_status l' = IN_PROGRESS \<Longrightarrow>
     \<exists>w k. a = Take w k \<and> l_holder l' = Some (w, k)"
  by (auto elim!: life_stepE)

text \<open>No step leads back to the queue; blocked jobs and jobs that need a follow-up only
  get cancelled.\<close>

lemma never_queued_again: "life_step now a l l' \<Longrightarrow> l_status l' = QUEUED \<Longrightarrow> l_status l = QUEUED"
  by (auto elim!: life_stepE work_stepE simp: error_statuses_def)

lemma parked_only_cancelled:
  "life_step now a l l' \<Longrightarrow> l_status l \<in> {BLOCKED, NEEDS_FOLLOWUP} \<Longrightarrow> l_status l' = CANCELED"
  by (auto elim!: life_stepE)

section \<open>Rows and lives\<close>

text \<open>The row stays the same request and its life moves; the answer is written on a
  running job only.\<close>

definition answer_of :: "job \<Rightarrow> string option \<times> string option \<times> int option \<times> string option" where
  "answer_of j = (j_answer_path j, j_answer_sha256 j, j_answer_chars j, j_answer_format j)"

definition evolves :: "clock \<Rightarrow> act set \<Rightarrow> job \<Rightarrow> job \<Rightarrow> bool" where
  "evolves t acts j j' \<longleftrightarrow>
     same_request j j' \<and> (j_status j = IN_PROGRESS \<or> answer_of j' = answer_of j) \<and>
     (life_of j' = life_of j \<or> (\<exists>k. \<exists>a \<in> acts. life_step (t k) a (life_of j) (life_of j')))"

definition one_change :: "clock \<Rightarrow> act set \<Rightarrow> job list \<Rightarrow> job list \<Rightarrow> bool" where
  "one_change t acts rows rows' \<longleftrightarrow>
     keys_distinct j_id rows' \<and>
     (rows' = rows \<or>
      (\<exists>jid job job'. row_get j_id jid rows = Some job \<and> evolves t acts job job'
         \<and> changes_row jid job' rows rows'))"

lemma one_change_refl: "ids_distinct w \<Longrightarrow> one_change t acts (jobs w) (jobs w)"
  by (simp add: one_change_def ids_distinct_def)

lemma one_changeI:
  assumes "ids_distinct w'" and "get_job jid w = Some job" and "evolves t acts job job'"
    and "\<And>i. get_job i w' = (if i = jid then Some job' else get_job i w)"
  shows "one_change t acts (jobs w) (jobs w')"
  using assms unfolding one_change_def ids_distinct_def changes_row_def get_job_def by blast

lemma holder_of_lease:
  "holds_lease w k now j \<Longrightarrow> l_holder (life_of j) = Some (w, k) \<and> l_status (life_of j) = IN_PROGRESS
     \<and> unexpired now (life_of j)"
  by (auto simp: holds_lease_def owns_lease_def life_of_def lease_unexpired_def unexpired_def)

lemma leased_one_change:
  assumes "leased_change t jid worker token rows rows'"
  shows "one_change t {Work worker token} rows rows'"
proof (cases "rows' = rows")
  case True
  then show ?thesis using assms by (simp add: leased_change_def one_change_def)
next
  case False
  then obtain k job job' where c: "row_get j_id jid rows = Some job" "holds_lease worker token (t k) job"
      "work_effect job job'" "changes_row jid job' rows rows'" "keys_distinct j_id rows'"
    using assms unfolding leased_change_def by blast
  have "evolves t {Work worker token} job job'"
    using c(3) holder_of_lease [OF c(2)] unfolding evolves_def work_effect_def
    by (auto intro!: exI [where x = k] life_step.work)
  with c show ?thesis unfolding one_change_def by blast
qed

lemma one_change_get:
  assumes "one_change t acts (jobs w) (jobs w')" and "get_job i w = Some j"
  shows "\<exists>j'. get_job i w' = Some j' \<and> (j' = j \<or> evolves t acts j j')"
proof (cases "jobs w' = jobs w")
  case True
  then show ?thesis using assms(2) get_job_same_jobs [OF True] by simp
next
  case False
  then obtain jid job job' where "row_get j_id jid (jobs w) = Some job" "evolves t acts job job'"
      "changes_row jid job' (jobs w) (jobs w')"
    using assms(1) unfolding one_change_def by blast
  with assms(2) show ?thesis
    by (cases "i = jid") (auto simp: changes_row_def get_job_def)
qed

lemma one_change_mono: "one_change t a rows rows' \<Longrightarrow> a \<subseteq> b \<Longrightarrow> one_change t b rows rows'"
  unfolding one_change_def evolves_def by blast

lemma one_change_None:
  assumes "one_change t acts (jobs w) (jobs w')" and "get_job i w = None"
  shows "get_job i w' = None"
  using assms unfolding one_change_def changes_row_def get_job_def by (metis option.distinct(1))

section \<open>Claims\<close>

lemma claimed_evolves:
  assumes "attempts_clause j" and "status_clause now j" and "now = t 0"
  shows "evolves t {Take worker token} j (claimed now token worker ttl j)"
proof -
  have "life_step (t 0) (Take worker token) (life_of j) (life_of (claimed now token worker ttl j))"
  proof (cases "j_status j = IN_PROGRESS")
    case True
    have "expired (t 0) (life_of j)"
      using assms True by (auto simp: status_clause_def expired_def split: option.splits)
    with True have "life_step (t 0) (Take worker token) (life_of j)
        ((life_of j)\<lparr>l_holder := Some (worker, token), l_expires := Some (now + real_of_int ttl)\<rparr>)"
      by (intro life_step.reclaim) simp_all
    moreover have "life_of (claimed now token worker ttl j) =
        (life_of j)\<lparr>l_holder := Some (worker, token), l_expires := Some (now + real_of_int ttl)\<rparr>"
      using True by (simp add: life_of_def claimed_def)
    ultimately show ?thesis by simp
  next
    case False
    then have "j_status j = QUEUED \<or> j_status j = COOLDOWN"
      using assms(2) by (auto simp: status_clause_def)
    with False assms(1) show ?thesis
      by (cases "j_phase j")
        (auto simp: life_of_def claimed_def life_step_take attempts_clause_def)
  qed
  then show ?thesis
    unfolding evolves_def by (auto simp: same_request_def claimed_def answer_of_def)
qed

lemma claim_change:
  assumes "ids_distinct w"
  shows "one_change t {Take worker token} (jobs w)
           (jobs (snd (claim_next_job rt t token worker ttl ph pre w)))"
  using assms
proof (cases rule: claim_cases [where rt = rt and t = t and token = token and worker = worker
      and ttl = ttl and ph = ph and pre = pre])
  case nothing
  then show ?thesis using assms by (simp add: one_change_refl)
next
  case (takes row w' f)
  have now: "cf_now f = t 0" by (simp add: takes(1) claim_filter_now_def Let_def)
  have "attempts_clause row" "status_clause (t 0) row"
    using takes(3) now by (simp_all add: claim_where_def)
  then have "evolves t {Take worker token} row (claimed (t 0) token worker ttl row)"
    by (rule claimed_evolves) simp
  then have "one_change t {Take worker token} (jobs w) (jobs w')"
    by (rule one_changeI [OF takes(7) get_job_of_mem [OF assms takes(2)] _ takes(6)])
  then show ?thesis by (simp add: takes(5))
qed

section \<open>Extensions\<close>

text \<open>An extension gives room for one more attempt.\<close>

lemma extension_leaves_room:
  assumes "extension_decision rt job et msg w = (g, Some n)" and "attempts_used_up ph job"
    and "within_allowance (life_of job)"
  shows "j_attempts job < n"
  using assms
  by (auto simp: extension_decision_def attempts_used_up_def within_allowance_def Let_def split: if_splits)

end
