(* ===== verification/Create.thy ===== *)
theory Create
  imports Lease Pause
begin

text \<open>
  Creating a job: the idempotency record of \<open>core/idempotency.py\<close> and
  \<open>create_job\<close> of \<open>core/job_store.py\<close>. A request that is refused after its
  idempotency row was inserted deletes that row again.
\<close>

section \<open>Idempotency\<close>

definition hash_request :: "runtime \<Rightarrow> json \<Rightarrow> string" where
  "hash_request rt payload = rt_sha256 rt (rt_dumps rt payload)"

definition idem_get :: "string \<Rightarrow> world \<Rightarrow> idem_row option" where
  "idem_get k w = row_get idem_key k (idempotency w)"

text \<open>The answer: \<open>created\<close> and the job id. The primary key refuses a second row.\<close>

definition begin_idempotency ::
    "real \<Rightarrow> string \<Rightarrow> string \<Rightarrow> string \<Rightarrow> world \<Rightarrow> (bool \<times> string, world) outcome" where
  "begin_idempotency now k h jid w =
     (case idem_get k w of
        None \<Rightarrow>
          (Inr (True, jid),
           w\<lparr>idempotency := idempotency w @
               [\<lparr>idem_key = k, idem_hash = h, idem_job = jid, idem_created_at = now\<rparr>]\<rparr>)
      | Some row \<Rightarrow>
          if idem_hash row \<noteq> h
          then (Inl (IdempotencyCollision k (idem_job row) (idem_hash row) h), w)
          else (Inr (False, idem_job row), w))"

definition delete_idempotency :: "string \<Rightarrow> world \<Rightarrow> world" where
  "delete_idempotency k w = w\<lparr>idempotency := filter (\<lambda>r. idem_key r \<noteq> k) (idempotency w)\<rparr>"

section \<open>The request\<close>

text \<open>
  What a caller passes. \<open>rq_request_error\<close> is the type and text of the exception
  writing \<open>request.json\<close> raises, if it does; \<open>rq_log_ok\<close> is whether the event
  log can be appended to.
\<close>

record request =
  rq_key :: string
  rq_kind :: string
  rq_input :: json
  rq_params :: json
  rq_max_attempts :: int
  rq_parent :: "string option"
  rq_client :: "json option"
  rq_requested_by :: "json option"
  rq_allow_queue :: bool
  rq_single_flight :: bool
  rq_request_error :: "(string \<times> string) option"
  rq_log_ok :: bool

definition request_payload_hash :: "runtime \<Rightarrow> request \<Rightarrow> string" where
  "request_payload_hash rt q =
     hash_request rt (JObj [(''kind'', JStr (rq_kind q)), (''input'', rq_input q), (''params'', rq_params q)])"

definition dict_or_empty :: "json \<Rightarrow> json" where
  "dict_or_empty v = (if truthy v then v else JObj [])"

definition busy :: "string option \<Rightarrow> string \<Rightarrow> string \<Rightarrow> string option \<Rightarrow> real option \<Rightarrow> exn" where
  "busy url active status ph updated =
     ConversationBusy (or_none (strip (or_empty url))) active status
       (or_none (strip (or_empty ph))) updated"

definition is_active_text :: "string \<Rightarrow> bool" where
  "is_active_text s \<longleftrightarrow> s = status_value QUEUED \<or> s = status_value IN_PROGRESS"

text \<open>The follow-up of a parent: an objection, or the parent's conversation URL.\<close>

definition check_parent :: "request \<Rightarrow> string \<Rightarrow> world \<Rightarrow> exn + string" where
  "check_parent q parent w =
     (case get_job parent w of
        None \<Rightarrow> Inl (ValueError (''parent_job_id not found: '' @ parent))
      | Some p \<Rightarrow>
          (let parent_kind = strip (j_kind p);
               parent_status = lower (strip (status_value (j_status p)));
               parent_url = strip (or_empty (j_conversation_url p));
               kind = rq_kind q
           in if is_web_ask_kind (Some kind) \<and> is_web_ask_kind (Some parent_kind) \<and> parent_kind \<noteq> kind
              then Inl (ValueError (''parent_job_id kind mismatch: parent='' @ parent_kind @ '' child='' @ kind
                     @ ''. Follow-ups must stay within the same provider.''))
              else if is_web_ask_kind (Some kind) \<and> parent_kind = kind \<and> rq_single_flight q
                      \<and> \<not> rq_allow_queue q \<and> is_active_text parent_status
              then Inl (busy (or_none parent_url) parent parent_status None None)
              else Inr parent_url))"

text \<open>The conversation URL the job is created with, and its input.\<close>

definition resolve_conversation :: "runtime \<Rightarrow> request \<Rightarrow> world \<Rightarrow> exn + (string \<times> json)" where
  "resolve_conversation rt q w =
     (let input = dict_or_empty (rq_input q);
          url = strip (str_or (rt_repr rt) (jget ''conversation_url'' input) '''')
      in case rq_parent q of
           None \<Rightarrow> Inr (url, input)
         | Some parent \<Rightarrow>
             if parent = '''' \<or> url \<noteq> '''' then Inr (url, input)
             else (case check_parent q parent w of
                     Inl e \<Rightarrow> Inl e
                   | Inr parent_url \<Rightarrow>
                       if parent_url = '''' then Inr (url, input)
                       else Inr (parent_url, jset ''conversation_url'' (JStr parent_url) input)))"

text \<open>\<open>SELECT ... ORDER BY created_at ASC LIMIT 1\<close> for an active ask job of the
  conversation.\<close>

definition active_ask :: "string \<Rightarrow> string \<Rightarrow> world \<Rightarrow> job option" where
  "active_ask kind cid w =
     first_by j_created_at
       (filter (\<lambda>j. j_kind j = kind \<and> j_conversation_id j = Some cid
                    \<and> (j_status j = QUEUED \<or> j_status j = IN_PROGRESS)) (jobs w))"

definition check_single_flight :: "runtime \<Rightarrow> request \<Rightarrow> string \<Rightarrow> world \<Rightarrow> exn option" where
  "check_single_flight rt q url w =
     (if is_web_ask_kind (Some (rq_kind q)) \<and> rq_single_flight q \<and> \<not> rq_allow_queue q
      then (case conversation_id rt url of
              None \<Rightarrow> None
            | Some key \<Rightarrow>
                if key = '''' then None
                else (case active_ask (rq_kind q) key w of
                        None \<Rightarrow> None
                      | Some a \<Rightarrow>
                          Some (busy (or_none url) (j_id a) (status_value (j_status a))
                                  (Some (phase_value (j_phase a))) (Some (j_updated_at a)))))
      else None)"

definition admit :: "runtime \<Rightarrow> request \<Rightarrow> world \<Rightarrow> exn + (string \<times> json)" where
  "admit rt q w =
     (case resolve_conversation rt q w of
        Inl e \<Rightarrow> Inl e
      | Inr (url, input) \<Rightarrow>
          (case validate_conversation_url_for_kind (rq_kind q) url of
             Some e \<Rightarrow> Inl e
           | None \<Rightarrow>
               (case check_single_flight rt q url w of
                  Some e \<Rightarrow> Inl e
                | None \<Rightarrow> Inr (url, input))))"

section \<open>The new job\<close>

definition new_job :: "runtime \<Rightarrow> real \<Rightarrow> string \<Rightarrow> request \<Rightarrow> string \<Rightarrow> json \<Rightarrow> job" where
  "new_job rt now jid q url input =
     \<lparr>j_id = jid, j_kind = rq_kind q, j_input = input, j_params = rq_params q,
      j_client = (case rq_client q of Some c \<Rightarrow> if is_obj c then Some c else None | None \<Rightarrow> None),
      j_phase = Send, j_status = QUEUED, j_created_at = now, j_updated_at = now, j_not_before = 0,
      j_attempts = 0, j_max_attempts = rq_max_attempts q, j_cancel_requested_at = None,
      j_lease_owner = None, j_lease_expires_at = None, j_lease_token = None,
      j_parent_job_id = rq_parent q, j_conversation_url = or_none url,
      j_conversation_id = (case conversation_id rt url of None \<Rightarrow> None | Some c \<Rightarrow> or_none c),
      j_export_format = None, j_export_path = None, j_export_sha256 = None, j_export_chars = None,
      j_answer_format = None, j_answer_path = None, j_answer_sha256 = None, j_answer_chars = None,
      j_last_error_type = None, j_last_error = None\<rparr>"

definition insert_job :: "job \<Rightarrow> world \<Rightarrow> world" where
  "insert_job j w = w\<lparr>jobs := jobs w @ [j]\<rparr>"

definition defer_by_pause :: "runtime \<Rightarrow> clock \<Rightarrow> job \<Rightarrow> world \<Rightarrow> world" where
  "defer_by_pause rt t j w =
     (let pause = get_pause_state rt w
      in if pause_filter_allows_job (t 0) pause (Some ''send'') (Some (j_kind j)) then w
         else insert_event (t 1) (j_id j) ''job_deferred_by_pause''
                (Some (JObj [(''mode'', JStr (p_mode pause)), (''until_ts'', JReal (p_until pause)),
                             (''reason'', jopt (case p_reason pause of None \<Rightarrow> None | Some r \<Rightarrow> or_none r))]))
                (update_jobs (\<lambda>r. j_id r = j_id j \<and> True)
                   (Assign None False [U_not_before (max (j_not_before j) (p_until pause))]) w))"

definition optional_object :: "string \<Rightarrow> json option \<Rightarrow> (string \<times> json) list" where
  "optional_object k v =
     (case v of Some x \<Rightarrow> if is_obj x \<and> truthy x then [(k, x)] else [] | None \<Rightarrow> [])"

definition created_payload :: "request \<Rightarrow> json \<Rightarrow> json" where
  "created_payload q input =
     JObj ([(''kind'', JStr (rq_kind q)), (''input'', input), (''params'', rq_params q)]
           @ optional_object ''client'' (rq_client q)
           @ optional_object ''requested_by'' (rq_requested_by q))"

definition request_path :: "string \<Rightarrow> string" where
  "request_path jid = job_dir jid @ ''/request.json''"

definition log_creation :: "clock \<Rightarrow> string \<Rightarrow> request \<Rightarrow> json \<Rightarrow> world \<Rightarrow> world" where
  "log_creation t jid q input w =
     (let payload = created_payload q input;
          w1 = insert_event (t 0) jid ''job_created'' (Some payload) w;
          w2 = (case rq_request_error q of
                  None \<Rightarrow> write_file (request_path jid) (FJson payload) w1
                | Some (ty, text) \<Rightarrow>
                    insert_event (t 1) jid ''artifact_write_failed''
                      (Some (JObj [(''op'', JStr ''write_request''), (''error_type'', JStr ty),
                                   (''error'', JStr text)])) w1)
      in if rq_log_ok q then append_event jid ''job_created'' (Some payload) w2 else w2)"

text \<open>\<open>jid\<close> is the fresh \<open>uuid4().hex\<close>. Clock: \<open>t 0\<close> stamps the idempotency row,
  \<open>t 1\<close> the job.\<close>

definition create_job :: "runtime \<Rightarrow> clock \<Rightarrow> string \<Rightarrow> request \<Rightarrow> world \<Rightarrow> (job, world) outcome" where
  "create_job rt t jid q w =
     (if starts_with ''qwen_web.'' (lower (strip (rq_kind q)))
      then (Inl (ValueError ''qwen_web.ask has been retired and is no longer available''), w)
      else case begin_idempotency (t 0) (rq_key q) (request_payload_hash rt q) jid w of
             (Inl e, w1) \<Rightarrow> (Inl e, w1)
           | (Inr (False, existing), w1) \<Rightarrow>
               (case get_job existing w1 of
                  None \<Rightarrow> (Inl (RuntimeError ''idempotency record points to missing job''), w1)
                | Some j \<Rightarrow> (Inr j, w1))
           | (Inr (True, _), w1) \<Rightarrow>
               (case admit rt q w1 of
                  Inl e \<Rightarrow> (Inl e, delete_idempotency (rq_key q) w1)
                | Inr (url, input) \<Rightarrow>
                    (let j = new_job rt (t 1) jid q url input;
                         w2 = insert_job j w1;
                         w3 = defer_by_pause rt (\<lambda>k. t (k + 1)) j w2;
                         w4 = log_creation (later 3 t) jid q input w3
                     in (reread jid w4, w4))))"

section \<open>Facts\<close>

lemma idem_get_insert:
  "idem_get k (w\<lparr>idempotency := idempotency w @ [r]\<rparr>) =
     (case idem_get k w of None \<Rightarrow> if idem_key r = k then Some r else None | Some x \<Rightarrow> Some x)"
  by (simp add: idem_get_def row_get_append split: option.splits)

lemma idem_get_delete: "idem_get k (delete_idempotency k' w) = (if k = k' then None else idem_get k w)"
proof -
  have "row_get idem_key k (filter (\<lambda>r. idem_key r \<noteq> k') rows) =
          (if k = k' then None else row_get idem_key k rows)" for rows :: "idem_row list"
    by (induction rows) auto
  then show ?thesis by (simp add: idem_get_def delete_idempotency_def)
qed

lemma filter_fresh_key: "row_get idem_key k rows = None \<Longrightarrow> filter (\<lambda>r. idem_key r \<noteq> k) rows = rows"
  by (induction rows) (auto split: if_splits)

text \<open>Deleting a row just inserted gives the state before.\<close>

lemma delete_inserted:
  assumes "begin_idempotency now k h jid w = (Inr (True, i), w1)"
  shows "delete_idempotency k w1 = w"
proof -
  from assms have "row_get idem_key k (idempotency w) = None"
    and "w1 = w\<lparr>idempotency := idempotency w @
           [\<lparr>idem_key = k, idem_hash = h, idem_job = jid, idem_created_at = now\<rparr>]\<rparr>"
    by (auto simp: begin_idempotency_def idem_get_def split: option.splits if_splits)
  then show ?thesis
    by (simp add: delete_idempotency_def filter_fresh_key)
qed

lemma begin_jobs: "begin_idempotency now k h jid w = (r, w1) \<Longrightarrow> jobs w1 = jobs w"
  by (auto simp: begin_idempotency_def split: option.splits if_splits)

lemma admit_frame:
  assumes "jobs w = jobs w'"
  shows "admit rt q w = admit rt q w'"
proof -
  have "get_job p w = get_job p w'" for p
    using assms by (rule get_job_same_jobs)
  then have "resolve_conversation rt q w = resolve_conversation rt q w'"
    by (simp only: resolve_conversation_def check_parent_def)
  moreover have "check_single_flight rt q url w = check_single_flight rt q url w'" for url
    using assms by (simp only: check_single_flight_def active_ask_def)
  ultimately show ?thesis by (simp only: admit_def)
qed

lemma get_job_insert_job:
  "get_job i (insert_job j w) =
     (case get_job i w of None \<Rightarrow> if j_id j = i then Some j else None | Some x \<Rightarrow> Some x)"
  by (simp add: get_job_def insert_job_def row_get_append split: option.splits)

lemma ids_distinct_insert_job:
  "ids_distinct w \<Longrightarrow> get_job (j_id j) w = None \<Longrightarrow> ids_distinct (insert_job j w)"
  by (auto simp: ids_distinct_def get_job_def insert_job_def keys_distinct_def row_get_None)

lemma log_creation_sel [store_simps]:
  "jobs (log_creation t i q v w) = jobs w"
  "get_job k (log_creation t i q v w) = get_job k w"
  "ids_distinct (log_creation t i q v w) = ids_distinct w"
  "idempotency (log_creation t i q v w) = idempotency w"
  "meta (log_creation t i q v w) = meta w"
  by (simp_all add: log_creation_def Let_def store_simps split: option.splits)

lemma defer_by_pause_sel [store_simps]:
  "idempotency (defer_by_pause rt t j w) = idempotency w"
  "meta (defer_by_pause rt t j w) = meta w"
  "ids_distinct (defer_by_pause rt t j w) = ids_distinct w"
  by (simp_all add: defer_by_pause_def Let_def store_simps)

definition deferred :: "runtime \<Rightarrow> real \<Rightarrow> world \<Rightarrow> job \<Rightarrow> job" where
  "deferred rt now w j =
     (let pause = get_pause_state rt w
      in if pause_filter_allows_job now pause (Some ''send'') (Some (j_kind j)) then j
         else j\<lparr>j_not_before := max (j_not_before j) (p_until pause)\<rparr>)"

lemma get_job_defer:
  assumes "get_job (j_id j) w = Some j"
  shows "get_job i (defer_by_pause rt t j w) =
           (if i = j_id j then Some (deferred rt (t 0) w j) else get_job i w)"
proof (cases "pause_filter_allows_job (t 0) (get_pause_state rt w) (Some ''send'') (Some (j_kind j))")
  case True
  then show ?thesis using assms by (simp add: defer_by_pause_def deferred_def Let_def)
next
  case False
  then show ?thesis
    by (simp only: defer_by_pause_def deferred_def Let_def if_False get_job_sel update_one [OF assms] if_True)
       simp
qed

end
