(* ===== verification/Cancel.thy ===== *)
theory Cancel
  imports Lease
begin

text \<open>
  \<open>request_cancel\<close> of \<open>core/job_store.py\<close>: a queued job, a job between attempts and
  a job in the wait phase are cancelled at once; a job whose prompt is being sent is only
  marked, and its worker cancels it.
\<close>

section \<open>The request\<close>

definition cancel_payload :: "real \<Rightarrow> json option \<Rightarrow> string \<Rightarrow> json" where
  "cancel_payload now by reason =
     JObj ([(''ts'', JReal now)]
           @ (case by of None \<Rightarrow> [] | Some v \<Rightarrow> [(''by'', v)])
           @ (if reason = '''' then [] else [(''reason'', JStr reason)]))"

definition cancel_message :: "string \<Rightarrow> string" where
  "cancel_message reason =
     (if reason = '''' then ''cancel requested'' else ''cancel requested: '' @ reason)"

definition cancel_marks :: "real \<Rightarrow> string \<Rightarrow> col_update list" where
  "cancel_marks now reason =
     [U_cancel_requested_at (Some now), U_last_error_type (Some ''Canceled''),
      U_last_error (Some (cancel_message reason))]"

definition clear_lease :: "col_update list" where
  "clear_lease = [U_lease_owner None, U_lease_expires_at None, U_lease_token None]"

text \<open>\<open>_write_canceled_result_payload\<close>.\<close>

definition write_canceled :: "job \<Rightarrow> string \<Rightarrow> world \<Rightarrow> world" where
  "write_canceled j reason w = write_result (j_id j) (canceled_payload j (or_none reason)) w"

text \<open>\<open>_try_cancel_wait_phase_immediately\<close>, on a running job in the wait phase.\<close>

definition cancel_lease_active :: "real \<Rightarrow> job \<Rightarrow> bool" where
  "cancel_lease_active now job \<longleftrightarrow>
     strip (or_empty (j_lease_owner job)) \<noteq> '''' \<and> strip (or_empty (j_lease_token job)) \<noteq> ''''
     \<and> lease_unexpired now job"

definition cancel_waiting :: "clock \<Rightarrow> job \<Rightarrow> string \<Rightarrow> world \<Rightarrow> (job, world) outcome" where
  "cancel_waiting t job reason w =
     (if cancel_lease_active (t 0) job
      then store_canceled_result (later 1 t) (j_id job) (strip (or_empty (j_lease_owner job)))
             (strip (or_empty (j_lease_token job))) (Some (cancel_message reason)) w
      else case transition (later 1 t) (j_id job) CANCELED (cancel_marks (t 0) reason @ clear_lease)
                  None None False w of
             (Inl e, w1) \<Rightarrow> (Inl e, w1)
           | (Inr j, w1) \<Rightarrow> (Inr j, write_canceled j reason w1))"

text \<open>\<open>_try_cancel_nonrunning_intermediate_immediately\<close>, on a job between attempts.\<close>

definition cancel_intermediate :: "clock \<Rightarrow> job \<Rightarrow> string \<Rightarrow> world \<Rightarrow> (job, world) outcome" where
  "cancel_intermediate t job reason w =
     (let jid = j_id job;
          guard = (\<lambda>j. j_id j = jid \<and> j_status j = j_status job);
          changed = count_jobs guard w
      in if changed = 0 then (Inl (RuntimeError ''failed to cancel intermediate job (concurrent update?)''), w)
         else let w1 = update_jobs guard
                         (Assign (Some CANCELED) False (U_updated_at (t 0) # cancel_marks (t 0) reason @ clear_lease)) w;
                  w2 = record_event (t 1) jid ''status_changed'' (status_payload (j_status job) CANCELED) w1
              in case get_job jid w2 of
                   None \<Rightarrow> (Inl (RuntimeError ''failed to reload canceled job''), w2)
                 | Some j \<Rightarrow> (Inr j, write_canceled j reason w2))"

definition request_cancel ::
    "clock \<Rightarrow> string \<Rightarrow> json option \<Rightarrow> string option \<Rightarrow> world \<Rightarrow> (job, world) outcome" where
  "request_cancel t jid by reason0 w =
     (case get_job jid w of
        None \<Rightarrow> (Inl (KeyError jid), w)
      | Some job \<Rightarrow>
          (let now = t 0;
               reason = strip (or_empty reason0);
               payload = cancel_payload now by reason;
               requested = record_event (t 1) jid ''cancel_requested'' payload
           in if j_status job = QUEUED
              then (case transition (later 2 t) jid CANCELED (cancel_marks now reason) None None False w of
                      (Inl e, w1) \<Rightarrow> (Inl e, w1)
                    | (Inr j, w1) \<Rightarrow> (Inr j, write_canceled j reason (requested w1)))
              else if is_terminal (j_status job) then (Inr job, w)
              else if j_status job = IN_PROGRESS \<and> j_phase job = Wait
              then (case cancel_waiting (\<lambda>k. if k = 0 then now else t (k + 1)) job reason w of
                      (Inl e, w1) \<Rightarrow> (Inl e, w1)
                    | (Inr j, w1) \<Rightarrow> (Inr j, requested w1))
              else if j_status job \<in> set error_statuses
              then (case cancel_intermediate (\<lambda>k. if k = 0 then now else t (k + 1)) job reason w of
                      (Inl e, w1) \<Rightarrow> (Inl e, w1)
                    | (Inr j, w1) \<Rightarrow> (Inr j, requested w1))
              else (let w1 = requested (update_jobs (\<lambda>j. j_id j = jid \<and> True)
                               (Assign None False [U_cancel_requested_at (Some now), U_updated_at now]) w)
                    in (reread jid w1, w1))))"

section \<open>Facts\<close>

lemma write_canceled_sel [store_simps]:
  "jobs (write_canceled j r w) = jobs w" "get_job i (write_canceled j r w) = get_job i w"
  "ids_distinct (write_canceled j r w) = ids_distinct w" "meta (write_canceled j r w) = meta w"
  "idempotency (write_canceled j r w) = idempotency w"
  by (simp_all add: write_canceled_def store_simps)

end
