(* ===== verification/JobSystem.thy ===== *)
theory JobSystem
  imports JobLife Create Cancel
begin

text \<open>
  The job queue as a system: the calls the API and the workers make on the database, what
  each does to the tables, the states they can reach, and the refinement of \<open>JobLife\<close>:
  whatever is called, every job that exists stays the same request and its life moves by at
  most one step.
\<close>

section \<open>Cancellation\<close>

lemma transition_one:
  assumes "ids_distinct w" and "get_job jid w = Some job"
    and "disallowed_key us = None \<Longrightarrow> evolves u acts job (moved (t 0) dst us job)"
    and "transition t jid dst us ow tk live w = (r, w')"
  shows "one_change u acts (jobs w) (jobs w')"
  using assms(1)
proof (cases rule: transition_cases [where t = t and jid = jid and dst = dst and updates = us
      and owner = ow and token = tk and live = live])
  case (raised e)
  then show ?thesis using assms by (simp add: one_change_refl)
next
  case (moves job' w2)
  from moves(1) assms(2) have [simp]: "job' = job" by simp
  from moves(2) have ok: "transition_ok dst us ow tk live (t 1) job" by simp
  have w': "w' = w2" using moves(3) assms(4) by simp
  show ?thesis
  proof (rule one_changeI [where job = job and job' = "moved (t 0) dst us job"])
    show "ids_distinct w'" using assms(1) by (simp add: w' moves(4) store_simps)
    show "get_job jid w = Some job" by (rule assms(2))
    show "evolves u acts job (moved (t 0) dst us job)"
      using ok by (intro assms(3)) (simp add: transition_ok_def)
    show "get_job i w' = (if i = jid then Some (moved (t 0) dst us job) else get_job i w)" for i
      by (simp only: w' moves(4) transition_events_sel transition_rows [OF assms(1,2) ok] \<open>job' = job\<close>)
  qed
qed

definition withdrawable :: "job \<Rightarrow> bool" where
  "withdrawable j \<longleftrightarrow> \<not> is_terminal (j_status j) \<and> (j_status j \<noteq> IN_PROGRESS \<or> j_phase j = Wait)"

lemma evolves_withdraw:
  assumes "withdrawable j" and "same_request j j'" and "answer_of j' = answer_of j"
    and "life_of j' = (life_of j)\<lparr>l_status := CANCELED\<rparr>
         \<or> life_of j' = (life_of j)\<lparr>l_status := CANCELED, l_holder := None, l_expires := None\<rparr>"
  shows "evolves t {Withdraw} j j'"
  using assms by (auto simp: evolves_def withdrawable_def life_step_withdraw)

lemma cancel_marks_life:
  "life_of (moved now CANCELED (cancel_marks n r) j) = (life_of j)\<lparr>l_status := CANCELED\<rparr>"
  "life_of (moved now CANCELED (cancel_marks n r @ clear_lease) j) =
     (life_of j)\<lparr>l_status := CANCELED, l_holder := None, l_expires := None\<rparr>"
  by (simp_all add: moved_def cancel_marks_def clear_lease_def life_of_def)

lemma cancel_marks_answer [simp]:
  "answer_of (moved now CANCELED (cancel_marks n r) j) = answer_of j"
  "answer_of (moved now CANCELED (cancel_marks n r @ clear_lease) j) = answer_of j"
  by (simp_all add: moved_def cancel_marks_def clear_lease_def answer_of_def)

lemma store_canceled_withdraws:
  assumes "ids_distinct w" and "get_job jid w = Some job" and "withdrawable job"
  shows "one_change u {Withdraw} (jobs w) (jobs (snd (store_canceled_result t jid worker token reason w)))"
proof (cases "j_status job = IN_PROGRESS")
  case False
  then show ?thesis
    using assms by (simp add: store_canceled_result_def one_change_refl)
next
  case True
  let ?r = "or_none (or_empty reason)"
  let ?us = "[U_cancel_requested_at (Some (cancel_time (t 0) job)),
              U_last_error_type (case ?r of None \<Rightarrow> None | Some _ \<Rightarrow> Some ''Canceled''), U_last_error ?r]"
  obtain r w1 where tr: "transition (later 1 t) jid CANCELED ?us (Some worker) (Some token) True w = (r, w1)"
    by fastforce
  have "one_change u {Withdraw} (jobs w) (jobs w1)"
    by (rule transition_one [OF assms(1,2) _ tr])
       (auto intro!: evolves_withdraw assms(3) simp: moved_def same_request_def answer_of_def)
  moreover have "jobs (snd (store_canceled_result t jid worker token reason w)) = jobs w1"
    using True assms(2) tr by (simp add: store_canceled_result_def store_simps split: sum.splits)
  ultimately show ?thesis by simp
qed

lemma cancel_waiting_change:
  assumes "ids_distinct w" and "get_job jid w = Some job" and "withdrawable job"
  shows "one_change u {Withdraw} (jobs w) (jobs (snd (cancel_waiting t job reason w)))"
proof (cases "cancel_lease_active (t 0) job")
  case True
  then show ?thesis
    using store_canceled_withdraws [OF assms] get_job_id [OF assms(2)]
    by (simp add: cancel_waiting_def)
next
  case False
  obtain r w1 where tr: "transition (later 1 t) jid CANCELED (cancel_marks (t 0) reason @ clear_lease)
      None None False w = (r, w1)" by fastforce
  have "one_change u {Withdraw} (jobs w) (jobs w1)"
    by (rule transition_one [OF assms(1,2) _ tr])
       (auto intro!: evolves_withdraw assms(3) simp: cancel_marks_life)
  then show ?thesis
    using False tr get_job_id [OF assms(2)]
    by (simp add: cancel_waiting_def store_simps split: sum.splits)
qed

lemma cancel_intermediate_change:
  assumes "ids_distinct w" and "get_job jid w = Some job" and "withdrawable job"
  shows "one_change u {Withdraw} (jobs w) (jobs (snd (cancel_intermediate t job reason w)))"
proof -
  define s where "s = Assign (Some CANCELED) False (U_updated_at (t 0) # cancel_marks (t 0) reason @ clear_lease)"
  define w1 where "w1 = update_jobs (\<lambda>j. j_id j = jid \<and> j_status j = j_status job) s w"
  have run: "run_statement s job = moved (t 0) CANCELED (cancel_marks (t 0) reason @ clear_lease) job"
    by (simp add: s_def moved_def)
  have "one_change u {Withdraw} (jobs w) (jobs w1)"
  proof (rule one_changeI [where job = job and job' = "run_statement s job"])
    show "ids_distinct w1" using assms(1) by (simp add: w1_def store_simps)
    show "get_job jid w = Some job" by (rule assms(2))
    show "evolves u {Withdraw} job (run_statement s job)"
      unfolding run by (auto intro!: evolves_withdraw assms(3) simp: cancel_marks_life)
    show "get_job i w1 = (if i = jid then Some (run_statement s job) else get_job i w)" for i
      by (simp add: w1_def update_one [OF assms(2)])
  qed
  moreover have "jobs (snd (cancel_intermediate t job reason w)) = jobs w
      \<or> jobs (snd (cancel_intermediate t job reason w)) = jobs w1"
    using get_job_id [OF assms(2)]
    by (auto simp: cancel_intermediate_def Let_def w1_def s_def store_simps split: option.splits)
  ultimately show ?thesis using one_change_refl [OF assms(1)] by auto
qed

lemma evolves_same_life:
  "same_request j j' \<Longrightarrow> answer_of j' = answer_of j \<Longrightarrow> life_of j' = life_of j \<Longrightarrow> evolves t acts j j'"
  by (simp add: evolves_def)

text \<open>An unguarded note on one row that leaves its life alone.\<close>

lemma note_change:
  assumes "ids_distinct w" and "get_job jid w = Some job"
    and "same_request job (run_statement s job)" and "answer_of (run_statement s job) = answer_of job"
    and "life_of (run_statement s job) = life_of job"
  shows "one_change t acts (jobs w) (jobs (update_jobs (\<lambda>j. j_id j = jid \<and> True) s w))"
proof (rule one_changeI [where job = job and job' = "run_statement s job"])
  show "ids_distinct (update_jobs (\<lambda>j. j_id j = jid \<and> True) s w)"
    using assms(1) by (simp add: store_simps)
  show "get_job i (update_jobs (\<lambda>j. j_id j = jid \<and> True) s w) =
          (if i = jid then Some (run_statement s job) else get_job i w)" for i
    by (simp only: update_one [OF assms(2)] if_True)
qed (use assms in \<open>simp_all add: evolves_same_life\<close>)

lemma request_cancel_change:
  assumes "ids_distinct w"
  shows "one_change u {Withdraw} (jobs w) (jobs (snd (request_cancel t jid by reason w)))"
proof (cases "get_job jid w")
  case None
  then show ?thesis using assms by (simp add: request_cancel_def one_change_refl)
next
  case (Some job)
  let ?reason = "strip (or_empty reason)"
  let ?t = "\<lambda>k. if k = 0 then t 0 else t (k + 1)"
  consider "j_status job = QUEUED" | "is_terminal (j_status job)"
    | "j_status job = IN_PROGRESS" "j_phase job = Wait"
    | "j_status job \<in> set error_statuses"
    | "j_status job = IN_PROGRESS" "j_phase job \<noteq> Wait"
    by (cases "j_status job") (auto simp: error_statuses_def)
  then show ?thesis
  proof cases
    case 1
    obtain r w1 where tr: "transition (later 2 t) jid CANCELED (cancel_marks (t 0) ?reason)
        None None False w = (r, w1)" by fastforce
    have "one_change u {Withdraw} (jobs w) (jobs w1)"
      using 1 by (intro transition_one [OF assms Some _ tr])
        (auto intro!: evolves_withdraw simp: withdrawable_def cancel_marks_life)
    then show ?thesis
      using 1 Some tr by (simp add: request_cancel_def Let_def store_simps split: sum.splits)
  next
    case 2
    then show ?thesis
      using Some assms by (auto simp: request_cancel_def Let_def is_terminal_cases one_change_refl)
  next
    case 3
    then have "one_change u {Withdraw} (jobs w) (jobs (snd (cancel_waiting ?t job ?reason w)))"
      by (intro cancel_waiting_change [OF assms Some]) (simp add: withdrawable_def)
    then show ?thesis
      using 3 Some
      by (auto simp: request_cancel_def Let_def store_simps split: sum.splits prod.splits)
  next
    case 4
    then have "one_change u {Withdraw} (jobs w) (jobs (snd (cancel_intermediate ?t job ?reason w)))"
      by (intro cancel_intermediate_change [OF assms Some]) (auto simp: withdrawable_def error_statuses_def)
    then show ?thesis
      using 4 Some
      by (auto simp: request_cancel_def Let_def store_simps error_statuses_def split: sum.splits prod.splits)
  next
    case 5
    have "one_change u {Withdraw} (jobs w) (jobs (update_jobs (\<lambda>j. j_id j = jid \<and> True)
        (Assign None False [U_cancel_requested_at (Some (t 0)), U_updated_at (t 0)]) w))"
      by (rule note_change [OF assms Some]) (simp_all add: same_request_def answer_of_def)
    then show ?thesis
      using 5 Some by (simp add: request_cancel_def Let_def store_simps error_statuses_def)
  qed
qed

lemma export_change:
  assumes "ids_distinct w"
  shows "one_change u acts (jobs w) (jobs (snd (store_conversation_export_result t jid pa sha n f w)))"
proof (cases "get_job jid w")
  case None
  then show ?thesis using assms by (simp add: store_conversation_export_result_def one_change_refl)
next
  case (Some job)
  have "one_change u acts (jobs w) (jobs (update_jobs (\<lambda>j. j_id j = jid \<and> True)
      (Assign None False [U_export_format a, U_export_path b, U_export_sha256 c, U_export_chars d,
         U_updated_at x]) w))" for a b c d x
    by (rule note_change [OF assms Some]) (simp_all add: same_request_def life_of_def answer_of_def)
  then show ?thesis
    using Some assms
    by (simp add: store_conversation_export_result_def Let_def store_simps one_change_refl)
qed

section \<open>Creation\<close>

definition fresh_life :: "int \<Rightarrow> life" where
  "fresh_life m =
     \<lparr>l_status = QUEUED, l_phase = Send, l_holder = None, l_expires = None, l_attempts = 0, l_max = m\<rparr>"

definition fresh_job :: "string \<Rightarrow> request \<Rightarrow> job \<Rightarrow> bool" where
  "fresh_job jid q j \<longleftrightarrow>
     j_id j = jid \<and> j_kind j = rq_kind q \<and> life_of j = fresh_life (rq_max_attempts q)
     \<and> answer_of j = (None, None, None, None)"

lemma fresh_new_job: "fresh_job jid q (deferred rt now w (new_job rt now1 jid q url input))"
  by (simp add: fresh_job_def deferred_def Let_def new_job_def life_of_def fresh_life_def answer_of_def)

text \<open>What admission gives is what \<open>create_job\<close> works with, whatever idempotency row
  was inserted before.\<close>

lemma create_job_new:
  assumes "\<not> starts_with ''qwen_web.'' (lower (strip (rq_kind q)))"
    and "idem_get (rq_key q) w = None"
  shows "create_job rt t jid q w =
    (case admit rt q w of
       Inl e \<Rightarrow> (Inl e, w)
     | Inr (url, input) \<Rightarrow>
         (let j = new_job rt (t 1) jid q url input;
              w1 = w\<lparr>idempotency := idempotency w @ [\<lparr>idem_key = rq_key q,
                      idem_hash = request_payload_hash rt q, idem_job = jid, idem_created_at = t 0\<rparr>]\<rparr>;
              w4 = log_creation (later 3 t) jid q input
                     (defer_by_pause rt (\<lambda>k. t (k + 1)) j (insert_job j w1))
          in (reread jid w4, w4)))"
proof -
  define w1 where "w1 = w\<lparr>idempotency := idempotency w @ [\<lparr>idem_key = rq_key q,
                      idem_hash = request_payload_hash rt q, idem_job = jid, idem_created_at = t 0\<rparr>]\<rparr>"
  have b: "begin_idempotency (t 0) (rq_key q) (request_payload_hash rt q) jid w = (Inr (True, jid), w1)"
    using assms(2) by (simp add: begin_idempotency_def w1_def)
  have a: "admit rt q w1 = admit rt q w"
    by (rule admit_frame) (simp add: w1_def)
  show ?thesis
    using assms(1) by (simp add: create_job_def b a delete_inserted [OF b] w1_def [symmetric]
        split: sum.splits)
qed

text \<open>A creation leaves the table alone or adds one fresh job.\<close>

lemma create_change:
  assumes "ids_distinct w" and "get_job jid w = None"
  shows "ids_distinct (snd (create_job rt t jid q w)) \<and>
    (jobs (snd (create_job rt t jid q w)) = jobs w \<or>
     (\<exists>j. fresh_job jid q j \<and>
        (\<forall>i. get_job i (snd (create_job rt t jid q w)) = (if i = jid then Some j else get_job i w))))"
proof (cases "starts_with ''qwen_web.'' (lower (strip (rq_kind q))) \<or> idem_get (rq_key q) w \<noteq> None")
  case True
  then show ?thesis
    using assms(1)
    by (auto simp: create_job_def begin_idempotency_def split: option.splits if_splits)
next
  case False
  then have new: "\<not> starts_with ''qwen_web.'' (lower (strip (rq_kind q)))" "idem_get (rq_key q) w = None"
    by simp_all
  note eq = create_job_new [OF new, where rt = rt and t = t and jid = jid]
  show ?thesis
  proof (cases "admit rt q w")
    case (Inl e)
    then show ?thesis using assms(1) by (simp add: eq)
  next
    case (Inr ui)
    then obtain url input where ui: "admit rt q w = Inr (url, input)" by (cases ui) auto
    define j where "j = new_job rt (t 1) jid q url input"
    define w1 where "w1 = w\<lparr>idempotency := idempotency w @ [\<lparr>idem_key = rq_key q,
                      idem_hash = request_payload_hash rt q, idem_job = jid, idem_created_at = t 0\<rparr>]\<rparr>"
    define w3 where "w3 = defer_by_pause rt (\<lambda>k. t (k + 1)) j (insert_job j w1)"
    have id: "j_id j = jid" by (simp add: j_def new_job_def)
    have same: "get_job i w1 = get_job i w" for i
      by (rule get_job_same_jobs) (simp add: w1_def)
    have ins: "get_job i (insert_job j w1) = (if i = jid then Some j else get_job i w)" for i
      using assms(2) by (simp add: get_job_insert_job same id split: option.splits)
    have w: "snd (create_job rt t jid q w) = log_creation (later 3 t) jid q input w3"
      by (simp add: eq ui Let_def j_def w1_def w3_def)
    have "ids_distinct w1" using assms(1) by (simp add: ids_distinct_def w1_def)
    then have "ids_distinct (insert_job j w1)"
      using assms(2) by (intro ids_distinct_insert_job) (simp_all add: id same)
    moreover have "get_job i w3 = (if i = jid then Some (deferred rt (t 1) (insert_job j w1) j) else get_job i w)" for i
      using get_job_defer [of j "insert_job j w1" i rt "\<lambda>k. t (k + 1)"] by (simp add: ins id w3_def)
    ultimately show ?thesis
      unfolding w by (auto simp: store_simps w3_def j_def intro!: fresh_new_job exI)
  qed
qed

section \<open>Calls\<close>

text \<open>The calls on the queue, with what the process supplies (ids and tokens drawn by
  \<open>uuid4\<close>).\<close>

datatype call =
    CreateJob string request
  | ClaimNext string string int "string option" "string option"
  | RenewLease string string string int
  | SetConversationUrl string string string string
  | StoreExport string string "string option" "int option" string
  | StoreError string string string string string job_status
  | StoreRetryable string string string job_status real string string "string option"
  | ReleaseForWait string string string real
  | StoreCanceled string string string "string option"
  | StoreAnswer "nat option" string string string string string
  | RequestCancel string "json option" "string option"
  | SetPause string real "string option"
  | SetHold string real string string real
  | ClearHold real

fun perform :: "runtime \<Rightarrow> ledger \<Rightarrow> clock \<Rightarrow> call \<Rightarrow> world \<Rightarrow> world" where
  "perform rt lg t (CreateJob jid q) w = snd (create_job rt t jid q w)"
| "perform rt lg t (ClaimNext token worker ttl ph pre) w = snd (claim_next_job rt t token worker ttl ph pre w)"
| "perform rt lg t (RenewLease jid worker token ttl) w = snd (renew_lease t jid worker token ttl w)"
| "perform rt lg t (SetConversationUrl jid worker token url) w = snd (set_conversation_url rt t jid worker token url w)"
| "perform rt lg t (StoreExport jid path sha n fmt) w = snd (store_conversation_export_result t jid path sha n fmt w)"
| "perform rt lg t (StoreError jid worker token ety error st) w =
     snd (store_error_result rt lg t jid worker token ety error st w)"
| "perform rt lg t (StoreRetryable jid worker token st nb ety error ph) w =
     snd (store_retryable_result rt lg t jid worker token st nb ety error ph w)"
| "perform rt lg t (ReleaseForWait jid worker token nb) w = snd (release_for_wait t jid worker token nb w)"
| "perform rt lg t (StoreCanceled jid worker token reason) w = snd (store_canceled_result t jid worker token reason w)"
| "perform rt lg t (StoreAnswer io jid worker token answer fmt) w =
     snd (store_answer_result rt io t jid worker token answer fmt w)"
| "perform rt lg t (RequestCancel jid by reason) w = snd (request_cancel t jid by reason w)"
| "perform rt lg t (SetPause mode until reason) w = snd (set_pause_state mode until reason w)"
| "perform rt lg t (SetHold reason until source memo now) w =
     snd (set_chatgpt_web_hold rt reason until source memo now w)"
| "perform rt lg t (ClearHold now) w = clear_chatgpt_web_hold now w"

text \<open>Who acts on a job through a call.\<close>

fun acts_of :: "call \<Rightarrow> act set" where
  "acts_of (ClaimNext token worker _ _ _) = {Take worker token}"
| "acts_of (RenewLease _ worker token _) = {Work worker token}"
| "acts_of (SetConversationUrl _ worker token _) = {Work worker token}"
| "acts_of (StoreError _ worker token _ _ _) = {Work worker token}"
| "acts_of (StoreRetryable _ worker token _ _ _ _ _) = {Work worker token}"
| "acts_of (ReleaseForWait _ worker token _) = {Work worker token}"
| "acts_of (StoreCanceled _ worker token _) = {Work worker token}"
| "acts_of (StoreAnswer _ _ worker token _ _) = {Work worker token}"
| "acts_of (RequestCancel _ _ _) = {Withdraw}"
| "acts_of _ = {}"

text \<open>A new job gets an id no row has.\<close>

fun fresh_id :: "call \<Rightarrow> world \<Rightarrow> bool" where
  "fresh_id (CreateJob jid _) w = (get_job jid w = None)"
| "fresh_id _ w = True"

lemma set_pause_jobs [store_simps]: "jobs (snd (set_pause_state m u r w)) = jobs w"
  by (simp add: set_pause_state_def Let_def store_simps)

lemma hold_jobs [store_simps]:
  "jobs (snd (set_chatgpt_web_hold rt r u s n now w)) = jobs w"
  "jobs (clear_chatgpt_web_hold now w) = jobs w"
  by (simp_all add: set_chatgpt_web_hold_def clear_chatgpt_web_hold_def Let_def store_simps)

text \<open>The refinement: what a call does to the jobs that exist.\<close>

lemma perform_change:
  assumes "ids_distinct w" and "\<And>jid q. c \<noteq> CreateJob jid q"
  shows "one_change t (acts_of c) (jobs w) (jobs (perform rt lg t c w))"
proof (cases c)
  case (CreateJob jid q)
  with assms(2) show ?thesis by blast
qed (simp_all add: claim_change [OF assms(1)] leased_one_change [OF renew_change [OF assms(1)]]
      leased_one_change [OF set_url_change [OF assms(1)]] export_change [OF assms(1)]
      leased_one_change [OF store_error_change [OF assms(1)]]
      leased_one_change [OF store_retryable_change [OF assms(1)]]
      leased_one_change [OF release_change [OF assms(1)]]
      leased_one_change [OF store_canceled_change [OF assms(1)]]
      leased_one_change [OF store_answer_change [OF assms(1)]]
      request_cancel_change [OF assms(1)] store_simps one_change_refl [OF assms(1)])

lemma perform_distinct:
  assumes "ids_distinct w" and "fresh_id c w"
  shows "ids_distinct (perform rt lg t c w)"
proof (cases "\<exists>jid q. c = CreateJob jid q")
  case True
  then show ?thesis using assms create_change by auto
next
  case False
  then have "one_change t (acts_of c) (jobs w) (jobs (perform rt lg t c w))"
    by (intro perform_change assms(1)) auto
  then show ?thesis by (simp add: one_change_def ids_distinct_def)
qed

lemma perform_job:
  assumes "ids_distinct w" and "fresh_id c w" and "get_job i w = Some j"
  shows "\<exists>j'. get_job i (perform rt lg t c w) = Some j' \<and> (j' = j \<or> evolves t (acts_of c) j j')"
proof (cases "\<exists>jid q. c = CreateJob jid q")
  case True
  then obtain jid q where c: "c = CreateJob jid q" by blast
  with assms(2) have "get_job jid w = None" by simp
  then show ?thesis
    using create_change [OF assms(1), of jid rt t q] assms(3) c get_job_same_jobs
    by (metis perform.simps(1) option.distinct(1))
next
  case False
  then have "one_change t (acts_of c) (jobs w) (jobs (perform rt lg t c w))"
    by (intro perform_change assms(1)) auto
  then show ?thesis using assms(3) by (rule one_change_get)
qed

lemma perform_new:
  assumes "ids_distinct w" and "fresh_id c w" and "get_job i w = None"
    and "get_job i (perform rt lg t c w) = Some j"
  shows "\<exists>q. c = CreateJob i q \<and> fresh_job i q j"
proof (cases "\<exists>jid q. c = CreateJob jid q")
  case True
  then obtain jid q where c: "c = CreateJob jid q" by blast
  with assms(2) have "get_job jid w = None" by simp
  then show ?thesis
    using create_change [OF assms(1), of jid rt t q] assms(3,4) c get_job_same_jobs
    by (metis perform.simps(1) option.distinct(1) option.inject)
next
  case False
  then have "one_change t (acts_of c) (jobs w) (jobs (perform rt lg t c w))"
    by (intro perform_change assms(1)) auto
  with assms(3,4) show ?thesis using one_change_None by fastforce
qed

section \<open>Reachable states\<close>

inductive system_step :: "runtime \<Rightarrow> ledger \<Rightarrow> world \<Rightarrow> world \<Rightarrow> bool" for rt lg where
  call: "fresh_id c w \<Longrightarrow> system_step rt lg w (perform rt lg t c w)"

inductive reachable :: "runtime \<Rightarrow> ledger \<Rightarrow> world \<Rightarrow> bool" for rt lg where
  start: "reachable rt lg empty_world"
| step: "reachable rt lg w \<Longrightarrow> system_step rt lg w w' \<Longrightarrow> reachable rt lg w'"

inductive_cases system_stepE: "system_step rt lg w w'"

definition sound :: "world \<Rightarrow> bool" where
  "sound w \<longleftrightarrow> ids_distinct w \<and> (\<forall>i j. get_job i w = Some j \<longrightarrow> within_allowance (life_of j))"

lemma evolves_within: "evolves t acts j j' \<Longrightarrow> within_allowance (life_of j) \<Longrightarrow> within_allowance (life_of j')"
  by (auto simp: evolves_def dest: step_within)

lemma fresh_within: "fresh_job i q j \<Longrightarrow> within_allowance (life_of j)"
  by (simp only: fresh_job_def) (simp add: within_allowance_def fresh_life_def del: life_of_sel)

lemma sound_step:
  assumes "system_step rt lg w w'" and "sound w"
  shows "sound w'"
  using assms(1)
proof (rule system_stepE)
  fix c t assume w': "w' = perform rt lg t c w" and fresh: "fresh_id c w"
  have dist: "ids_distinct w" using assms(2) by (simp add: sound_def)
  have "within_allowance (life_of j')" if get: "get_job i w' = Some j'" for i j'
  proof (cases "get_job i w")
    case None
    then have "\<exists>q. fresh_job i q j'"
      using perform_new [OF dist fresh None, of rt lg t j'] get w' by auto
    then show ?thesis using fresh_within by blast
  next
    case (Some j)
    then have "within_allowance (life_of j)" using assms(2) by (simp add: sound_def)
    moreover have "j' = j \<or> evolves t (acts_of c) j j'"
      using perform_job [OF dist fresh Some, of rt lg t] get w' by simp
    ultimately show ?thesis using evolves_within by blast
  qed
  then show ?thesis using perform_distinct [OF dist fresh] by (simp add: sound_def w')
qed

lemma sound_empty: "sound empty_world"
  by (simp add: sound_def empty_world_def ids_distinct_def keys_distinct_def get_job_def)

lemma reachable_sound: "reachable rt lg w \<Longrightarrow> sound w"
  by (induction rule: reachable.induct) (blast intro: sound_empty sound_step)+

text \<open>Along any run of calls a job persists, keeps its request and moves through the life
  relation.\<close>

lemma run_job:
  assumes "(system_step rt lg)\<^sup>*\<^sup>* w w'" and "ids_distinct w" and "get_job i w = Some j"
  shows "ids_distinct w' \<and> (\<exists>j'. get_job i w' = Some j' \<and> same_request j j'
           \<and> life_move\<^sup>*\<^sup>* (life_of j) (life_of j')
           \<and> (is_terminal (j_status j) \<longrightarrow> answer_of j' = answer_of j))"
  using assms
proof (induction rule: rtranclp_induct)
  case base
  then show ?case by auto
next
  case (step w1 w2)
  then obtain j1 where j1: "get_job i w1 = Some j1" "same_request j j1" "ids_distinct w1"
      "life_move\<^sup>*\<^sup>* (life_of j) (life_of j1)"
      "is_terminal (j_status j) \<longrightarrow> answer_of j1 = answer_of j" by auto
  from step.hyps(2) obtain c t where w2: "w2 = perform rt lg t c w1" and fresh: "fresh_id c w1"
    by (auto elim: system_stepE)
  obtain j2 where j2: "get_job i w2 = Some j2" "j2 = j1 \<or> evolves t (acts_of c) j1 j2"
    using perform_job [OF j1(3) fresh j1(1), of rt lg t] w2 by auto
  have "life_move (life_of j1) (life_of j2)" "same_request j1 j2"
    using j2(2) by (auto simp: evolves_def life_move_def)
  moreover have "answer_of j2 = answer_of j1" if "is_terminal (j_status j)"
  proof -
    have "life_of j1 = life_of j"
      using that j1(4) job_lives.final_run by (simp add: life_final_def)
    then have "j_status j1 \<noteq> IN_PROGRESS"
      using that by (metis life_of_sel(1) is_terminal_simps(5))
    then show ?thesis using j2(2) by (auto simp: evolves_def)
  qed
  ultimately show ?case
    using j1 j2(1) w2 perform_distinct [OF j1(3) fresh] same_request_trans
    by (metis rtranclp.rtrancl_into_rtrancl)
qed

section \<open>Calls of one worker on one job\<close>

text \<open>The calls a worker makes for a job it took. All but the record of an export name the worker
  and its token: \<open>store_conversation_export_result\<close> has neither argument.\<close>

fun worker_call :: "string \<Rightarrow> string \<Rightarrow> string \<Rightarrow> call \<Rightarrow> bool" where
  "worker_call jid worker token (RenewLease i ow tk _) = (i = jid \<and> ow = worker \<and> tk = token)"
| "worker_call jid worker token (SetConversationUrl i ow tk _) = (i = jid \<and> ow = worker \<and> tk = token)"
| "worker_call jid worker token (StoreError i ow tk _ _ _) = (i = jid \<and> ow = worker \<and> tk = token)"
| "worker_call jid worker token (StoreRetryable i ow tk _ _ _ _ _) = (i = jid \<and> ow = worker \<and> tk = token)"
| "worker_call jid worker token (ReleaseForWait i ow tk _) = (i = jid \<and> ow = worker \<and> tk = token)"
| "worker_call jid worker token (StoreCanceled i ow tk _) = (i = jid \<and> ow = worker \<and> tk = token)"
| "worker_call jid worker token (StoreAnswer _ i ow tk _ _) = (i = jid \<and> ow = worker \<and> tk = token)"
| "worker_call jid worker token (StoreExport i _ _ _ _) = (i = jid)"
| "worker_call jid worker token _ = False"

fun records_export :: "call \<Rightarrow> bool" where
  "records_export (StoreExport _ _ _ _ _) = True"
| "records_export _ = False"

text \<open>What a recorded export leaves of a row: all but the export columns and the time.\<close>

definition export_noted :: "job \<Rightarrow> job \<Rightarrow> bool" where
  "export_noted j j' \<longleftrightarrow>
     j' = j\<lparr>j_export_format := j_export_format j', j_export_path := j_export_path j',
            j_export_sha256 := j_export_sha256 j', j_export_chars := j_export_chars j',
            j_updated_at := j_updated_at j'\<rparr>"

lemma export_rows:
  assumes "c = StoreExport jid path sha n fmt"
  shows "list_all2 (\<lambda>j j'. j' = j \<or> j_id j = jid \<and> export_noted j j') (jobs w) (jobs (perform rt lg t c w))"
proof -
  have refl: "list_all2 (\<lambda>j j'. j' = j \<or> j_id j = jid \<and> export_noted j j') rows rows" for rows
    by (simp add: list_all2_same)
  have upd: "list_all2 (\<lambda>j j'. j' = j \<or> j_id j = jid \<and> export_noted j j') rows
      (row_update (\<lambda>j. j_id j = jid \<and> True) (run_statement (Assign None False
        [U_export_format a, U_export_path b, U_export_sha256 s, U_export_chars d, U_updated_at x])) rows)"
    for rows a b s d x
    by (simp add: row_update_def list_all2_map2 list_all2_same export_noted_def)
  show ?thesis
  proof (cases "get_job jid w")
    case (Some job)
    then show ?thesis using refl upd
      by (simp add: assms store_conversation_export_result_def Let_def store_simps)
  qed (simp add: assms store_conversation_export_result_def refl)
qed

lemma worker_call_fence:
  assumes "worker_call jid worker token c" and "ids_distinct w"
    and "\<And>job k. get_job jid w = Some job \<Longrightarrow> \<not> holds_lease worker token (t k) job"
  shows "(\<not> records_export c \<longrightarrow> jobs (perform rt lg t c w) = jobs w)
    \<and> list_all2 (\<lambda>j j'. j' = j \<or> j_id j = jid \<and> export_noted j j') (jobs w) (jobs (perform rt lg t c w))"
proof -
  note fences = renew_op.fence url_op.fence error_op.fence retry_op.fence release_op.fence
    cancel_op.fence answer_op.fence
  show ?thesis
  proof (cases "records_export c")
    case True
    then obtain path sha n fmt where "c = StoreExport jid path sha n fmt" using assms(1) by (cases c) auto
    then show ?thesis using export_rows by simp
  next
    case False
    then have "jobs (perform rt lg t c w) = jobs w"
      using assms(1) by (cases c) (simp_all add: fences [OF assms(2,3)])
    then show ?thesis by (simp add: list_all2_same)
  qed
qed

section \<open>A lease and the calls of others\<close>

text \<open>A call, made up to time \<open>e\<close>, that is not one under the lease of job \<open>j\<close>.\<close>

inductive others_step :: "runtime \<Rightarrow> ledger \<Rightarrow> real \<Rightarrow> job \<Rightarrow> world \<Rightarrow> world \<Rightarrow> bool" for rt lg e j where
  call: "fresh_id c w \<Longrightarrow> (\<And>k. t k \<le> e) \<Longrightarrow>
    (\<And>worker token. Work worker token \<in> acts_of c \<Longrightarrow> \<not> owns_lease worker token j) \<Longrightarrow>
    others_step rt lg e j w (perform rt lg t c w)"

inductive_cases others_stepE: "others_step rt lg e j w w'"

lemma life_eq_sel:
  "life_of j' = life_of j \<Longrightarrow>
     j_status j' = j_status j \<and> j_phase j' = j_phase j \<and> j_lease_expires_at j' = j_lease_expires_at j"
  by (simp add: life_of_def)

lemma life_owns: "life_of j' = life_of j \<Longrightarrow> owns_lease worker token j' = owns_lease worker token j"
  by (auto simp: life_of_def owns_lease_def split: option.splits)

lemma life_holds: "life_of j' = life_of j \<Longrightarrow> holds_lease worker token now j' = holds_lease worker token now j"
  using life_eq_sel [of j' j] life_owns [of j' j] by (simp add: holds_lease_def lease_unexpired_def)

lemma others_keep_life:
  assumes "others_step rt lg e j0 w w'" and "ids_distinct w" and "get_job i w = Some j"
    and "life_of j = life_of j0" and "j_status j = IN_PROGRESS" and "j_phase j = Send"
    and "j_lease_expires_at j = Some e"
  shows "ids_distinct w' \<and> (\<exists>j'. get_job i w' = Some j' \<and> life_of j' = life_of j \<and> same_request j j')"
  using assms(1)
proof (rule others_stepE)
  fix c t
  assume w': "w' = perform rt lg t c w" and fresh: "fresh_id c w" and le: "\<And>k. t k \<le> e"
    and others: "\<And>worker token. Work worker token \<in> acts_of c \<Longrightarrow> \<not> owns_lease worker token j0"
  obtain j' where j': "get_job i w' = Some j'" "j' = j \<or> evolves t (acts_of c) j j'"
    using perform_job [OF assms(2) fresh assms(3)] w' by blast
  have holder: "l_holder (life_of j) = Some (worker, token) \<Longrightarrow> owns_lease worker token j0" for worker token
    using life_owns [OF assms(4)] by (auto simp: life_of_def owns_lease_def split: option.splits)
  have "life_of j' = life_of j \<and> same_request j j'"
    using j'(2)
  proof
    assume ev: "evolves t (acts_of c) j j'"
    have "\<not> life_step (t k) a (life_of j) l" if "a \<in> acts_of c" for k a l
    proof
      assume "life_step (t k) a (life_of j) l"
      then obtain worker token where "a = Work worker token" "l_holder (life_of j) = Some (worker, token)"
        using holder_only [of "t k" a "life_of j" l e] le assms(5-7) by (auto simp: life_of_def)
      then show False using others holder that by blast
    qed
    then show ?thesis using ev unfolding evolves_def by blast
  qed simp
  then show ?thesis
    using j'(1) perform_distinct [OF assms(2) fresh] w' by blast
qed

lemma renew_succeeds:
  assumes "get_job i w = Some j" and "holds_lease worker token (t 0) j"
  shows "fst (renew_lease t i worker token ttl w) = Inr True"
proof -
  have "count_jobs (running_lease_where i worker token (t 0)) w \<noteq> 0"
    using get_job_mem [OF assms(1)] get_job_id [OF assms(1)] assms(2)
    unfolding running_lease_where_eq count_jobs_def row_count_0 by blast
  then show ?thesis by (simp add: renew_lease_def Let_def)
qed

lemma others_run:
  assumes "(others_step rt lg e j)\<^sup>*\<^sup>* w w'" and "ids_distinct w" and "get_job i w = Some j"
    and "j_status j = IN_PROGRESS" and "j_phase j = Send" and "j_lease_expires_at j = Some e"
  shows "ids_distinct w' \<and> (\<exists>j'. get_job i w' = Some j' \<and> life_of j' = life_of j \<and> same_request j j')"
  using assms
proof (induction rule: rtranclp_induct)
  case base
  then show ?case by auto
next
  case (step w1 w2)
  then obtain j1 where j1: "ids_distinct w1" "get_job i w1 = Some j1" "life_of j1 = life_of j" "same_request j j1"
    by blast
  have "j_status j1 = IN_PROGRESS" "j_phase j1 = Send" "j_lease_expires_at j1 = Some e"
    using life_eq_sel [OF j1(3)] step.prems(3-5) by simp_all
  from others_keep_life [OF step.hyps(2) j1(1-3) this] j1(3,4) show ?case
    using same_request_trans by metis
qed

section \<open>Results of a cancellation\<close>

lemma cancel_marked:
  assumes "get_job jid w = Some job" and "j_status job = IN_PROGRESS" and "j_phase job = Send"
  shows "\<exists>w'. request_cancel t jid by reason w =
      (Inr (job\<lparr>j_cancel_requested_at := Some (t 0), j_updated_at := t 0\<rparr>), w')
    \<and> (\<forall>i. get_job i w' = (if i = jid then Some (job\<lparr>j_cancel_requested_at := Some (t 0), j_updated_at := t 0\<rparr>)
                          else get_job i w))"
proof -
  define s where "s = Assign None False [U_cancel_requested_at (Some (t 0)), U_updated_at (t 0)]"
  define w1 where "w1 = update_jobs (\<lambda>j. j_id j = jid \<and> True) s w"
  define w2 where "w2 = record_event (t 1) jid ''cancel_requested''
      (cancel_payload (t 0) by (strip (or_empty reason))) w1"
  have rows: "get_job i w2 = (if i = jid then Some (run_statement s job) else get_job i w)" for i
    by (simp only: w2_def get_job_sel w1_def update_one [OF assms(1)] if_True)
  have run: "run_statement s job = job\<lparr>j_cancel_requested_at := Some (t 0), j_updated_at := t 0\<rparr>"
    by (simp add: s_def)
  have "request_cancel t jid by reason w = (reread jid w2, w2)"
    using assms by (simp add: request_cancel_def Let_def error_statuses_def w2_def w1_def s_def)
  then show ?thesis using rows run by (simp add: reread_def)
qed

lemma cancel_intermediate_returns:
  assumes "ids_distinct w" and "get_job jid w = Some job"
  shows "\<exists>j w'. cancel_intermediate u job r w = (Inr j, w') \<and> get_job jid w' = Some j \<and> j_status j = CANCELED"
proof -
  define guard :: "job \<Rightarrow> bool" where "guard = (\<lambda>j. j_id j = jid \<and> j_status j = j_status job)"
  define s where "s = Assign (Some CANCELED) False (U_updated_at (u 0) # cancel_marks (u 0) r @ clear_lease)"
  have count: "count_jobs guard w \<noteq> 0"
    using get_job_mem [OF assms(2)] get_job_id [OF assms(2)]
    unfolding guard_def count_jobs_def row_count_0 by blast
  have "guard job" using get_job_id [OF assms(2)] by (simp add: guard_def)
  moreover have "j_status (run_statement s job) = CANCELED" by (simp add: s_def)
  ultimately show ?thesis
    using count assms(2) get_job_id [OF assms(2)]
    by (simp add: cancel_intermediate_def Let_def guard_def [symmetric] s_def [symmetric] store_simps)
qed

lemma transition_cancels:
  assumes "ids_distinct w" and "get_job jid w = Some job" and "may_move (j_status job) CANCELED"
    and "us = cancel_marks n r \<or> us = cancel_marks n r @ clear_lease"
  shows "\<exists>j w'. transition t jid CANCELED us None None False w = (Inr j, w')
    \<and> get_job jid w' = Some j \<and> j_status j = CANCELED"
proof -
  have "transition_ok CANCELED us None None False (t 1) job"
    using assms(3,4) by (auto simp: transition_ok_def expected_lease_ok_def cancel_marks_def clear_lease_def)
  from transition_ok_result [where t = t, OF assms(1,2) this] obtain w' where
    tr: "transition t jid CANCELED us None None False w = (Inr (moved (t 0) CANCELED us job), w')" by blast
  show ?thesis using tr transition_returned(3) [OF assms(1,2) tr, of jid] by simp
qed

lemma cancel_final:
  "get_job jid w = Some job \<Longrightarrow> is_terminal (j_status job) \<Longrightarrow> request_cancel t jid by reason w = (Inr job, w)"
  by (auto simp: request_cancel_def Let_def is_terminal_cases)

lemma cancel_at_once:
  assumes "ids_distinct w" and "get_job jid w = Some job"
    and "j_status job = QUEUED \<or> j_status job \<in> set error_statuses
       \<or> (j_status job = IN_PROGRESS \<and> j_phase job = Wait \<and> \<not> cancel_lease_active (t 0) job)"
  shows "\<exists>job' w'. request_cancel t jid by reason w = (Inr job', w') \<and> get_job jid w' = Some job'
      \<and> j_status job' = CANCELED"
  using assms(3)
proof (elim disjE conjE)
  let ?reason = "strip (or_empty reason)"
  let ?t = "\<lambda>k. if k = 0 then t 0 else t (k + 1)"
  show ?thesis if "j_status job = QUEUED"
    using transition_cancels [OF assms(1,2), of "cancel_marks (t 0) ?reason" "t 0" ?reason "later 2 t"] that assms(2)
    by (auto simp: request_cancel_def Let_def store_simps may_move_iff allowed_moves_def)
  show ?thesis if "j_status job \<in> set error_statuses"
    using cancel_intermediate_returns [OF assms(1,2), of ?t ?reason] that assms(2)
    by (auto simp: request_cancel_def Let_def store_simps error_statuses_def)
  show ?thesis if "j_status job = IN_PROGRESS" "j_phase job = Wait" "\<not> cancel_lease_active (t 0) job"
    using transition_cancels [OF assms(1,2), of "cancel_marks (t 0) ?reason @ clear_lease" "t 0" ?reason "later 1 ?t"]
      that assms(2) get_job_id [OF assms(2)]
    by (auto simp: request_cancel_def cancel_waiting_def Let_def store_simps may_move_iff allowed_moves_def)
qed

end
