(* ===== verification/Replay.thy ===== *)
theory Replay
  imports JobSystem
begin

text \<open>
  What \<open>create_job\<close> promises its callers: a request under a key is carried out once, a
  later request under that key finds the job of the first or is refused, and a refused request
  leaves no trace. The idempotency rows outlive every other call.
\<close>

section \<open>Idempotency rows persist\<close>

lemma idem_transition [simp]:
  "idempotency (snd (transition t jid dst us ow tk live w)) = idempotency w"
  by (simp add: transition_def Let_def store_simps split: option.splits)

lemma transition_eq_idem: "transition t jid dst us ow tk live w = (r, w') \<Longrightarrow> idempotency w' = idempotency w"
  using idem_transition [of t jid dst us ow tk live w] by simp

lemma idem_auto_report [store_simps]: "idempotency (auto_report rt lg ts job st et e w) = idempotency w"
  by (simp add: auto_report_def Let_def store_simps split: option.splits)

lemma idem_store_error [simp]:
  "idempotency (snd (store_error_result rt lg t jid worker token ety error st w)) = idempotency w"
  by (auto simp: store_error_result_def Let_def store_simps transition_eq_idem
      split: option.splits prod.splits sum.splits)

lemma idem_retryable [simp]:
  "idempotency (snd (store_retryable_result rt lg t jid worker token st nb ety error pa w)) = idempotency w"
proof -
  have retry: "idempotency (snd (store_retry t job worker token st nb et msg p ph ext w)) = idempotency w"
    for job et msg p ph ext
    by (auto simp: store_retry_def Let_def store_simps transition_eq_idem
        split: option.splits prod.splits sum.splits)
  have exhausted: "idempotency (snd (store_exhausted rt lg t job worker token st ph et msg g w)) = idempotency w"
    for job ph et msg g
    by (simp add: store_exhausted_def record_web_send_retry_exhausted_event_def Let_def store_simps
        split: option.splits)
  show ?thesis
    by (simp add: store_retryable_result_def Let_def retry exhausted split: option.splits prod.splits)
qed

lemma idem_canceled [simp]:
  "idempotency (snd (store_canceled_result t jid worker token reason w)) = idempotency w"
  by (auto simp: store_canceled_result_def Let_def store_simps transition_eq_idem
      split: option.splits prod.splits sum.splits)

lemma canceled_eq_idem:
  "store_canceled_result t jid worker token reason w = (r, w') \<Longrightarrow> idempotency w' = idempotency w"
  using idem_canceled [of t jid worker token reason w] by simp

lemma idem_answer [simp]:
  "idempotency (snd (store_answer_result rt io t jid worker token answer fmt w)) = idempotency w"
  by (auto simp: store_answer_result_def write_answer_staged_def write_result_staged_def
      Let_def store_simps transition_eq_idem split: option.splits prod.splits sum.splits if_splits)

lemma idem_release [simp]: "idempotency (snd (release_for_wait t jid worker token nb w)) = idempotency w"
  by (simp add: release_for_wait_def Let_def store_simps split: option.splits)

lemma idem_renew [simp]: "idempotency (snd (renew_lease t jid worker token ttl w)) = idempotency w"
  by (simp add: renew_lease_def Let_def store_simps)

lemma idem_url [simp]: "idempotency (snd (set_conversation_url rt t jid worker token url w)) = idempotency w"
  by (simp add: set_conversation_url_def assign_conversation_def Let_def store_simps split: option.splits)

lemma idem_export [simp]:
  "idempotency (snd (store_conversation_export_result t jid p sha n fmt w)) = idempotency w"
  by (simp add: store_conversation_export_result_def Let_def store_simps split: option.splits)

lemma idem_claim [simp]: "idempotency (snd (claim_next_job rt t token worker ttl ph pre w)) = idempotency w"
  by (simp add: claim_next_job_def Let_def store_simps split: option.splits)

lemma idem_cancel [simp]: "idempotency (snd (request_cancel t jid by reason w)) = idempotency w"
proof -
  have waiting: "cancel_waiting u job r w = (x, w') \<Longrightarrow> idempotency w' = idempotency w" for u job r x w'
    by (auto simp: cancel_waiting_def store_simps canceled_eq_idem transition_eq_idem
        split: if_splits prod.splits sum.splits)
  have between: "cancel_intermediate u job r w = (x, w') \<Longrightarrow> idempotency w' = idempotency w" for u job r x w'
    by (auto simp: cancel_intermediate_def Let_def store_simps split: if_splits option.splits)
  show ?thesis
    by (auto simp: request_cancel_def Let_def store_simps transition_eq_idem waiting between
        split: option.splits prod.splits sum.splits)
qed

lemma idem_switches [simp]:
  "idempotency (snd (set_pause_state m u r w)) = idempotency w"
  "idempotency (snd (set_chatgpt_web_hold rt r2 u s n now w)) = idempotency w"
  "idempotency (clear_chatgpt_web_hold now w) = idempotency w"
  by (simp_all add: set_pause_state_def set_chatgpt_web_hold_def clear_chatgpt_web_hold_def Let_def store_simps)

section \<open>Creation\<close>

text \<open>A creation that raises leaves the state as it was.\<close>

lemma create_refused:
  assumes "create_job rt t jid q w = (Inl e, w')"
  shows "w' = w"
proof (cases "starts_with ''qwen_web.'' (lower (strip (rq_kind q))) \<or> idem_get (rq_key q) w \<noteq> None")
  case True
  then show ?thesis
    using assms by (auto simp: create_job_def begin_idempotency_def split: option.splits if_splits)
next
  case False
  then have new: "\<not> starts_with ''qwen_web.'' (lower (strip (rq_kind q)))" "idem_get (rq_key q) w = None"
    by simp_all
  have found: "get_job (j_id j) (defer_by_pause rt u j (insert_job j x)) \<noteq> None" for u j x
    by (auto simp: defer_by_pause_def Let_def store_simps get_job_insert_job split: option.splits)
  have id: "j_id (new_job rt n jid q url input) = jid" for n url input by (simp add: new_job_def)
  have there: "get_job jid (defer_by_pause rt u (new_job rt n jid q url input)
      (insert_job (new_job rt n jid q url input) x)) \<noteq> None" for u n url input x
    using found [of "new_job rt n jid q url input"] by (simp only: id) simp
  show ?thesis
  proof (cases "admit rt q w")
    case (Inl e')
    then show ?thesis using assms by (simp add: create_job_new [OF new])
  next
    case (Inr ui)
    then obtain url input where ui: "admit rt q w = Inr (url, input)" by (cases ui) auto
    define w1 where "w1 = w\<lparr>idempotency := idempotency w @ [\<lparr>idem_key = rq_key q,
        idem_hash = request_payload_hash rt q, idem_job = jid, idem_created_at = t 0\<rparr>]\<rparr>"
    define n where "n = new_job rt (t 1) jid q url input"
    obtain y where "get_job jid (defer_by_pause rt (\<lambda>k. t (k + 1)) n (insert_job n w1)) = Some y"
      using there unfolding n_def by blast
    then have "create_job rt t jid q w = (Inr y, snd (create_job rt t jid q w))"
      by (simp add: create_job_new [OF new] ui Let_def reread_def store_simps n_def w1_def)
    then show ?thesis using assms by simp
  qed
qed

lemma idem_create:
  assumes "idem_get k w = Some row"
  shows "idem_get k (snd (create_job rt t jid q w)) = Some row"
proof (cases "starts_with ''qwen_web.'' (lower (strip (rq_kind q))) \<or> idem_get (rq_key q) w \<noteq> None")
  case True
  then show ?thesis
    using assms by (auto simp: create_job_def begin_idempotency_def split: option.splits if_splits)
next
  case False
  then have new: "\<not> starts_with ''qwen_web.'' (lower (strip (rq_kind q)))" "idem_get (rq_key q) w = None"
    by simp_all
  have "idempotency (insert_job j x) = idempotency x" for j x
    by (simp add: insert_job_def)
  then show ?thesis
    using assms
    by (auto simp: create_job_new [OF new] Let_def idem_get_def store_simps row_get_append
        split: sum.splits)
qed

lemma idem_perform:
  assumes "idem_get k w = Some row"
  shows "idem_get k (perform rt lg t c w) = Some row"
proof (cases "\<exists>jid q. c = CreateJob jid q")
  case True
  then show ?thesis using assms idem_create by auto
next
  case False
  then have "idempotency (perform rt lg t c w) = idempotency w" by (cases c) auto
  then show ?thesis using assms by (simp add: idem_get_def)
qed

lemma idem_run: "(system_step rt lg)\<^sup>*\<^sup>* w w' \<Longrightarrow> idem_get k w = Some row \<Longrightarrow> idem_get k w' = Some row"
  by (induction rule: rtranclp_induct) (auto elim!: system_stepE intro: idem_perform)

text \<open>The answer to a request whose key is taken.\<close>

lemma create_taken:
  assumes "\<not> starts_with ''qwen_web.'' (lower (strip (rq_kind q)))"
    and "idem_get (rq_key q) w = Some row" and "get_job (idem_job row) w = Some j"
  shows "create_job rt t jid q w =
    (if request_payload_hash rt q = idem_hash row then (Inr j, w)
     else (Inl (IdempotencyCollision (rq_key q) (idem_job row) (idem_hash row) (request_payload_hash rt q)), w))"
  using assms by (simp add: create_job_def begin_idempotency_def)

text \<open>What a first creation leaves.\<close>

lemma create_first:
  assumes "idem_get (rq_key q) w = None" and "get_job jid w = None"
    and "create_job rt t jid q w = (Inr j, w')"
  obtains url input where "admit rt q w = Inr (url, input)"
    and "get_job jid w' = Some j"
    and "j = deferred rt (t 1) w (new_job rt (t 1) jid q url input)"
    and "idem_get (rq_key q) w' = Some \<lparr>idem_key = rq_key q, idem_hash = request_payload_hash rt q,
           idem_job = jid, idem_created_at = t 0\<rparr>"
    and "\<And>i. get_job i w' = (if i = jid then Some j else get_job i w)"
proof -
  have kind: "\<not> starts_with ''qwen_web.'' (lower (strip (rq_kind q)))"
    using assms(3) by (auto simp: create_job_def)
  note eq = create_job_new [OF kind assms(1)]
  obtain url input where ui: "admit rt q w = Inr (url, input)"
    using assms(3) by (cases "admit rt q w") (auto simp: eq)
  define n where "n = new_job rt (t 1) jid q url input"
  define row where "row = \<lparr>idem_key = rq_key q, idem_hash = request_payload_hash rt q, idem_job = jid, idem_created_at = t 0\<rparr>"
  define w1 where "w1 = w\<lparr>idempotency := idempotency w @ [row]\<rparr>"
  define w3 where "w3 = defer_by_pause rt (\<lambda>k. t (k + 1)) n (insert_job n w1)"
  have id: "j_id n = jid" by (simp add: n_def new_job_def)
  have same: "get_job i w1 = get_job i w" for i by (rule get_job_same_jobs) (simp add: w1_def)
  have ins: "get_job i (insert_job n w1) = (if i = jid then Some n else get_job i w)" for i
    using assms(2) by (simp add: get_job_insert_job same id split: option.splits)
  have pause: "deferred rt (t 1) (insert_job n w1) n = deferred rt (t 1) w n"
    using get_pause_frame [of "insert_job n w1" w rt] by (simp add: deferred_def insert_job_def w1_def)
  have rows: "get_job i w3 = (if i = jid then Some (deferred rt (t 1) w n) else get_job i w)" for i
    using get_job_defer [of n "insert_job n w1" i rt "\<lambda>k. t (k + 1)"] pause by (simp add: ins id w3_def)
  have res: "create_job rt t jid q w = (reread jid (log_creation (later 3 t) jid q input w3),
                                        log_creation (later 3 t) jid q input w3)"
    by (simp add: eq ui Let_def n_def w1_def w3_def row_def)
  then have j: "j = deferred rt (t 1) w n" and w': "w' = log_creation (later 3 t) jid q input w3"
    using assms(3) rows by (simp_all add: reread_def store_simps)
  have "idempotency w' = idempotency w @ [row]"
    by (simp add: w' w3_def store_simps) (simp add: insert_job_def w1_def)
  then have "idem_get (rq_key q) w' = Some row"
    using assms(1) by (simp add: idem_get_def row_get_append row_def)
  with that ui j rows show thesis by (simp add: w' store_simps n_def row_def)
qed

end
