(* ===== verification/RetryPolicy.thy ===== *)
theory RetryPolicy
  imports Results
begin

text \<open>
  How long a retry that a person watching the browser would see is put off:
  \<open>core/web_retry_policy.py\<close>, with the typed readers of the environment registry
  \<open>core/env.py\<close> (\<open>get_int\<close>, \<open>get_float\<close>) and the delays of
  \<open>worker/worker.py\<close> that rest on them. Floats that are not finite are kept here
  (\<open>py_float\<close>), because the code tests for them.
\<close>

section \<open>Comparisons of floats\<close>

definition float_less :: "py_float \<Rightarrow> py_float \<Rightarrow> bool" where
  "float_less x y =
     (case (x, y) of
        (Fin a, Fin b) \<Rightarrow> a < b
      | (NInf, Fin _) \<Rightarrow> True
      | (NInf, PInf) \<Rightarrow> True
      | (Fin _, PInf) \<Rightarrow> True
      | _ \<Rightarrow> False)"

text \<open>\<open>max(x, y)\<close> and \<open>min(x, y)\<close>: the first argument unless the second is
  strictly beyond it.\<close>

definition float_max :: "py_float \<Rightarrow> py_float \<Rightarrow> py_float" where
  "float_max x y = (if float_less x y then y else x)"

definition float_min :: "py_float \<Rightarrow> py_float \<Rightarrow> py_float" where
  "float_min x y = (if float_less y x then y else x)"

text \<open>\<open>if not math.isfinite(raw): raw = d\<close>.\<close>

definition finite_or :: "real \<Rightarrow> py_float \<Rightarrow> real" where
  "finite_or d x = (case x of Fin r \<Rightarrow> r | _ \<Rightarrow> d)"

section \<open>The environment registry\<close>

text \<open>\<open>get_int\<close> and \<open>get_float\<close> of a registered variable with its default and its
  optional bounds.\<close>

definition registry_int :: "runtime \<Rightarrow> string \<Rightarrow> int \<Rightarrow> int option \<Rightarrow> int option \<Rightarrow> int" where
  "registry_int rt name d lo hi =
     (let raw = strip (or_empty (rt_env rt name))
      in if raw = '''' then d
         else (case parse_int raw of
                 None \<Rightarrow> d
               | Some v \<Rightarrow>
                   (let v1 = (case lo of None \<Rightarrow> v | Some m \<Rightarrow> max m v)
                    in case hi of None \<Rightarrow> v1 | Some m \<Rightarrow> min m v1)))"

definition registry_float :: "runtime \<Rightarrow> string \<Rightarrow> real \<Rightarrow> real option \<Rightarrow> real option \<Rightarrow> py_float" where
  "registry_float rt name d lo hi =
     (let raw = strip (or_empty (rt_env rt name))
      in if raw = '''' then Fin d
         else (case parse_float raw of
                 None \<Rightarrow> Fin d
               | Some v \<Rightarrow>
                   (let v1 = (case lo of None \<Rightarrow> v | Some m \<Rightarrow> float_max (Fin m) v)
                    in case hi of None \<Rightarrow> v1 | Some m \<Rightarrow> float_min (Fin m) v1)))"

section \<open>Delays of retries in the browser\<close>

definition env_float :: "runtime \<Rightarrow> string \<Rightarrow> real \<Rightarrow> py_float" where
  "env_float rt name d =
     (let raw = strip (or_empty (rt_env rt name))
      in if raw = '''' then Fin d else (case parse_float raw of None \<Rightarrow> Fin d | Some v \<Rightarrow> v))"

definition web_human_retry_floor_seconds :: "runtime \<Rightarrow> real" where
  "web_human_retry_floor_seconds rt =
     max 30 (min (finite_or 90 (env_float rt ''CHATGPTREST_WEB_HUMAN_RETRY_FLOOR_SECONDS'' 90)) 3600)"

definition web_human_retry_jitter_max_seconds :: "runtime \<Rightarrow> real" where
  "web_human_retry_jitter_max_seconds rt =
     max 0 (min (finite_or 15 (env_float rt ''CHATGPTREST_WEB_HUMAN_RETRY_JITTER_MAX_SECONDS'' 15)) 300)"

text \<open>
  The base is \<open>None\<close> where \<open>float(base)\<close> raises; so is the maximum, or where it is
  not given. \<open>u\<close> is what \<open>random.random()\<close> returns, from which
  \<open>random.uniform(0, c)\<close> makes \<open>0 + (c - 0) * u\<close>.
\<close>

definition retry_upper :: "runtime \<Rightarrow> py_float option \<Rightarrow> real option" where
  "retry_upper rt max_seconds =
     (case max_seconds of
        Some (Fin m) \<Rightarrow> Some (max (web_human_retry_floor_seconds rt) m)
      | _ \<Rightarrow> None)"

definition human_visible_web_retry_after_seconds ::
    "runtime \<Rightarrow> py_float option \<Rightarrow> py_float option \<Rightarrow> bool \<Rightarrow> real \<Rightarrow> real" where
  "human_visible_web_retry_after_seconds rt base max_seconds jitter u =
     (let least = web_human_retry_floor_seconds rt;
          v0 = (case base of None \<Rightarrow> least | Some x \<Rightarrow> finite_or least x);
          v1 = max least v0;
          upper = retry_upper rt max_seconds;
          v = (case upper of None \<Rightarrow> v1 | Some m \<Rightarrow> min v1 m)
      in if \<not> jitter then v
         else (let cap0 = web_human_retry_jitter_max_seconds rt;
                   cap = (case upper of None \<Rightarrow> cap0 | Some m \<Rightarrow> min cap0 (max 0 (m - v)))
               in if cap \<le> 0 then v else v + (0 + (cap - 0) * u)))"

definition human_visible_web_retry_after_int ::
    "runtime \<Rightarrow> py_float option \<Rightarrow> py_float option \<Rightarrow> bool \<Rightarrow> real \<Rightarrow> int" where
  "human_visible_web_retry_after_int rt base max_seconds jitter u =
     \<lceil>human_visible_web_retry_after_seconds rt base max_seconds jitter u\<rceil>"

lemma floor_range: "30 \<le> web_human_retry_floor_seconds rt" "web_human_retry_floor_seconds rt \<le> 3600"
  by (simp_all add: web_human_retry_floor_seconds_def)

lemma jitter_range:
  "0 \<le> web_human_retry_jitter_max_seconds rt" "web_human_retry_jitter_max_seconds rt \<le> 300"
  by (simp_all add: web_human_retry_jitter_max_seconds_def)

lemma jitter_share:
  fixes c u :: real
  assumes "0 \<le> u" "u \<le> 1" "0 \<le> c"
  shows "0 \<le> c * u" "c * u \<le> c"
  using assms by (simp_all add: mult_left_le)

lemma if_or: "(if a then x else if b then x else y) = (if a \<or> b then x else y)"
  by simp

lemma within_cap:
  fixes v up cap u :: real
  assumes "0 \<le> u" "u \<le> 1" "v \<le> up" "cap \<le> up - v"
  shows "(if p \<or> cap \<le> 0 then v else v + cap * u) \<le> up"
  using assms jitter_share(2) [of u cap] by fastforce

lemma retry_after_least:
  assumes "0 \<le> u" "u \<le> 1"
  shows "web_human_retry_floor_seconds rt \<le> human_visible_web_retry_after_seconds rt base m jitter u"
  using assms jitter_range [of rt]
  by (auto simp: human_visible_web_retry_after_seconds_def Let_def retry_upper_def finite_or_def
      split: option.splits py_float.splits intro!: add_increasing2 mult_nonneg_nonneg)

lemma retry_after_upper:
  assumes "0 \<le> u" "u \<le> 1"
  shows "human_visible_web_retry_after_seconds rt base (Some (Fin m)) jitter u
           \<le> max (web_human_retry_floor_seconds rt) m"
proof -
  let ?f = "web_human_retry_floor_seconds rt"
  let ?up = "max ?f m"
  let ?v = "min (max ?f (case base of None \<Rightarrow> ?f | Some x \<Rightarrow> finite_or ?f x)) ?up"
  let ?cap = "min (web_human_retry_jitter_max_seconds rt) (max 0 (?up - ?v))"
  have eq: "human_visible_web_retry_after_seconds rt base (Some (Fin m)) jitter u =
      (if \<not> jitter \<or> ?cap \<le> 0 then ?v else ?v + ?cap * u)"
    by (simp only: human_visible_web_retry_after_seconds_def retry_upper_def Let_def option.case
        py_float.case add_0 diff_0_right if_or)
  have v: "?v \<le> ?up"
    by (rule min.cobounded2)
  then have "0 \<le> ?up - ?v"
    by (simp only: diff_ge_0_iff_ge)
  then have "?cap \<le> ?up - ?v"
    by (simp only: max_absorb2 min.cobounded2)
  with v show ?thesis
    unfolding eq by (rule within_cap [OF assms])
qed

lemma retry_after_no_jitter:
  "human_visible_web_retry_after_seconds rt (Some (Fin b)) (Some (Fin m)) False u =
     min (max (web_human_retry_floor_seconds rt) b) (max (web_human_retry_floor_seconds rt) m)"
  by (simp add: human_visible_web_retry_after_seconds_def retry_upper_def finite_or_def Let_def)

text \<open>Whatever the environment, the error and the random number are, a retry that is
  visible in the browser waits at least the configured floor, itself at least 30 seconds, and
  jitter never carries it beyond the caller's maximum (raised to the floor). Rounded up to
  whole seconds it stays within one second of that.\<close>

theorem retry_delay_bounds:
  assumes "0 \<le> u" "u \<le> 1"
  shows "30 \<le> web_human_retry_floor_seconds rt
    \<and> web_human_retry_floor_seconds rt \<le> human_visible_web_retry_after_seconds rt base (Some (Fin m)) jitter u
    \<and> human_visible_web_retry_after_seconds rt base (Some (Fin m)) jitter u
        \<le> max (web_human_retry_floor_seconds rt) m
    \<and> human_visible_web_retry_after_seconds rt base (Some (Fin m)) jitter u
        \<le> real_of_int (human_visible_web_retry_after_int rt base (Some (Fin m)) jitter u)
    \<and> real_of_int (human_visible_web_retry_after_int rt base (Some (Fin m)) jitter u)
        < max (web_human_retry_floor_seconds rt) m + 1"
  using floor_range(1) [of rt] retry_after_least [OF assms, of rt base "Some (Fin m)" jitter]
    retry_after_upper [OF assms, of rt base m jitter]
  unfolding human_visible_web_retry_after_int_def
  by (intro conjI; linarith)

theorem retry_delay_bounds_witness:
  "human_visible_web_retry_after_seconds
     \<lparr>rt_env = (\<lambda>n. if n = ''CHATGPTREST_WEB_HUMAN_RETRY_FLOOR_SECONDS'' then Some ''5'' else None),
      rt_sha256 = id, rt_dumps = (\<lambda>_. ''''), rt_repr = (\<lambda>_. '''')\<rparr>
     None (Some (Fin 45)) True (1/2) \<le> max 30 45"
proof -
  let ?rt = "\<lparr>rt_env = (\<lambda>n. if n = ''CHATGPTREST_WEB_HUMAN_RETRY_FLOOR_SECONDS'' then Some ''5'' else None),
      rt_sha256 = id, rt_dumps = (\<lambda>_. ''''), rt_repr = (\<lambda>_. '''')\<rparr> :: runtime"
  have p: "parse_float (strip ''5'') = Some (Fin 5)"
  proof -
    have "strip ''5'' = ''5''" "plain_digits ''5'' = Some ''5''" "digits_val ''5'' = 5"
      by code_simp+
    then show ?thesis
      by (simp add: parse_float_def signed_def parse_unsigned_float_def split_at_def
          parse_decimal_def parse_nat_def lower_def lower_char_def)
  qed
  have "strip ''5'' = ''5''"
    by code_simp
  then have "web_human_retry_floor_seconds ?rt = 30"
    using p by (simp add: web_human_retry_floor_seconds_def env_float_def finite_or_def Let_def)
  then show ?thesis
    using retry_delay_bounds [of "1/2" ?rt None 45 True] by simp
qed

end
