(* ===== verification/History.thy ===== *)
theory History
  imports JobSystem
begin

text \<open>
  Which events the operations on the job database write: an operation leaves the events of
  every type outside its vocabulary as they are. The bounds on how often something happens to
  a job count the events of one type, and rest on these facts.
\<close>

section \<open>The vocabulary\<close>

text \<open>Every type the modelled operations write, but \<open>max_attempts_extended\<close>.\<close>

definition system_types :: "string list" where
  "system_types = 
     [''artifact_write_failed'', ''cancel_requested'', ''canonical_answer_recorded'', ''claimed'',
      ''completion_contract_recorded'', ''conversation_exported'', ''conversation_url_conflict'', ''conversation_url_rebound'',
      ''conversation_url_set'', ''conversation_url_upgraded'', ''issue_auto_reported'', ''job_created'',
      ''job_deferred_by_pause'', ''lease_renewed'', ''max_attempts_extension_skipped'', ''phase_changed'',
      ''status_changed'', ''wait_requeued'', ''web_send_retry_exhausted'']"

definition outside :: "string \<Rightarrow> bool" where
  "outside ty \<longleftrightarrow> ty \<notin> set system_types"

lemma outside_neq [simp]:
  "outside ty \<Longrightarrow> ''artifact_write_failed'' \<noteq> ty"
  "outside ty \<Longrightarrow> ''cancel_requested'' \<noteq> ty"
  "outside ty \<Longrightarrow> ''canonical_answer_recorded'' \<noteq> ty"
  "outside ty \<Longrightarrow> ''claimed'' \<noteq> ty"
  "outside ty \<Longrightarrow> ''completion_contract_recorded'' \<noteq> ty"
  "outside ty \<Longrightarrow> ''conversation_exported'' \<noteq> ty"
  "outside ty \<Longrightarrow> ''conversation_url_conflict'' \<noteq> ty"
  "outside ty \<Longrightarrow> ''conversation_url_rebound'' \<noteq> ty"
  "outside ty \<Longrightarrow> ''conversation_url_set'' \<noteq> ty"
  "outside ty \<Longrightarrow> ''conversation_url_upgraded'' \<noteq> ty"
  "outside ty \<Longrightarrow> ''issue_auto_reported'' \<noteq> ty"
  "outside ty \<Longrightarrow> ''job_created'' \<noteq> ty"
  "outside ty \<Longrightarrow> ''job_deferred_by_pause'' \<noteq> ty"
  "outside ty \<Longrightarrow> ''lease_renewed'' \<noteq> ty"
  "outside ty \<Longrightarrow> ''max_attempts_extension_skipped'' \<noteq> ty"
  "outside ty \<Longrightarrow> ''phase_changed'' \<noteq> ty"
  "outside ty \<Longrightarrow> ''status_changed'' \<noteq> ty"
  "outside ty \<Longrightarrow> ''wait_requeued'' \<noteq> ty"
  "outside ty \<Longrightarrow> ''web_send_retry_exhausted'' \<noteq> ty"
  by (auto simp: outside_def system_types_def)

lemma outside_extended [simp]: "outside ''max_attempts_extended''"
  by (simp add: outside_def system_types_def)

section \<open>What an operation leaves alone\<close>

lemma typed_insert:
  "job_events i ty (insert_event ts k e p w) =
     job_events i ty w @ (if k = i \<and> e = ty
       then [\<lparr>ev_job = k, ev_ts = ts, ev_type = e, ev_payload = p\<rparr>] else [])"
  by (simp add: job_events_def store_simps)

lemma typed_record:
  "job_events i ty (record_event ts k e p w) =
     job_events i ty w @ (if k = i \<and> e = ty
       then [\<lparr>ev_job = k, ev_ts = ts, ev_type = e, ev_payload = Some p\<rparr>] else [])"
  by (simp add: job_events_def store_simps)

lemma typed_same: "events w' = events w \<Longrightarrow> job_events i ty w' = job_events i ty w"
  by (simp add: job_events_def)

lemma events_frame [store_simps]:
  "events (append_event k ty q w) = events w"
  "events (insert_job j w) = events w"
  "events (delete_idempotency key w) = events w"
  "events (w\<lparr>idempotency := rows\<rparr>) = events w"
  by (simp_all add: append_event_def insert_job_def delete_idempotency_def)

lemma typed_frame:
  "job_events i ty (append_event k e pay w) = job_events i ty w"
  "job_events i ty (update_jobs c s w) = job_events i ty w"
  "job_events i ty (write_file p f w) = job_events i ty w"
  "job_events i ty (unlink p w) = job_events i ty w"
  "job_events i ty (replace_file p q w) = job_events i ty w"
  "job_events i ty (write_result k v w) = job_events i ty w"
  "job_events i ty (meta_set m x w) = job_events i ty w"
  "job_events i ty (insert_job j w) = job_events i ty w"
  "job_events i ty (delete_idempotency key w) = job_events i ty w"
  "job_events i ty (w\<lparr>idempotency := rows\<rparr>) = job_events i ty w"
  "job_events i ty (write_canceled j r w) = job_events i ty w"
  by (rule typed_same; simp add: store_simps write_canceled_def)+

lemmas typed_simps = typed_insert typed_record typed_frame

lemma typed_transition_events [simp]:
  "outside ty \<Longrightarrow> job_events i ty (transition_events t jid job dst us w) = job_events i ty w"
  by (simp add: transition_events_def Let_def typed_simps split: option.splits)

lemma typed_transition [simp]:
  "outside ty \<Longrightarrow>
     job_events i ty (snd (transition t jid dst us ow tk live w)) = job_events i ty w"
  by (simp add: transition_def Let_def typed_simps split: option.splits)

lemma transition_eq_typed:
  "outside ty \<Longrightarrow> transition t jid dst us ow tk live w = (r, w') \<Longrightarrow> job_events i ty w' = job_events i ty w"
  using typed_transition [of ty i t jid dst us ow tk live w] by simp

lemma typed_auto_report [simp]: "outside ty \<Longrightarrow> job_events i ty (auto_report rt lg ts job st et e w) = job_events i ty w"
  by (simp add: auto_report_def Let_def typed_simps split: option.splits)

lemma typed_store_error [simp]:
  "outside ty \<Longrightarrow>
     job_events i ty (snd (store_error_result rt lg t jid worker token ety error st w)) = job_events i ty w"
  by (auto simp: store_error_result_def Let_def typed_simps transition_eq_typed
      split: option.splits prod.splits sum.splits)

lemma typed_exhausted [simp]:
  "outside ty \<Longrightarrow>
     job_events i ty (snd (store_exhausted rt lg t job worker token st ph et msg g w)) = job_events i ty w"
  by (simp add: store_exhausted_def record_web_send_retry_exhausted_event_def Let_def typed_simps
      split: option.splits)

lemma typed_canceled [simp]:
  "outside ty \<Longrightarrow>
     job_events i ty (snd (store_canceled_result t jid worker token reason w)) = job_events i ty w"
  by (auto simp: store_canceled_result_def Let_def typed_simps transition_eq_typed
      split: option.splits prod.splits sum.splits)

lemma canceled_eq_typed:
  "outside ty \<Longrightarrow> store_canceled_result t jid worker token reason w = (r, w') \<Longrightarrow> job_events i ty w' = job_events i ty w"
  using typed_canceled [of ty i t jid worker token reason w] by simp

lemma typed_fold: "(\<And>f x. f \<in> set fs \<Longrightarrow> job_events i ty (f x) = job_events i ty x) \<Longrightarrow>
    job_events i ty (fold (\<lambda>f. f) fs w) = job_events i ty w"
  by (rule fold_frame)

lemma typed_publish_steps:
  "outside ty \<Longrightarrow> f \<in> set (publish_steps t jid m s r c k) \<Longrightarrow> job_events i ty (f w) = job_events i ty w"
  by (auto simp: publish_steps_def typed_simps)

lemma typed_publish [simp]:
  assumes [simp]: "outside ty"
  shows "job_events i ty (publish_answer t jid m s r c k w) = job_events i ty w"
    and "job_events i ty (abort_publication n t jid m s r c k w) = job_events i ty w"
proof -
  have u: "job_events i ty (fold unlink ps x) = job_events i ty x" for ps x
    by (rule typed_same) (simp add: store_simps)
  show "job_events i ty (publish_answer t jid m s r c k w) = job_events i ty w"
    unfolding publish_answer_def by (rule typed_fold) (rule typed_publish_steps [OF assms])
  show "job_events i ty (abort_publication n t jid m s r c k w) = job_events i ty w"
    unfolding abort_publication_def Let_def u typed_frame
    by (rule typed_fold) (blast dest: in_set_takeD intro: typed_publish_steps [OF assms])
qed

lemma typed_answer [simp]:
  "outside ty \<Longrightarrow>
     job_events i ty (snd (store_answer_result rt io t jid worker token answer fmt w)) = job_events i ty w"
  by (auto simp: store_answer_result_def write_answer_staged_def write_result_staged_def
      Let_def typed_simps transition_eq_typed
      split: option.splits prod.splits sum.splits if_splits)

lemma typed_release [simp]:
  "outside ty \<Longrightarrow>
     job_events i ty (snd (release_for_wait t jid worker token nb w)) = job_events i ty w"
  by (simp add: release_for_wait_def Let_def typed_simps split: option.splits)

lemma typed_renew [simp]: "outside ty \<Longrightarrow> job_events i ty (snd (renew_lease t jid worker token ttl w)) = job_events i ty w"
  by (simp add: renew_lease_def Let_def typed_simps)

lemma typed_assign [simp]:
  "outside ty \<Longrightarrow> e \<noteq> ty \<Longrightarrow>
     job_events i ty (snd (assign_conversation rt t jid worker token url v e p w)) = job_events i ty w"
  by (simp add: assign_conversation_def Let_def typed_simps)

lemma typed_url [simp]:
  "outside ty \<Longrightarrow>
     job_events i ty (snd (set_conversation_url rt t jid worker token url w)) = job_events i ty w"
  by (simp add: set_conversation_url_def Let_def typed_simps split: option.splits)

lemma typed_export [simp]:
  "outside ty \<Longrightarrow>
     job_events i ty (snd (store_conversation_export_result t jid p sha n fmt w)) = job_events i ty w"
  by (simp add: store_conversation_export_result_def Let_def typed_simps split: option.splits)

lemma typed_claim [simp]:
  "outside ty \<Longrightarrow>
     job_events i ty (snd (claim_next_job rt t token worker ttl ph pre w)) = job_events i ty w"
  by (simp add: claim_next_job_def Let_def typed_simps split: option.splits)

lemma typed_request_cancel [simp]:
  assumes [simp]: "outside ty"
  shows "job_events i ty (snd (request_cancel t jid by reason w)) = job_events i ty w"
proof -
  have waiting: "cancel_waiting u job r w = (x, w') \<Longrightarrow> job_events i ty w' = job_events i ty w" for u job r x w'
    by (auto simp: cancel_waiting_def typed_simps canceled_eq_typed transition_eq_typed
        split: if_splits prod.splits sum.splits)
  have between: "cancel_intermediate u job r w = (x, w') \<Longrightarrow> job_events i ty w' = job_events i ty w" for u job r x w'
    by (auto simp: cancel_intermediate_def Let_def typed_simps split: if_splits option.splits)
  show ?thesis
    by (auto simp: request_cancel_def Let_def typed_simps transition_eq_typed waiting between
        split: option.splits prod.splits sum.splits)
qed

lemma typed_create [simp]:
  assumes [simp]: "outside ty"
  shows "job_events i ty (snd (create_job rt t jid q w)) = job_events i ty w"
proof -
  have begin_same: "begin_idempotency n k h d w = (r, w') \<Longrightarrow> job_events i ty w' = job_events i ty w" for n k h d r w'
    by (auto simp: begin_idempotency_def typed_simps split: option.splits if_splits)
  have log: "job_events i ty (log_creation u jid q v x) = job_events i ty x" for u v x
    by (simp add: log_creation_def Let_def typed_simps split: option.splits)
  have pause: "job_events i ty (defer_by_pause rt u j x) = job_events i ty x" for u j x
    by (simp add: defer_by_pause_def Let_def typed_simps)
  show ?thesis
    by (auto simp: create_job_def Let_def typed_simps begin_same log pause
        split: option.splits prod.splits sum.splits bool.splits)
qed

lemma typed_store_retry:
  "outside ty \<Longrightarrow> ty \<noteq> ''max_attempts_extended'' \<Longrightarrow>
     job_events i ty (snd (store_retry t job worker token st nb et msg pa ph ext w)) = job_events i ty w"
  by (auto simp: store_retry_def Let_def typed_simps transition_eq_typed
      split: option.splits prod.splits sum.splits)

lemma typed_retryable:
  assumes "outside ty" "ty \<noteq> ''max_attempts_extended''"
  shows "job_events i ty (snd (store_retryable_result rt lg t jid worker token st nb ety error pa w)) =
    job_events i ty w"
proof (cases "st \<in> set error_statuses \<and> get_job jid w \<noteq> None")
  case False
  then show ?thesis by (auto simp: store_retryable_result_def)
next
  case True
  then obtain job where job: "get_job jid w = Some job" by blast
  obtain ph et msg g ext where
    eq: "store_retryable_result rt lg t jid worker token st nb ety error pa w =
      (if attempts_used_up ph job \<and> ext = None
       then store_exhausted rt lg t job worker token st ph et msg g w
       else store_retry t job worker token st nb et msg
              (map_option (\<lambda>p. normalize_db_phase (Some p)) pa) ph ext w)"
    using retry_decision [OF job, of st pa ety error rt lg t worker token nb thesis] True by blast
  then show ?thesis
    using assms by (simp add: typed_store_retry)
qed

text \<open>Every call of the system.\<close>

lemma typed_perform_extended:
  assumes "outside ty"
    and "\<not> (\<exists>jid worker token st nb ety error pa. c = StoreRetryable jid worker token st nb ety error pa)"
  shows "job_events i ty (perform rt lg t c w) = job_events i ty w"
  using assms
  by (cases c) (auto simp: typed_frame set_pause_state_def set_chatgpt_web_hold_def
      clear_chatgpt_web_hold_def Let_def)

lemma typed_perform:
  assumes "outside ty" "ty \<noteq> ''max_attempts_extended''"
  shows "job_events i ty (perform rt lg t c w) = job_events i ty w"
proof (cases "\<exists>jid worker token st nb ety error pa. c = StoreRetryable jid worker token st nb ety error pa")
  case True
  then show ?thesis using assms typed_retryable by auto
next
  case False
  then show ?thesis by (rule typed_perform_extended [OF assms(1)])
qed

end
