(* ===== verification/WebRetry.thy ===== *)
theory WebRetry
  imports RetryPolicy History
begin

text \<open>
  The budget of retries in the browser, \<open>core/web_retry_budget.py\<close>, and the worker's
  use of it, \<open>_store_browser_retry_or_fail_closed\<close> of \<open>worker/worker.py\<close>:
  a retry of a web job is scheduled through the job store and leaves an event; when the
  events of the last window use up a budget the job is parked instead.
\<close>

section \<open>The budget\<close>

definition scheduled_event :: string where
  "scheduled_event = ''browser_retry_scheduled''"

definition exceeded_event :: string where
  "exceeded_event = ''browser_retry_budget_exceeded''"

record retry_budget =
  rb_provider_id :: "string option"
  rb_window_seconds :: int
  rb_max_per_job :: int
  rb_max_per_provider :: int
  rb_warn_ratio :: real
  rb_recent_job :: int
  rb_recent_provider :: int
  rb_warn_at_job :: int
  rb_warn_at_provider :: int
  rb_hot :: bool
  rb_exceeded :: bool

definition budget_payload :: "retry_budget \<Rightarrow> (string \<times> json) list" where
  "budget_payload b =
     [(''provider_id'', jopt (rb_provider_id b)),
      (''window_seconds'', JInt (rb_window_seconds b)),
      (''max_per_job'', JInt (rb_max_per_job b)),
      (''max_per_provider'', JInt (rb_max_per_provider b)),
      (''warn_ratio'', JReal (rb_warn_ratio b)),
      (''recent_job_retry_count'', JInt (rb_recent_job b)),
      (''recent_provider_retry_count'', JInt (rb_recent_provider b)),
      (''warn_at_job'', JInt (rb_warn_at_job b)),
      (''warn_at_provider'', JInt (rb_warn_at_provider b)),
      (''hot'', JBool (rb_hot b)),
      (''exceeded'', JBool (rb_exceeded b))]"

text \<open>\<open>x or d\<close> for a number.\<close>

definition int_or :: "int \<Rightarrow> int \<Rightarrow> int" where
  "int_or x d = (if x = 0 then d else x)"

definition web_retry_budget_window_seconds :: "runtime \<Rightarrow> int" where
  "web_retry_budget_window_seconds rt =
     max 60 (int_or (registry_int rt ''CHATGPTREST_WEB_RETRY_BUDGET_WINDOW_SECONDS'' 900
                       (Some 60) (Some 86400)) 900)"

definition web_retry_budget_max_per_job :: "runtime \<Rightarrow> int" where
  "web_retry_budget_max_per_job rt =
     max 0 (registry_int rt ''CHATGPTREST_WEB_RETRY_BUDGET_MAX_PER_JOB'' 4 (Some 0) (Some 1000))"

definition web_retry_budget_max_per_provider :: "runtime \<Rightarrow> int" where
  "web_retry_budget_max_per_provider rt =
     max 0 (registry_int rt ''CHATGPTREST_WEB_RETRY_BUDGET_MAX_PER_PROVIDER'' 12 (Some 0) (Some 10000))"

definition web_retry_budget_warn_ratio :: "runtime \<Rightarrow> real" where
  "web_retry_budget_warn_ratio rt =
     (let v = registry_float rt ''CHATGPTREST_WEB_RETRY_BUDGET_WARN_RATIO'' (8 / 10)
                (Some (1 / 10)) (Some 1);
          raw = (if v = Fin 0 then Fin (8 / 10) else v)
      in max (1 / 10) (min (finite_or (8 / 10) raw) 1))"

definition warn_threshold :: "int \<Rightarrow> real \<Rightarrow> int" where
  "warn_threshold limit ratio = (if limit \<le> 0 then 0 else max 1 \<lceil>real_of_int limit * ratio\<rceil>)"

definition count_recent_job_retries :: "string \<Rightarrow> real \<Rightarrow> world \<Rightarrow> int" where
  "count_recent_job_retries jid since w =
     int (length (filter (\<lambda>e. since \<le> ev_ts e) (job_events jid scheduled_event w)))"

text \<open>
  \<open>coalesce(json_extract(payload_json, '$.provider_id'), '') = ?\<close>: a value that is no
  text equals no text (the text SQLite makes of an array or an object starts with a bracket,
  which no provider id does).
\<close>

definition payload_provider_is :: "string \<Rightarrow> event \<Rightarrow> bool" where
  "payload_provider_is pid e =
     (case (case ev_payload e of None \<Rightarrow> JNull | Some p \<Rightarrow> jget ''provider_id'' p) of
        JNull \<Rightarrow> pid = ''''
      | JStr s \<Rightarrow> s = pid
      | _ \<Rightarrow> False)"

definition count_recent_provider_retries :: "string \<Rightarrow> real \<Rightarrow> world \<Rightarrow> int" where
  "count_recent_provider_retries pid since w =
     int (length (filter (\<lambda>e. ev_type e = scheduled_event \<and> since \<le> ev_ts e \<and> payload_provider_is pid e)
       (events w)))"

definition over :: "int \<Rightarrow> int \<Rightarrow> bool" where
  "over limit n \<longleftrightarrow> 0 < limit \<and> limit \<le> n"

definition evaluate_web_retry_budget :: "runtime \<Rightarrow> string \<Rightarrow> string option \<Rightarrow> real \<Rightarrow> world \<Rightarrow> retry_budget" where
  "evaluate_web_retry_budget rt jid kind now w =
     (let window = web_retry_budget_window_seconds rt;
          per_job = web_retry_budget_max_per_job rt;
          per_provider = web_retry_budget_max_per_provider rt;
          ratio = web_retry_budget_warn_ratio rt;
          warn_job = warn_threshold per_job ratio;
          warn_provider = warn_threshold per_provider ratio
      in case provider_id_for_kind kind of
           None \<Rightarrow>
             \<lparr>rb_provider_id = None, rb_window_seconds = window, rb_max_per_job = per_job,
              rb_max_per_provider = per_provider, rb_warn_ratio = ratio, rb_recent_job = 0,
              rb_recent_provider = 0, rb_warn_at_job = warn_job, rb_warn_at_provider = warn_provider,
              rb_hot = False, rb_exceeded = False\<rparr>
         | Some pid \<Rightarrow>
             (let since = now - real_of_int window;
                  recent_job = count_recent_job_retries jid since w;
                  recent_provider = count_recent_provider_retries pid since w
              in \<lparr>rb_provider_id = Some pid, rb_window_seconds = window, rb_max_per_job = per_job,
                  rb_max_per_provider = per_provider, rb_warn_ratio = ratio, rb_recent_job = recent_job,
                  rb_recent_provider = recent_provider, rb_warn_at_job = warn_job,
                  rb_warn_at_provider = warn_provider,
                  rb_hot = (over warn_job recent_job \<or> over warn_provider recent_provider),
                  rb_exceeded = (over per_job recent_job \<or> over per_provider recent_provider)\<rparr>))"

lemma warn_ratio_range: "1 / 10 \<le> web_retry_budget_warn_ratio rt" "web_retry_budget_warn_ratio rt \<le> 1"
  by (simp_all add: web_retry_budget_warn_ratio_def Let_def)

lemma warn_threshold_range:
  assumes "0 < limit" "r \<le> 1"
  shows "1 \<le> warn_threshold limit r" "warn_threshold limit r \<le> limit"
proof -
  have "real_of_int limit * r \<le> real_of_int limit"
    using assms by (simp add: mult_left_le)
  then have "\<lceil>real_of_int limit * r\<rceil> \<le> limit"
    by (simp add: ceiling_le_iff)
  with assms show "1 \<le> warn_threshold limit r" "warn_threshold limit r \<le> limit"
    by (auto simp: warn_threshold_def)
qed

lemma over_warned: "over limit n \<Longrightarrow> r \<le> 1 \<Longrightarrow> over (warn_threshold limit r) n"
  using warn_threshold_range [of limit r] by (fastforce simp: over_def)

lemma exceeded_is_hot:
  "rb_exceeded (evaluate_web_retry_budget rt jid kind now w) \<Longrightarrow>
     rb_hot (evaluate_web_retry_budget rt jid kind now w)"
  using over_warned warn_ratio_range(2) [of rt]
  by (auto simp: evaluate_web_retry_budget_def Let_def split: option.splits)

section \<open>Scheduling a retry\<close>

definition none_if_blank :: "string option \<Rightarrow> json" where
  "none_if_blank x = jopt (or_none (strip (or_empty x)))"

definition browser_retry_budget_payload ::
    "retry_budget \<Rightarrow> string option \<Rightarrow> string \<Rightarrow> string \<Rightarrow> string option \<Rightarrow> string option \<Rightarrow> real \<Rightarrow> json" where
  "browser_retry_budget_payload b kind ph status error_type error not_before =
     JObj (budget_payload b @
       [(''kind'', none_if_blank kind),
        (''phase'', none_if_blank (Some ph)),
        (''status'', none_if_blank (Some status)),
        (''error_type'', none_if_blank error_type),
        (''error_preview'', jopt (or_none (take 240 (strip (or_empty error))))),
        (''not_before'', JReal not_before)])"

definition fail_closed_error :: "retry_budget \<Rightarrow> string option \<Rightarrow> string" where
  "fail_closed_error b kind =
     text_or (or_empty (rb_provider_id b)) (text_or (or_empty (provider_id_for_kind kind)) ''web'')
     @ '' browser-visible retry budget exceeded within '' @ int_text (rb_window_seconds b)
     @ ''s (job='' @ int_text (rb_recent_job b) @ ''/'' @ int_text (rb_max_per_job b)
     @ '', provider='' @ int_text (rb_recent_provider b) @ ''/'' @ int_text (rb_max_per_provider b)
     @ ''); fail closed to avoid non-human retry cadence and provider rate-limit escalation''"

text \<open>What the caller learns: the status reported, the error type and the error.\<close>

type_synonym retry_report = "string \<times> string option \<times> string option"

text \<open>
  The store call of a retry: the release to the wait phase, or the retryable result (where
  the code asserts that a status was given).
\<close>

definition store_browser_retry ::
    "runtime \<Rightarrow> ledger \<Rightarrow> clock \<Rightarrow> job \<Rightarrow> string \<Rightarrow> string \<Rightarrow> string \<Rightarrow> job_status option \<Rightarrow> real \<Rightarrow>
      string option \<Rightarrow> string option \<Rightarrow> bool \<Rightarrow> world \<Rightarrow> (string, world) outcome" where
  "store_browser_retry rt ledger t job worker token ph status not_before error_type error release_wait w =
     (if release_wait
      then (case release_for_wait t (j_id job) worker token not_before w of
              (Inl e, w1) \<Rightarrow> (Inl e, w1)
            | (Inr _, w1) \<Rightarrow> (Inr (status_value IN_PROGRESS), w1))
      else (case status of
              None \<Rightarrow> (Inl AssertionError, w)
            | Some st \<Rightarrow>
                (case store_retryable_result rt ledger t (j_id job) worker token st not_before
                        (or_empty error_type) (or_empty error) (Some ph) w of
                   (Inl e, w1) \<Rightarrow> (Inl e, w1)
                 | (Inr _, w1) \<Rightarrow> (Inr (status_value st), w1))))"

definition store_browser_retry_or_fail_closed ::
    "runtime \<Rightarrow> ledger \<Rightarrow> clock \<Rightarrow> job \<Rightarrow> string \<Rightarrow> string \<Rightarrow> string \<Rightarrow> job_status option \<Rightarrow> real \<Rightarrow>
      string option \<Rightarrow> string option \<Rightarrow> bool \<Rightarrow> world \<Rightarrow> (retry_report, world) outcome" where
  "store_browser_retry_or_fail_closed rt ledger t job worker token ph status not_before error_type error
       release_wait w =
     (let store = store_browser_retry rt ledger (later 2 t) job worker token ph status not_before
                    error_type error release_wait
      in if \<not> is_provider_web_kind (Some (j_kind job))
         then (case store w of
                 (Inl e, w1) \<Rightarrow> (Inl e, w1)
               | (Inr s, w1) \<Rightarrow> (Inr (s, error_type, error), w1))
         else
           (let b = evaluate_web_retry_budget rt (j_id job) (Some (j_kind job)) (t 0) w;
                retry_status = (if release_wait then ''wait''
                                else case status of None \<Rightarrow> ''retry'' | Some st \<Rightarrow> status_value st);
                payload = browser_retry_budget_payload b (Some (j_kind job)) ph retry_status error_type
                            error not_before
            in if rb_exceeded b
               then (let w1 = record_event (t 1) (j_id job) exceeded_event payload w;
                         message = fail_closed_error b (Some (j_kind job))
                     in case store_error_result rt ledger (later 2 t) (j_id job) worker token
                               ''WebRetryBudgetExceeded'' message NEEDS_FOLLOWUP w1 of
                          (Inl e, w2) \<Rightarrow> (Inl e, w2)
                        | (Inr _, w2) \<Rightarrow>
                            (Inr (status_value NEEDS_FOLLOWUP, Some ''WebRetryBudgetExceeded'', Some message), w2))
               else (case store w of
                       (Inl e, w1) \<Rightarrow> (Inl e, w1)
                     | (Inr s, w1) \<Rightarrow>
                         (Inr (s, error_type, error),
                          record_event (t 1) (j_id job) scheduled_event payload w1))))"

section \<open>No window holds more retries than the budget\<close>

definition scheduled :: "string \<Rightarrow> world \<Rightarrow> event list" where
  "scheduled i w = job_events i scheduled_event w"

lemma outside_retry [simp]: "outside scheduled_event" "outside exceeded_event"
  "scheduled_event \<noteq> ''max_attempts_extended''" "exceeded_event \<noteq> scheduled_event"
  by (simp_all add: outside_def system_types_def scheduled_event_def exceeded_event_def)

lemma scheduled_record [simp]:
  "scheduled i (record_event ts k e p w) =
     scheduled i w @ (if k = i \<and> e = scheduled_event
       then [\<lparr>ev_job = k, ev_ts = ts, ev_type = e, ev_payload = Some p\<rparr>] else [])"
  by (simp add: scheduled_def typed_record)

lemma scheduled_perform [simp]: "scheduled i (perform rt lg t c w) = scheduled i w"
  by (simp add: scheduled_def typed_perform)

lemma scheduled_error:
  "store_error_result rt lg t jid worker token et e st w = (r, w') \<Longrightarrow> scheduled i w' = scheduled i w"
  using typed_store_error [of scheduled_event i rt lg t jid worker token et e st w]
  by (simp add: scheduled_def)

lemma scheduled_release:
  "release_for_wait t jid worker token nb w = (r, w') \<Longrightarrow> scheduled i w' = scheduled i w"
  using typed_release [of scheduled_event i t jid worker token nb w] by (simp add: scheduled_def)

lemma scheduled_retryable:
  "store_retryable_result rt lg t jid worker token st nb et e pa w = (r, w') \<Longrightarrow>
     scheduled i w' = scheduled i w"
  using typed_retryable [of scheduled_event i rt lg t jid worker token st nb et e pa w]
  by (simp add: scheduled_def)

lemma scheduled_retry [simp]:
  "scheduled i (snd (store_browser_retry rt lg t job worker token ph st nb et e rel w)) = scheduled i w"
  by (auto simp: store_browser_retry_def scheduled_release scheduled_retryable
      split: option.splits prod.splits sum.splits)

lemma scheduled_retry_eq:
  "store_browser_retry rt lg t job worker token ph st nb et e rel w = (r, w') \<Longrightarrow> scheduled i w' = scheduled i w"
  using scheduled_retry [of i rt lg t job worker token ph st nb et e rel w] by simp

text \<open>One call adds at most one such event, and only when the budget of the job has room.\<close>

lemma scheduled_step:
  fixes rt lg t job worker token ph st nb et e rel w i
  defines "w' \<equiv> snd (store_browser_retry_or_fail_closed rt lg t job worker token ph st nb et e rel w)"
  shows "scheduled i w' = scheduled i w \<or>
    (\<exists>p. scheduled i w' = scheduled i w @ [\<lparr>ev_job = i, ev_ts = t 1, ev_type = scheduled_event, ev_payload = p\<rparr>]
       \<and> i = j_id job
       \<and> \<not> over (web_retry_budget_max_per_job rt)
             (count_recent_job_retries i (t 0 - real_of_int (web_retry_budget_window_seconds rt)) w))"
proof (cases "is_provider_web_kind (Some (j_kind job))")
  case False
  then have "scheduled i w' = scheduled i w"
    by (auto simp: w'_def store_browser_retry_or_fail_closed_def Let_def scheduled_retry_eq
        split: prod.splits sum.splits)
  then show ?thesis ..
next
  case web: True
  then obtain pid where pid: "provider_id_for_kind (Some (j_kind job)) = Some pid"
    by (auto simp: is_provider_web_kind_def provider_id_for_kind_def)
  define b where "b = evaluate_web_retry_budget rt (j_id job) (Some (j_kind job)) (t 0) w"
  show ?thesis
  proof (cases "rb_exceeded b")
    case True
    then have "scheduled i w' = scheduled i w"
      using web by (auto simp: w'_def store_browser_retry_or_fail_closed_def b_def [symmetric] Let_def
          scheduled_error split: prod.splits sum.splits)
    then show ?thesis ..
  next
    case False
    then have room: "\<not> over (web_retry_budget_max_per_job rt)
        (count_recent_job_retries (j_id job) (t 0 - real_of_int (web_retry_budget_window_seconds rt)) w)"
      using pid by (simp add: b_def evaluate_web_retry_budget_def Let_def)
    obtain r w1 where store: "store_browser_retry rt lg (later 2 t) job worker token ph st nb et e rel w = (r, w1)"
      by fastforce
    have "scheduled i w1 = scheduled i w"
      by (rule scheduled_retry_eq [OF store])
    with room web False store show ?thesis
      by (auto simp: w'_def store_browser_retry_or_fail_closed_def b_def [symmetric] Let_def
          split: sum.splits)
  qed
qed

text \<open>
  The job system with the worker's retries: any call of the job store at any time, and
  retries at times that do not go back.
\<close>

inductive retry_system :: "runtime \<Rightarrow> ledger \<Rightarrow> real \<Rightarrow> world \<Rightarrow> bool" for rt lg where
  start: "retry_system rt lg now empty_world"
| call: "retry_system rt lg now w \<Longrightarrow> retry_system rt lg now (perform rt lg t c w)"
| retry: "retry_system rt lg now w \<Longrightarrow> now \<le> t 0 \<Longrightarrow> t 0 \<le> t 1 \<Longrightarrow>
    retry_system rt lg (t 1)
      (snd (store_browser_retry_or_fail_closed rt lg t job worker token ph st nb et e rel w))"

definition in_window :: "real \<Rightarrow> real \<Rightarrow> event \<Rightarrow> bool" where
  "in_window lo width e \<longleftrightarrow> lo \<le> ev_ts e \<and> ev_ts e \<le> lo + width"

definition within_budget :: "runtime \<Rightarrow> real \<Rightarrow> world \<Rightarrow> bool" where
  "within_budget rt now w \<longleftrightarrow>
     (\<forall>i. (\<forall>e \<in> set (scheduled i w). ev_ts e \<le> now) \<and>
       (\<forall>lo. int (length (filter (in_window lo (real_of_int (web_retry_budget_window_seconds rt)))
          (scheduled i w))) \<le> web_retry_budget_max_per_job rt))"

lemma filter_length_mono: "(\<And>x. P x \<Longrightarrow> Q x) \<Longrightarrow> length (filter P xs) \<le> length (filter Q xs)"
  by (induction xs) auto

lemma within_budget_retry:
  assumes b: "within_budget rt now w" and cap: "0 < web_retry_budget_max_per_job rt"
    and now: "now \<le> t 0" "t 0 \<le> t 1"
  shows "within_budget rt (t 1) (snd (store_browser_retry_or_fail_closed rt lg t job worker token ph st nb et e rel w))"
proof -
  let ?w' = "snd (store_browser_retry_or_fail_closed rt lg t job worker token ph st nb et e rel w)"
  let ?W = "real_of_int (web_retry_budget_window_seconds rt)"
  have "(\<forall>e \<in> set (scheduled i ?w'). ev_ts e \<le> t 1) \<and>
      int (length (filter (in_window lo ?W) (scheduled i ?w'))) \<le> web_retry_budget_max_per_job rt" for i lo
  proof -
    have old: "\<forall>e \<in> set (scheduled i w). ev_ts e \<le> t 1"
      using b now by (force simp: within_budget_def)
    have len: "int (length (filter (in_window lo ?W) (scheduled i w))) \<le> web_retry_budget_max_per_job rt"
      using b by (simp add: within_budget_def)
    consider "scheduled i ?w' = scheduled i w"
      | p where "scheduled i ?w' = scheduled i w @
            [\<lparr>ev_job = i, ev_ts = t 1, ev_type = scheduled_event, ev_payload = p\<rparr>]"
          "\<not> over (web_retry_budget_max_per_job rt) (count_recent_job_retries i (t 0 - ?W) w)"
      using scheduled_step [of i rt lg t job worker token ph st nb et e rel w] by blast
    then show ?thesis
    proof cases
      case 1
      then show ?thesis using old len by simp
    next
      case (2 p)
      have room: "int (length (filter (\<lambda>e. t 0 - ?W \<le> ev_ts e) (scheduled i w))) + 1
          \<le> web_retry_budget_max_per_job rt"
        using 2(2) cap by (simp add: over_def count_recent_job_retries_def scheduled_def)
      show ?thesis
      proof (cases "lo \<le> t 1 \<and> t 1 \<le> lo + ?W")
        case True
        then have "length (filter (in_window lo ?W) (scheduled i w))
            \<le> length (filter (\<lambda>e. t 0 - ?W \<le> ev_ts e) (scheduled i w))"
          using now by (intro filter_length_mono) (auto simp: in_window_def)
        with 2(1) old room show ?thesis by auto
      next
        case False
        with 2(1) old len show ?thesis by (auto simp: in_window_def)
      qed
    qed
  qed
  then show ?thesis by (auto simp: within_budget_def)
qed

lemma retry_system_within_budget:
  assumes "retry_system rt lg now w" "0 < web_retry_budget_max_per_job rt"
  shows "within_budget rt now w"
  using assms
proof (induction rule: retry_system.induct)
  case (start now)
  then show ?case by (simp add: within_budget_def scheduled_def job_events_def empty_world_def)
next
  case (call now w t c)
  then show ?case by (simp add: within_budget_def)
next
  case (retry now w t job worker token ph st nb et e rel)
  then show ?case by (intro within_budget_retry) simp_all
qed

section \<open>Failing closed\<close>

lemma store_error_row:
  assumes "ids_distinct w" and "get_job jid w = Some job"
    and "store_error_result rt ledger t jid worker token ety error status w = (Inr j', w')"
  shows "get_job jid w' = Some j'"
proof -
  obtain et msg where n: "normalize_error_fields ety error = (et, msg)" by fastforce
  obtain r w1 where tr: "transition t jid status [U_last_error_type (Some et), U_last_error (Some msg)]
      (Some worker) (Some token) True w = (r, w1)" by fastforce
  have same: "jobs (auto_report rt ledger ts x status a b (write_result jid v u)) = jobs u"
    "jobs (write_result jid v u) = jobs u" for ts x a b v u
    by (simp_all add: auto_report_def Let_def store_simps split: option.splits)
  have "get_job jid w1 = Some x" if "r = Inr x" for x
    using transition_returned(3) [OF assms(1,2) tr [unfolded that], of jid] by simp
  then show ?thesis
    using assms(2,3) n tr same
    by (auto simp: store_error_result_def get_job_def Let_def split: if_splits sum.splits)
qed

lemma fail_closed_parks:
  assumes "ids_distinct w" and "get_job (j_id job) w = Some row"
    and "is_provider_web_kind (Some (j_kind job))"
    and "rb_exceeded (evaluate_web_retry_budget rt (j_id job) (Some (j_kind job)) (t 0) w)"
    and "store_browser_retry_or_fail_closed rt lg t job worker token ph st nb et e rel w = (Inr report, w')"
  shows "\<exists>j. get_job (j_id job) w' = Some j \<and> j_status j = NEEDS_FOLLOWUP"
    and "fst report = ''needs_followup''" and "fst (snd report) = Some ''WebRetryBudgetExceeded''"
    and "scheduled i w' = scheduled i w"
proof -
  define b where "b = evaluate_web_retry_budget rt (j_id job) (Some (j_kind job)) (t 0) w"
  define p where "p = browser_retry_budget_payload b (Some (j_kind job)) ph
    (if rel then ''wait'' else case st of None \<Rightarrow> ''retry'' | Some s \<Rightarrow> status_value s) et e nb"
  note opened = assms(5) [unfolded store_browser_retry_or_fail_closed_def Let_def, folded b_def, folded p_def]
  from opened obtain j where j: "store_error_result rt lg (later 2 t) (j_id job) worker token ''WebRetryBudgetExceeded''
      (fail_closed_error b (Some (j_kind job))) NEEDS_FOLLOWUP
      (record_event (t 1) (j_id job) exceeded_event p w) = (Inr j, w')"
    using assms(3,4) by (auto simp: b_def [symmetric] split: prod.splits sum.splits)
  have report: "fst report = ''needs_followup''" "fst (snd report) = Some ''WebRetryBudgetExceeded''"
    using opened assms(3,4) j by (auto simp: b_def [symmetric])
  let ?w = "record_event (t 1) (j_id job) exceeded_event p w"
  have d: "ids_distinct ?w" "get_job (j_id job) ?w = Some row"
    using assms(1,2) by (simp_all add: store_simps)
  show "\<exists>j. get_job (j_id job) w' = Some j \<and> j_status j = NEEDS_FOLLOWUP"
    using store_error_row [OF d j] store_error_returned [OF d j] by blast
  show "fst report = ''needs_followup''" "fst (snd report) = Some ''WebRetryBudgetExceeded''"
    by (rule report)+
  show "scheduled i w' = scheduled i w"
    using scheduled_error [OF j, of i] by simp
qed

end
