(* ===== verification/Examples.thy ===== *)
theory Examples
  imports JobSystem Replay WebRetry
begin

text \<open>
  Concrete values the witnesses are evaluated on: a runtime, a clock, a job that is being
  sent by worker \<open>w1\<close> under token \<open>k1\<close> until time 100, and requests.
\<close>

definition rt0 :: runtime where
  "rt0 = \<lparr>rt_env = (\<lambda>_. None), rt_sha256 = (\<lambda>s. s),
          rt_dumps = (\<lambda>v. case v of JObj ((_, JStr s) # _) \<Rightarrow> s | _ \<Rightarrow> ''''),
          rt_repr = (\<lambda>_. '''')\<rparr>"

definition no_ledger :: ledger where
  "no_ledger = (\<lambda>_ _ _. None)"

text \<open>Every reading of the clock gives the same time.\<close>

definition at_time :: "real \<Rightarrow> clock" where
  "at_time x = (\<lambda>_. x)"

definition job0 :: job where
  "job0 =
     \<lparr>j_id = ''j1'', j_kind = ''chatgpt_web.ask'', j_input = JObj [], j_params = JObj [], j_client = None,
      j_phase = Send, j_status = IN_PROGRESS, j_created_at = 0, j_updated_at = 0, j_not_before = 0,
      j_attempts = 1, j_max_attempts = 3, j_cancel_requested_at = None,
      j_lease_owner = Some ''w1'', j_lease_expires_at = Some 100, j_lease_token = Some ''k1'',
      j_parent_job_id = None, j_conversation_url = None, j_conversation_id = None,
      j_export_format = None, j_export_path = None, j_export_sha256 = None, j_export_chars = None,
      j_answer_format = None, j_answer_path = None, j_answer_sha256 = None, j_answer_chars = None,
      j_last_error_type = None, j_last_error = None\<rparr>"

definition queued0 :: job where
  "queued0 = job0\<lparr>j_status := QUEUED, j_attempts := 0, j_lease_owner := None,
                  j_lease_expires_at := None, j_lease_token := None\<rparr>"

definition world_of :: "job list \<Rightarrow> world" where
  "world_of js = empty_world\<lparr>jobs := js\<rparr>"

definition request0 :: request where
  "request0 =
     \<lparr>rq_key = ''key'', rq_kind = ''chatgpt_web.ask'', rq_input = JObj [], rq_params = JObj [],
      rq_max_attempts = 3, rq_parent = None, rq_client = None, rq_requested_by = None,
      rq_allow_queue = False, rq_single_flight = True, rq_request_error = None, rq_log_ok = True\<rparr>"

lemma later_at_time [simp]: "later n (at_time x) = at_time x"
  by (simp add: later_def at_time_def)

lemma at_time_app [simp]: "at_time x k = x"
  by (simp add: at_time_def)

lemma world_of_sel [simp]:
  "jobs (world_of js) = js" "events (world_of js) = []" "idempotency (world_of js) = []"
  "meta (world_of js) = (\<lambda>_. None)" "files (world_of js) = (\<lambda>_. None)"
  by (simp_all add: world_of_def empty_world_def)

lemma job0_sel [simp]:
  "j_id job0 = ''j1''" "j_kind job0 = ''chatgpt_web.ask''" "j_phase job0 = Send"
  "j_status job0 = IN_PROGRESS" "j_attempts job0 = 1" "j_max_attempts job0 = 3"
  "j_lease_owner job0 = Some ''w1''" "j_lease_token job0 = Some ''k1''"
  "j_lease_expires_at job0 = Some 100" "j_not_before job0 = 0" "j_created_at job0 = 0"
  "j_conversation_id job0 = None" "j_conversation_url job0 = None"
  by (simp_all add: job0_def)

lemma queued0_sel [simp]:
  "j_id queued0 = ''j1''" "j_kind queued0 = ''chatgpt_web.ask''" "j_phase queued0 = Send"
  "j_status queued0 = QUEUED" "j_attempts queued0 = 0" "j_max_attempts queued0 = 3"
  "j_not_before queued0 = 0" "j_created_at queued0 = 0" "j_conversation_id queued0 = None"
  "j_lease_expires_at queued0 = None"
  by (simp_all add: queued0_def)

lemma get_job_one [simp]: "get_job i (world_of [j]) = (if j_id j = i then Some j else None)"
  by (simp add: get_job_def)

lemma ids_distinct_one [simp]: "ids_distinct (world_of [j])"
  by (simp add: ids_distinct_def keys_distinct_def)

lemma job0_holder: "holds_lease worker token now job0 \<longleftrightarrow> worker = ''w1'' \<and> token = ''k1'' \<and> now \<le> 100"
  by (auto simp: holds_lease_def owns_lease_def lease_unexpired_def)

text \<open>A queue with one created job.\<close>

definition created0 :: world where
  "created0 = perform rt0 no_ledger (at_time 1) (CreateJob ''j1'' request0) empty_world"

lemma reachable_created0: "reachable rt0 no_ledger created0"
  unfolding created0_def
  by (rule reachable.step [OF reachable.start system_step.call]) (simp add: get_job_def empty_world_def)

lemma admit_request0: "jobs w = [] \<Longrightarrow> admit rt0 request0 w = Inr ('''', JObj [])"
  by (simp add: admit_def resolve_conversation_def request0_def dict_or_empty_def
      validate_conversation_url_for_kind_def check_single_flight_def truthy_def Let_def)

lemma request0_kind: "\<not> starts_with ''qwen_web.'' (lower (strip (rq_kind request0)))"
  unfolding request0_def by code_simp

lemma idle_pause: "meta w = (\<lambda>_. None) \<Longrightarrow> pause_filter_allows_job t (get_pause_state rt0 w) p k"
  by (simp add: pause_filter_allows_job_def pause_is_active_def get_pause_state_def meta_get_def)

definition new0 :: job where
  "new0 = new_job rt0 1 ''j1'' request0 '''' (JObj [])"

lemma get_created0: "get_job ''j1'' created0 = Some new0"
proof -
  have id: "j_id new0 = ''j1''" by (simp add: new0_def new_job_def)
  show ?thesis
    using request0_kind
    by (simp add: created0_def create_job_new idem_get_def empty_world_def admit_request0
        new0_def [symmetric] Let_def store_simps defer_by_pause_def idle_pause get_job_def insert_job_def id)
qed

text \<open>Neither pause nor hold.\<close>

lemma filter0:
  "claim_filter_now rt0 now None None (world_of js) =
     \<lparr>cf_now = now, cf_prefix = None, cf_phase = None, cf_hold = False, cf_pause_active = False,
      cf_pause_all = False, cf_auto_blocked = False\<rparr>"
  by (simp add: claim_filter_now_def get_chatgpt_web_hold_def get_pause_state_def pause_is_active_def
      meta_get_def hold_reasons_def Let_def or_none_def)

lemma claimable_queued0: "claim_where (claim_filter_now rt0 5 None None (world_of [queued0])) [queued0] queued0"
  by (simp add: filter0 claim_where_def pause_clause_def attempts_clause_def single_flight_free_def
      status_clause_def)

lemma claim_queued0:
  "fst (claim_next_job rt0 (at_time 5) ''k'' ''w'' 60 None None (world_of [queued0])) =
     Some (claimed 5 ''k'' ''w'' 60 queued0)"
  using claimable_queued0
  by (simp add: claim_next_job_def Let_def count_jobs_def row_count_def store_simps row_update_def
      get_job_def claimed_def filter0)

text \<open>The sample job after a retryable failure.\<close>

definition cooled0 :: job where
  "cooled0 = job0\<lparr>j_status := COOLDOWN, j_updated_at := 5, j_not_before := 30,
                  j_last_error_type := Some ''E'', j_last_error := Some ''m''\<rparr>"

lemma transition_job0:
  "may_move IN_PROGRESS dst \<Longrightarrow> disallowed_key us = None \<Longrightarrow> now \<le> 100 \<Longrightarrow>
     \<exists>w'. transition (at_time now) ''j1'' dst us (Some ''w1'') (Some ''k1'') True (world_of [job0]) =
            (Inr (moved now dst us job0), w')"
  using transition_ok_result [of "world_of [job0]" "''j1''" job0 dst us "Some ''w1''" "Some ''k1''" True "at_time now"]
  by (simp add: transition_ok_def expected_lease_ok_def owns_lease_def lease_unexpired_def)

lemma retry_job0:
  "\<exists>w'. store_retryable_result rt0 no_ledger (at_time 5) ''j1'' ''w1'' ''k1'' COOLDOWN 30 ''E'' ''m'' None
      (world_of [job0]) = (Inr cooled0, w')"
proof -
  have e: "normalize_error_fields ''E'' ''m'' = (''E'', ''m'')" by code_simp
  have m: "moved 5 COOLDOWN (retry_updates job0 30 ''E'' ''m'' None None) job0 = cooled0"
    by (simp add: moved_def retry_updates_def cooled0_def)
  have disallowed: "disallowed_key (retry_updates job0 30 ''E'' ''m'' None None) = None"
    by (simp add: retry_updates_def)
  obtain w' where "transition (at_time 5) ''j1'' COOLDOWN (retry_updates job0 30 ''E'' ''m'' None None)
      (Some ''w1'') (Some ''k1'') True (world_of [job0]) = (Inr cooled0, w')"
    using transition_job0 [of COOLDOWN "retry_updates job0 30 ''E'' ''m'' None None" 5]
      m disallowed by (auto simp: may_move_iff allowed_moves_def)
  then show ?thesis
    by (simp add: store_retryable_result_def error_statuses_def e attempts_used_up_def store_retry_def)
qed

lemma answered_job0:
  "\<exists>job' w'. store_answer_result rt0 None (at_time 5) ''j1'' ''w1'' ''k1'' ''yes'' ''text'' (world_of [job0]) = (Inr job', w')"
proof -
  obtain m tx where m: "compute_answer_meta rt0 ''j1'' ''yes'' (Some ''text'') = (m, tx)" by fastforce
  let ?w = "staged_world rt0 job0 ''k1'' m tx (world_of [job0])"
  have "transition_ok COMPLETED (answer_updates m) (Some ''w1'') (Some ''k1'') True 5 job0"
    by (simp add: transition_ok_def expected_lease_ok_def owns_lease_def lease_unexpired_def
        may_move_iff allowed_moves_def answer_updates_def)
  then show ?thesis
    using store_answer_running [of "''j1''" "world_of [job0]" job0 "''k1''" rt0 "''yes''" "''text''" m tx None "at_time 5" "''w1''"]
      transition_ok_result [of ?w "''j1''" job0 COMPLETED "answer_updates m" "Some ''w1''" "Some ''k1''" True "at_time 5"]
    by (simp add: m store_simps)
qed

lemma create_request0: "create_job rt0 (at_time 1) ''j1'' request0 empty_world = (Inr new0, created0)"
proof -
  have "\<exists>j. fst (create_job rt0 (at_time 1) ''j1'' request0 empty_world) = Inr j"
    using get_created0 request0_kind
    by (simp add: created0_def create_job_new idem_get_def empty_world_def admit_request0 Let_def reread_def
        split: option.splits)
  then obtain j where run: "create_job rt0 (at_time 1) ''j1'' request0 empty_world = (Inr j, created0)"
    by (metis created0_def perform.simps(1) prod.collapse)
  then have "get_job ''j1'' created0 = Some j"
    by (rule create_first [rotated 2]) (simp_all add: idem_get_def get_job_def empty_world_def)
  with run get_created0 show ?thesis by simp
qed

lemma orphan_refused:
  "\<exists>e w'. create_job rt0 (at_time 1) ''j1'' (request0\<lparr>rq_parent := Some ''p''\<rparr>) empty_world = (Inl e, w')"
proof -
  have "\<not> starts_with ''qwen_web.'' (lower (strip (rq_kind (request0\<lparr>rq_parent := Some ''p''\<rparr>))))"
    using request0_kind by (simp add: request0_def)
  then show ?thesis
    by (simp add: create_job_new idem_get_def empty_world_def admit_def resolve_conversation_def
        check_parent_def request0_def dict_or_empty_def truthy_def get_job_def Let_def)
qed

text \<open>A follow-up into a ChatGPT thread.\<close>

definition thread0_id :: string where
  "thread0_id = ''0123456789abcdef0123456789abcdef0123''"

definition thread0 :: string where
  "thread0 = ''https://chatgpt.com/c/'' @ thread0_id"

definition follow_up0 :: request where
  "follow_up0 = request0\<lparr>rq_input := JObj [(''conversation_url'', JStr thread0)]\<rparr>"

lemma thread0_facts:
  "strip thread0 = thread0" "thread0 \<noteq> ''''"
  "conversation_id rt0 thread0 = Some thread0_id" "thread0_id \<noteq> ''''"
  "validate_conversation_url_for_kind ''chatgpt_web.ask'' thread0 = None"
  "strip ''chatgpt_web.ask'' = ''chatgpt_web.ask''"
  by (code_simp)+

lemmas ask_kind_strip = thread0_facts(6)

lemma follow_up_created:
  "\<exists>j w'. create_job rt0 (at_time 1) ''j1'' follow_up0
      (world_of [job0\<lparr>j_id := ''j2'', j_status := COMPLETED, j_conversation_id := Some thread0_id\<rparr>]) = (Inr j, w')
    \<and> j_conversation_id j = Some thread0_id \<and> j_kind j = ''chatgpt_web.ask''"
proof -
  let ?w = "world_of [job0\<lparr>j_id := ''j2'', j_status := COMPLETED, j_conversation_id := Some thread0_id\<rparr>]"
  have a: "admit rt0 follow_up0 ?w = Inr (thread0, JObj [(''conversation_url'', JStr thread0)])"
    by (simp add: admit_def resolve_conversation_def follow_up0_def request0_def dict_or_empty_def truthy_def
        thread0_facts check_single_flight_def active_ask_def Let_def)
  have k: "\<not> starts_with ''qwen_web.'' (lower (strip (rq_kind follow_up0)))"
    using request0_kind by (simp add: follow_up0_def)
  obtain j w' where run: "create_job rt0 (at_time 1) ''j1'' follow_up0 ?w = (Inr j, w')"
  proof (cases "fst (create_job rt0 (at_time 1) ''j1'' follow_up0 ?w)")
    case (Inl e)
    then have "snd (create_job rt0 (at_time 1) ''j1'' follow_up0 ?w) = ?w"
      using create_refused by (metis prod.collapse)
    then have "jobs (snd (create_job rt0 (at_time 1) ''j1'' follow_up0 ?w)) = jobs ?w" by simp
    then show ?thesis
      by (simp add: create_job_new k a idem_get_def Let_def store_simps defer_by_pause_def idle_pause insert_job_def)
  next
    case (Inr j)
    then show ?thesis using that by (metis prod.collapse)
  qed
  have "j = deferred rt0 1 ?w (new_job rt0 1 ''j1'' follow_up0 thread0 (JObj [(''conversation_url'', JStr thread0)]))"
    by (rule create_first [OF _ _ run]) (simp_all add: idem_get_def a)
  then have "j_conversation_id j = Some thread0_id \<and> j_kind j = ''chatgpt_web.ask''"
    by (simp add: deferred_def Let_def new_job_def follow_up0_def request0_def thread0_facts)
  with run show ?thesis by blast
qed

text \<open>The sample job after four browser retries: its budget is used up.\<close>

definition spent0 :: world where
  "spent0 = (world_of [job0])\<lparr>events := replicate 4
     \<lparr>ev_job = ''j1'', ev_ts = 4, ev_type = ''browser_retry_scheduled'', ev_payload = None\<rparr>\<rparr>"

lemma spent0_facts:
  "ids_distinct spent0" "get_job (j_id job0) spent0 = Some job0"
  "is_provider_web_kind (Some (j_kind job0))"
  "rb_exceeded (evaluate_web_retry_budget rt0 (j_id job0) (Some (j_kind job0)) (at_time 5 0) spent0)"
proof -
  have env: "rt_env rt0 = (\<lambda>_. None)" by (simp add: rt0_def)
  show "ids_distinct spent0" "get_job (j_id job0) spent0 = Some job0"
    by (simp_all add: spent0_def ids_distinct_def keys_distinct_def get_job_def)
  have k: "\<exists>s. provider_spec_for_kind (Some ''chatgpt_web.ask'') = Some s"
  proof -
    have "is_provider_web_kind (Some ''chatgpt_web.ask'')" by code_simp
    then show ?thesis by (auto simp: is_provider_web_kind_def)
  qed
  then show "is_provider_web_kind (Some (j_kind job0))"
    by (auto simp: is_provider_web_kind_def)
  from k show "rb_exceeded (evaluate_web_retry_budget rt0 (j_id job0) (Some (j_kind job0)) (at_time 5 0) spent0)"
    by (auto simp: evaluate_web_retry_budget_def Let_def provider_id_for_kind_def over_def spent0_def
        count_recent_job_retries_def job_events_def scheduled_event_def web_retry_budget_max_per_job_def
        web_retry_budget_window_seconds_def registry_int_def env int_or_def numeral_eq_Suc)
qed

lemma parked_spent0:
  "\<exists>report w'. store_browser_retry_or_fail_closed rt0 no_ledger (at_time 5) job0 ''w1'' ''k1'' ''send''
      (Some COOLDOWN) 90 (Some ''TimeoutError'') None False spent0 = (Inr report, w')"
proof -
  have stored: "\<exists>j w'. store_error_result rt0 no_ledger (at_time 5) ''j1'' ''w1'' ''k1'' ety msg NEEDS_FOLLOWUP
      (record_event 5 ''j1'' exceeded_event p spent0) = (Inr j, w')" for ety msg p
  proof -
    let ?w = "record_event 5 ''j1'' exceeded_event p spent0"
    obtain et m where n: "normalize_error_fields ety msg = (et, m)" by fastforce
    have d: "ids_distinct ?w" "get_job ''j1'' ?w = Some job0"
      using spent0_facts by (simp_all add: store_simps)
    have ok: "transition_ok NEEDS_FOLLOWUP [U_last_error_type (Some et), U_last_error (Some m)]
        (Some ''w1'') (Some ''k1'') True (at_time 5 1) job0"
      by (simp add: transition_ok_def expected_lease_ok_def owns_lease_def lease_unexpired_def
          may_move_iff allowed_moves_def)
    show ?thesis
      using transition_ok_result [where t = "at_time 5", OF d ok] d(2) n
      by (simp add: store_error_result_def error_statuses_def Let_def)
  qed
  define b where "b = evaluate_web_retry_budget rt0 (j_id job0) (Some (j_kind job0)) (at_time 5 0) spent0"
  have b: "rb_exceeded b" "is_provider_web_kind (Some (j_kind job0))"
    using spent0_facts by (simp_all add: b_def)
  note opened = store_browser_retry_or_fail_closed_def [of rt0 no_ledger "at_time 5" job0 "''w1''" "''k1''"
      "''send''" "Some COOLDOWN" 90 "Some ''TimeoutError''" None False spent0, unfolded Let_def, folded b_def]
  obtain j w' where "store_error_result rt0 no_ledger (at_time 5) ''j1'' ''w1'' ''k1'' ''WebRetryBudgetExceeded''
      (fail_closed_error b (Some (j_kind job0))) NEEDS_FOLLOWUP
      (record_event 5 ''j1'' exceeded_event
        (browser_retry_budget_payload b (Some (j_kind job0)) ''send'' (status_value COOLDOWN)
          (Some ''TimeoutError'') None 90) spent0) = (Inr j, w')"
    using stored by blast
  then show ?thesis
    using b by (simp only: opened if_True if_False not_True_eq_False simp_thms later_at_time at_time_app
        job0_sel(1) option.case prod.case sum.case) blast
qed

end
