(* ===== verification/Extensions.thy ===== *)
theory Extensions
  imports History
begin

text \<open>
  How often the allowance of a job is extended: the event \<open>max_attempts_extended\<close> is
  written by \<open>store_retryable_result\<close> alone, and never more often than
  \<open>CHATGPTREST_RETRYABLE_SEND_MAX_EXTENSIONS\<close> allows.
\<close>

abbreviation extensions :: "string \<Rightarrow> world \<Rightarrow> event list" where
  "extensions i w \<equiv> job_events i ''max_attempts_extended'' w"

section \<open>The bound\<close>

lemma used_extensions:
  "retryable_send_extensions_used rt i w = int (length (filter (counts_as_extension rt) (extensions i w)))"
  by (simp add: retryable_send_extensions_used_def)

definition bounded_extensions :: "runtime \<Rightarrow> world \<Rightarrow> bool" where
  "bounded_extensions rt w \<longleftrightarrow>
     (\<forall>i. retryable_send_extensions_used rt i w \<le> retryable_send_max_extensions rt)"

lemma bounded_same:
  "(\<And>i. extensions i w' = extensions i w) \<Longrightarrow> bounded_extensions rt w \<Longrightarrow> bounded_extensions rt w'"
  by (simp add: bounded_extensions_def used_extensions)

lemma extension_decision_used:
  "extension_decision rt job et msg w = (g, Some n) \<Longrightarrow>
     retryable_send_extensions_used rt (j_id job) w < retryable_send_max_extensions rt
     \<and> n \<le> retryable_send_attempts_cap rt \<and> is_web_ask_kind (Some (j_kind job))"
  by (auto simp: extension_decision_def retryable_send_max_extensions_def Let_def split: if_splits)

lemma store_retry_extensions:
  "\<exists>e. extensions i (snd (store_retry t job worker token st nb et msg pa ph ext w)) = extensions i w
    \<or> (extensions i (snd (store_retry t job worker token st nb et msg pa ph ext w)) = extensions i w @ [e]
       \<and> i = j_id job \<and> ext \<noteq> None)"
  by (auto simp: store_retry_def Let_def typed_simps transition_eq_typed
      split: option.splits prod.splits sum.splits)

lemma used_append:
  "extensions i w' = extensions i w @ [e] \<Longrightarrow>
     retryable_send_extensions_used rt i w' \<le> retryable_send_extensions_used rt i w + 1"
  by (simp add: used_extensions)

lemma bounded_retryable:
  assumes "bounded_extensions rt w"
  shows "bounded_extensions rt (snd (store_retryable_result rt lg t jid worker token st nb ety error pa w))"
proof (cases "st \<in> set error_statuses \<and> get_job jid w \<noteq> None")
  case False
  then show ?thesis using assms by (auto simp: store_retryable_result_def)
next
  case True
  then obtain job where job: "get_job jid w = Some job" by blast
  obtain ph et msg g ext where
    d: "(g, ext) = (if attempts_used_up ph job then extension_decision rt job et msg w else (None, None))"
    and eq: "store_retryable_result rt lg t jid worker token st nb ety error pa w =
      (if attempts_used_up ph job \<and> ext = None
       then store_exhausted rt lg t job worker token st ph et msg g w
       else store_retry t job worker token st nb et msg
              (map_option (\<lambda>p. normalize_db_phase (Some p)) pa) ph ext w)"
    using retry_decision [OF job, of st pa ety error rt lg t worker token nb thesis] True by blast
  show ?thesis
  proof (cases "attempts_used_up ph job \<and> ext = None")
    case True
    show ?thesis by (rule bounded_same [OF _ assms]) (simp add: eq True)
  next
    case False
    let ?w = "snd (store_retry t job worker token st nb et msg
              (map_option (\<lambda>p. normalize_db_phase (Some p)) pa) ph ext w)"
    have "retryable_send_extensions_used rt i ?w \<le> retryable_send_max_extensions rt" for i
    proof -
      obtain e where e: "extensions i ?w = extensions i w
          \<or> (extensions i ?w = extensions i w @ [e] \<and> i = j_id job \<and> ext \<noteq> None)"
        using store_retry_extensions by blast
      show ?thesis
      proof (cases "extensions i ?w = extensions i w")
        case True
        then show ?thesis using assms by (simp add: bounded_extensions_def used_extensions)
      next
        case False
        with e have app: "extensions i ?w = extensions i w @ [e]" and "i = j_id job" "ext \<noteq> None" by auto
        then obtain n where "extension_decision rt job et msg w = (g, Some n)"
          using d by (metis option.exhaust prod.inject)
        then have "retryable_send_extensions_used rt i w < retryable_send_max_extensions rt"
          using extension_decision_used \<open>i = j_id job\<close> by blast
        then show ?thesis using used_append [OF app, of rt] by linarith
      qed
    qed
    then show ?thesis using eq False by (simp add: bounded_extensions_def)
  qed
qed

lemma bounded_step: "system_step rt lg w w' \<Longrightarrow> bounded_extensions rt w \<Longrightarrow> bounded_extensions rt w'"
proof (erule system_stepE)
  fix c t
  assume w': "w' = perform rt lg t c w" and b: "bounded_extensions rt w"
  show "bounded_extensions rt w'"
  proof (cases "\<exists>jid worker token st nb ety error pa. c = StoreRetryable jid worker token st nb ety error pa")
    case True
    then show ?thesis using bounded_retryable [OF b] w' by auto
  next
    case False
    then have "extensions i w' = extensions i w" for i
      unfolding w' by (intro typed_perform_extended outside_extended)
    then show ?thesis using b by (rule bounded_same)
  qed
qed

lemma bounded_reachable: "reachable rt lg w \<Longrightarrow> bounded_extensions rt w"
proof (induction rule: reachable.induct)
  case start
  then show ?case
    by (simp add: bounded_extensions_def used_extensions job_events_def empty_world_def
        retryable_send_max_extensions_def)
next
  case (step w w')
  then show ?case using bounded_step by blast
qed

end
