(* ===== verification/Outbox.thy ===== *)
theory Outbox
  imports Table
begin

text \<open>
  The outbox of external side effects, \<open>kernel/effects_outbox.py\<close>: the table
  \<open>effects_outbox\<close> in rowid order, and the operations on it. A handler is a function of the
  payload and of the outside world \<open>'w\<close>, which it returns changed, with its result or the
  exception it raised. Handlers do not use the outbox themselves. The code commits after each
  statement of a batch; here a batch is one step, so what another process sees between two
  statements, two batches that overlap, and an \<open>UPDATE\<close> that fails after its handler ran are
  outside the model.
\<close>

section \<open>Rows and results\<close>

datatype effect_status = Pending | Executing | Done | Failed

definition effect_status_value :: "effect_status \<Rightarrow> string" where
  "effect_status_value s =
     (case s of Pending \<Rightarrow> ''pending'' | Executing \<Rightarrow> ''executing'' | Done \<Rightarrow> ''done'' | Failed \<Rightarrow> ''failed'')"

text \<open>\<open>ef_error\<close> is the object of \<open>execute_pending\<close>, or the text of \<open>mark_failed\<close>.\<close>

record effect =
  ef_id :: string
  ef_trace :: string
  ef_type :: string
  ef_key :: string
  ef_payload :: json
  ef_status :: effect_status
  ef_created :: real
  ef_executed :: "real option"
  ef_error :: "json option"

record effect_result =
  er_id :: string
  er_type :: string
  er_success :: bool
  er_data :: json
  er_error :: "string option"

record failure =
  f_type :: string
  f_message :: string
  f_traceback :: string

type_synonym 'w handler = "json \<Rightarrow> 'w \<Rightarrow> (failure + json) \<times> 'w"

type_synonym 'w handlers = "string \<Rightarrow> 'w handler option"

record outbox =
  effects :: "effect list"
  ob_closed :: bool

definition empty_outbox :: outbox where
  "empty_outbox = \<lparr>effects = [], ob_closed = False\<rparr>"

text \<open>The assignments the \<open>UPDATE\<close>s make.\<close>

datatype effect_stmt = Set_executing | Set_done real | Set_failed real json | Reset

definition run_effect_stmt :: "effect_stmt \<Rightarrow> effect \<Rightarrow> effect" where
  "run_effect_stmt s e =
     (case s of
        Set_executing \<Rightarrow> e\<lparr>ef_status := Executing\<rparr>
      | Set_done ts \<Rightarrow> e\<lparr>ef_status := Done, ef_executed := Some ts\<rparr>
      | Set_failed ts err \<Rightarrow> e\<lparr>ef_status := Failed, ef_executed := Some ts, ef_error := Some err\<rparr>
      | Reset \<Rightarrow> e\<lparr>ef_status := Pending, ef_error := None\<rparr>)"

definition update_effect :: "string \<Rightarrow> effect_stmt \<Rightarrow> outbox \<Rightarrow> outbox" where
  "update_effect i s ob = ob\<lparr>effects := row_update (\<lambda>e. ef_id e = i) (run_effect_stmt s) (effects ob)\<rparr>"

definition find_effect :: "string \<Rightarrow> outbox \<Rightarrow> effect option" where
  "find_effect i ob = row_get ef_id i (effects ob)"

section \<open>Operations\<close>

definition closed_error :: exn where
  "closed_error = RuntimeError ''EffectsOutbox is closed''"

definition closed_connection :: exn where
  "closed_connection = ProgrammingError ''Cannot operate on a closed database.''"

text \<open>
  \<open>INSERT OR IGNORE\<close>: the row is dropped where its id is taken or its
  \<open>(effect_type, effect_key)\<close> is.
\<close>

definition enqueue ::
    "string \<Rightarrow> real \<Rightarrow> string \<Rightarrow> string \<Rightarrow> string \<Rightarrow> json option \<Rightarrow> string option \<Rightarrow> outbox \<Rightarrow>
      (string option, outbox) outcome" where
  "enqueue uuid now trace ty key payload eid ob =
     (if ob_closed ob then (Inl closed_error, ob)
      else let i = text_or (or_empty eid) uuid;
               p = (case payload of None \<Rightarrow> JObj [] | Some v \<Rightarrow> if truthy v then v else JObj [])
           in if \<exists>e \<in> set (effects ob). ef_id e = i \<or> (ef_type e = ty \<and> ef_key e = key)
              then (Inr None, ob)
              else (Inr (Some i),
                    ob\<lparr>effects := effects ob @
                      [\<lparr>ef_id = i, ef_trace = trace, ef_type = ty, ef_key = key, ef_payload = p,
                        ef_status = Pending, ef_created = now, ef_executed = None, ef_error = None\<rparr>]\<rparr>))"

text \<open>\<open>ORDER BY created_at ASC LIMIT n\<close>; a negative limit is none.\<close>

definition oldest :: "int \<Rightarrow> effect list \<Rightarrow> effect list" where
  "oldest limit es =
     (let s = sort_key ef_created es in if limit < 0 then s else take (nat limit) s)"

definition in_status :: "effect_status \<Rightarrow> outbox \<Rightarrow> effect list" where
  "in_status s ob = filter (\<lambda>e. ef_status e = s) (effects ob)"

definition failure_json :: "failure \<Rightarrow> json" where
  "failure_json f =
     JObj [(''type'', JStr (f_type f)), (''message'', JStr (f_message f)), (''traceback'', JStr (f_traceback f))]"

text \<open>One effect: marked as executing, handed to its handler, marked with the outcome.\<close>

definition execute_effect ::
    "'w handler \<Rightarrow> real \<Rightarrow> effect \<Rightarrow> outbox \<times> 'w \<Rightarrow> effect_result \<times> outbox \<times> 'w" where
  "execute_effect h ts e st =
     (let ob1 = update_effect (ef_id e) Set_executing (fst st);
          (out, w1) = h (ef_payload e) (snd st)
      in case out of
           Inr data \<Rightarrow>
             (\<lparr>er_id = ef_id e, er_type = ef_type e, er_success = True, er_data = data, er_error = None\<rparr>,
              update_effect (ef_id e) (Set_done ts) ob1, w1)
         | Inl f \<Rightarrow>
             (\<lparr>er_id = ef_id e, er_type = ef_type e, er_success = False, er_data = JNull,
               er_error = Some (f_message f)\<rparr>,
              update_effect (ef_id e) (Set_failed ts (failure_json f)) ob1, w1))"

text \<open>The loop over the rows fetched; effects without a handler are skipped.\<close>

fun execute_batch ::
    "'w handlers \<Rightarrow> clock \<Rightarrow> effect list \<Rightarrow> outbox \<times> 'w \<Rightarrow> effect_result list \<times> outbox \<times> 'w" where
  "execute_batch hs t [] st = ([], st)"
| "execute_batch hs t (e # es) st =
     (case hs (ef_type e) of
        None \<Rightarrow> execute_batch hs t es st
      | Some h \<Rightarrow>
          (let (r, st1) = execute_effect h (t 0) e st;
               (rs, st2) = execute_batch hs (later 1 t) es st1
           in (r # rs, st2)))"

definition execute_pending ::
    "'w handlers \<Rightarrow> clock \<Rightarrow> int \<Rightarrow> outbox \<times> 'w \<Rightarrow> (effect_result list, outbox \<times> 'w) outcome" where
  "execute_pending hs t limit st =
     (if ob_closed (fst st) then (Inl closed_error, st)
      else let (rs, st1) = execute_batch hs t (oldest limit (in_status Pending (fst st))) st
           in (Inr rs, st1))"

definition retry_failed ::
    "'w handlers \<Rightarrow> clock \<Rightarrow> int \<Rightarrow> outbox \<times> 'w \<Rightarrow> (effect_result list, outbox \<times> 'w) outcome" where
  "retry_failed hs t limit st =
     (if ob_closed (fst st) then (Inl closed_error, st)
      else let ids = map ef_id (oldest limit (in_status Failed (fst st)));
               ob1 = (fst st)\<lparr>effects := row_update (\<lambda>e. ef_id e \<in> set ids) (run_effect_stmt Reset)
                                        (effects (fst st))\<rparr>
           in execute_pending hs t limit (ob1, snd st))"

definition is_done :: "string \<Rightarrow> string \<Rightarrow> outbox \<Rightarrow> (bool, outbox) outcome" where
  "is_done ty key ob =
     (if ob_closed ob then (Inl closed_connection, ob)
      else (Inr (case find (\<lambda>e. ef_type e = ty \<and> ef_key e = key) (effects ob) of
                   None \<Rightarrow> False | Some e \<Rightarrow> ef_status e = Done), ob))"

definition mark_done :: "real \<Rightarrow> string \<Rightarrow> outbox \<Rightarrow> (unit, outbox) outcome" where
  "mark_done now i ob =
     (if ob_closed ob then (Inl closed_connection, ob) else (Inr (), update_effect i (Set_done now) ob))"

definition mark_failed :: "real \<Rightarrow> string \<Rightarrow> string \<Rightarrow> outbox \<Rightarrow> (unit, outbox) outcome" where
  "mark_failed now i err ob =
     (if ob_closed ob then (Inl closed_connection, ob)
      else (Inr (), update_effect i (Set_failed now (JStr err)) ob))"

definition get_by_trace :: "string \<Rightarrow> outbox \<Rightarrow> (effect list, outbox) outcome" where
  "get_by_trace trace ob =
     (if ob_closed ob then (Inl closed_connection, ob)
      else (Inr (sort_key ef_created (filter (\<lambda>e. ef_trace e = trace) (effects ob))), ob))"

definition effect_count :: "string option \<Rightarrow> string option \<Rightarrow> outbox \<Rightarrow> (nat, outbox) outcome" where
  "effect_count status trace ob =
     (if ob_closed ob then (Inl closed_connection, ob)
      else (Inr (length (filter
              (\<lambda>e. (or_empty status = '''' \<or> effect_status_value (ef_status e) = or_empty status)
                 \<and> (or_empty trace = '''' \<or> ef_trace e = or_empty trace)) (effects ob))), ob))"

definition close_outbox :: "outbox \<Rightarrow> outbox" where
  "close_outbox ob = ob\<lparr>ob_closed := True\<rparr>"

section \<open>Rows under the statements\<close>

lemma run_effect_stmt_sel [simp]:
  "ef_id (run_effect_stmt s e) = ef_id e" "ef_type (run_effect_stmt s e) = ef_type e"
  "ef_key (run_effect_stmt s e) = ef_key e" "ef_payload (run_effect_stmt s e) = ef_payload e"
  by (simp_all add: run_effect_stmt_def split: effect_stmt.splits)

interpretation effect_rows: row_store ef_id run_effect_stmt
  by unfold_locales simp

definition effects_ok :: "outbox \<Rightarrow> bool" where
  "effects_ok ob \<longleftrightarrow>
     keys_distinct ef_id (effects ob) \<and> keys_distinct (\<lambda>e. (ef_type e, ef_key e)) (effects ob)"

lemma map_type_key: "map (\<lambda>e. (ef_type e, ef_key e)) (row_update c (run_effect_stmt s) es) =
    map (\<lambda>e. (ef_type e, ef_key e)) es"
  by (simp add: row_update_def)

lemma effects_ok_rows [simp]:
  "effects_ok (ob\<lparr>effects := row_update c (run_effect_stmt s) (effects ob)\<rparr>) = effects_ok ob"
  by (simp add: effects_ok_def keys_distinct_def effect_rows.map_key_update map_type_key)

lemma effects_ok_update [simp]: "effects_ok (update_effect i s ob) = effects_ok ob"
  by (simp add: update_effect_def)

lemma closed_update [simp]: "ob_closed (update_effect i s ob) = ob_closed ob"
  by (simp add: update_effect_def)

lemma find_update [simp]:
  "find_effect k (update_effect i s ob) =
     (if k = i then map_option (run_effect_stmt s) (find_effect k ob) else find_effect k ob)"
proof (cases "row_get ef_id k (effects ob)")
  case None
  then show ?thesis by (auto simp: find_effect_def update_effect_def effect_rows.row_get_update)
next
  case (Some e)
  then have "ef_id e = k" by (blast dest: row_get_Some)
  with Some show ?thesis by (auto simp: find_effect_def update_effect_def effect_rows.row_get_update)
qed

lemma find_mem: "effects_ok ob \<Longrightarrow> e \<in> set (effects ob) \<Longrightarrow> find_effect (ef_id e) ob = Some e"
  by (simp add: effects_ok_def find_effect_def row_get_mem)

lemma effects_ok_enqueue:
  "effects_ok ob \<Longrightarrow> enqueue uuid now trace ty key p eid ob = (r, ob') \<Longrightarrow> effects_ok ob'"
  by (force simp: enqueue_def effects_ok_def keys_distinct_def Let_def split: if_splits)

lemma set_oldest: "e \<in> set (oldest n es) \<Longrightarrow> e \<in> set es"
  by (auto simp: oldest_def Let_def split: if_splits dest: in_set_takeD)

lemma distinct_oldest: "distinct (map f es) \<Longrightarrow> distinct (map f (oldest n es))"
proof -
  assume "distinct (map f es)"
  then have "distinct (map f (sort_key ef_created es))"
    by (simp add: distinct_map)
  then show ?thesis
    by (simp add: oldest_def Let_def take_map [symmetric])
qed

lemma distinct_in_status: "distinct (map f (effects ob)) \<Longrightarrow> distinct (map f (in_status s ob))"
  by (simp add: in_status_def distinct_map_filter)

section \<open>Executing a batch\<close>

lemma execute_effect_result:
  assumes "execute_effect h ts e st = (r, st')"
  shows "er_id r = ef_id e" and "effects_ok (fst st') = effects_ok (fst st)"
    and "ob_closed (fst st') = ob_closed (fst st)"
    and "k \<noteq> ef_id e \<Longrightarrow> find_effect k (fst st') = find_effect k (fst st)"
    and "find_effect (ef_id e) (fst st) = Some x \<Longrightarrow>
      \<exists>y. find_effect (ef_id e) (fst st') = Some y \<and> ef_status y = (if er_success r then Done else Failed)"
  using assms
  by (auto simp: execute_effect_def Let_def run_effect_stmt_def split: prod.splits sum.splits)

lemma execute_batch_frame:
  "execute_batch hs t es st = (rs, st') \<Longrightarrow>
     effects_ok (fst st') = effects_ok (fst st) \<and> ob_closed (fst st') = ob_closed (fst st)
     \<and> (i \<notin> ef_id ` set es \<longrightarrow> find_effect i (fst st') = find_effect i (fst st) \<and> i \<notin> er_id ` set rs)"
proof (induction es arbitrary: t st rs st')
  case (Cons e es)
  show ?case
  proof (cases "hs (ef_type e)")
    case None
    with Cons show ?thesis by simp
  next
    case (Some h)
    obtain r st1 where e: "execute_effect h (t 0) e st = (r, st1)" by (meson surj_pair)
    obtain qs st2 where b: "execute_batch hs (later 1 t) es st1 = (qs, st2)" by (meson surj_pair)
    from Cons.prems Some e b have "rs = r # qs" "st' = st2" by auto
    then show ?thesis
      using Cons.IH [OF b] execute_effect_result(1-3) [OF e] execute_effect_result(4) [OF e, of i] by auto
  qed
qed simp

text \<open>The results name the effects that have a handler, oldest first.\<close>

lemma execute_batch_ids:
  "execute_batch hs t es st = (rs, st') \<Longrightarrow>
     map er_id rs = map ef_id (filter (\<lambda>e. hs (ef_type e) \<noteq> None) es)"
proof (induction es arbitrary: t st rs st')
  case (Cons e es)
  show ?case
  proof (cases "hs (ef_type e)")
    case None
    with Cons show ?thesis by simp
  next
    case (Some h)
    obtain r st1 where e: "execute_effect h (t 0) e st = (r, st1)" by (meson surj_pair)
    obtain qs st2 where b: "execute_batch hs (later 1 t) es st1 = (qs, st2)" by (meson surj_pair)
    from Cons.prems Some e b have "rs = r # qs" by auto
    then show ?thesis
      using Cons.IH [OF b] execute_effect_result(1) [OF e] Some by simp
  qed
qed simp

definition delivered :: "string \<Rightarrow> outbox \<Rightarrow> nat" where
  "delivered i ob = (case find_effect i ob of None \<Rightarrow> 0 | Some e \<Rightarrow> if ef_status e = Done then 1 else 0)"

definition successes :: "string \<Rightarrow> effect_result list \<Rightarrow> nat" where
  "successes i rs = length (filter (\<lambda>r. er_id r = i \<and> er_success r) rs)"

lemma successes_simps [simp]:
  "successes i [] = 0"
  "successes i (r # rs) = (if er_id r = i \<and> er_success r then 1 else 0) + successes i rs"
  "successes i (rs @ qs) = successes i rs + successes i qs"
  by (simp_all add: successes_def)

lemma successes_other: "i \<notin> er_id ` set rs \<Longrightarrow> successes i rs = 0"
  by (induction rs) auto

lemma delivered_le: "delivered i ob \<le> 1"
  by (simp add: delivered_def split: option.splits)

lemma execute_batch_delivers:
  assumes "execute_batch hs t es st = (rs, st')" and "distinct (map ef_id es)"
    and "\<And>e. e \<in> set es \<Longrightarrow> \<exists>x. find_effect (ef_id e) (fst st) = Some x \<and> ef_status x \<noteq> Done"
  shows "successes i rs + delivered i (fst st) = delivered i (fst st')"
  using assms
proof (induction es arbitrary: t st rs st')
  case (Cons e es)
  show ?case
  proof (cases "hs (ef_type e)")
    case None
    with Cons show ?thesis by simp
  next
    case (Some h)
    obtain r st1 where e: "execute_effect h (t 0) e st = (r, st1)" by (meson surj_pair)
    obtain qs st2 where b: "execute_batch hs (later 1 t) es st1 = (qs, st2)" by (meson surj_pair)
    from Cons.prems(1) Some e b have res: "rs = r # qs" "st' = st2" by auto
    note one = execute_effect_result [OF e]
    have "\<exists>x. find_effect (ef_id d) (fst st1) = Some x \<and> ef_status x \<noteq> Done" if "d \<in> set es" for d
    proof -
      have "ef_id d \<noteq> ef_id e" using Cons.prems(2) that by (metis distinct.simps(2) image_eqI list.simps(9) set_map)
      then show ?thesis using Cons.prems(3) [of d] one(4) [of "ef_id d"] that by simp
    qed
    then have rest: "successes i qs + delivered i (fst st1) = delivered i (fst st2)"
      using Cons.IH [OF b] Cons.prems(2) by simp
    obtain x where x: "find_effect (ef_id e) (fst st) = Some x" "ef_status x \<noteq> Done"
      using Cons.prems(3) by auto
    have "(if er_id r = i \<and> er_success r then 1 else 0) + delivered i (fst st) = delivered i (fst st1)"
    proof (cases "i = ef_id e")
      case True
      then show ?thesis using one(1) one(5) [OF x(1)] x by (auto simp: delivered_def)
    next
      case False
      then show ?thesis using one(1) one(4) [OF False] by (simp add: delivered_def)
    qed
    with rest res show ?thesis by simp
  qed
qed simp

lemma execute_pending_delivers:
  assumes "effects_ok (fst st)" and "execute_pending hs t n st = (Inr rs, st')"
  shows "successes i rs + delivered i (fst st) = delivered i (fst st')" and "effects_ok (fst st')"
proof -
  let ?b = "oldest n (in_status Pending (fst st))"
  have run: "execute_batch hs t ?b st = (rs, st')"
    using assms(2) by (auto simp: execute_pending_def Let_def split: if_splits prod.splits)
  have d: "distinct (map ef_id ?b)"
    using assms(1) by (intro distinct_oldest distinct_in_status) (simp add: effects_ok_def keys_distinct_def)
  have "\<exists>x. find_effect (ef_id e) (fst st) = Some x \<and> ef_status x \<noteq> Done" if "e \<in> set ?b" for e
    using set_oldest [OF that] find_mem [OF assms(1), of e] by (auto simp: in_status_def)
  from execute_batch_delivers [OF run d this]
  show "successes i rs + delivered i (fst st) = delivered i (fst st')" .
  show "effects_ok (fst st')"
    using execute_batch_frame [OF run] assms(1) by blast
qed

lemma delivered_retry_reset:
  assumes ok: "effects_ok ob" and ids: "\<And>k. k \<in> ids \<Longrightarrow> \<exists>e \<in> set (effects ob). ef_id e = k \<and> ef_status e = Failed"
  shows "delivered i (ob\<lparr>effects := row_update (\<lambda>e. ef_id e \<in> ids) (run_effect_stmt Reset) (effects ob)\<rparr>)
    = delivered i ob"
proof (cases "find_effect i ob")
  case None
  then show ?thesis by (simp add: delivered_def find_effect_def effect_rows.row_get_update)
next
  case (Some x)
  then have x: "ef_id x = i" by (simp only: find_effect_def) (blast dest: row_get_Some)
  have "ef_status x = Failed" if "i \<in> ids"
    using ids [OF that] find_mem [OF ok] Some by auto
  with Some x show ?thesis
    by (auto simp: delivered_def find_effect_def effect_rows.row_get_update run_effect_stmt_def)
qed

section \<open>Sequences of operations\<close>

text \<open>
  The calls that decide what is executed. \<open>mark_failed\<close> is not among them: it marks an
  effect that is done as failed, and a later retry would execute it again.
\<close>

datatype 'w outbox_call =
    Enqueue string real string string string "json option" "string option"
  | Execute "'w handlers" clock int
  | Retry "'w handlers" clock int
  | MarkDone real string
  | Close

fun outbox_step :: "'w outbox_call \<Rightarrow> outbox \<times> 'w \<Rightarrow> effect_result list \<times> outbox \<times> 'w" where
  "outbox_step (Enqueue uuid now trace ty key p eid) (ob, w) =
     ([], snd (enqueue uuid now trace ty key p eid ob), w)"
| "outbox_step (Execute hs t n) st =
     (case execute_pending hs t n st of (Inl _, st') \<Rightarrow> ([], st') | (Inr rs, st') \<Rightarrow> (rs, st'))"
| "outbox_step (Retry hs t n) st =
     (case retry_failed hs t n st of (Inl _, st') \<Rightarrow> ([], st') | (Inr rs, st') \<Rightarrow> (rs, st'))"
| "outbox_step (MarkDone now i) (ob, w) = ([], snd (mark_done now i ob), w)"
| "outbox_step Close (ob, w) = ([], close_outbox ob, w)"

fun outbox_run :: "'w outbox_call list \<Rightarrow> outbox \<times> 'w \<Rightarrow> effect_result list \<times> outbox \<times> 'w" where
  "outbox_run [] st = ([], st)"
| "outbox_run (c # cs) st =
     (let (rs, st1) = outbox_step c st; (qs, st2) = outbox_run cs st1 in (rs @ qs, st2))"

lemma delivered_enqueue:
  "enqueue uuid now trace ty key p eid ob = (r, ob') \<Longrightarrow> delivered i ob' = delivered i ob"
  by (auto simp: enqueue_def delivered_def find_effect_def row_get_append Let_def
      split: if_splits option.splits)

lemma delivered_mark_done:
  "mark_done now k ob = (r, ob') \<Longrightarrow> delivered i ob \<le> delivered i ob'"
  by (auto simp: mark_done_def delivered_def run_effect_stmt_def split: if_splits option.splits)

lemma retry_failed_delivers:
  assumes ok: "effects_ok (fst st)" and run: "retry_failed hs t n st = (Inr rs, st')"
  shows "successes i rs + delivered i (fst st) = delivered i (fst st')" and "effects_ok (fst st')"
proof -
  let ?ids = "set (map ef_id (oldest n (in_status Failed (fst st))))"
  let ?ob = "(fst st)\<lparr>effects := row_update (\<lambda>e. ef_id e \<in> ?ids) (run_effect_stmt Reset) (effects (fst st))\<rparr>"
  have same: "delivered i ?ob = delivered i (fst st)"
    by (rule delivered_retry_reset [OF ok]) (auto simp: in_status_def dest!: set_oldest)
  have ok': "effects_ok (fst (?ob, snd st))" using ok by simp
  have run': "execute_pending hs t n (?ob, snd st) = (Inr rs, st')"
    using run by (simp add: retry_failed_def Let_def split: if_splits)
  show "successes i rs + delivered i (fst st) = delivered i (fst st')"
    using execute_pending_delivers(1) [OF ok' run', of i] same by (simp only: fst_conv)
  show "effects_ok (fst st')"
    by (rule execute_pending_delivers(2) [OF ok' run'])
qed

lemma refused_execute: "execute_pending hs t n st = (Inl e, st') \<Longrightarrow> st' = st"
  by (auto simp: execute_pending_def Let_def split: if_splits prod.splits)

lemma refused_retry: "retry_failed hs t n st = (Inl e, st') \<Longrightarrow> st' = st"
  by (auto simp: retry_failed_def execute_pending_def Let_def split: if_splits prod.splits)

lemma outbox_step_delivers:
  assumes "effects_ok (fst st)" and "outbox_step c st = (rs, st')"
  shows "successes i rs + delivered i (fst st) \<le> delivered i (fst st') \<and> effects_ok (fst st')"
proof (cases c)
  case (Enqueue uuid now trace ty key p eid)
  obtain r ob' where e: "enqueue uuid now trace ty key p eid (fst st) = (r, ob')" by (meson surj_pair)
  then have "rs = []" "st' = (ob', snd st)"
    using assms(2) Enqueue by (cases st; simp)+
  then show ?thesis
    using effects_ok_enqueue [OF assms(1) e] delivered_enqueue [OF e] by simp
next
  case (Execute hs t n)
  then show ?thesis
    using assms execute_pending_delivers [OF assms(1), of hs t n] refused_execute [of hs t n st]
    by (auto split: prod.splits sum.splits)
next
  case (Retry hs t n)
  then show ?thesis
    using assms retry_failed_delivers [OF assms(1), of hs t n] refused_retry [of hs t n st]
    by (auto split: prod.splits sum.splits)
next
  case (MarkDone now k)
  then show ?thesis using assms delivered_mark_done [of now k "fst st"]
    by (cases st) (auto simp: mark_done_def)
next
  case Close
  then show ?thesis using assms
    by (cases st) (auto simp: close_outbox_def delivered_def find_effect_def effects_ok_def)
qed

lemma outbox_run_delivers:
  "effects_ok (fst st) \<Longrightarrow> outbox_run cs st = (rs, st') \<Longrightarrow>
     successes i rs + delivered i (fst st) \<le> delivered i (fst st') \<and> effects_ok (fst st')"
proof (induction cs arbitrary: st rs st')
  case (Cons c cs)
  obtain qs st1 where s: "outbox_step c st = (qs, st1)" by (meson surj_pair)
  obtain us st2 where r: "outbox_run cs st1 = (us, st2)" by (meson surj_pair)
  from Cons.prems s r have "rs = qs @ us" "st' = st2" by auto
  then show ?case
    using outbox_step_delivers [OF Cons.prems(1) s, of i] Cons.IH [OF _ r] by fastforce
qed simp

section \<open>Keys stay taken\<close>

definition type_keys :: "outbox \<Rightarrow> (string \<times> string) set" where
  "type_keys ob = (\<lambda>e. (ef_type e, ef_key e)) ` set (effects ob)"

lemma type_keys_rows [simp]:
  "type_keys (ob\<lparr>effects := row_update c (run_effect_stmt s) (effects ob)\<rparr>) = type_keys ob"
  using map_type_key [of c s "effects ob"] by (metis (no_types, lifting) list.set_map outbox.select_convs(1) outbox.surjective outbox.update_convs(1) type_keys_def)

lemma type_keys_update [simp]: "type_keys (update_effect i s ob) = type_keys ob"
  by (simp add: update_effect_def)

lemma type_keys_enqueue: "enqueue uuid now trace ty key p eid ob = (r, ob') \<Longrightarrow> type_keys ob \<subseteq> type_keys ob'"
  by (auto simp: enqueue_def type_keys_def Let_def split: if_splits)

lemma type_keys_enqueued:
  "enqueue uuid now trace ty key p eid ob = (Inr (Some i), ob') \<Longrightarrow> (ty, key) \<in> type_keys ob'"
  by (auto simp: enqueue_def type_keys_def Let_def split: if_splits)

lemma type_keys_effect: "execute_effect h ts e st = (r, st') \<Longrightarrow> type_keys (fst st') = type_keys (fst st)"
  by (auto simp: execute_effect_def Let_def split: prod.splits sum.splits)

lemma type_keys_batch: "execute_batch hs t es st = (rs, st') \<Longrightarrow> type_keys (fst st') = type_keys (fst st)"
proof (induction es arbitrary: t st rs st')
  case (Cons e es)
  then show ?case
    by (auto split: option.splits prod.splits dest!: type_keys_effect Cons.IH)
qed simp

lemma type_keys_pending: "execute_pending hs t n st = (r, st') \<Longrightarrow> type_keys (fst st') = type_keys (fst st)"
  by (auto simp: execute_pending_def Let_def split: if_splits prod.splits dest: type_keys_batch)

lemma type_keys_retry: "retry_failed hs t n st = (r, st') \<Longrightarrow> type_keys (fst st') = type_keys (fst st)"
proof (cases "ob_closed (fst st)")
  case False
  assume "retry_failed hs t n st = (r, st')"
  then obtain c where "execute_pending hs t n
      ((fst st)\<lparr>effects := row_update c (run_effect_stmt Reset) (effects (fst st))\<rparr>, snd st) = (r, st')"
    using False by (simp add: retry_failed_def Let_def)
  then show ?thesis
    using type_keys_pending by fastforce
qed (simp add: retry_failed_def)

lemma type_keys_step:
  assumes "outbox_step c st = (rs, st')"
  shows "type_keys (fst st) \<subseteq> type_keys (fst st')"
proof (cases c)
  case (Enqueue uuid now trace ty key p eid)
  obtain r ob' where e: "enqueue uuid now trace ty key p eid (fst st) = (r, ob')" by (meson surj_pair)
  then have "fst st' = ob'"
    using assms Enqueue by (cases st) auto
  then show ?thesis
    using type_keys_enqueue [OF e] by simp
next
  case (Execute hs t n)
  obtain r st2 where e: "execute_pending hs t n st = (r, st2)" by (meson surj_pair)
  then have "st' = st2"
    using assms Execute by (auto split: sum.splits)
  then show ?thesis
    using type_keys_pending [OF e] by simp
next
  case (Retry hs t n)
  obtain r st2 where e: "retry_failed hs t n st = (r, st2)" by (meson surj_pair)
  then have "st' = st2"
    using assms Retry by (auto split: sum.splits)
  then show ?thesis
    using type_keys_retry [OF e] by simp
next
  case (MarkDone now k)
  then show ?thesis using assms by (cases st) (auto simp: mark_done_def)
next
  case Close
  then show ?thesis using assms by (cases st) (auto simp: close_outbox_def type_keys_def)
qed

lemma type_keys_run: "outbox_run cs st = (rs, st') \<Longrightarrow> type_keys (fst st) \<subseteq> type_keys (fst st')"
proof (induction cs arbitrary: st rs st')
  case (Cons c cs)
  obtain qs st1 where s: "outbox_step c st = (qs, st1)" by (meson surj_pair)
  obtain us st2 where r: "outbox_run cs st1 = (us, st2)" by (meson surj_pair)
  from Cons.prems s r have "st' = st2" by auto
  then show ?case
    using type_keys_step [OF s] Cons.IH [OF r] by blast
qed simp

lemma enqueue_taken:
  "(ty, key) \<in> type_keys ob \<Longrightarrow> \<not> ob_closed ob \<Longrightarrow> enqueue uuid now trace ty key p eid ob = (Inr None, ob)"
  by (auto simp: enqueue_def type_keys_def Let_def)

section \<open>Properties\<close>

text \<open>C20. However enqueueing, batches, retries of failed effects and marks as done follow
  each other, call after call, no effect succeeds twice: an effect that was already done succeeds no more, one
  that succeeded is done from then on.\<close>

theorem effects_succeed_once:
  assumes "effects_ok (fst st)" and "outbox_run cs st = (rs, st')"
  shows "successes i rs + delivered i (fst st) \<le> delivered i (fst st') \<and> delivered i (fst st') \<le> 1"
  using outbox_run_delivers [OF assms, of i] delivered_le by blast

theorem effects_succeed_once_witness:
  "\<forall>i. successes i (fst (outbox_run
      [Enqueue ''u1'' 1 ''tr'' ''notify'' ''k'' None None, Execute (\<lambda>_. Some (\<lambda>_ n. (Inr JNull, Suc n))) (\<lambda>_. 2) 100,
       Retry (\<lambda>_. Some (\<lambda>_ n. (Inr JNull, Suc n))) (\<lambda>_. 3) 50] (empty_outbox, 0))) \<le> 1"
proof
  fix i
  let ?cs = "[Enqueue ''u1'' 1 ''tr'' ''notify'' ''k'' None None, Execute (\<lambda>_. Some (\<lambda>_ n. (Inr JNull, Suc n))) (\<lambda>_. 2) 100,
       Retry (\<lambda>_. Some (\<lambda>_ n. (Inr JNull, Suc n))) (\<lambda>_. 3) 50]"
  have "effects_ok (fst (empty_outbox, 0 :: nat))"
    by (simp add: effects_ok_def keys_distinct_def empty_outbox_def)
  moreover obtain rs st' where r: "outbox_run ?cs (empty_outbox, 0) = (rs, st')" by (meson surj_pair)
  ultimately have "successes i rs + delivered i (fst (empty_outbox, 0 :: nat)) \<le> delivered i (fst st') \<and> delivered i (fst st') \<le> 1"
    by (rule effects_succeed_once)
  with r show "successes i (fst (outbox_run ?cs (empty_outbox, 0))) \<le> 1" by simp
qed

text \<open>Once an effect has been accepted under a type and a key, every later attempt to
  enqueue one under them is refused and changes nothing, whatever ran in between.\<close>

theorem enqueued_key_stays_taken:
  assumes "enqueue u now trace ty key p eid ob = (Inr (Some i), ob1)"
    and "outbox_run cs (ob1, w) = (rs, ob2, w')" and "\<not> ob_closed ob2"
  shows "enqueue u2 now2 trace2 ty key p2 eid2 ob2 = (Inr None, ob2)"
  using type_keys_enqueued [OF assms(1)] type_keys_run [OF assms(2)] enqueue_taken assms(3) by fastforce

theorem enqueued_key_stays_taken_witness:
  "\<exists>ob2 n. snd (outbox_run [Execute (\<lambda>_. Some (\<lambda>_ n. (Inr JNull, Suc n))) (\<lambda>_. 2) 100]
        (snd (enqueue ''u1'' 1 ''tr'' ''notify'' ''k'' None None empty_outbox), 0)) = (ob2, n)
     \<and> enqueue ''u2'' 9 ''tr'' ''notify'' ''k'' (Some (JInt 1)) None ob2 = (Inr None, ob2)"
proof -
  let ?ob1 = "snd (enqueue ''u1'' 1 ''tr'' ''notify'' ''k'' None None empty_outbox)"
  obtain rs ob2 n where r: "outbox_run [Execute (\<lambda>_. Some (\<lambda>_ n. (Inr JNull, Suc n))) (\<lambda>_. 2) 100] (?ob1, 0) = (rs, ob2, n)"
    by (metis surj_pair)
  have e: "enqueue ''u1'' 1 ''tr'' ''notify'' ''k'' None None empty_outbox = (Inr (Some ''u1''), ?ob1)"
    by (simp add: enqueue_def empty_outbox_def text_or_def Let_def)
  have o1: "\<not> ob_closed ?ob1"
    by (simp add: enqueue_def empty_outbox_def text_or_def Let_def)
  then have "\<not> ob_closed ob2"
    using r by (auto simp: execute_pending_def Let_def split: prod.splits dest!: execute_batch_frame)
  from enqueued_key_stays_taken [OF e r this] r show ?thesis by fastforce
qed

end
