(* ===== verification/Health.thy ===== *)
theory Health
  imports Prelude
begin

text \<open>
  The availability of model providers, \<open>kernel/routing/health_tracker.py\<close>: a sliding
  window of calls per provider, and the status computed from it. The dictionaries are maps;
  \<open>t k\<close> are the readings of the clock inside one call.
\<close>

section \<open>State\<close>

datatype health_status = Healthy | Degraded | Exhausted | Cooldown | Offline

record provider_health =
  ph_status :: health_status
  ph_failure_rate :: real
  ph_latency :: real
  ph_successes :: int
  ph_cooldown_until :: real
  ph_offline_reason :: string
  ph_last_success :: real
  ph_last_failure :: real

definition new_health :: provider_health where
  "new_health =
     \<lparr>ph_status = Healthy, ph_failure_rate = 0, ph_latency = 0, ph_successes = 0,
      ph_cooldown_until = 0, ph_offline_reason = '''', ph_last_success = 0, ph_last_failure = 0\<rparr>"

definition is_available :: "real \<Rightarrow> provider_health \<Rightarrow> bool" where
  "is_available now h =
     (case ph_status h of
        Offline \<Rightarrow> False
      | Exhausted \<Rightarrow> False
      | Cooldown \<Rightarrow> ph_cooldown_until h \<le> now
      | _ \<Rightarrow> True)"

definition degradation_factor :: "provider_health \<Rightarrow> real" where
  "degradation_factor h =
     (case ph_status h of
        Healthy \<Rightarrow> 1
      | Degraded \<Rightarrow> max (3 / 10) (1 - ph_failure_rate h)
      | Cooldown \<Rightarrow> 1 / 10
      | _ \<Rightarrow> 0)"

record call_event =
  ce_ts :: real
  ce_success :: bool
  ce_latency :: int
  ce_error :: string

record tracker_config =
  tc_window :: real
  tc_degraded_rate :: real
  tc_exhausted_rate :: real
  tc_recovery :: int
  tc_cooldown :: int

definition default_tracker :: tracker_config where
  "default_tracker = \<lparr>tc_window = 600, tc_degraded_rate = 3 / 10, tc_exhausted_rate = 6 / 10,
     tc_recovery = 3, tc_cooldown = 120\<rparr>"

record tracker =
  tk_events :: "string \<Rightarrow> call_event list option"
  tk_health :: "string \<Rightarrow> provider_health option"
  tk_offline :: "string \<Rightarrow> string option"

definition empty_tracker :: tracker where
  "empty_tracker = \<lparr>tk_events = (\<lambda>_. None), tk_health = (\<lambda>_. None), tk_offline = (\<lambda>_. None)\<rparr>"

section \<open>Operations\<close>

definition get_health :: "string \<Rightarrow> tracker \<Rightarrow> provider_health" where
  "get_health pid s = (case tk_health s pid of None \<Rightarrow> new_health | Some h \<Rightarrow> h)"

definition put_health :: "string \<Rightarrow> provider_health \<Rightarrow> tracker \<Rightarrow> tracker" where
  "put_health pid h s = s\<lparr>tk_health := (tk_health s)(pid \<mapsto> h)\<rparr>"

definition events_of :: "string \<Rightarrow> tracker \<Rightarrow> call_event list" where
  "events_of pid s = (case tk_events s pid of None \<Rightarrow> [] | Some es \<Rightarrow> es)"

definition put_events :: "string \<Rightarrow> call_event list \<Rightarrow> tracker \<Rightarrow> tracker" where
  "put_events pid es s = s\<lparr>tk_events := (tk_events s)(pid \<mapsto> es)\<rparr>"

definition failure_rate :: "call_event list \<Rightarrow> real" where
  "failure_rate es =
     (if es = [] then 0 else real (length (filter (\<lambda>e. \<not> ce_success e) es)) / real (length es))"

definition average_latency :: "call_event list \<Rightarrow> real" where
  "average_latency es =
     (let ls = filter (\<lambda>l. 0 < l) (map ce_latency es)
      in if ls = [] then 0 else real_of_int (sum_list ls) / real (length ls))"

text \<open>The loop over the reversed events: a time stamp that is set (not zero) is kept.\<close>

definition note_event :: "call_event \<Rightarrow> provider_health \<Rightarrow> provider_health" where
  "note_event e h =
     (let h1 = (if ce_success e \<and> ph_last_success h = 0 then h\<lparr>ph_last_success := ce_ts e\<rparr> else h)
      in if \<not> ce_success e \<and> ph_last_failure h1 = 0 then h1\<lparr>ph_last_failure := ce_ts e\<rparr> else h1)"

definition trailing_successes :: "call_event list \<Rightarrow> int" where
  "trailing_successes es = int (length (takeWhile ce_success (rev es)))"

definition status_for :: "tracker_config \<Rightarrow> real \<Rightarrow> int \<Rightarrow> health_status" where
  "status_for cf rate consecutive =
     (if tc_exhausted_rate cf \<le> rate then Exhausted
      else if tc_degraded_rate cf \<le> rate
      then (if tc_recovery cf \<le> consecutive then Healthy else Degraded)
      else Healthy)"

definition recompute :: "tracker_config \<Rightarrow> real \<Rightarrow> string \<Rightarrow> tracker \<Rightarrow> tracker" where
  "recompute cf now pid s =
     (let h = get_health pid s
      in if tk_offline s pid \<noteq> None then put_health pid (h\<lparr>ph_status := Offline\<rparr>) s
         else let es = filter (\<lambda>e. now - tc_window cf \<le> ce_ts e) (events_of pid s);
                  s1 = put_events pid es s
              in if es = [] then put_health pid (h\<lparr>ph_status := Healthy, ph_failure_rate := 0\<rparr>) s1
                 else let rate = failure_rate es;
                          h1 = fold note_event (rev es)
                                 (h\<lparr>ph_failure_rate := rate, ph_latency := average_latency es\<rparr>)
                      in if ph_status h1 = Cooldown \<and> now < ph_cooldown_until h1 then put_health pid h1 s1
                         else let n = trailing_successes es
                              in put_health pid
                                   (h1\<lparr>ph_successes := n, ph_status := status_for cf rate n\<rparr>) s1)"

definition append_call :: "string \<Rightarrow> call_event \<Rightarrow> tracker \<Rightarrow> tracker" where
  "append_call pid e s = put_events pid (events_of pid s @ [e]) s"

definition record_success :: "tracker_config \<Rightarrow> clock \<Rightarrow> string \<Rightarrow> int \<Rightarrow> tracker \<Rightarrow> tracker" where
  "record_success cf t pid latency s =
     recompute cf (t 1) pid
       (append_call pid \<lparr>ce_ts = t 0, ce_success = True, ce_latency = latency, ce_error = ''''\<rparr> s)"

definition record_failure :: "tracker_config \<Rightarrow> clock \<Rightarrow> string \<Rightarrow> string \<Rightarrow> int \<Rightarrow> tracker \<Rightarrow> tracker" where
  "record_failure cf t pid error_type latency s =
     recompute cf (t 1) pid
       (append_call pid \<lparr>ce_ts = t 0, ce_success = False, ce_latency = latency, ce_error = error_type\<rparr> s)"

definition record_cooldown :: "tracker_config \<Rightarrow> real \<Rightarrow> string \<Rightarrow> int option \<Rightarrow> tracker \<Rightarrow> tracker" where
  "record_cooldown cf now pid seconds s =
     (let cd = (case seconds of None \<Rightarrow> tc_cooldown cf | Some n \<Rightarrow> if n = 0 then tc_cooldown cf else n)
      in put_health pid
           ((get_health pid s)\<lparr>ph_status := Cooldown, ph_cooldown_until := now + real_of_int cd\<rparr>) s)"

definition set_offline :: "string \<Rightarrow> string \<Rightarrow> tracker \<Rightarrow> tracker" where
  "set_offline pid reason s =
     (let s1 = put_health pid ((get_health pid s)\<lparr>ph_status := Offline, ph_offline_reason := reason\<rparr>) s
      in s1\<lparr>tk_offline := (tk_offline s1)(pid \<mapsto> reason)\<rparr>)"

definition set_online :: "string \<Rightarrow> tracker \<Rightarrow> tracker" where
  "set_online pid s =
     (let s1 = s\<lparr>tk_offline := (tk_offline s)(pid := None)\<rparr>;
          h = get_health pid s1
      in put_health pid
           (if ph_status h = Offline then h\<lparr>ph_status := Healthy, ph_offline_reason := ''''\<rparr> else h) s1)"

definition reset_health :: "string \<Rightarrow> tracker \<Rightarrow> tracker" where
  "reset_health pid s =
     \<lparr>tk_events = (tk_events s)(pid := None), tk_health = (tk_health s)(pid := None),
      tk_offline = (tk_offline s)(pid := None)\<rparr>"

section \<open>What a call changes\<close>

lemma get_put_health [simp]:
  "get_health p (put_health q h s) = (if p = q then h else get_health p s)"
  "get_health p (put_events q es s) = get_health p s"
  "tk_offline (put_health q h s) = tk_offline s" "tk_offline (put_events q es s) = tk_offline s"
  "tk_events (put_health q h s) = tk_events s"
  "events_of p (put_events q es s) = (if p = q then es else events_of p s)"
  "events_of p (put_health q h s) = events_of p s"
  by (simp_all add: get_health_def put_health_def put_events_def events_of_def)

lemma fold_note_sel [simp]:
  "ph_status (fold note_event es h) = ph_status h"
  "ph_cooldown_until (fold note_event es h) = ph_cooldown_until h"
  "ph_failure_rate (fold note_event es h) = ph_failure_rate h"
  by (induction es arbitrary: h) (simp_all add: note_event_def Let_def)

lemma failure_rate_range: "0 \<le> failure_rate es" "failure_rate es \<le> 1"
  using length_filter_le [of "\<lambda>e. \<not> ce_success e" es]
  by (auto simp: failure_rate_def divide_le_eq_1)

lemma recompute_frame [simp]:
  "tk_offline (recompute cf now p s) = tk_offline s"
  "q \<noteq> p \<Longrightarrow> get_health q (recompute cf now p s) = get_health q s"
  by (auto simp: recompute_def Let_def)

lemma recompute_offline: "tk_offline s p \<noteq> None \<Longrightarrow> ph_status (get_health p (recompute cf now p s)) = Offline"
  by (simp add: recompute_def Let_def)

lemma recompute_cooling:
  "ph_status (get_health p s) = Cooldown \<Longrightarrow> now < ph_cooldown_until (get_health p s) \<Longrightarrow>
     filter (\<lambda>e. now - tc_window cf \<le> ce_ts e) (events_of p s) \<noteq> [] \<Longrightarrow> tk_offline s p = None \<Longrightarrow>
     ph_status (get_health p (recompute cf now p s)) = Cooldown
     \<and> ph_cooldown_until (get_health p (recompute cf now p s)) = ph_cooldown_until (get_health p s)"
  by (simp add: recompute_def Let_def)

lemma append_call_sel [simp]:
  "get_health q (append_call p e s) = get_health q s" "tk_offline (append_call p e s) = tk_offline s"
  "events_of p (append_call p e s) = events_of p s @ [e]"
  by (simp_all add: append_call_def)

lemma set_offline_sel [simp]:
  "ph_status (get_health p (set_offline p r s)) = Offline"
  "tk_offline (set_offline p r s) = (tk_offline s)(p \<mapsto> r)"
  "q \<noteq> p \<Longrightarrow> get_health q (set_offline p r s) = get_health q s"
  by (simp_all add: set_offline_def put_health_def get_health_def Let_def)

lemma set_online_sel [simp]:
  "tk_offline (set_online p s) = (tk_offline s)(p := None)"
  "q \<noteq> p \<Longrightarrow> get_health q (set_online p s) = get_health q s"
  by (simp_all add: set_online_def put_health_def get_health_def Let_def)

end
