(* ===== verification/Breaker.thy ===== *)
theory Breaker
  imports Health
begin

text \<open>
  The circuit breaker of model providers, \<open>evomap/actuators/circuit_breaker.py\<close>: a window of
  calls per provider, the state computed from it, and what it pushes to the health tracker
  (\<open>Health\<close>). The windows are kept in the insertion order of the dictionary. The audit
  trail and the signal to the observer are one list of entries; the configuration of the tracker
  is the tracker's own. An absent field of an event is \<open>None\<close>.
\<close>

section \<open>State\<close>

record breaker_config =
  bc_window :: real
  bc_consecutive :: int
  bc_window_fails :: int
  bc_cooldown :: int
  bc_degraded :: int
  bc_latency :: real
  bc_probe :: int

definition default_breaker :: breaker_config where
  "default_breaker =
     \<lparr>bc_window = 300, bc_consecutive = 3, bc_window_fails = 5, bc_cooldown = 600, bc_degraded = 300,
      bc_latency = 20000, bc_probe = 1800\<rparr>"

datatype breaker_state = BHealthy | BDegraded | BCooldown | BOffline | BHalfOpen

text \<open>\<open>state_until\<close>: \<open>None\<close> stands for \<open>float("inf")\<close>.\<close>

record window =
  wn_failures :: "(real \<times> string) list"
  wn_successes :: "(real \<times> real) list"
  wn_consecutive :: int
  wn_state :: breaker_state
  wn_until :: "real option"
  wn_last_action :: real
  wn_offline_since :: real

definition new_window :: window where
  "new_window =
     \<lparr>wn_failures = [], wn_successes = [], wn_consecutive = 0, wn_state = BHealthy, wn_until = Some 0,
      wn_last_action = 0, wn_offline_since = 0\<rparr>"

record audit_entry =
  au_provider :: string
  au_action :: string
  au_from :: breaker_state
  au_to :: breaker_state
  au_reason :: string

record breaker =
  br_windows :: "(string \<times> window) list"
  br_tracker :: "tracker option"
  br_audit :: "audit_entry list"

text \<open>\<open>le_category\<close> is \<open>None\<close> where the event has no category, \<open>Some None\<close> where it is null.\<close>

record llm_event =
  le_type :: string
  le_provider_id :: "string option"
  le_provider :: "string option"
  le_model :: "string option"
  le_category :: "string option option"
  le_latency :: "real option"

definition window_of :: "string \<Rightarrow> breaker \<Rightarrow> window" where
  "window_of p b = (case map_of (br_windows b) p of None \<Rightarrow> new_window | Some w \<Rightarrow> w)"

definition put_window :: "string \<Rightarrow> window \<Rightarrow> breaker \<Rightarrow> breaker" where
  "put_window p w b = b\<lparr>br_windows := alist_set p w (br_windows b)\<rparr>"

text \<open>\<open>now < state_until\<close> and \<open>now >= state_until\<close>.\<close>

definition before :: "real \<Rightarrow> real option \<Rightarrow> bool" where
  "before now until = (case until of None \<Rightarrow> True | Some u \<Rightarrow> now < u)"

definition extract_provider :: "llm_event \<Rightarrow> string" where
  "extract_provider e =
     text_or (or_empty (le_provider_id e))
       (text_or (or_empty (le_provider e)) (takeWhile (\<lambda>c. c \<noteq> CHR ''/'') (or_empty (le_model e))))"

definition prune_window :: "breaker_config \<Rightarrow> real \<Rightarrow> window \<Rightarrow> window" where
  "prune_window cf now w =
     (let cutoff = now - bc_window cf
      in w\<lparr>wn_failures := dropWhile (\<lambda>f. fst f < cutoff) (wn_failures w),
           wn_successes := dropWhile (\<lambda>s. fst s < cutoff) (wn_successes w)\<rparr>)"

section \<open>Effects of a change of state\<close>

text \<open>\<open>_push_to_health_tracker\<close>; \<open>t\<close> are the readings left to the tracker.\<close>

definition push_to_health_tracker ::
    "breaker_config \<Rightarrow> tracker_config \<Rightarrow> clock \<Rightarrow> string \<Rightarrow> breaker_state \<Rightarrow> breaker \<Rightarrow> breaker" where
  "push_to_health_tracker cf tc t p s b =
     (case br_tracker b of
        None \<Rightarrow> b
      | Some tk \<Rightarrow>
          b\<lparr>br_tracker := Some
              (case s of
                 BOffline \<Rightarrow> set_offline p ''circuit_breaker_fatal'' tk
               | BCooldown \<Rightarrow> record_cooldown tc (t 0) p (Some (bc_cooldown cf)) tk
               | BDegraded \<Rightarrow> record_failure tc t p ''circuit_breaker_degraded'' 0 tk
               | BHealthy \<Rightarrow> set_online p tk
               | BHalfOpen \<Rightarrow> tk)\<rparr>)"

definition audit :: "string \<Rightarrow> string \<Rightarrow> breaker_state \<Rightarrow> breaker_state \<Rightarrow> string \<Rightarrow> breaker \<Rightarrow> breaker" where
  "audit p action from_state to_state reason b =
     b\<lparr>br_audit := br_audit b @ [\<lparr>au_provider = p, au_action = action, au_from = from_state,
         au_to = to_state, au_reason = reason\<rparr>]\<rparr>"

definition trigger_degraded ::
    "breaker_config \<Rightarrow> tracker_config \<Rightarrow> clock \<Rightarrow> string \<Rightarrow> window \<Rightarrow> real \<Rightarrow> string \<Rightarrow> breaker \<Rightarrow> breaker" where
  "trigger_degraded cf tc t p w now reason b =
     push_to_health_tracker cf tc t p BDegraded
       (audit p ''degraded'' (wn_state w) BDegraded reason
         (put_window p (w\<lparr>wn_state := BDegraded, wn_until := Some (now + real_of_int (bc_degraded cf)),
            wn_last_action := now\<rparr>) b))"

definition trigger_cooldown ::
    "breaker_config \<Rightarrow> tracker_config \<Rightarrow> clock \<Rightarrow> string \<Rightarrow> window \<Rightarrow> real \<Rightarrow> string \<Rightarrow> breaker \<Rightarrow> breaker" where
  "trigger_cooldown cf tc t p w now reason b =
     push_to_health_tracker cf tc t p BCooldown
       (audit p ''cooldown'' (wn_state w) BCooldown reason
         (put_window p (w\<lparr>wn_state := BCooldown, wn_until := Some (now + real_of_int (bc_cooldown cf)),
            wn_last_action := now\<rparr>) b))"

section \<open>Events\<close>

definition infra_errors :: "string list" where
  "infra_errors = [''timeout'', ''rate_limit_429'', ''provider_500'', ''provider_502'', ''provider_503'',
     ''provider_504'', ''connection_error'', ''unknown'']"

definition fatal_errors :: "string list" where
  "fatal_errors = [''auth_error'']"

definition offline_until :: "breaker_config \<Rightarrow> real \<Rightarrow> real option" where
  "offline_until cf since = (if 0 < bc_probe cf then Some (since + real_of_int (bc_probe cf)) else None)"

text \<open>The failure of a provider, \<open>_handle_failure\<close>, on an infrastructure error.\<close>

definition count_failure :: "real \<Rightarrow> string \<Rightarrow> window \<Rightarrow> window" where
  "count_failure now category w =
     w\<lparr>wn_failures := wn_failures w @ [(now, category)], wn_consecutive := wn_consecutive w + 1\<rparr>"

definition infra_failure ::
    "breaker_config \<Rightarrow> tracker_config \<Rightarrow> clock \<Rightarrow> string \<Rightarrow> string \<Rightarrow> breaker \<Rightarrow> breaker" where
  "infra_failure cf tc t p category b =
     (let now = t 0;
          w = count_failure now category (prune_window cf now (window_of p b));
          b1 = put_window p w b;
          again = 30 < now - wn_last_action w
      in if wn_state w \<in> {BCooldown, BOffline} \<and> before now (wn_until w) then b1
         else if bc_consecutive cf \<le> wn_consecutive w \<and> (wn_state w \<noteq> BDegraded \<or> again)
         then trigger_degraded cf tc (later 1 t) p w now category b1
         else if bc_window_fails cf \<le> int (length (wn_failures w)) \<and> (wn_state w \<noteq> BCooldown \<or> again)
         then trigger_cooldown cf tc (later 1 t) p w now category b1
         else b1)"

definition fatal_failure ::
    "breaker_config \<Rightarrow> tracker_config \<Rightarrow> clock \<Rightarrow> string \<Rightarrow> string \<Rightarrow> breaker \<Rightarrow> breaker" where
  "fatal_failure cf tc t p category b =
     (let w = window_of p b; now = t 0;
          b1 = put_window p (w\<lparr>wn_state := BOffline, wn_offline_since := now, wn_until := offline_until cf now\<rparr>) b
      in audit p ''offline'' (wn_state w) BOffline category (push_to_health_tracker cf tc (later 1 t) p BOffline b1))"

definition handle_failure ::
    "breaker_config \<Rightarrow> tracker_config \<Rightarrow> clock \<Rightarrow> llm_event \<Rightarrow> breaker \<Rightarrow> breaker" where
  "handle_failure cf tc t e b =
     (let p = extract_provider e;
          given = (case le_category e of None \<Rightarrow> Some ''unknown'' | Some c \<Rightarrow> c)
      in if p = '''' then b
         else case given of
                None \<Rightarrow> b
              | Some category \<Rightarrow>
                  if category \<in> set fatal_errors then fatal_failure cf tc t p category b
                  else if category \<notin> set infra_errors then b
                  else infra_failure cf tc t p category b)"

text \<open>The last five latencies, from three on, and their average against the threshold.\<close>

definition recent_latencies :: "window \<Rightarrow> real list" where
  "recent_latencies w = rev (take 5 (rev (map snd (wn_successes w))))"

definition check_latency ::
    "breaker_config \<Rightarrow> tracker_config \<Rightarrow> clock \<Rightarrow> string \<Rightarrow> window \<Rightarrow> real \<Rightarrow> breaker \<Rightarrow> breaker" where
  "check_latency cf tc t p w now b =
     (let ls = recent_latencies w; avg = sum_list ls / real (length ls)
      in if wn_state w = BHealthy \<and> 3 \<le> length (wn_successes w) \<and> bc_latency cf < avg
         then trigger_degraded cf tc t p w now
                (''high_latency_avg_'' @ int_text (if 0 \<le> avg then \<lfloor>avg\<rfloor> else \<lceil>avg\<rceil>) @ ''ms'') b
         else b)"

definition recover ::
    "breaker_config \<Rightarrow> tracker_config \<Rightarrow> clock \<Rightarrow> string \<Rightarrow> window \<Rightarrow> breaker_state \<Rightarrow> string \<Rightarrow> breaker \<Rightarrow> breaker" where
  "recover cf tc t p w old reason b =
     push_to_health_tracker cf tc t p BHealthy (audit p ''recovered'' old BHealthy reason (put_window p w b))"

definition handle_success ::
    "breaker_config \<Rightarrow> tracker_config \<Rightarrow> clock \<Rightarrow> llm_event \<Rightarrow> breaker \<Rightarrow> breaker" where
  "handle_success cf tc t e b =
     (let p = extract_provider e; now = t 0
      in if p = '''' then b
         else let w0 = prune_window cf now (window_of p b);
                  latency = (case le_latency e of None \<Rightarrow> 0 | Some l \<Rightarrow> l);
                  w = w0\<lparr>wn_successes := wn_successes w0 @ [(now, latency)], wn_consecutive := 0\<rparr>
              in if wn_state w = BHalfOpen
                 then recover cf tc (later 1 t) p
                        (w\<lparr>wn_state := BHealthy, wn_until := Some 0, wn_offline_since := 0\<rparr>)
                        BHalfOpen ''half_open_success'' b
                 else if wn_state w \<notin> {BHealthy, BOffline} \<and> \<not> before now (wn_until w)
                 then let w1 = w\<lparr>wn_state := BHealthy, wn_until := Some 0\<rparr>
                      in check_latency cf tc (later 1 t) p w1 now
                           (recover cf tc (later 1 t) p w1 (wn_state w) ''timer_expired_success'' b)
                 else check_latency cf tc (later 1 t) p w now (put_window p w b))"

definition on_event ::
    "breaker_config \<Rightarrow> tracker_config \<Rightarrow> clock \<Rightarrow> llm_event \<Rightarrow> breaker \<Rightarrow> breaker" where
  "on_event cf tc t e b =
     (if le_type e = ''llm.call_failed'' then handle_failure cf tc t e b
      else if le_type e = ''llm.call_completed'' then handle_success cf tc t e b
      else b)"

section \<open>Reading the state, and the reset by hand\<close>

text \<open>
  \<open>get_status\<close> moves windows whose time is over: first every window in turn, then the
  recovered ones are pushed to the tracker.
\<close>

definition materialize :: "breaker_config \<Rightarrow> real \<Rightarrow> window \<Rightarrow> window" where
  "materialize cf now w0 =
     (let w = prune_window cf now w0
      in if wn_state w \<in> {BDegraded, BCooldown} \<and> \<not> before now (wn_until w)
         then w\<lparr>wn_state := BHealthy, wn_until := Some 0\<rparr>
         else if wn_state w = BOffline \<and> \<not> before now (wn_until w)
         then w\<lparr>wn_state := BHalfOpen, wn_until := Some 0\<rparr>
         else w)"

definition half_opened :: "breaker_config \<Rightarrow> real \<Rightarrow> (string \<times> window) list \<Rightarrow> string list" where
  "half_opened cf now ws =
     map fst (filter (\<lambda>(p, w). wn_state w = BOffline \<and> \<not> before now (wn_until w)) ws)"

definition recovered :: "breaker_config \<Rightarrow> real \<Rightarrow> (string \<times> window) list \<Rightarrow> (string \<times> breaker_state) list" where
  "recovered cf now ws =
     map (\<lambda>(p, w). (p, wn_state w))
       (filter (\<lambda>(p, w). wn_state w \<in> {BDegraded, BCooldown} \<and> \<not> before now (wn_until w)) ws)"

definition get_status :: "breaker_config \<Rightarrow> tracker_config \<Rightarrow> clock \<Rightarrow> breaker \<Rightarrow> breaker" where
  "get_status cf tc t b =
     (let now = t 0; ws = br_windows b;
          b1 = b\<lparr>br_windows := map (\<lambda>(p, w). (p, materialize cf now w)) ws\<rparr>;
          b2 = fold (\<lambda>p. audit p ''half_open'' BOffline BHalfOpen ''offline_probe_expired'')
                 (half_opened cf now ws) b1
      in fold (\<lambda>(p, old) x. audit p ''recovered'' old BHealthy ''timer_expired_read_path''
                 (push_to_health_tracker cf tc (later 1 t) p BHealthy x))
           (recovered cf now ws) b2)"

text \<open>What \<open>get_status\<close> answers, one entry for each window it has just moved; a time left of
  \<open>float("inf")\<close> is \<open>None\<close>.\<close>

record status_entry =
  se_state :: breaker_state
  se_consecutive :: int
  se_failures :: nat
  se_successes :: nat
  se_until :: "real option"
  se_remaining :: "real option"

definition status_entry_of :: "real \<Rightarrow> window \<Rightarrow> status_entry" where
  "status_entry_of now w =
     \<lparr>se_state = wn_state w, se_consecutive = wn_consecutive w, se_failures = length (wn_failures w),
      se_successes = length (wn_successes w), se_until = wn_until w,
      se_remaining = map_option (\<lambda>u. max 0 (u - now)) (wn_until w)\<rparr>"

definition status_report :: "breaker_config \<Rightarrow> real \<Rightarrow> breaker \<Rightarrow> (string \<times> status_entry) list" where
  "status_report cf now b =
     map (\<lambda>(p, w). (p, status_entry_of now (materialize cf now w))) (br_windows b)"

definition reset_provider :: "breaker_config \<Rightarrow> tracker_config \<Rightarrow> clock \<Rightarrow> string \<Rightarrow> breaker \<Rightarrow> bool \<times> breaker" where
  "reset_provider cf tc t p b =
     (case map_of (br_windows b) p of
        None \<Rightarrow> (False, b)
      | Some w \<Rightarrow>
          (True,
           audit p ''admin_reset'' (wn_state w) BHealthy ''manual_reset''
             (push_to_health_tracker cf tc t p BHealthy
               (put_window p (w\<lparr>wn_state := BHealthy, wn_until := Some 0, wn_offline_since := 0,
                  wn_consecutive := 0, wn_failures := []\<rparr>) b))))"

section \<open>Windows and trackers after a call\<close>

lemma set_alist_set: "fst ` set (alist_set k v kvs) = insert k (fst ` set kvs)"
  by (induction k v kvs rule: alist_set.induct) auto

lemma distinct_alist_set: "distinct (map fst kvs) \<Longrightarrow> distinct (map fst (alist_set k v kvs))"
  by (induction k v kvs rule: alist_set.induct) (auto simp: set_alist_set)

lemma put_window_sel [simp]:
  "window_of q (put_window p w b) = (if q = p then w else window_of q b)"
  "br_tracker (put_window p w b) = br_tracker b"
  by (simp_all add: window_of_def put_window_def)

lemma audit_sel [simp]:
  "br_windows (audit p a f g r b) = br_windows b" "br_tracker (audit p a f g r b) = br_tracker b"
  "window_of q (audit p a f g r b) = window_of q b"
  by (simp_all add: audit_def window_of_def)

lemma push_windows [simp]:
  "br_windows (push_to_health_tracker cf tc t p s b) = br_windows b"
  "window_of q (push_to_health_tracker cf tc t p s b) = window_of q b"
  by (simp_all add: push_to_health_tracker_def window_of_def split: option.splits)

text \<open>What the tracker holds of one provider, and that pushes for another leave it.\<close>

definition tracked_offline :: "string \<Rightarrow> breaker \<Rightarrow> bool" where
  "tracked_offline p b \<longleftrightarrow>
     (case br_tracker b of
        None \<Rightarrow> True
      | Some tk \<Rightarrow> tk_offline tk p \<noteq> None \<and> ph_status (get_health p tk) = Offline)"

lemma tracked_simps [simp]:
  "tracked_offline p (put_window q w b) = tracked_offline p b"
  "tracked_offline p (audit q a f g r b) = tracked_offline p b"
  "tracked_offline p (b\<lparr>br_windows := ws\<rparr>) = tracked_offline p b"
  by (simp_all add: tracked_offline_def)

lemma tracked_push_other:
  "q \<noteq> p \<Longrightarrow> tracked_offline p (push_to_health_tracker cf tc t q s b) = tracked_offline p b"
  by (auto simp: tracked_offline_def push_to_health_tracker_def record_cooldown_def record_failure_def Let_def
      split: option.splits breaker_state.splits)

lemma tracked_push_offline: "tracked_offline p (push_to_health_tracker cf tc t p BOffline b)"
  by (auto simp: tracked_offline_def push_to_health_tracker_def split: option.splits)

section \<open>A provider that was taken offline\<close>

datatype breaker_call = Event llm_event | Status

fun breaker_step :: "breaker_config \<Rightarrow> tracker_config \<Rightarrow> clock \<Rightarrow> breaker_call \<Rightarrow> breaker \<Rightarrow> breaker" where
  "breaker_step cf tc t (Event e) b = on_event cf tc t e b"
| "breaker_step cf tc t Status b = get_status cf tc t b"

definition breaker_run ::
    "breaker_config \<Rightarrow> tracker_config \<Rightarrow> (clock \<times> breaker_call) list \<Rightarrow> breaker \<Rightarrow> breaker" where
  "breaker_run cf tc calls b = fold (\<lambda>(t, c). breaker_step cf tc t c) calls b"

text \<open>Offline at least as long as a provider that went offline at time \<open>since\<close>.\<close>

definition isolated :: "breaker_config \<Rightarrow> real \<Rightarrow> string \<Rightarrow> breaker \<Rightarrow> bool" where
  "isolated cf since p b \<longleftrightarrow>
     distinct (map fst (br_windows b)) \<and> p \<in> fst ` set (br_windows b)
     \<and> wn_state (window_of p b) = BOffline
     \<and> (\<forall>now. before now (offline_until cf since) \<longrightarrow> before now (wn_until (window_of p b)))
     \<and> tracked_offline p b"

lemma windows_put: "br_windows (put_window p w b) = alist_set p w (br_windows b)"
  by (simp add: put_window_def)

lemma isolated_put:
  "isolated cf since p b \<Longrightarrow> q \<noteq> p \<Longrightarrow> isolated cf since p (put_window q w b)"
  by (simp add: isolated_def windows_put distinct_alist_set set_alist_set)

lemma isolated_put_same:
  "isolated cf since p b \<Longrightarrow> wn_state w = BOffline \<Longrightarrow> wn_until w = wn_until (window_of p b) \<Longrightarrow>
     isolated cf since p (put_window p w b)"
  by (simp add: isolated_def windows_put distinct_alist_set set_alist_set)

lemma isolated_audit [simp]: "isolated cf since p (audit q a f g r b) = isolated cf since p b"
  by (simp add: isolated_def)

lemma isolated_push:
  "isolated cf since p b \<Longrightarrow> q \<noteq> p \<Longrightarrow> isolated cf since p (push_to_health_tracker cf' tc t q s b)"
  by (simp add: isolated_def tracked_push_other)

lemmas isolated_intros = isolated_put isolated_push

lemma isolated_changes:
  assumes "isolated cf since p b" "q \<noteq> p"
  shows "isolated cf since p (trigger_degraded cf' tc t q w now r b)"
    and "isolated cf since p (trigger_cooldown cf' tc t q w now r b)"
    and "isolated cf since p (recover cf' tc t q w old r b)"
    and "isolated cf since p (check_latency cf' tc t q w now b)"
    and "isolated cf since p (fatal_failure cf' tc t q r b)"
  using assms
  by (simp_all add: trigger_degraded_def trigger_cooldown_def recover_def check_latency_def
      fatal_failure_def Let_def isolated_put isolated_push)

lemma isolated_other:
  assumes "isolated cf since p b" "extract_provider e \<noteq> p"
  shows "isolated cf since p (on_event cf tc t e b)"
proof -
  note a = isolated_changes [OF _ assms(2)] isolated_put [OF _ assms(2)]
  have "isolated cf since p (handle_failure cf tc t e b)"
    using assms(1) by (auto simp: handle_failure_def infra_failure_def Let_def a split: option.split)
  moreover have "isolated cf since p (handle_success cf tc t e b)"
    using assms(1) by (simp add: handle_success_def Let_def a)
  ultimately show ?thesis
    using assms(1) by (simp add: on_event_def)
qed

lemma prune_sel [simp]:
  "wn_state (prune_window cf now w) = wn_state w" "wn_until (prune_window cf now w) = wn_until w"
  "wn_last_action (prune_window cf now w) = wn_last_action w"
  "wn_consecutive (prune_window cf now w) = wn_consecutive w"
  by (simp_all add: prune_window_def Let_def)

lemma count_failure_sel [simp]:
  "wn_state (count_failure now c w) = wn_state w" "wn_until (count_failure now c w) = wn_until w"
  "wn_last_action (count_failure now c w) = wn_last_action w"
  "wn_consecutive (count_failure now c w) = wn_consecutive w + 1"
  "wn_failures (count_failure now c w) = wn_failures w @ [(now, c)]"
  by (simp_all add: count_failure_def)

lemma offline_until_mono:
  "since \<le> later_time \<Longrightarrow> before now (offline_until cf since) \<Longrightarrow> before now (offline_until cf later_time)"
  by (auto simp: offline_until_def before_def split: if_splits)

lemma isolated_fatal:
  assumes "isolated cf since p b" "since \<le> t 0"
  shows "isolated cf since p (fatal_failure cf tc t p c b)"
  using assms
  by (auto simp: isolated_def fatal_failure_def Let_def windows_put distinct_alist_set set_alist_set
      tracked_push_offline dest: offline_until_mono)

lemma isolated_same:
  assumes "isolated cf since p b" "extract_provider e = p" "since \<le> t 0" "before (t 0) (offline_until cf since)"
  shows "isolated cf since p (on_event cf tc t e b)"
proof -
  have off: "wn_state (window_of p b) = BOffline" "before (t 0) (wn_until (window_of p b))"
    using assms(1,4) by (auto simp: isolated_def)
  then show ?thesis
    using assms isolated_fatal [OF assms(1), of t tc] isolated_put_same [OF assms(1)]
    by (auto simp: on_event_def handle_failure_def infra_failure_def handle_success_def check_latency_def Let_def
        split: option.split)
qed

lemma isolated_fold_audit:
  "isolated cf since p (fold (\<lambda>q. audit q a f g r) qs b) = isolated cf since p b"
  by (induction qs arbitrary: b) simp_all

lemma isolated_fold_recovered:
  "isolated cf since p b \<Longrightarrow> p \<notin> fst ` set qs \<Longrightarrow>
     isolated cf since p (fold (\<lambda>(q, old) x. audit q a old g r (push_to_health_tracker cf' tc t q s x)) qs b)"
proof (induction qs arbitrary: b)
  case (Cons x qs)
  obtain q s' where x: "x = (q, s')" by fastforce
  then have "isolated cf since p (push_to_health_tracker cf' tc t q s b)"
    using Cons.prems by (intro isolated_push) auto
  then show ?case
    using Cons.IH Cons.prems(2) x by simp
qed simp

lemma materialize_offline:
  "wn_state w = BOffline \<Longrightarrow> before now (wn_until w) \<Longrightarrow>
     wn_state (materialize cf now w) = BOffline \<and> wn_until (materialize cf now w) = wn_until w"
  by (simp add: materialize_def Let_def)

lemma isolated_status:
  assumes "isolated cf since p b" "before (t 0) (offline_until cf since)"
  shows "isolated cf since p (get_status cf tc t b)"
proof -
  let ?ws = "br_windows b"
  let ?b1 = "b\<lparr>br_windows := map (\<lambda>(p, w). (p, materialize cf (t 0) w)) ?ws\<rparr>"
  have off: "wn_state (window_of p b) = BOffline" "before (t 0) (wn_until (window_of p b))"
    and d: "distinct (map fst ?ws)" and m: "p \<in> fst ` set ?ws"
    using assms by (auto simp: isolated_def)
  obtain w where w: "(p, w) \<in> set ?ws" using m by auto
  then have own: "window_of p b = w"
    using d by (simp add: window_of_def)
  have win: "window_of p ?b1 = materialize cf (t 0) w"
    using w d by (simp add: window_of_def map_of_map)
  have keys: "map fst (br_windows ?b1) = map fst ?ws"
    by (simp add: case_prod_beta comp_def)
  then have "fst ` set (br_windows ?b1) = fst ` set ?ws"
    by (metis list.set_map)
  with keys have one: "isolated cf since p ?b1"
    using assms(1) off own materialize_offline [of w "t 0" cf] win
    unfolding isolated_def by (simp only: tracked_simps) simp
  have "p \<notin> fst ` set (recovered cf (t 0) ?ws)"
  proof
    assume "p \<in> fst ` set (recovered cf (t 0) ?ws)"
    then obtain w' where "(p, w') \<in> set ?ws" "wn_state w' \<in> {BDegraded, BCooldown}"
      by (auto simp: recovered_def)
    moreover have "w' = w" using calculation(1) w d by (metis eq_key_imp_eq_value)
    ultimately show False using off own by simp
  qed
  then show ?thesis
    using one by (simp add: get_status_def Let_def isolated_fold_audit isolated_fold_recovered)
qed

lemma isolated_run:
  assumes "isolated cf since p b"
    and "\<And>t c. (t, c) \<in> set calls \<Longrightarrow> since \<le> t 0 \<and> before (t 0) (offline_until cf since)"
  shows "isolated cf since p (breaker_run cf tc calls b)"
  using assms
proof (induction calls arbitrary: b)
  case (Cons x calls)
  obtain t c where x: "x = (t, c)" by fastforce
  have now: "since \<le> t 0" "before (t 0) (offline_until cf since)"
    using Cons.prems(2) [of t c] x by auto
  have "isolated cf since p (breaker_step cf tc t c b)"
  proof (cases c)
    case (Event e)
    then show ?thesis
      using isolated_same [where t = t, OF Cons.prems(1) _ now] isolated_other [OF Cons.prems(1)]
      by (cases "extract_provider e = p") auto
  next
    case Status
    then show ?thesis using isolated_status [where t = t, OF Cons.prems(1) now(2)] by simp
  qed
  then have "isolated cf since p (breaker_run cf tc calls (breaker_step cf tc t c b))"
    by (rule Cons.IH) (use Cons.prems(2) in auto)
  with x show ?case
    by (simp add: breaker_run_def)
qed (simp add: breaker_run_def)

lemma fatal_isolates:
  assumes "distinct (map fst (br_windows b))"
  shows "isolated cf (t 0) p (fatal_failure cf tc t p c b)"
  using assms
  by (auto simp: isolated_def fatal_failure_def Let_def windows_put distinct_alist_set set_alist_set
      tracked_push_offline)

text \<open>
  Failures of a healthy provider that come more than 30 seconds apart: from the third on each
  one degrades the provider again, and none reaches the test for the cooldown.
\<close>

definition slow_window :: "breaker_config \<Rightarrow> real \<Rightarrow> window \<Rightarrow> bool" where
  "slow_window cf now w \<longleftrightarrow>
     wn_state w \<in> {BHealthy, BDegraded} \<and> int (length (wn_failures w)) \<le> wn_consecutive w
     \<and> (wn_state w = BDegraded \<longrightarrow> 30 < now - wn_last_action w)"

lemma length_prune: "length (wn_failures (prune_window cf now w)) \<le> length (wn_failures w)"
  by (simp add: prune_window_def Let_def length_dropWhile_le)

lemma slow_failure:
  assumes "slow_window cf (t 0) (window_of p b)" "bc_consecutive cf \<le> bc_window_fails cf" "t 0 + 30 < nxt"
  shows "slow_window cf nxt (window_of p (infra_failure cf tc t p c b))"
proof -
  let ?w = "count_failure (t 0) c (prune_window cf (t 0) (window_of p b))"
  have s: "wn_state ?w = wn_state (window_of p b)" "wn_last_action ?w = wn_last_action (window_of p b)"
    "int (length (wn_failures ?w)) \<le> wn_consecutive ?w"
    using assms(1) length_prune [of cf "t 0" "window_of p b"] by (auto simp: slow_window_def)
  show ?thesis
  proof (cases "bc_consecutive cf \<le> wn_consecutive ?w")
    case True
    then show ?thesis
      using assms(1,3) s by (auto simp: slow_window_def infra_failure_def trigger_degraded_def Let_def)
  next
    case False
    then have "\<not> bc_window_fails cf \<le> int (length (wn_failures ?w))"
      using s(3) assms(2) by linarith
    with False show ?thesis
      using assms(1,3) s by (auto simp: slow_window_def infra_failure_def Let_def)
  qed
qed

fun failures_at :: "breaker_config \<Rightarrow> tracker_config \<Rightarrow> string \<Rightarrow> string \<Rightarrow> real list \<Rightarrow> breaker \<Rightarrow> breaker" where
  "failures_at cf tc p c [] b = b"
| "failures_at cf tc p c (n # ns) b = failures_at cf tc p c ns (infra_failure cf tc (\<lambda>_. n) p c b)"

lemma slow_failures:
  "sorted_wrt (\<lambda>a b. a + 30 < b) ns \<Longrightarrow> bc_consecutive cf \<le> bc_window_fails cf \<Longrightarrow>
     \<exists>n. (\<forall>m \<in> set ns. n \<le> m) \<and> slow_window cf n (window_of p b) \<Longrightarrow>
     wn_state (window_of p (failures_at cf tc p c ns b)) \<in> {BHealthy, BDegraded}"
proof (induction ns arbitrary: b)
  case (Cons n ns)
  from Cons.prems(3) have "slow_window cf n (window_of p b)"
    by (auto simp: slow_window_def)
  then have step: "slow_window cf nxt (window_of p (infra_failure cf tc (\<lambda>_. n) p c b))" if "n + 30 < nxt" for nxt
    using slow_failure [where t = "\<lambda>_. n" and cf = cf and b = b and p = p, OF _ Cons.prems(2)] that by simp
  have "\<exists>m. (\<forall>k \<in> set ns. m \<le> k) \<and> slow_window cf m (window_of p (infra_failure cf tc (\<lambda>_. n) p c b))"
  proof (cases ns)
    case Nil
    then show ?thesis using step [of "n + 31"] by auto
  next
    case (Cons k ks)
    with Cons.prems(1) have "n + 30 < k" "\<forall>j \<in> set ks. k \<le> j" by auto
    then show ?thesis using step [of k] Cons by (intro exI [of _ k]) auto
  qed
  with Cons show ?case by simp
qed (auto simp: slow_window_def)

text \<open>Six failures within five minutes leave the provider degraded.\<close>

lemma six_slow_failures:
  "wn_state (window_of p (failures_at default_breaker tc p ''timeout'' [10, 60, 110, 160, 210, 260]
     \<lparr>br_windows = [], br_tracker = None, br_audit = []\<rparr>)) \<in> {BHealthy, BDegraded}"
  by (rule slow_failures) (auto simp: default_breaker_def window_of_def slow_window_def new_window_def)

lemma tracker_push: "br_tracker (push_to_health_tracker cf tc t p s b) = None \<longleftrightarrow> br_tracker b = None"
  by (simp add: push_to_health_tracker_def split: option.splits)

lemma tracker_fold_audit: "br_tracker (fold (\<lambda>q. audit q a f g r) qs b) = br_tracker b"
  by (induction qs arbitrary: b) simp_all

lemma tracker_fold_recovered:
  "br_tracker (fold (\<lambda>(q, old) x. audit q a old g r (push_to_health_tracker cf tc t q s x)) qs b) = None
     \<longleftrightarrow> br_tracker b = None"
proof (induction qs arbitrary: b)
  case (Cons x qs)
  then show ?case by (cases x) (simp add: tracker_push)
qed simp

lemma tracker_failure: "br_tracker (handle_failure cf tc t e b) = None \<longleftrightarrow> br_tracker b = None"
  by (auto simp: handle_failure_def fatal_failure_def infra_failure_def trigger_degraded_def
      trigger_cooldown_def tracker_push Let_def split: option.split)

lemma tracker_kept:
  "br_tracker (on_event cf tc t e b) = None \<longleftrightarrow> br_tracker b = None"
  "br_tracker (get_status cf tc t b) = None \<longleftrightarrow> br_tracker b = None"
  by (simp_all add: on_event_def tracker_failure handle_success_def trigger_degraded_def recover_def check_latency_def get_status_def tracker_push
      tracker_fold_audit tracker_fold_recovered Let_def)

lemma fatal_isolated:
  assumes "distinct (map fst (br_windows b))" and "le_type e = ''llm.call_failed''"
    and "le_category e = Some (Some ''auth_error'')" and "extract_provider e = p" and "p \<noteq> ''''"
    and "\<And>u c. (u, c) \<in> set calls \<Longrightarrow> t 0 \<le> u 0 \<and> before (u 0) (offline_until cf (t 0))"
  shows "isolated cf (t 0) p (breaker_run cf tc calls (on_event cf tc t e b))"
proof -
  have "on_event cf tc t e b = fatal_failure cf tc t p ''auth_error'' b"
    using assms(2-5) by (simp add: on_event_def handle_failure_def fatal_errors_def)
  then have "isolated cf (t 0) p (on_event cf tc t e b)"
    using fatal_isolates [OF assms(1), of cf t p tc "''auth_error''"] by simp
  then show ?thesis
    by (rule isolated_run) (use assms(6) in auto)
qed

section \<open>Properties\<close>

text \<open>C21. A fatal error takes its provider offline: until the probe interval of the error is
  over, no sequence of failures, successes and status readings, of this or other providers,
  takes it out of that state, and the health tracker never offers the provider.\<close>

theorem fatal_error_isolates:
  assumes "distinct (map fst (br_windows b))" and "le_type e = ''llm.call_failed''"
    and "le_category e = Some (Some ''auth_error'')" and "extract_provider e = p" and "p \<noteq> ''''"
    and "\<And>u c. (u, c) \<in> set calls \<Longrightarrow> t 0 \<le> u 0 \<and> before (u 0) (offline_until cf (t 0))"
    and "br_tracker (breaker_run cf tc calls (on_event cf tc t e b)) = Some tk"
  shows "wn_state (window_of p (breaker_run cf tc calls (on_event cf tc t e b))) = BOffline
    \<and> \<not> is_available now (get_health p tk)"
proof -
  have "isolated cf (t 0) p (breaker_run cf tc calls (on_event cf tc t e b))"
    by (rule fatal_isolated) (use assms(1-6) in auto)
  then show ?thesis
    using assms(7) by (auto simp: isolated_def tracked_offline_def is_available_def)
qed

theorem fatal_error_isolates_witness:
  "\<exists>b'. b' = breaker_run default_breaker default_tracker
        [(\<lambda>_. 20, Event \<lparr>le_type = ''llm.call_completed'', le_provider_id = Some ''p'', le_provider = None,
            le_model = None, le_category = None, le_latency = Some 5\<rparr>), (\<lambda>_. 90, Status)]
        (on_event default_breaker default_tracker (\<lambda>_. 10)
          \<lparr>le_type = ''llm.call_failed'', le_provider_id = None, le_provider = None, le_model = Some ''p/x'',
           le_category = Some (Some ''auth_error''), le_latency = None\<rparr>
          \<lparr>br_windows = [], br_tracker = Some empty_tracker, br_audit = []\<rparr>)
     \<and> wn_state (window_of ''p'' b') = BOffline
     \<and> \<not> is_available 100 (get_health ''p'' (the (br_tracker b')))"
proof -
  let ?calls = "[(\<lambda>_. 20, Event \<lparr>le_type = ''llm.call_completed'', le_provider_id = Some ''p'', le_provider = None,
            le_model = None, le_category = None, le_latency = Some 5\<rparr>), (\<lambda>_. 90, Status)] :: (clock \<times> breaker_call) list"
  let ?e = "\<lparr>le_type = ''llm.call_failed'', le_provider_id = None, le_provider = None, le_model = Some ''p/x'',
           le_category = Some (Some ''auth_error''), le_latency = None\<rparr>"
  let ?b = "\<lparr>br_windows = [], br_tracker = Some empty_tracker, br_audit = []\<rparr>"
  let ?b' = "breaker_run default_breaker default_tracker ?calls (on_event default_breaker default_tracker (\<lambda>_. 10) ?e ?b)"
  have p: "extract_provider ?e = ''p''"
    by (simp add: extract_provider_def text_or_def)
  have "br_tracker ?b' \<noteq> None"
    by (simp add: breaker_run_def tracker_kept)
  then obtain tk where "br_tracker ?b' = Some tk" by blast
  moreover have "t 0 \<le> u 0 \<and> before (u 0) (offline_until default_breaker (t 0))"
    if "(u, c) \<in> set ?calls" "t = (\<lambda>_. 10)" for t u :: clock and c
    using that by (auto simp: before_def offline_until_def default_breaker_def)
  ultimately show ?thesis
    using fatal_error_isolates [where t = "\<lambda>_. 10" and b = ?b and e = ?e and calls = ?calls
        and cf = default_breaker and tc = default_tracker and now = 100, OF _ _ _ p] by simp
qed

end
