(* ===== verification/Selector.thy ===== *)
theory Selector
  imports Breaker
begin

text \<open>
  The choice of a model provider for a task, \<open>kernel/routing/selector.py\<close> on the types of
  \<open>kernel/routing/types.py\<close> and the health tracker (\<open>Health\<close>). A clock reading is taken for each
  provider whose availability is asked. The text that explains a score is left out.
\<close>

section \<open>Types\<close>

datatype provider_type = MCP_WEB | API | NATIVE_API | CLI

datatype capability = CHAT | DEEP_RESEARCH | CODE_GEN | IMAGE_GEN | WEB_SEARCH | TOOL_USE | ANALYSIS

record route_provider =
  rp_id :: string
  rp_type :: provider_type
  rp_capabilities :: "capability set"
  rp_tier :: int
  rp_latency :: int
  rp_cost :: real
  rp_models :: "string list"
  rp_enabled :: bool

record task_profile =
  tp_type :: string
  tp_required :: "capability set"
  tp_preferred :: "capability set"
  tp_quality_weight :: real
  tp_latency_weight :: real
  tp_cost_weight :: real
  tp_max_latency :: "int option"
  tp_min_tier :: int

record candidate =
  cd_provider :: route_provider
  cd_score :: real
  cd_breakdown :: "(string \<times> real) list"

type_synonym quality_history = "string \<times> string \<Rightarrow> real option"

section \<open>Scores\<close>

text \<open>\<open>round(x, k)\<close>, ties to the even neighbour.\<close>

definition round_to :: "nat \<Rightarrow> real \<Rightarrow> real" where
  "round_to k x =
     (let y = x * 10 ^ k; n = \<lfloor>y\<rfloor>; d = y - real_of_int n
      in real_of_int (if d < 1 / 2 \<or> (d = 1 / 2 \<and> even n) then n else n + 1) / 10 ^ k)"

definition tier_quality :: "int \<Rightarrow> real" where
  "tier_quality tier = (if tier = 1 then 9 / 10 else if tier = 2 then 7 / 10 else 1 / 2)"

definition raw_score :: "quality_history \<Rightarrow> task_profile \<Rightarrow> route_provider \<Rightarrow> real \<times> real \<times> real \<times> real" where
  "raw_score q pf p =
     ((case q (rp_id p, tp_type pf) of None \<Rightarrow> tier_quality (rp_tier p) | Some x \<Rightarrow> x),
      max 0 (1 - real_of_int (rp_latency p) / 30000),
      max 0 (1 - rp_cost p / 1),
      5 / 100 * real (card (tp_preferred pf \<inter> rp_capabilities p)))"

definition score :: "quality_history \<Rightarrow> task_profile \<Rightarrow> route_provider \<Rightarrow> provider_health \<Rightarrow> real \<times> (string \<times> real) list" where
  "score q pf p h =
     (let (quality, latency, cost, bonus) = raw_score q pf p;
          raw = tp_quality_weight pf * quality + tp_latency_weight pf * latency + tp_cost_weight pf * cost + bonus;
          factor = degradation_factor h;
          final = raw * factor
      in (final,
          [(''quality'', round_to 3 quality), (''latency'', round_to 3 latency), (''cost'', round_to 3 cost),
           (''pref_bonus'', round_to 3 bonus), (''raw'', round_to 4 raw), (''health_factor'', round_to 2 factor),
           (''final'', round_to 4 final)]))"

definition candidate_of ::
    "real \<Rightarrow> quality_history \<Rightarrow> task_profile \<Rightarrow> route_provider \<times> provider_health \<Rightarrow> candidate" where
  "candidate_of penalty q pf ph =
     (let (s, b) = score q pf (fst ph) (snd ph)
      in \<lparr>cd_provider = fst ph, cd_score = round_to 4 (s * penalty), cd_breakdown = b\<rparr>)"

text \<open>\<open>sort(key=score, reverse=True)\<close>, which keeps the order of equal scores.\<close>

definition best_first :: "candidate list \<Rightarrow> candidate list" where
  "best_first cs = sort_key (\<lambda>c. - cd_score c) cs"

section \<open>Selection\<close>

definition eligible :: "task_profile \<Rightarrow> route_provider \<Rightarrow> bool" where
  "eligible pf p \<longleftrightarrow>
     rp_enabled p \<and> tp_required pf \<subseteq> rp_capabilities p \<and> rp_tier p \<le> tp_min_tier pf
     \<and> (case tp_max_latency pf of None \<Rightarrow> True | Some m \<Rightarrow> m = 0 \<or> rp_latency p \<le> m)"

fun available_at :: "tracker \<Rightarrow> clock \<Rightarrow> route_provider list \<Rightarrow> (route_provider \<times> provider_health) list" where
  "available_at tk t [] = []"
| "available_at tk t (p # ps) =
     (let h = get_health (rp_id p) tk; rest = available_at tk (later 1 t) ps
      in if is_available (t 0) h then (p, h) # rest else rest)"

definition fallbacks ::
    "quality_history \<Rightarrow> tracker \<Rightarrow> clock \<Rightarrow> route_provider list \<Rightarrow> task_profile \<Rightarrow> string set \<Rightarrow> candidate list" where
  "fallbacks q tk t ps pf exclude =
     take 2 (best_first (map (candidate_of (8 / 10) q pf)
       (available_at tk t (filter (\<lambda>p. rp_id p \<notin> exclude \<and> rp_enabled p \<and> tp_required pf \<subseteq> rp_capabilities p) ps))))"

text \<open>\<open>xs[:n]\<close>.\<close>

definition py_take :: "int \<Rightarrow> 'a list \<Rightarrow> 'a list" where
  "py_take n xs = (if 0 \<le> n then take (nat n) xs else take (length xs - nat (- n)) xs)"

definition primaries :: "quality_history \<Rightarrow> tracker \<Rightarrow> clock \<Rightarrow> route_provider list \<Rightarrow> task_profile \<Rightarrow> candidate list" where
  "primaries q tk t ps pf =
     best_first (map (candidate_of 1 q pf) (available_at tk t (filter (eligible pf) ps)))"

definition select ::
    "quality_history \<Rightarrow> tracker \<Rightarrow> clock \<Rightarrow> route_provider list \<Rightarrow> task_profile \<Rightarrow> int \<Rightarrow> bool \<Rightarrow> candidate list" where
  "select q tk t ps pf max_results include_fallbacks =
     (let scored = primaries q tk t ps pf
      in py_take max_results
           (if include_fallbacks \<and> length scored < 2
            then scored @ fallbacks q tk (later (length (filter (eligible pf) ps)) t) ps pf
                            (set (map (rp_id \<circ> cd_provider) scored))
            else scored))"

definition update_quality_history :: "string \<Rightarrow> string \<Rightarrow> real \<Rightarrow> quality_history \<Rightarrow> quality_history" where
  "update_quality_history pid task quality q =
     q((pid, task) \<mapsto> (case q (pid, task) of None \<Rightarrow> quality | Some old \<Rightarrow> 7 / 10 * old + 3 / 10 * quality))"

text \<open>The models of the providers reached over the API, of a resolved route.\<close>

definition api_only :: "candidate list \<Rightarrow> string list" where
  "api_only cs =
     (let ms = concat (map (rp_models \<circ> cd_provider) (filter (\<lambda>c. rp_type (cd_provider c) = API) cs))
      in if ms = [] then [''MiniMax-M2.5'', ''qwen3.5-plus'', ''kimi-k2.5''] else ms)"

section \<open>What is selected\<close>

lemma available_at_sound:
  "ph \<in> set (available_at tk t ps) \<Longrightarrow>
     fst ph \<in> set ps \<and> snd ph = get_health (rp_id (fst ph)) tk \<and> (\<exists>k < length ps. is_available (t k) (snd ph))"
proof (induction ps arbitrary: t)
  case (Cons p ps)
  show ?case
  proof (cases "ph \<in> set (available_at tk (later 1 t) ps)")
    case True
    then obtain k where "k < length ps" "is_available (t (Suc k)) (snd ph)"
      using Cons.IH [of "later 1 t"] by (auto simp: later_def)
    then show ?thesis using Cons.IH [OF True] by auto
  next
    case False
    then show ?thesis using Cons.prems by (auto simp: Let_def split: if_splits)
  qed
qed simp

lemma available_at_length: "length (available_at tk t ps) \<le> length ps"
  by (induction ps arbitrary: t) (auto simp: Let_def intro: le_SucI)

lemma candidate_of_provider [simp]: "cd_provider (candidate_of k q pf ph) = fst ph"
  by (simp add: candidate_of_def split: prod.splits)

lemma set_best_first [simp]: "set (best_first cs) = set cs"
  by (simp add: best_first_def)

lemma sorted_best_first: "sorted_wrt (\<lambda>a b. cd_score b \<le> cd_score a) (best_first cs)"
proof -
  have "sorted (map (\<lambda>c. - cd_score c) (best_first cs))" by (simp add: best_first_def)
  then show ?thesis by (simp add: sorted_map)
qed

lemma set_py_take: "set (py_take n xs) \<subseteq> set xs"
  by (auto simp: py_take_def dest: in_set_takeD)

definition offered :: "tracker \<Rightarrow> clock \<Rightarrow> task_profile \<Rightarrow> route_provider list \<Rightarrow> route_provider \<Rightarrow> bool" where
  "offered tk t pf ps p \<longleftrightarrow>
     p \<in> set ps \<and> rp_enabled p \<and> tp_required pf \<subseteq> rp_capabilities p
     \<and> (\<exists>k. is_available (t k) (get_health (rp_id p) tk))"

lemma primaries_sound:
  assumes "c \<in> set (primaries q tk t ps pf)"
  shows "eligible pf (cd_provider c) \<and> offered tk t pf ps (cd_provider c)"
proof -
  obtain ph where "ph \<in> set (available_at tk t (filter (eligible pf) ps))" "cd_provider c = fst ph"
    using assms by (auto simp: primaries_def)
  then show ?thesis using available_at_sound [of ph] by (fastforce simp: eligible_def offered_def)
qed

lemma fallbacks_sound:
  assumes "c \<in> set (fallbacks q tk (later n t) ps pf exclude)"
  shows "offered tk t pf ps (cd_provider c) \<and> rp_id (cd_provider c) \<notin> exclude"
proof -
  let ?ps = "filter (\<lambda>p. rp_id p \<notin> exclude \<and> rp_enabled p \<and> tp_required pf \<subseteq> rp_capabilities p) ps"
  obtain ph where "ph \<in> set (available_at tk (later n t) ?ps)" "cd_provider c = fst ph"
    using assms unfolding fallbacks_def by (auto dest!: in_set_takeD)
  then show ?thesis using available_at_sound [of ph] by (fastforce simp: offered_def later_def)
qed

lemma select_sound:
  "c \<in> set (select q tk t ps pf n fb) \<Longrightarrow> offered tk t pf ps (cd_provider c)"
  using set_py_take primaries_sound fallbacks_sound
  by (fastforce simp: select_def Let_def split: if_splits)

text \<open>The first candidates come best first, and within the limits of the task.\<close>

lemma select_primaries:
  assumes "\<not> fb \<or> 2 \<le> length (primaries q tk t ps pf)"
  shows "select q tk t ps pf n fb = py_take n (primaries q tk t ps pf)"
  using assms by (auto simp: select_def Let_def)

lemma sorted_py_take: "sorted_wrt R xs \<Longrightarrow> sorted_wrt R (py_take n xs)"
  by (simp add: py_take_def sorted_wrt_take)

lemma select_eligible:
  "c \<in> set (select q tk t ps pf n fb) \<Longrightarrow>
     eligible pf (cd_provider c) \<or> (fb \<and> length (primaries q tk t ps pf) < 2)"
  using set_py_take primaries_sound by (fastforce simp: select_def Let_def split: if_splits)

lemma isolated_not_selected:
  assumes "isolated cf since p b" "br_tracker b = Some tk" "c \<in> set (select q tk u ps pf n fb)"
  shows "rp_id (cd_provider c) \<noteq> p"
  using select_sound [OF assms(3)] assms(1,2)
  by (auto simp: offered_def isolated_def tracked_offline_def is_available_def)

section \<open>Properties\<close>

text \<open>C24. Selection keeps to the health of the providers: after a fatal error of a provider, and
  whatever calls of the breaker follow before its probe interval is over, no selection, for
  whatever task and with or without fallbacks, has that provider. What is selected is enabled and
  has the capabilities the task requires, and it is within the tier and latency of the task unless
  fewer than two such providers were available and fallbacks were asked for.\<close>

theorem selection_avoids_isolated:
  assumes "distinct (map fst (br_windows b))" and "le_type e = ''llm.call_failed''"
    and "le_category e = Some (Some ''auth_error'')" and "extract_provider e = p" and "p \<noteq> ''''"
    and "\<And>u c. (u, c) \<in> set calls \<Longrightarrow> t 0 \<le> u 0 \<and> before (u 0) (offline_until cf (t 0))"
    and "br_tracker (breaker_run cf tc calls (on_event cf tc t e b)) = Some tk"
    and "c \<in> set (select q tk u ps pf n fb)"
  shows "rp_id (cd_provider c) \<noteq> p \<and> cd_provider c \<in> set ps \<and> rp_enabled (cd_provider c)
    \<and> tp_required pf \<subseteq> rp_capabilities (cd_provider c)
    \<and> (eligible pf (cd_provider c) \<or> (fb \<and> length (primaries q tk u ps pf) < 2))"
proof -
  have "isolated cf (t 0) p (breaker_run cf tc calls (on_event cf tc t e b))"
    by (rule fatal_isolated) (use assms(1-6) in auto)
  then show ?thesis
    using isolated_not_selected [OF _ assms(7,8)] select_sound [OF assms(8)] select_eligible [OF assms(8)]
    by (auto simp: offered_def)
qed

text \<open>Two providers that can do the task: the one with the fatal error is not among the selected,
  and the other is.\<close>

definition provider0 :: "string \<Rightarrow> route_provider" where
  "provider0 p = \<lparr>rp_id = p, rp_type = API, rp_capabilities = {CHAT}, rp_tier = 1, rp_latency = 5000,
     rp_cost = 0, rp_models = [], rp_enabled = True\<rparr>"

definition profile0 :: task_profile where
  "profile0 = \<lparr>tp_type = ''chat'', tp_required = {CHAT}, tp_preferred = {}, tp_quality_weight = 1 / 2,
     tp_latency_weight = 3 / 10, tp_cost_weight = 1 / 5, tp_max_latency = None, tp_min_tier = 3\<rparr>"

definition fatal0 :: llm_event where
  "fatal0 = \<lparr>le_type = ''llm.call_failed'', le_provider_id = Some ''p'', le_provider = None, le_model = None,
     le_category = Some (Some ''auth_error''), le_latency = None\<rparr>"

definition calm0 :: breaker where
  "calm0 = \<lparr>br_windows = [], br_tracker = Some empty_tracker, br_audit = []\<rparr>"

definition breaker0 :: breaker where
  "breaker0 = on_event default_breaker default_tracker (\<lambda>_. 10) fatal0 calm0"

lemma tracker0: "br_tracker breaker0 = Some (set_offline ''p'' ''circuit_breaker_fatal'' empty_tracker)"
  by (simp add: breaker0_def calm0_def fatal0_def on_event_def handle_failure_def fatal_failure_def fatal_errors_def
      extract_provider_def text_or_def push_to_health_tracker_def Let_def put_window_def audit_def)

lemma select0:
  "map (rp_id \<circ> cd_provider) (select Map.empty (the (br_tracker breaker0)) (\<lambda>_. 20)
     [provider0 ''p'', provider0 ''r''] profile0 5 False) = [''r'']"
  by (simp add: tracker0 select_def primaries_def eligible_def provider0_def profile0_def set_offline_def
      empty_tracker_def is_available_def get_health_def put_health_def new_health_def best_first_def py_take_def
      Let_def)

theorem selection_avoids_isolated_witness:
  "\<exists>c \<in> set (select Map.empty (the (br_tracker breaker0)) (\<lambda>_. 20) [provider0 ''p'', provider0 ''r''] profile0 5 False).
     rp_id (cd_provider c) \<noteq> ''p'' \<and> rp_enabled (cd_provider c) \<and> eligible profile0 (cd_provider c)"
proof -
  let ?s = "select Map.empty (the (br_tracker breaker0)) (\<lambda>_. 20) [provider0 ''p'', provider0 ''r''] profile0 5 False"
  obtain c where c: "c \<in> set ?s" using select0 by (cases ?s) auto
  have run: "br_tracker (breaker_run default_breaker default_tracker []
      (on_event default_breaker default_tracker (\<lambda>_. 10) fatal0 calm0)) = Some (the (br_tracker breaker0))"
    using tracker0 by (simp add: breaker_run_def breaker0_def)
  have "rp_id (cd_provider c) \<noteq> ''p'' \<and> rp_enabled (cd_provider c) \<and> eligible profile0 (cd_provider c)"
    using selection_avoids_isolated [OF _ _ _ _ _ _ run c, of "''p''"]
    by (simp add: calm0_def fatal0_def extract_provider_def text_or_def)
  with c show ?thesis by blast
qed

end
