(* ===== verification/MinCharsGuard.thy ===== *)
theory MinCharsGuard
  imports Results
begin

text \<open>
  The worker's guard against answers below the length asked for, \<open>worker/worker.py\<close>: what a
  job's history says (\<open>_min_chars_guard_history\<close>), whether the short answer is taken as it is
  (\<open>_min_chars_guard_should_complete_under_min_chars\<close>), and what the worker does with the
  verdict: finish the job, hand it to a person, or record a downgrade and poll again. The worker
  goes on without the verdict or the event where reading the history or writing the event raises;
  here neither does.
\<close>

section \<open>History\<close>

definition downgraded_event :: string where
  "downgraded_event = ''completion_guard_downgraded''"

definition too_short :: string where
  "too_short = ''answer_too_short_for_min_chars''"

text \<open>Whether an event counts; and the number the event gives for the answer's length.\<close>

definition counted_downgrade :: "runtime \<Rightarrow> event \<Rightarrow> bool" where
  "counted_downgrade rt e =
     (case ev_payload e of
        None \<Rightarrow> False
      | Some p \<Rightarrow> is_obj p \<and> str_or (rt_repr rt) (jget ''reason'' p) '''' = too_short)"

definition payload_chars :: "event \<Rightarrow> int" where
  "payload_chars e =
     (case ev_payload e of
        None \<Rightarrow> 0
      | Some p \<Rightarrow> (case jget ''answer_chars'' p of JInt n \<Rightarrow> n | JBool True \<Rightarrow> 1 | _ \<Rightarrow> 0))"

definition counted_downgrades :: "runtime \<Rightarrow> string \<Rightarrow> world \<Rightarrow> event list" where
  "counted_downgrades rt jid w = filter (counted_downgrade rt) (job_events jid downgraded_event w)"

definition min_chars_guard_history :: "runtime \<Rightarrow> string \<Rightarrow> world \<Rightarrow> int \<times> real option \<times> int" where
  "min_chars_guard_history rt jid w =
     (let es = counted_downgrades rt jid w
      in (int (length es),
          (case es of [] \<Rightarrow> None | e # _ \<Rightarrow> Some (ev_ts e)),
          fold (\<lambda>e m. max m (payload_chars e)) es 0))"

section \<open>The verdict\<close>

definition min_chars_guard_slack :: "int \<Rightarrow> int" where
  "min_chars_guard_slack required =
     (if required \<le> 0 then 0 else min 200 (py_trunc (real_of_int required * (5 / 100))))"

text \<open>\<open>round(x, 3)\<close>, ties to the even neighbour.\<close>

definition round3 :: "real \<Rightarrow> real" where
  "round3 x =
     (let y = x * 1000; n = \<lfloor>y\<rfloor>; d = y - real_of_int n
      in real_of_int (if d < 1 / 2 \<or> (d = 1 / 2 \<and> even n) then n else n + 1) / 1000)"

record guard_input =
  gi_now :: real
  gi_answer_chars :: int
  gi_min_chars :: int
  gi_deep_research :: bool
  gi_thinking :: bool
  gi_semantically_final :: bool
  gi_complete_final :: bool
  gi_trivial :: bool
  gi_research :: bool

record verdict =
  vd_complete :: bool
  vd_reason :: string
  vd_threshold :: "int option"
  vd_blocked :: bool
  vd_terminal :: bool

definition verdict_of :: "bool \<Rightarrow> string \<Rightarrow> int option \<Rightarrow> bool \<Rightarrow> bool \<Rightarrow> verdict" where
  "verdict_of c r th b tm =
     \<lparr>vd_complete = c, vd_reason = r, vd_threshold = th, vd_blocked = b, vd_terminal = tm\<rparr>"

definition semantic_threshold :: "int \<Rightarrow> int" where
  "semantic_threshold required = max 120 (min 600 (py_trunc (real_of_int required * (4 / 10))))"

definition cap_reached :: "int \<Rightarrow> real option \<Rightarrow> real \<Rightarrow> bool" where
  "cap_reached downgrades first now \<longleftrightarrow>
     10 \<le> downgrades \<or> (case first of None \<Rightarrow> False | Some ts \<Rightarrow> 1800 \<le> now - ts)"

text \<open>How long a silent answer is given: the type of the request decides.\<close>

definition stall_grace_over :: "guard_input \<Rightarrow> real option \<Rightarrow> bool" where
  "stall_grace_over g first =
     (if gi_deep_research g
      then (case first of None \<Rightarrow> False | Some ts \<Rightarrow> 1200 \<le> gi_now g - ts)
      else if gi_thinking g
      then (case first of None \<Rightarrow> False | Some ts \<Rightarrow> 600 \<le> gi_now g - ts)
      else True)"

definition min_chars_guard :: "runtime \<Rightarrow> string \<Rightarrow> guard_input \<Rightarrow> world \<Rightarrow> verdict" where
  "min_chars_guard rt jid g w =
     (let chars = max 0 (gi_answer_chars g); required = max 0 (gi_min_chars g);
          slack = min_chars_guard_slack required;
          missing = max 0 (required - chars);
          (downgrades, first, longest) = min_chars_guard_history rt jid w;
          semantic = gi_semantically_final g \<and> \<not> gi_deep_research g \<and> \<not> gi_thinking g \<and> \<not> gi_research g;
          th = (if semantic then Some (semantic_threshold required) else None)
      in if gi_trivial g \<and> 0 < chars then verdict_of True ''trivial_prompt_short_answer'' None False False
         else if 0 < slack \<and> missing \<le> slack then verdict_of True ''near_miss'' None False False
         else if semantic \<and> semantic_threshold required \<le> chars
         then verdict_of True ''semantic_final_short_answer'' th False False
         else if gi_research g \<and> gi_semantically_final g \<and> gi_complete_final g \<and> 0 < chars
         then verdict_of False ''semantic_final_under_min_chars'' th True True
         else if cap_reached downgrades first (gi_now g)
         then (if gi_research g then verdict_of False ''cap_exceeded'' th True True
               else verdict_of True ''cap_exceeded'' th False False)
         else if 2 \<le> downgrades \<and> chars \<le> longest \<and> stall_grace_over g first
         then (if gi_research g then verdict_of False ''stalled'' th True False
               else verdict_of True ''stalled'' th False False)
         else verdict_of False ''waiting'' th False False)"

definition guard_details :: "runtime \<Rightarrow> string \<Rightarrow> guard_input \<Rightarrow> world \<Rightarrow> (string \<times> json) list" where
  "guard_details rt jid g w =
     (let chars = max 0 (gi_answer_chars g); required = max 0 (gi_min_chars g);
          (downgrades, first, longest) = min_chars_guard_history rt jid w;
          age = (case first of None \<Rightarrow> 0 | Some ts \<Rightarrow> gi_now g - ts);
          v = min_chars_guard rt jid g w
      in [(''answer_chars'', JInt chars), (''min_chars_required'', JInt required),
          (''missing_chars'', JInt (max 0 (required - chars))),
          (''slack_chars'', JInt (min_chars_guard_slack required)),
          (''previous_downgrades'', JInt downgrades), (''previous_max_answer_chars'', JInt longest),
          (''first_downgrade_ts'', jopt_real first), (''age_seconds'', JReal (round3 age)),
          (''complete_final'', JBool (gi_complete_final g))]
         @ (case vd_threshold v of None \<Rightarrow> [] | Some n \<Rightarrow> [(''semantic_threshold'', JInt n)])
         @ [(''decision_reason'', JStr (vd_reason v))]
         @ (if vd_blocked v then [(''research_contract_blocked'', JBool True)] else [])
         @ (if vd_terminal v then [(''terminal_action'', JStr ''needs_followup'')] else []))"

section \<open>What the worker does with the verdict\<close>

datatype guard_action = CompleteShort | Escalate | Downgrade string

definition under_min_chars_action :: "verdict \<Rightarrow> guard_action" where
  "under_min_chars_action v =
     (if vd_complete v then CompleteShort
      else if vd_terminal v then Escalate
      else Downgrade (if vd_blocked v then ''research_completion_not_final'' else too_short))"

text \<open>
  One poll that found an answer below the length asked for: the answer, and the diagnostic
  fields the event gets beside the fixed ones (keys of their own).
\<close>

record guard_poll =
  gp_ts :: real
  gp_input :: guard_input
  gp_answer :: string
  gp_extra :: "(string \<times> json) list"

definition downgrade_payload :: "string \<Rightarrow> guard_poll \<Rightarrow> json" where
  "downgrade_payload reason p =
     JObj ([(''reason'', JStr reason),
            (''answer_chars'', JInt (int (length (gp_answer p)))),
            (''min_chars_required'',
              if 0 < gi_min_chars (gp_input p) then JInt (gi_min_chars (gp_input p)) else JNull),
            (''deep_research'', JBool (gi_deep_research (gp_input p))),
            (''answer_preview'', JStr (take 200 (gp_answer p)))] @ gp_extra p)"

definition poll_short_answer :: "runtime \<Rightarrow> string \<Rightarrow> guard_poll \<Rightarrow> world \<Rightarrow> guard_action \<times> world" where
  "poll_short_answer rt jid p w =
     (let v = min_chars_guard rt jid (gp_input p) w;
          details = guard_details rt jid (gp_input p) w;
          a = under_min_chars_action v
      in (a, case a of
               CompleteShort \<Rightarrow>
                 record_event (gp_ts p) jid ''completion_guard_completed_under_min_chars''
                   (JObj ([(''reason'', JStr too_short), (''action'', JStr ''completed_under_min_chars'')]
                     @ details)) w
             | Escalate \<Rightarrow>
                 record_event (gp_ts p) jid ''completion_guard_research_contract_blocked''
                   (JObj ([(''reason'', JStr too_short), (''action'', JStr ''research_completion_not_final'')]
                     @ details)) w
             | Downgrade reason \<Rightarrow>
                 record_event (gp_ts p) jid downgraded_event (downgrade_payload reason p) w))"

text \<open>Polls until one settles the answer.\<close>

definition settles :: "guard_action \<Rightarrow> bool" where
  "settles a = (case a of Downgrade _ \<Rightarrow> False | _ \<Rightarrow> True)"

fun poll_until_settled :: "runtime \<Rightarrow> string \<Rightarrow> guard_poll list \<Rightarrow> world \<Rightarrow> guard_action list" where
  "poll_until_settled rt jid [] w = []"
| "poll_until_settled rt jid (p # ps) w =
     (let (a, w1) = poll_short_answer rt jid p w
      in a # (if settles a then [] else poll_until_settled rt jid ps w1))"

section \<open>The guard comes to an end\<close>

lemma history_count: "fst (min_chars_guard_history rt jid w) = int (length (counted_downgrades rt jid w))"
  by (simp add: min_chars_guard_history_def Let_def)

lemma counted_record:
  "counted_downgrades rt jid (record_event ts k e q w) =
     counted_downgrades rt jid w @ filter (counted_downgrade rt)
       (if k = jid \<and> e = downgraded_event
        then [\<lparr>ev_job = k, ev_ts = ts, ev_type = e, ev_payload = Some q\<rparr>] else [])"
  by (simp add: counted_downgrades_def job_events_def store_simps)

lemma downgrade_counts:
  "counted_downgrade rt \<lparr>ev_job = k, ev_ts = ts, ev_type = e, ev_payload = Some (downgrade_payload r p)\<rparr> = (r = too_short)"
  by (simp add: counted_downgrade_def downgrade_payload_def is_obj_def str_or_def too_short_def)

lemma verdict_of_sel [simp]:
  "vd_complete (verdict_of c r th b tm) = c" "vd_terminal (verdict_of c r th b tm) = tm"
  "vd_blocked (verdict_of c r th b tm) = b"
  by (simp_all add: verdict_of_def)

text \<open>A cap settles the answer one way or the other.\<close>

lemma cap_settles:
  assumes "min_chars_guard_history rt jid w = (n, first, longest)" "cap_reached n first (gi_now g)"
  shows "settles (under_min_chars_action (min_chars_guard rt jid g w))"
  using assms by (simp add: min_chars_guard_def under_min_chars_action_def settles_def Let_def)

lemma not_research_plain:
  "\<not> gi_research g \<Longrightarrow> \<not> vd_blocked (min_chars_guard rt jid g w)"
  by (simp add: min_chars_guard_def Let_def split: prod.splits)

lemma poll_counts:
  assumes "poll_short_answer rt jid p w = (a, w1)" "\<not> settles a" "\<not> gi_research (gp_input p)"
  shows "length (counted_downgrades rt jid w1) = Suc (length (counted_downgrades rt jid w))"
    and "length (counted_downgrades rt jid w) < 10"
proof -
  let ?v = "min_chars_guard rt jid (gp_input p) w"
  have a: "a = under_min_chars_action ?v" using assms(1) by (simp add: poll_short_answer_def Let_def)
  then have "a = Downgrade too_short"
    using assms(2) not_research_plain [OF assms(3), of rt jid w]
    by (auto simp: under_min_chars_action_def settles_def split: if_splits)
  then show "length (counted_downgrades rt jid w1) = Suc (length (counted_downgrades rt jid w))"
    using assms(1) a by (auto simp: poll_short_answer_def Let_def counted_record downgrade_counts)
  obtain n first longest where h: "min_chars_guard_history rt jid w = (n, first, longest)"
    using prod_cases3 by blast
  have "\<not> cap_reached n first (gi_now (gp_input p))"
    using cap_settles [OF h, of "gp_input p"] a assms(2) by auto
  then show "length (counted_downgrades rt jid w) < 10"
    using history_count [of rt jid w] h by (simp add: cap_reached_def)
qed

lemma downgrades_bounded:
  "(\<And>p. p \<in> set ps \<Longrightarrow> \<not> gi_research (gp_input p)) \<Longrightarrow>
     length (filter (\<lambda>a. \<not> settles a) (poll_until_settled rt jid ps w))
       \<le> 10 - length (counted_downgrades rt jid w)"
proof (induction ps arbitrary: w)
  case (Cons p ps)
  obtain a w1 where p: "poll_short_answer rt jid p w = (a, w1)" by fastforce
  show ?case
  proof (cases "settles a")
    case True
    with p show ?thesis by simp
  next
    case False
    note counts = poll_counts [OF p False]
    have "length (filter (\<lambda>a. \<not> settles a) (poll_until_settled rt jid ps w1))
        \<le> 10 - length (counted_downgrades rt jid w1)"
      using Cons by simp
    with p False counts Cons.prems [of p] show ?thesis by simp
  qed
qed simp

text \<open>
  A research answer that stalls is downgraded for a reason the history does not count, so its
  count of downgrades stays where it is and only the age cap ends the polling.
\<close>

lemma research_stall_not_counted:
  assumes "vd_blocked (min_chars_guard rt jid (gp_input p) w)" "\<not> vd_terminal (min_chars_guard rt jid (gp_input p) w)"
    and "poll_short_answer rt jid p w = (a, w1)" and "\<not> vd_complete (min_chars_guard rt jid (gp_input p) w)"
  shows "min_chars_guard_history rt jid w1 = min_chars_guard_history rt jid w"
proof -
  have "counted_downgrades rt jid w1 = counted_downgrades rt jid w"
    using assms by (auto simp: poll_short_answer_def Let_def under_min_chars_action_def counted_record
        downgrade_counts too_short_def)
  then show ?thesis by (simp add: min_chars_guard_history_def)
qed

section \<open>Properties\<close>

text \<open>C22. A short answer of an ordinary job is not polled for ever: however the polls go, at
  most ten of them are downgraded before one takes the answer, as long as the events are written. For any job, research jobs
  included, no poll is downgraded once half an hour has passed since the first counted one.\<close>

theorem short_answers_are_settled:
  assumes "\<And>p. p \<in> set ps \<Longrightarrow> \<not> gi_research (gp_input p)"
    and "min_chars_guard_history rt jid w' = (n, Some ts, longest)" and "ts + 1800 \<le> gi_now (gp_input q)"
  shows "length (filter (\<lambda>a. \<not> settles a) (poll_until_settled rt jid ps w)) \<le> 10
    \<and> settles (fst (poll_short_answer rt jid q w'))"
proof
  show "length (filter (\<lambda>a. \<not> settles a) (poll_until_settled rt jid ps w)) \<le> 10"
    using downgrades_bounded [of ps rt jid w] assms(1) by fastforce
  show "settles (fst (poll_short_answer rt jid q w'))"
    using cap_settles [OF assms(2), of "gp_input q"] assms(3)
    by (simp add: poll_short_answer_def Let_def cap_reached_def)
qed

text \<open>A poll at a given time that found ten characters where five hundred were asked for.\<close>

definition poll0 :: "real \<Rightarrow> guard_poll" where
  "poll0 now =
     \<lparr>gp_ts = now,
      gp_input = \<lparr>gi_now = now, gi_answer_chars = 10, gi_min_chars = 500, gi_deep_research = False,
        gi_thinking = True, gi_semantically_final = False, gi_complete_final = False, gi_trivial = False,
        gi_research = False\<rparr>,
      gp_answer = ''0123456789'', gp_extra = []\<rparr>"

theorem short_answers_are_settled_witness:
  "\<forall>rt. length (filter (\<lambda>a. \<not> settles a) (poll_until_settled rt ''j'' (map (\<lambda>k. poll0 (real k)) [0..<40]) empty_world)) \<le> 10
    \<and> settles (fst (poll_short_answer rt ''j'' (poll0 2000)
        (record_event 5 ''j'' downgraded_event (downgrade_payload too_short (poll0 5)) empty_world)))"
proof
  fix rt
  let ?w = "record_event 5 ''j'' downgraded_event (downgrade_payload too_short (poll0 5)) empty_world"
  have none: "counted_downgrades rt ''j'' empty_world = []"
    by (simp add: counted_downgrades_def job_events_def empty_world_def)
  obtain longest where h: "min_chars_guard_history rt ''j'' ?w = (1, Some 5, longest)"
    by (simp add: min_chars_guard_history_def counted_record downgrade_counts none)
  show "length (filter (\<lambda>a. \<not> settles a) (poll_until_settled rt ''j'' (map (\<lambda>k. poll0 (real k)) [0..<40]) empty_world)) \<le> 10
    \<and> settles (fst (poll_short_answer rt ''j'' (poll0 2000) ?w))"
    by (rule short_answers_are_settled [OF _ h]) (auto simp: poll0_def)
qed

end
