(* ===== verification/TaskMachine.thy ===== *)
theory TaskMachine
  imports Table StateMachine
begin

text \<open>
  The lifecycle of a task and its execution lock, \<open>task_runtime/task_state_machine.py\<close>, on
  the rows of \<open>task_state\<close> and \<open>task_external_signals\<close>. The module
  \<open>task_store.py\<close> it imports is not in the repository: the text of a status
  (\<open>val\<close>) and \<open>update_task_status\<close> (\<open>upd\<close>: the text of the exception it raises, if any, and
  the rows it leaves) are parameters, and so is
  the number of changes a connection counted before (\<open>base\<close>, for
  \<open>conn.total_changes\<close>).
\<close>

section \<open>Statuses\<close>

datatype task_status =
    T_CREATED | T_INITIALIZED | T_FROZEN | T_PLANNED | T_EXECUTING | T_AWAITING_EVALUATION
  | T_AWAITING_OPERATOR | T_PROMOTED | T_PUBLISHED | T_DISTILLED | T_COMPLETED | T_FAILED | T_CANCELED

fun task_moves :: "task_status \<Rightarrow> task_status list" where
  "task_moves T_CREATED = [T_INITIALIZED, T_FAILED, T_CANCELED]"
| "task_moves T_INITIALIZED = [T_FROZEN, T_FAILED, T_CANCELED]"
| "task_moves T_FROZEN = [T_PLANNED, T_FAILED, T_CANCELED]"
| "task_moves T_PLANNED = [T_EXECUTING, T_FAILED, T_CANCELED]"
| "task_moves T_EXECUTING = [T_AWAITING_EVALUATION, T_AWAITING_OPERATOR, T_FAILED, T_CANCELED]"
| "task_moves T_AWAITING_EVALUATION = [T_EXECUTING, T_AWAITING_OPERATOR, T_PROMOTED, T_FAILED, T_CANCELED]"
| "task_moves T_AWAITING_OPERATOR = [T_EXECUTING, T_PROMOTED, T_FAILED, T_CANCELED]"
| "task_moves T_PROMOTED = [T_PUBLISHED, T_FAILED]"
| "task_moves T_PUBLISHED = [T_DISTILLED, T_FAILED]"
| "task_moves T_DISTILLED = [T_COMPLETED]"
| "task_moves T_COMPLETED = []"
| "task_moves T_FAILED = []"
| "task_moves T_CANCELED = []"

definition task_can_transition :: "task_status \<Rightarrow> task_status \<Rightarrow> bool" where
  "task_can_transition s t \<longleftrightarrow> t \<in> set (task_moves s)"

definition task_is_terminal :: "task_status \<Rightarrow> bool" where
  "task_is_terminal s \<longleftrightarrow> s \<in> {T_COMPLETED, T_FAILED, T_CANCELED}"

interpretation task_life: lifecycle task_can_transition task_is_terminal
  by unfold_locales (auto simp: task_can_transition_def task_is_terminal_def)

text \<open>A terminal status is exactly one without moves, and every status that is not terminal
  has a way to one.\<close>

lemma terminal_iff_stuck: "task_is_terminal s \<longleftrightarrow> task_moves s = []"
  by (cases s) (simp_all add: task_is_terminal_def)

lemma way_to_the_end: "\<exists>t. task_can_transition\<^sup>*\<^sup>* s t \<and> task_is_terminal t"
proof -
  have "task_is_terminal s \<or> (\<exists>t. task_can_transition s t \<and> task_is_terminal t)"
    by (cases s) (auto simp: task_can_transition_def task_is_terminal_def)
  then show ?thesis by blast
qed

section \<open>Rows\<close>

record task_row =
  ts_id :: string
  ts_status :: task_status
  ts_version :: int
  ts_phase :: "string option"
  ts_data :: "json option"
  ts_checkpoint :: "real option"
  ts_blocked :: "string option"
  ts_signal :: "string option"
  ts_epoch :: int
  ts_lock :: "string option"

record signal_row =
  sg_id :: string
  sg_task :: string
  sg_type :: string
  sg_payload :: json
  sg_received :: real
  sg_processed :: "real option"

record task_db =
  task_rows :: "task_row list"
  signal_rows :: "signal_row list"

datatype task_stmt =
    Checkpoint string json real
  | Suspend string "string option" real
  | Resume
  | Lock string
  | Unlock
  | Force_unlock string

definition run_task_stmt :: "task_stmt \<Rightarrow> task_row \<Rightarrow> task_row" where
  "run_task_stmt s r =
     (case s of
        Checkpoint ph d now \<Rightarrow>
          r\<lparr>ts_phase := Some ph, ts_data := Some d, ts_checkpoint := Some now, ts_version := ts_version r + 1\<rparr>
      | Suspend reason signal now \<Rightarrow>
          r\<lparr>ts_blocked := Some reason, ts_signal := signal, ts_checkpoint := Some now\<rparr>
      | Resume \<Rightarrow> r\<lparr>ts_blocked := None, ts_signal := None, ts_epoch := ts_epoch r + 1\<rparr>
      | Lock owner \<Rightarrow> r\<lparr>ts_lock := Some owner\<rparr>
      | Unlock \<Rightarrow> r\<lparr>ts_lock := None\<rparr>
      | Force_unlock reason \<Rightarrow>
          r\<lparr>ts_lock := None, ts_blocked := Some (''Force unlocked: '' @ reason), ts_epoch := ts_epoch r + 1\<rparr>)"

lemma run_task_stmt_id [simp]: "ts_id (run_task_stmt s r) = ts_id r"
  by (simp add: run_task_stmt_def split: task_stmt.splits)

interpretation task_table: row_store ts_id run_task_stmt
  by unfold_locales simp

definition find_task :: "string \<Rightarrow> task_db \<Rightarrow> task_row option" where
  "find_task i db = row_get ts_id i (task_rows db)"

definition update_tasks :: "(task_row \<Rightarrow> bool) \<Rightarrow> task_stmt \<Rightarrow> task_db \<Rightarrow> task_db" where
  "update_tasks c s db = db\<lparr>task_rows := row_update c (run_task_stmt s) (task_rows db)\<rparr>"

section \<open>Operations\<close>

record transition_result =
  tr_success :: bool
  tr_error :: "string option"
  tr_version :: "int option"

definition refused :: "string \<Rightarrow> transition_result" where
  "refused e = \<lparr>tr_success = False, tr_error = Some e, tr_version = None\<rparr>"

text \<open>\<open>lost\<close> is the text of the exception when the row is gone after the update.\<close>

definition task_transition ::
    "(task_status \<Rightarrow> string) \<Rightarrow> (string \<Rightarrow> task_status \<Rightarrow> task_db \<Rightarrow> string option \<times> task_db) \<Rightarrow> string \<Rightarrow>
      string \<Rightarrow> task_status \<Rightarrow> int option \<Rightarrow> task_db \<Rightarrow> transition_result \<times> task_db" where
  "task_transition val upd lost i dst expected db =
     (case find_task i db of
        None \<Rightarrow> (refused (''Task not found: '' @ i), db)
      | Some r \<Rightarrow>
          if expected \<noteq> None \<and> expected \<noteq> Some (ts_version r)
          then (refused (''Version mismatch: expected '' @ int_text (the expected) @ '', got '' @ int_text (ts_version r)), db)
          else if \<not> task_can_transition (ts_status r) dst
          then (refused (''Invalid transition: '' @ val (ts_status r) @ '' -> '' @ val dst), db)
          else (case upd i dst db of
                  (Some e, db1) \<Rightarrow> (refused e, db1)
                | (None, db1) \<Rightarrow>
                    (case find_task i db1 of
                       None \<Rightarrow> (refused lost, db1)
                     | Some r1 \<Rightarrow>
                         (\<lparr>tr_success = True, tr_error = None, tr_version = Some (ts_version r1)\<rparr>, db1))))"

definition checkpoint :: "string \<Rightarrow> string \<Rightarrow> json \<Rightarrow> real \<Rightarrow> task_db \<Rightarrow> bool \<times> task_db" where
  "checkpoint i ph d now db = (True, update_tasks (\<lambda>r. ts_id r = i) (Checkpoint ph d now) db)"

definition suspend :: "string \<Rightarrow> string \<Rightarrow> string option \<Rightarrow> real \<Rightarrow> task_db \<Rightarrow> bool \<times> task_db" where
  "suspend i reason signal now db = (True, update_tasks (\<lambda>r. ts_id r = i) (Suspend reason signal now) db)"

definition resume :: "string \<Rightarrow> task_db \<Rightarrow> bool \<times> task_db" where
  "resume i db = (True, update_tasks (\<lambda>r. ts_id r = i) Resume db)"

definition acquire_lock :: "nat \<Rightarrow> string \<Rightarrow> string \<Rightarrow> task_db \<Rightarrow> bool \<times> task_db" where
  "acquire_lock base i owner db =
     (case find_task i db of
        Some r \<Rightarrow>
          if or_empty (ts_lock r) \<noteq> '''' then (False, db)
          else (let c = (\<lambda>r. ts_id r = i \<and> ts_lock r = None)
                in if base + row_count c (task_rows db) = 0 then (False, update_tasks c (Lock owner) db)
                   else (True, update_tasks c (Lock owner) db))
      | None \<Rightarrow> (0 < base, db))"

definition release_lock :: "nat \<Rightarrow> string \<Rightarrow> string \<Rightarrow> task_db \<Rightarrow> bool \<times> task_db" where
  "release_lock base i owner db =
     (let c = (\<lambda>r. ts_id r = i \<and> ts_lock r = Some owner)
      in (0 < base + row_count c (task_rows db), update_tasks c Unlock db))"

definition force_unlock_task :: "nat \<Rightarrow> string \<Rightarrow> string \<Rightarrow> task_db \<Rightarrow> bool \<times> task_db" where
  "force_unlock_task base i reason db =
     (let c = (\<lambda>r. ts_id r = i)
      in (0 < base + row_count c (task_rows db), update_tasks c (Force_unlock reason) db))"

definition get_stuck_tasks :: "real \<Rightarrow> real \<Rightarrow> task_db \<Rightarrow> string list" where
  "get_stuck_tasks now timeout db =
     map ts_id (filter (\<lambda>r. ts_status r \<in> {T_EXECUTING, T_AWAITING_EVALUATION, T_AWAITING_OPERATOR}
       \<and> (case ts_checkpoint r of None \<Rightarrow> False | Some c \<Rightarrow> c < now - timeout)) (task_rows db))"

definition inject_signal :: "string \<Rightarrow> string \<Rightarrow> string \<Rightarrow> json \<Rightarrow> real \<Rightarrow> task_db \<Rightarrow> string \<times> task_db" where
  "inject_signal uuid i ty payload now db =
     (uuid, db\<lparr>signal_rows := signal_rows db @
        [\<lparr>sg_id = uuid, sg_task = i, sg_type = ty, sg_payload = payload, sg_received = now, sg_processed = None\<rparr>]\<rparr>)"

definition get_pending_signals :: "string \<Rightarrow> task_db \<Rightarrow> signal_row list" where
  "get_pending_signals i db =
     sort_key sg_received (filter (\<lambda>s. sg_task s = i \<and> sg_processed s = None) (signal_rows db))"

definition mark_signal_processed :: "nat \<Rightarrow> string \<Rightarrow> real \<Rightarrow> task_db \<Rightarrow> bool \<times> task_db" where
  "mark_signal_processed base sid now db =
     (let c = (\<lambda>s. sg_id s = sid)
      in (0 < base + row_count c (signal_rows db),
          db\<lparr>signal_rows := row_update c (\<lambda>s. s\<lparr>sg_processed := Some now\<rparr>) (signal_rows db)\<rparr>))"

section \<open>The lock\<close>

lemma find_update_tasks:
  "find_task k (update_tasks c s db) = map_option (\<lambda>r. if c r then run_task_stmt s r else r) (find_task k db)"
  by (simp add: find_task_def update_tasks_def task_table.row_get_update)

lemma find_task_id: "find_task i db = Some r \<Longrightarrow> ts_id r = i"
  unfolding find_task_def by (blast dest: row_get_Some)

definition lock_of :: "string \<Rightarrow> task_db \<Rightarrow> string option" where
  "lock_of i db = (case find_task i db of None \<Rightarrow> None | Some r \<Rightarrow> ts_lock r)"

text \<open>The calls that write these tables. What \<open>task_store.py\<close> brings is the environment of a run:
  the count of changes of the connections \<open>task_db_conn\<close> gives, the text of a status,
  \<open>update_task_status\<close>, and the text of the exception of a transition whose row is gone. What
  \<open>inject_signal\<close>, which has no outcome, answers is \<open>True\<close>.\<close>

record task_env =
  te_base :: nat
  te_val :: "task_status \<Rightarrow> string"
  te_upd :: "string \<Rightarrow> task_status \<Rightarrow> task_db \<Rightarrow> string option \<times> task_db"
  te_lost :: string

datatype task_call =
    TTransition string task_status "int option"
  | TCheckpoint string string json real
  | TSuspend string string "string option" real
  | TResume string
  | TAcquire string string
  | TRelease string string
  | TSignal string string string json real
  | TProcessed string real
  | TForce string string

fun task_step :: "task_env \<Rightarrow> task_call \<Rightarrow> task_db \<Rightarrow> bool \<times> task_db" where
  "task_step env (TTransition i dst expected) db =
     (let (res, db1) = task_transition (te_val env) (te_upd env) (te_lost env) i dst expected db
      in (tr_success res, db1))"
| "task_step env (TCheckpoint i ph d now) db = checkpoint i ph d now db"
| "task_step env (TSuspend i reason signal now) db = suspend i reason signal now db"
| "task_step env (TResume i) db = resume i db"
| "task_step env (TAcquire i owner) db = acquire_lock (te_base env) i owner db"
| "task_step env (TRelease i owner) db = release_lock (te_base env) i owner db"
| "task_step env (TSignal uuid i ty payload now) db = (True, snd (inject_signal uuid i ty payload now db))"
| "task_step env (TProcessed sid now) db = mark_signal_processed (te_base env) sid now db"
| "task_step env (TForce i reason) db = force_unlock_task (te_base env) i reason db"

fun task_run :: "task_env \<Rightarrow> task_call list \<Rightarrow> task_db \<Rightarrow> (task_call \<times> bool) list \<times> task_db" where
  "task_run env [] db = ([], db)"
| "task_run env (c # cs) db =
     (let (r, db1) = task_step env c db; (rs, db2) = task_run env cs db1 in ((c, r) # rs, db2))"

text \<open>What an update leaves of a lock.\<close>

fun lock_after :: "task_stmt \<Rightarrow> string option \<Rightarrow> string option" where
  "lock_after (Lock owner) l = Some owner"
| "lock_after Unlock l = None"
| "lock_after (Force_unlock reason) l = None"
| "lock_after s l = l"

lemma run_task_stmt_lock [simp]: "ts_lock (run_task_stmt s r) = lock_after s (ts_lock r)"
  by (cases s) (simp_all add: run_task_stmt_def)

lemma lock_of_update:
  "lock_of i (update_tasks c s db) =
     (case find_task i db of None \<Rightarrow> None | Some r \<Rightarrow> if c r then lock_after s (ts_lock r) else ts_lock r)"
  by (simp add: lock_of_def find_update_tasks split: option.splits)

lemma lock_of_signals [simp]: "lock_of i (db\<lparr>signal_rows := ss\<rparr>) = lock_of i db"
  by (simp add: lock_of_def find_task_def)

text \<open>\<open>update_task_status\<close> writes the status of a task: the tasks there are and their locks it
  leaves alone. This is what a run relies on.\<close>

definition locks_of :: "task_db \<Rightarrow> (string \<times> string option) list" where
  "locks_of db = map (\<lambda>r. (ts_id r, ts_lock r)) (task_rows db)"

definition keeps_locks :: "task_env \<Rightarrow> bool" where
  "keeps_locks env \<longleftrightarrow> (\<forall>i dst db. locks_of (snd (te_upd env i dst db)) = locks_of db)"

lemma lock_of_locks_of: "lock_of i db = Option.bind (map_of (locks_of db) i) id"
proof -
  have "Option.bind (map_of (map (\<lambda>r. (ts_id r, ts_lock r)) rows) i) id =
      (case row_get ts_id i rows of None \<Rightarrow> None | Some r \<Rightarrow> ts_lock r)" for rows
    by (induction rows) (auto simp: row_get_def)
  from this [of "task_rows db"] show ?thesis by (simp add: lock_of_def find_task_def locks_of_def)
qed

lemma keys_locks_of: "keys_distinct ts_id (task_rows db) = distinct (map fst (locks_of db))"
  by (simp add: keys_distinct_def locks_of_def comp_def)

lemma transition_locks:
  assumes "keeps_locks env"
  shows "locks_of (snd (task_transition val (te_upd env) lost i dst expected db)) = locks_of db"
proof -
  have "te_upd env i dst db = (e, db1) \<Longrightarrow> locks_of db1 = locks_of db" for e db1
    using assms unfolding keeps_locks_def by (metis snd_conv)
  then show ?thesis by (auto simp: task_transition_def split: option.splits prod.splits)
qed

lemma lock_step:
  assumes env: "keeps_locks env" and "lock_of i db = Some owner" "owner \<noteq> ''''"
    and "c \<noteq> TRelease i owner" "\<forall>reason. c \<noteq> TForce i reason" "task_step env c db = (ok, db')"
  shows "lock_of i db' = Some owner \<and> (\<forall>o2. c = TAcquire i o2 \<longrightarrow> \<not> ok)"
proof -
  obtain r where r: "find_task i db = Some r" "ts_lock r = Some owner"
    using assms(2) by (auto simp: lock_of_def split: option.splits)
  have id: "ts_id r = i" using r(1) by (rule find_task_id)
  show ?thesis
  proof (cases c)
    case (TTransition k dst expected)
    then have "locks_of db' = locks_of db"
      using assms(6) transition_locks [OF env, of "te_val env" "te_lost env" k dst expected db]
      by (auto simp: split_def Let_def)
    then show ?thesis using assms(2) TTransition by (simp add: lock_of_locks_of)
  next
    case (TAcquire k o2)
    then show ?thesis
      using r id assms(2-)
      by (cases "k = i")
        (auto simp: acquire_lock_def lock_of_update Let_def split: option.splits if_splits)
  next
    case (TRelease k o2)
    then show ?thesis using r id assms(2-) by (auto simp: release_lock_def lock_of_update Let_def)
  next
    case (TForce k reason)
    then show ?thesis using r id assms(2-) by (auto simp: force_unlock_task_def lock_of_update Let_def)
  qed (use r id assms(2-) in \<open>auto simp: checkpoint_def suspend_def resume_def inject_signal_def
         mark_signal_processed_def lock_of_update Let_def\<close>)
qed

lemma keys_update_tasks [simp]:
  "keys_distinct ts_id (task_rows (update_tasks c s db)) = keys_distinct ts_id (task_rows db)"
  by (simp add: update_tasks_def)

lemma keys_task_step:
  assumes env: "keeps_locks env" and "keys_distinct ts_id (task_rows db)"
  shows "keys_distinct ts_id (task_rows (snd (task_step env c db)))"
proof (cases c)
  case (TTransition i dst expected)
  then show ?thesis
    using assms(2) transition_locks [OF env] by (simp add: keys_locks_of split_def Let_def)
qed (use assms(2) in \<open>auto simp: checkpoint_def suspend_def resume_def acquire_lock_def release_lock_def
      force_unlock_task_def inject_signal_def mark_signal_processed_def Let_def split: option.splits\<close>)

lemma acquired_lock:
  assumes "keys_distinct ts_id (task_rows db)" "acquire_lock 0 i owner db = (True, db')"
  shows "lock_of i db' = Some owner"
proof (cases "find_task i db")
  case None
  then show ?thesis using assms by (simp add: acquire_lock_def)
next
  case (Some r)
  let ?c = "\<lambda>r. ts_id r = i \<and> ts_lock r = None"
  have 1: "row_count ?c (task_rows db) \<noteq> 0" and 2: "db' = update_tasks ?c (Lock owner) db"
    using assms Some by (auto simp: acquire_lock_def Let_def split: if_splits)
  have "ts_lock r = None"
    using 1 Some unfolding row_count_key_0 [OF assms(1)] find_task_def by simp
  then show ?thesis using 2 Some by (simp add: lock_of_update find_task_id)
qed

lemma task_run_Cons:
  "task_run env (c # cs) db = (out, db') \<longleftrightarrow>
     (\<exists>ok db1 out1. task_step env c db = (ok, db1) \<and> task_run env cs db1 = (out1, db') \<and> out = (c, ok) # out1)"
  by (auto split: prod.splits)

definition lets_go :: "string \<Rightarrow> string \<Rightarrow> task_call \<Rightarrow> bool" where
  "lets_go i owner c \<longleftrightarrow> c = TRelease i owner \<or> (\<exists>reason. c = TForce i reason)"

text \<open>While a lock is held, nobody else gets it before it is let go.\<close>

lemma held_run:
  assumes env: "keeps_locks env"
    and "task_run env cs db = (out, db')" "lock_of i db = Some owner" "owner \<noteq> ''''"
    and "m < length out" "out ! m = (TAcquire i o2, True)"
  shows "\<exists>j < m. lets_go i owner (fst (out ! j))"
  using assms(2-)
proof (induction cs arbitrary: db out m)
  case (Cons c cs)
  obtain ok db1 out1 where s: "task_step env c db = (ok, db1)" "task_run env cs db1 = (out1, db')" "out = (c, ok) # out1"
    using Cons.prems(1) unfolding task_run_Cons by blast
  show ?case
  proof (cases "lets_go i owner c")
    case True
    moreover have "0 < m" using True Cons.prems s by (cases m) (auto simp: lets_go_def)
    ultimately show ?thesis using s(3) by (intro exI [of _ 0]) simp
  next
    case False
    then have l: "lock_of i db1 = Some owner" "\<forall>o2. c = TAcquire i o2 \<longrightarrow> \<not> ok"
      using lock_step [OF env Cons.prems(2,3) _ _ s(1)] by (auto simp: lets_go_def)
    then obtain k where k: "m = Suc k" using Cons.prems s by (cases m) auto
    then obtain j where "j < k" "lets_go i owner (fst (out1 ! j))"
      using Cons.IH [OF s(2) l(1) Cons.prems(3), of k] Cons.prems s(3) by auto
    then show ?thesis using k s(3) by (intro exI [of _ "Suc j"]) simp
  qed
qed simp


text \<open>Two workers: the second gets the lock once the first has released it, not before, and not
  by a transition.\<close>

definition task0 :: task_row where
  "task0 = \<lparr>ts_id = ''t'', ts_status = T_EXECUTING, ts_version = 1, ts_phase = None, ts_data = None,
     ts_checkpoint = None, ts_blocked = None, ts_signal = None, ts_epoch = 0, ts_lock = None\<rparr>"

definition task_db0 :: task_db where "task_db0 = \<lparr>task_rows = [task0], signal_rows = []\<rparr>"

definition task_env0 :: task_env where
  "task_env0 =
     \<lparr>te_base = 0, te_val = (\<lambda>st. ''status''),
      te_upd = (\<lambda>i dst db. (None, db\<lparr>task_rows := row_update (\<lambda>r. ts_id r = i)
        (\<lambda>r. r\<lparr>ts_status := dst, ts_version := ts_version r + 1\<rparr>) (task_rows db)\<rparr>)),
      te_lost = ''gone''\<rparr>"

definition lock_calls0 :: "task_call list" where
  "lock_calls0 = [TAcquire ''t'' ''a'', TTransition ''t'' T_AWAITING_OPERATOR (Some 1), TAcquire ''t'' ''b'',
     TRelease ''t'' ''b'', TRelease ''t'' ''a'', TAcquire ''t'' ''b'']"

lemmas task_ops =
  acquire_lock_def release_lock_def find_task_def update_tasks_def run_task_stmt_def Let_def row_count_def
  row_update_def

lemma env0_keeps: "keeps_locks task_env0"
  by (simp add: keeps_locks_def task_env0_def locks_of_def row_update_def comp_def if_distrib cong: if_cong)

lemma lock_run0:
  "map snd (fst (task_run task_env0 lock_calls0 task_db0)) = [True, True, False, False, True, True]"
  "map fst (fst (task_run task_env0 lock_calls0 task_db0)) = lock_calls0"
  by (simp_all add: lock_calls0_def task_db0_def task0_def task_env0_def task_transition_def
      task_can_transition_def task_ops)


end
