(* ===== verification/Issues.thy ===== *)
theory Issues
  imports Results "HOL-Library.List_Lexorder" "HOL-Library.Char_ord" "HOL-Library.Product_Lexorder"
begin

text \<open>
  The ledger of client issues, \<open>core/client_issues.py\<close>: the tables \<open>client_issues\<close>,
  \<open>client_issue_events\<close>, \<open>client_issue_verifications\<close> and \<open>client_issue_usage_evidence\<close> of
  \<open>core/db.py\<close>, and the operations on them. They read the jobs and their events (\<open>world\<close>). JSON
  columns are held parsed; \<open>now\<close> is the time of the call, given or read; fresh identifiers
  are arguments. The note that \<open>update_issue_status\<close> leaves in the knowledge base, a database of
  its own whose failures are swallowed, is left out.
\<close>

section \<open>Normal forms\<close>

definition normalize_ws :: "string \<Rightarrow> string" where
  "normalize_ws s = ws_runs False (strip s)"

definition fingerprint_norm :: "nat \<Rightarrow> string \<Rightarrow> string" where
  "fingerprint_norm n s = take n (lower (normalize_ws s))"

datatype issue_status = ISSUE_OPEN | ISSUE_IN_PROGRESS | ISSUE_MITIGATED | ISSUE_CLOSED

definition issue_status_value :: "issue_status \<Rightarrow> string" where
  "issue_status_value s =
     (case s of ISSUE_OPEN \<Rightarrow> ''open'' | ISSUE_IN_PROGRESS \<Rightarrow> ''in_progress''
      | ISSUE_MITIGATED \<Rightarrow> ''mitigated'' | ISSUE_CLOSED \<Rightarrow> ''closed'')"

definition issue_statuses :: "issue_status list" where
  "issue_statuses = [ISSUE_OPEN, ISSUE_IN_PROGRESS, ISSUE_MITIGATED, ISSUE_CLOSED]"

definition issue_status_of :: "string \<Rightarrow> issue_status option" where
  "issue_status_of s = find (\<lambda>st. issue_status_value st = s) issue_statuses"

definition invalid_text :: "runtime \<Rightarrow> string \<Rightarrow> string option \<Rightarrow> string" where
  "invalid_text rt head v = head @ rt_repr rt (jopt v)"

definition normalize_issue_status :: "runtime \<Rightarrow> string option \<Rightarrow> exn + issue_status" where
  "normalize_issue_status rt v =
     (case issue_status_of (lower (normalize_ws (or_empty v))) of
        None \<Rightarrow> Inl (ValueError (invalid_text rt ''invalid issue status: '' v))
      | Some s \<Rightarrow> Inr s)"

definition upper_char :: "char \<Rightarrow> char" where
  "upper_char c = (if CHR ''a'' \<le> c \<and> c \<le> CHR ''z'' then char_of (of_char c - 32 :: nat) else c)"

definition normalize_severity :: "runtime \<Rightarrow> string option \<Rightarrow> exn + string" where
  "normalize_severity rt v =
     (let raw = map upper_char (normalize_ws (or_empty v))
      in if raw = '''' then Inr ''P2''
         else if raw \<in> {''P0'', ''P1'', ''P2'', ''P3''} then Inr raw
         else Inl (ValueError (invalid_text rt ''invalid severity: '' v @ ''; expected one of P0/P1/P2/P3'')))"

definition normalize_required :: "nat \<Rightarrow> string \<Rightarrow> string \<Rightarrow> exn + string" where
  "normalize_required n missing v =
     (let s = normalize_ws v in if s = '''' then Inl (ValueError missing) else Inr (take n s))"

definition optional_text :: "nat \<Rightarrow> string option \<Rightarrow> string option" where
  "optional_text n v = (let s = normalize_ws (or_empty v) in if s = '''' then None else Some (take n s))"

definition optional_json :: "runtime \<Rightarrow> nat \<Rightarrow> json \<Rightarrow> string option" where
  "optional_json rt n v = optional_text n (Some (str_or (rt_repr rt) v ''''))"

text \<open>The first of each text, in order.\<close>

fun keep_first :: "string list \<Rightarrow> string list \<Rightarrow> string list" where
  "keep_first seen [] = []"
| "keep_first seen (x # xs) =
     (if x = '''' \<or> x \<in> set seen then keep_first seen xs else x # keep_first (x # seen) xs)"

definition normalize_tags :: "string list \<Rightarrow> string list" where
  "normalize_tags tags = keep_first [] (map (\<lambda>t. take 64 (lower (normalize_ws t))) tags)"

definition read_tags :: "string list \<Rightarrow> string list" where
  "read_tags tags = keep_first [] (map (\<lambda>t. lower (normalize_ws t)) tags)"

section \<open>Fingerprints\<close>

definition issue_fingerprint_text ::
    "runtime \<Rightarrow> string \<Rightarrow> string \<Rightarrow> string option \<Rightarrow> string option \<Rightarrow> string option \<Rightarrow> string option \<Rightarrow>
      string option \<Rightarrow> string" where
  "issue_fingerprint_text rt project title kind symptom raw_error source explicit =
     (case optional_text 2000 explicit of
        Some x \<Rightarrow> ''manual:'' @ fingerprint_norm 2000 x
      | None \<Rightarrow>
          rt_dumps rt (JObj
            [(''project'', JStr (fingerprint_norm 200 project)), (''title'', JStr (fingerprint_norm 400 title)),
             (''kind'', JStr (fingerprint_norm 200 (or_empty kind))),
             (''symptom'', JStr (fingerprint_norm 1000 (or_empty symptom))),
             (''raw_error'', JStr (fingerprint_norm 1000 (or_empty raw_error))),
             (''source'', JStr (fingerprint_norm 120 (or_empty source)))]))"

section \<open>Rows\<close>

record issue =
  is_id :: string
  is_hash :: string
  is_ftext :: string
  is_project :: string
  is_title :: string
  is_kind :: "string option"
  is_severity :: string
  is_status :: issue_status
  is_source :: "string option"
  is_symptom :: "string option"
  is_raw_error :: "string option"
  is_tags :: "string list"
  is_metadata :: "(string \<times> json) list"
  is_count :: int
  is_job :: "string option"
  is_url :: "string option"
  is_path :: "string option"
  is_created_at :: real
  is_updated_at :: real
  is_first_seen_at :: real
  is_last_seen_at :: real
  is_closed_at :: "real option"

record issue_event =
  ie_issue :: string
  ie_ts :: real
  ie_type :: string
  ie_payload :: json

record issue_verification =
  vf_id :: string
  vf_issue :: string
  vf_ts :: real
  vf_type :: string
  vf_status :: string
  vf_verifier :: "string option"
  vf_note :: "string option"
  vf_job :: "string option"
  vf_url :: "string option"
  vf_path :: "string option"
  vf_metadata :: "(string \<times> json) list"

record issue_usage =
  us_id :: string
  us_issue :: string
  us_ts :: real
  us_job :: string
  us_client :: "string option"
  us_kind :: "string option"
  us_status :: string
  us_chars :: "int option"
  us_metadata :: "(string \<times> json) list"

record issue_db =
  issues :: "issue list"
  issue_events :: "issue_event list"
  verifications :: "issue_verification list"
  usages :: "issue_usage list"

definition empty_issues :: issue_db where
  "empty_issues = \<lparr>issues = [], issue_events = [], verifications = [], usages = []\<rparr>"

text \<open>What a row reads back as: the texts are put into normal form again.\<close>

definition row_to_issue :: "issue \<Rightarrow> issue" where
  "row_to_issue r =
     r\<lparr>is_kind := optional_text 200 (is_kind r), is_source := optional_text 120 (is_source r),
       is_symptom := optional_text 4000 (is_symptom r), is_raw_error := optional_text 8000 (is_raw_error r),
       is_tags := read_tags (is_tags r), is_job := optional_text 128 (is_job r),
       is_url := optional_text 2000 (is_url r), is_path := optional_text 2000 (is_path r)\<rparr>"

definition row_to_verification :: "issue_verification \<Rightarrow> issue_verification" where
  "row_to_verification r =
     r\<lparr>vf_verifier := optional_text 200 (vf_verifier r), vf_note := optional_text 2000 (vf_note r),
       vf_job := optional_text 128 (vf_job r), vf_url := optional_text 2000 (vf_url r),
       vf_path := optional_text 2000 (vf_path r)\<rparr>"

definition row_to_usage :: "issue_usage \<Rightarrow> issue_usage" where
  "row_to_usage r =
     r\<lparr>us_client := optional_text 200 (us_client r), us_kind := optional_text 200 (us_kind r),
       us_status := text_or (us_status r) ''completed''\<rparr>"

text \<open>The assignments of the \<open>UPDATE\<close>s. \<open>COALESCE(?, column)\<close> keeps the column where the value is
  \<open>NULL\<close>.\<close>

definition coalesce :: "'a option \<Rightarrow> 'a option \<Rightarrow> 'a option" where
  "coalesce v column = (case v of None \<Rightarrow> column | Some x \<Rightarrow> Some x)"

record normal_report =
  nr_project :: string
  nr_title :: string
  nr_severity :: string
  nr_kind :: "string option"
  nr_symptom :: "string option"
  nr_raw_error :: "string option"
  nr_job :: "string option"
  nr_url :: "string option"
  nr_path :: "string option"
  nr_source :: "string option"
  nr_tags :: "string list"
  nr_metadata :: "(string \<times> json) list"

datatype issue_stmt =
    Merge normal_report issue_status "string list" "(string \<times> json) list" real
  | Set_status issue_status real "string option"
  | Link real "string option" "string option" "string option" "string option"

definition run_issue_stmt :: "issue_stmt \<Rightarrow> issue \<Rightarrow> issue" where
  "run_issue_stmt s r =
     (case s of
        Merge n st tags md now \<Rightarrow>
          r\<lparr>is_project := nr_project n, is_title := nr_title n, is_kind := coalesce (nr_kind n) (is_kind r),
            is_severity := nr_severity n, is_status := st, is_source := coalesce (nr_source n) (is_source r),
            is_symptom := coalesce (nr_symptom n) (is_symptom r),
            is_raw_error := coalesce (nr_raw_error n) (is_raw_error r), is_tags := tags, is_metadata := md,
            is_updated_at := now, is_last_seen_at := now,
            is_closed_at := (if st = ISSUE_CLOSED then Some now else None), is_count := is_count r + 1,
            is_job := coalesce (nr_job n) (is_job r), is_url := coalesce (nr_url n) (is_url r),
            is_path := coalesce (nr_path n) (is_path r)\<rparr>
      | Set_status st now job \<Rightarrow>
          r\<lparr>is_status := st, is_updated_at := now,
            is_closed_at := (if st = ISSUE_CLOSED then Some now else None), is_job := coalesce job (is_job r)\<rparr>
      | Link now source job url path \<Rightarrow>
          r\<lparr>is_updated_at := now, is_last_seen_at := now, is_source := coalesce source (is_source r),
            is_job := coalesce job (is_job r), is_url := coalesce url (is_url r),
            is_path := coalesce path (is_path r)\<rparr>)"

lemma run_issue_stmt_sel [simp]:
  "is_id (run_issue_stmt s r) = is_id r" "is_hash (run_issue_stmt s r) = is_hash r"
  by (simp_all add: run_issue_stmt_def split: issue_stmt.splits)

interpretation issue_rows: row_store is_id run_issue_stmt
  by unfold_locales simp

definition find_issue :: "string \<Rightarrow> issue_db \<Rightarrow> issue option" where
  "find_issue i db = row_get is_id i (issues db)"

definition get_issue :: "string \<Rightarrow> issue_db \<Rightarrow> issue option" where
  "get_issue i db = map_option row_to_issue (find_issue i db)"

definition update_issue :: "string \<Rightarrow> issue_stmt \<Rightarrow> issue_db \<Rightarrow> issue_db" where
  "update_issue i s db = db\<lparr>issues := row_update (\<lambda>r. is_id r = i) (run_issue_stmt s) (issues db)\<rparr>"

definition insert_issue_event :: "string \<Rightarrow> string \<Rightarrow> json \<Rightarrow> real \<Rightarrow> issue_db \<Rightarrow> issue_db" where
  "insert_issue_event i ty payload now db =
     db\<lparr>issue_events := issue_events db @ [\<lparr>ie_issue = i, ie_ts = now, ie_type = ty, ie_payload = payload\<rparr>]\<rparr>"

text \<open>\<open>ORDER BY updated_at DESC, issue_id DESC\<close>.\<close>

definition issue_order :: "issue \<Rightarrow> real \<times> string" where
  "issue_order r = (is_updated_at r, is_id r)"

definition newest_first :: "issue list \<Rightarrow> issue list" where
  "newest_first rows = rev (sort_key issue_order rows)"

section \<open>Reports\<close>

record issue_report =
  ir_project :: string
  ir_title :: string
  ir_severity :: "string option"
  ir_kind :: "string option"
  ir_symptom :: "string option"
  ir_raw_error :: "string option"
  ir_job :: "string option"
  ir_url :: "string option"
  ir_path :: "string option"
  ir_source :: "string option"
  ir_tags :: "string list"
  ir_metadata :: "(string \<times> json) list"
  ir_fingerprint :: "string option"

text \<open>\<open>_parse_json_payload\<close> on a parsed column: anything but an object is wrapped.\<close>

definition parse_json_payload :: "json option \<Rightarrow> json option" where
  "parse_json_payload p =
     (case p of None \<Rightarrow> None | Some v \<Rightarrow> Some (if is_obj v then v else JObj [(''_raw'', v)]))"

definition attachment_contract_issue_metadata :: "runtime \<Rightarrow> string option \<Rightarrow> world \<Rightarrow> (string \<times> json) list" where
  "attachment_contract_issue_metadata rt jid w =
     (case optional_text 128 jid of
        None \<Rightarrow> []
      | Some j \<Rightarrow>
          (case rev (job_events j ''attachment_contract_missing_detected'' w) of
             [] \<Rightarrow> []
           | e # _ \<Rightarrow>
               (case parse_json_payload (ev_payload e) of
                  None \<Rightarrow> []
                | Some p \<Rightarrow>
                    (case optional_json rt 120 (jget ''family_id'' p) of
                       None \<Rightarrow> [] | Some x \<Rightarrow> [(''family_id'', JStr x)])
                    @ (case optional_json rt 200 (jget ''family_label'' p) of
                         None \<Rightarrow> [] | Some x \<Rightarrow> [(''family_label'', JStr x)])
                    @ (if truthy p then [(''attachment_contract'', p)] else []))))"

definition empty_value :: "json \<Rightarrow> bool" where
  "empty_value v \<longleftrightarrow> v \<in> {JNull, JStr '''', JObj [], JList []}"

text \<open>\<open>d.update(e)\<close>.\<close>

definition dict_update :: "(string \<times> json) list \<Rightarrow> (string \<times> json) list \<Rightarrow> (string \<times> json) list" where
  "dict_update d e = fold (\<lambda>(k, v). alist_set k v) e d"

definition report_metadata :: "runtime \<Rightarrow> issue_report \<Rightarrow> world \<Rightarrow> (string \<times> json) list" where
  "report_metadata rt q w =
     (let m = ir_metadata q
      in if strip (str_or (rt_repr rt) (jget ''family_id'' (JObj m)) '''') \<noteq> '''' then m
         else dict_update m (filter (\<lambda>(k, v). empty_value (jget k (JObj m)))
                               (attachment_contract_issue_metadata rt (ir_job q) w)))"

definition normalize_report :: "runtime \<Rightarrow> issue_report \<Rightarrow> world \<Rightarrow> exn + normal_report" where
  "normalize_report rt q w =
     (case normalize_required 200 ''project is required'' (ir_project q) of
        Inl e \<Rightarrow> Inl e
      | Inr project \<Rightarrow>
          (case normalize_required 400 ''title is required'' (ir_title q) of
             Inl e \<Rightarrow> Inl e
           | Inr title \<Rightarrow>
               (case normalize_severity rt (ir_severity q) of
                  Inl e \<Rightarrow> Inl e
                | Inr severity \<Rightarrow>
                    Inr \<lparr>nr_project = project, nr_title = title, nr_severity = severity,
                      nr_kind = optional_text 200 (ir_kind q), nr_symptom = optional_text 4000 (ir_symptom q),
                      nr_raw_error = optional_text 8000 (ir_raw_error q), nr_job = optional_text 128 (ir_job q),
                      nr_url = optional_text 2000 (ir_url q), nr_path = optional_text 2000 (ir_path q),
                      nr_source = optional_text 120 (ir_source q), nr_tags = normalize_tags (ir_tags q),
                      nr_metadata = report_metadata rt q w\<rparr>)))"

definition report_payload :: "bool \<Rightarrow> bool option \<Rightarrow> normal_report \<Rightarrow> string \<Rightarrow> json" where
  "report_payload created reopened n hash =
     JObj ([(''created'', JBool created)]
       @ (case reopened of None \<Rightarrow> [] | Some b \<Rightarrow> [(''reopened'', JBool b)])
       @ [(''project'', JStr (nr_project n)), (''title'', JStr (nr_title n)), (''severity'', JStr (nr_severity n)),
          (''kind'', jopt (nr_kind n)), (''fingerprint_hash'', JStr hash), (''job_id'', jopt (nr_job n)),
          (''conversation_url'', jopt (nr_url n)), (''artifacts_path'', jopt (nr_path n))])"

definition new_issue :: "string \<Rightarrow> string \<Rightarrow> string \<Rightarrow> normal_report \<Rightarrow> real \<Rightarrow> issue" where
  "new_issue i hash ftext n now =
     \<lparr>is_id = i, is_hash = hash, is_ftext = ftext, is_project = nr_project n, is_title = nr_title n,
      is_kind = nr_kind n, is_severity = nr_severity n, is_status = ISSUE_OPEN, is_source = nr_source n,
      is_symptom = nr_symptom n, is_raw_error = nr_raw_error n, is_tags = nr_tags n,
      is_metadata = nr_metadata n, is_count = 1, is_job = nr_job n, is_url = nr_url n, is_path = nr_path n,
      is_created_at = now, is_updated_at = now, is_first_seen_at = now, is_last_seen_at = now,
      is_closed_at = None\<rparr>"

definition live_issues :: "string \<Rightarrow> issue_db \<Rightarrow> issue list" where
  "live_issues hash db = filter (\<lambda>r. is_hash r = hash \<and> is_status r \<noteq> ISSUE_CLOSED) (issues db)"

text \<open>The answer: the issue, whether it was created, whether it was reopened.\<close>

definition report_issue ::
    "runtime \<Rightarrow> world \<Rightarrow> string \<Rightarrow> real \<Rightarrow> issue_report \<Rightarrow> issue_db \<Rightarrow> (issue \<times> bool \<times> bool, issue_db) outcome" where
  "report_issue rt w uid now q db =
     (case normalize_report rt q w of
        Inl e \<Rightarrow> (Inl e, db)
      | Inr n \<Rightarrow>
          (let ftext = issue_fingerprint_text rt (nr_project n) (nr_title n) (nr_kind n) (nr_symptom n)
                         (nr_raw_error n) (nr_source n) (ir_fingerprint q);
               hash = rt_sha256 rt ftext
           in case newest_first (live_issues hash db) of
                [] \<Rightarrow>
                  (let i = ''iss_'' @ uid
                   in if i \<in> set (map is_id (issues db)) then (Inl IntegrityError, db)
                      else let db1 = insert_issue_event i ''issue_reported'' (report_payload True None n hash) now
                                       (db\<lparr>issues := issues db @ [new_issue i hash ftext n now]\<rparr>)
                           in case get_issue i db1 of
                                None \<Rightarrow> (Inl AssertionError, db1)
                              | Some r \<Rightarrow> (Inr (r, True, False), db1))
              | row # _ \<Rightarrow>
                  (let current = row_to_issue row;
                       tags = normalize_tags (is_tags current @ nr_tags n);
                       md = dict_update (is_metadata current) (nr_metadata n);
                       reopened = (is_status current = ISSUE_MITIGATED);
                       st = (if reopened then ISSUE_OPEN else is_status current);
                       db1 = insert_issue_event (is_id current) ''issue_reported''
                               (report_payload False (Some reopened) n hash) now
                               (update_issue (is_id current) (Merge n st tags md now) db)
                   in case get_issue (is_id current) db1 of
                        None \<Rightarrow> (Inl AssertionError, db1)
                      | Some r \<Rightarrow> (Inr (r, False, reopened), db1))))"

section \<open>Evidence\<close>

text \<open>\<open>a or b\<close>.\<close>

definition dict_or_null :: "(string \<times> json) list \<Rightarrow> json" where
  "dict_or_null d = (if d = [] then JNull else JObj d)"

definition issue_missing :: "string \<Rightarrow> exn" where
  "issue_missing i = KeyError (''issue not found: '' @ i)"

definition link_issue_evidence ::
    "string \<Rightarrow> string option \<Rightarrow> string option \<Rightarrow> string option \<Rightarrow> string option \<Rightarrow> string option \<Rightarrow>
      (string \<times> json) list \<Rightarrow> real \<Rightarrow> issue_db \<Rightarrow> (issue, issue_db) outcome" where
  "link_issue_evidence i job url path note_text source md now db =
     (case get_issue i db of
        None \<Rightarrow> (Inl (issue_missing i), db)
      | Some _ \<Rightarrow>
          (let job_n = optional_text 128 job; url_n = optional_text 2000 url; path_n = optional_text 2000 path;
               source_n = optional_text 120 source;
               db1 = insert_issue_event i ''issue_evidence_linked''
                       (JObj [(''job_id'', jopt job_n), (''conversation_url'', jopt url_n),
                          (''artifacts_path'', jopt path_n), (''note'', jopt (optional_text 2000 note_text)),
                          (''source'', jopt source_n), (''metadata'', dict_or_null md)]) now
                       (update_issue i (Link now source_n job_n url_n path_n) db)
           in case get_issue i db1 of None \<Rightarrow> (Inl AssertionError, db1) | Some r \<Rightarrow> (Inr r, db1)))"

definition record_issue_verification ::
    "runtime \<Rightarrow> string \<Rightarrow> string \<Rightarrow> string \<Rightarrow> string \<Rightarrow> json \<Rightarrow> json \<Rightarrow> json \<Rightarrow> json \<Rightarrow> json \<Rightarrow> json \<Rightarrow> real \<Rightarrow>
      issue_db \<Rightarrow> (issue_verification, issue_db) outcome" where
  "record_issue_verification rt uid i vtype status verifier note_text job url path md now db =
     (case get_issue i db of
        None \<Rightarrow> (Inl (issue_missing i), db)
      | Some _ \<Rightarrow>
          (case optional_text 64 (Some vtype) of
             None \<Rightarrow> (Inl (ValueError ''verification_type is required''), db)
           | Some vt \<Rightarrow>
               (let row = \<lparr>vf_id = ''ver_'' @ uid, vf_issue = i, vf_ts = now, vf_type = vt,
                       vf_status = text_or (or_empty (optional_text 32 (Some status))) ''passed'',
                       vf_verifier = optional_json rt 200 verifier, vf_note = optional_json rt 2000 note_text,
                       vf_job = optional_json rt 128 job, vf_url = optional_json rt 2000 url,
                       vf_path = optional_json rt 2000 path, vf_metadata = dict_of md\<rparr>
                in if vf_id row \<in> set (map vf_id (verifications db)) then (Inl IntegrityError, db)
                   else (Inr (row_to_verification row),
                         insert_issue_event i ''issue_verification_recorded''
                           (JObj [(''verification_id'', JStr (vf_id row)), (''verification_type'', JStr vt),
                              (''status'', JStr (vf_status row)), (''verifier'', jopt (vf_verifier row)),
                              (''job_id'', jopt (vf_job row)), (''conversation_url'', jopt (vf_url row)),
                              (''artifacts_path'', jopt (vf_path row)), (''note'', jopt (vf_note row)),
                              (''metadata'', dict_or_null (vf_metadata row))]) now
                           (db\<lparr>verifications := verifications db @ [row]\<rparr>)))))"

record usage_context =
  uc_kind :: "string option"
  uc_status :: "string option"
  uc_client :: "string option"
  uc_chars :: "int option"

definition no_context :: usage_context where
  "no_context = \<lparr>uc_kind = None, uc_status = None, uc_client = None, uc_chars = None\<rparr>"

definition job_usage_context :: "runtime \<Rightarrow> string \<Rightarrow> world \<Rightarrow> usage_context" where
  "job_usage_context rt jid w =
     (case get_job jid w of
        None \<Rightarrow> no_context
      | Some j \<Rightarrow>
          (let d = JObj (case j_client j of None \<Rightarrow> [] | Some v \<Rightarrow> dict_of v)
           in \<lparr>uc_kind = optional_text 200 (Some (j_kind j)),
               uc_status = optional_text 32 (Some (status_value (j_status j))),
               uc_client = optional_json rt 200
                 (json_or (json_or (jget ''name'' d) (jget ''project'' d)) (jget ''client_name'' d)),
               uc_chars = j_answer_chars j\<rparr>))"

definition first_some :: "'a option \<Rightarrow> 'a option \<Rightarrow> 'a option" where
  "first_some a b = (case a of None \<Rightarrow> b | Some x \<Rightarrow> Some x)"

definition usage_of :: "string \<Rightarrow> string \<Rightarrow> issue_db \<Rightarrow> issue_usage option" where
  "usage_of i job db = find (\<lambda>u. us_issue u = i \<and> us_job u = job) (usages db)"

definition record_issue_usage_evidence ::
    "runtime \<Rightarrow> world \<Rightarrow> string \<Rightarrow> string \<Rightarrow> string \<Rightarrow> json \<Rightarrow> json \<Rightarrow> json \<Rightarrow> int option \<Rightarrow> json \<Rightarrow> real \<Rightarrow>
      issue_db \<Rightarrow> (issue_usage, issue_db) outcome" where
  "record_issue_usage_evidence rt w uid i job client kind status chars md now db =
     (case get_issue i db of
        None \<Rightarrow> (Inl (issue_missing i), db)
      | Some issue \<Rightarrow>
          (case optional_text 128 (Some job) of
             None \<Rightarrow> (Inl (ValueError ''job_id is required''), db)
           | Some j \<Rightarrow>
               (case usage_of i j db of
                  Some u \<Rightarrow> (Inr (row_to_usage u), db)
                | None \<Rightarrow>
                    (let ctx = job_usage_context rt j w;
                         row = \<lparr>us_id = ''use_'' @ uid, us_issue = i, us_ts = now, us_job = j,
                           us_client = first_some (optional_json rt 200 client) (optional_text 200 (uc_client ctx)),
                           us_kind = first_some (optional_json rt 200 kind)
                             (first_some (optional_text 200 (uc_kind ctx)) (is_kind issue)),
                           us_status = text_or (or_empty (first_some (optional_json rt 32 status)
                             (optional_text 32 (uc_status ctx)))) ''completed'',
                           us_chars = first_some chars (uc_chars ctx), us_metadata = dict_of md\<rparr>
                     in if us_id row \<in> set (map us_id (usages db)) then (Inl IntegrityError, db)
                        else (Inr (row_to_usage row),
                              insert_issue_event i ''issue_usage_evidence_recorded''
                                (JObj [(''usage_id'', JStr (us_id row)), (''job_id'', JStr j),
                                   (''client_name'', jopt (us_client row)), (''kind'', jopt (us_kind row)),
                                   (''status'', JStr (us_status row)), (''answer_chars'', jopt_int (us_chars row)),
                                   (''metadata'', dict_or_null (us_metadata row))]) now
                                (db\<lparr>usages := usages db @ [row]\<rparr>))))))"

section \<open>Changes of status\<close>

text \<open>\<open>float(v)\<close> of a value that is not \<open>None\<close>; a text for an infinity or NaN counts as one that has
  no number.\<close>

definition success_rows :: "runtime \<Rightarrow> (string \<times> json) list \<Rightarrow> json list" where
  "success_rows rt md =
     (case jget ''qualifying_successes'' (JObj md) of
        JList xs \<Rightarrow> filter is_obj xs
      | _ \<Rightarrow>
          (case jget ''qualifying_success_job_ids'' (JObj md) of
             JList xs \<Rightarrow> map (\<lambda>x. JObj [(''job_id'', JStr (py_str (rt_repr rt) x))]) (filter (\<lambda>x. x \<noteq> JNull) xs)
           | _ \<Rightarrow> []))"

fun record_successes ::
    "runtime \<Rightarrow> world \<Rightarrow> (nat \<Rightarrow> string) \<Rightarrow> string \<Rightarrow> string option \<Rightarrow> real \<Rightarrow> json list \<Rightarrow> issue_db \<Rightarrow>
      (unit, issue_db) outcome" where
  "record_successes rt w uids i kind now [] db = (Inr (), db)"
| "record_successes rt w uids i kind now (s # ss) db =
     (let chars = jget ''answer_chars'' s; created = jget ''created_at'' s
      in if (chars \<noteq> JNull \<and> py_int chars = None) \<or> (created \<noteq> JNull \<and> float_of_json created = None)
         then (Inl ConversionError, db)
         else case record_issue_usage_evidence rt w (uids 0) i (str_or (rt_repr rt) (jget ''job_id'' s) '''')
                (jget ''client_name'' s) (json_or (jget ''kind'' s) (jopt kind))
                (json_or (jget ''status'' s) (JStr ''completed'')) (if chars = JNull then None else py_int chars)
                (jget ''metadata'' s) (if created = JNull then now else the (float_of_json created)) db of
              (Inl e, db1) \<Rightarrow> (Inl e, db1)
            | (Inr _, db1) \<Rightarrow> record_successes rt w (\<lambda>k. uids (Suc k)) i kind now ss db1)"

definition verify_mitigation ::
    "runtime \<Rightarrow> string \<Rightarrow> string \<Rightarrow> issue \<Rightarrow> string option \<Rightarrow> string option \<Rightarrow> string option \<Rightarrow>
      (string \<times> json) list \<Rightarrow> real \<Rightarrow> issue_db \<Rightarrow> (issue_verification, issue_db) outcome" where
  "verify_mitigation rt uid i issue note_n actor_n job_n md now db =
     (let v = JObj (dict_of (jget ''verification'' (JObj md)));
          vtype = text_or (or_empty (optional_json rt 64
            (json_or (jget ''type'' v) (jget ''verification_type'' (JObj md))))) ''status_transition'';
          status = text_or (or_empty (optional_json rt 32
            (json_or (jget ''status'' v) (jget ''verification_status'' (JObj md))))) ''passed''
      in record_issue_verification rt uid i vtype status
           (json_or (json_or (jget ''verifier'' v) (jget ''actor'' v)) (jopt actor_n))
           (json_or (jget ''note'' v) (jopt note_n))
           (json_or (jget ''job_id'' v) (json_or (jopt job_n) (jopt (is_job issue))))
           (json_or (jget ''conversation_url'' v) (jopt (is_url issue)))
           (json_or (jget ''artifacts_path'' v) (jopt (is_path issue)))
           (json_or (jget ''metadata'' v) (dict_or_null md)) now db)"

definition write_issue_status ::
    "string \<Rightarrow> issue \<Rightarrow> issue_status \<Rightarrow> string option \<Rightarrow> string option \<Rightarrow> string option \<Rightarrow> (string \<times> json) list \<Rightarrow>
      real \<Rightarrow> issue_db \<Rightarrow> issue_db" where
  "write_issue_status i issue st note_n actor_n job_n md now db =
     insert_issue_event i ''issue_status_updated''
       (JObj [(''from'', JStr (issue_status_value (is_status issue))), (''to'', JStr (issue_status_value st)),
          (''note'', jopt note_n), (''actor'', jopt actor_n), (''linked_job_id'', jopt job_n),
          (''metadata'', dict_or_null md)]) now
       (update_issue i (Set_status st now job_n) db)"

definition update_issue_status ::
    "runtime \<Rightarrow> world \<Rightarrow> (nat \<Rightarrow> string) \<Rightarrow> real \<Rightarrow> string \<Rightarrow> string option \<Rightarrow> string option \<Rightarrow> string option \<Rightarrow>
      (string \<times> json) list \<Rightarrow> string option \<Rightarrow> issue_db \<Rightarrow> (issue, issue_db) outcome" where
  "update_issue_status rt w uids now i status note_text actor md linked db =
     (case normalize_issue_status rt status of
        Inl e \<Rightarrow> (Inl e, db)
      | Inr st \<Rightarrow>
          (case get_issue i db of
             None \<Rightarrow> (Inl (issue_missing i), db)
           | Some issue \<Rightarrow>
               (let note_n = optional_text 2000 note_text; actor_n = optional_text 200 actor;
                    job_n = optional_text 128 linked;
                    db1 = write_issue_status i issue st note_n actor_n job_n md now db
                in case get_issue i db1 of
                     None \<Rightarrow> (Inl AssertionError, db1)
                   | Some updated \<Rightarrow>
                       if st = ISSUE_MITIGATED
                       then (case verify_mitigation rt (uids 0) i issue note_n actor_n job_n md now db1 of
                               (Inl e, db2) \<Rightarrow> (Inl e, db2)
                             | (Inr _, db2) \<Rightarrow> (Inr updated, db2))
                       else if st = ISSUE_CLOSED
                       then (case record_successes rt w uids i (is_kind issue) now (success_rows rt md) db1 of
                               (Inl e, db2) \<Rightarrow> (Inl e, db2)
                             | (Inr _, db2) \<Rightarrow> (Inr updated, db2))
                       else (Inr updated, db1))))"

section \<open>Lists\<close>

text \<open>The filters of \<open>list_issues\<close>, each with its clause. \<open>LOWER\<close> is ASCII. \<open>cursor\<close> is the pair
  \<open>before_ts\<close>, \<open>before_issue_id\<close>.\<close>

record issue_filter =
  lf_project :: "string option"
  lf_kind :: "string option"
  lf_source :: "string option"
  lf_status :: "string option"
  lf_severity :: "string option"
  lf_hash :: "string option"
  lf_ftext :: "string option"
  lf_since :: "real option"
  lf_until :: "real option"
  lf_before_ts :: "real option"
  lf_before_id :: "string option"

definition given :: "string option \<Rightarrow> string option" where
  "given v = or_none (normalize_ws (or_empty v))"

definition same_lower :: "string option \<Rightarrow> string option \<Rightarrow> bool" where
  "same_lower v column =
     (case given v of
        None \<Rightarrow> True
      | Some x \<Rightarrow> (case column of None \<Rightarrow> False | Some c \<Rightarrow> map ascii_lower c = map ascii_lower x))"

text \<open>The status texts asked for, and the first of them that is no status.\<close>

definition status_values :: "string option \<Rightarrow> string list" where
  "status_values v =
     (case given v of
        None \<Rightarrow> []
      | Some _ \<Rightarrow> filter (\<lambda>s. s \<noteq> '''') (map (\<lambda>p. lower (normalize_ws p)) (split_on (CHR '','') (or_empty v))))"

definition bad_status :: "string list \<Rightarrow> string option" where
  "bad_status vs = find (\<lambda>s. issue_status_of s = None) vs"

definition before_cursor :: "real option \<Rightarrow> string option \<Rightarrow> issue \<Rightarrow> bool" where
  "before_cursor before_ts before_id r =
     (case before_ts of
        None \<Rightarrow> True
      | Some ts \<Rightarrow>
          (case before_id of
             None \<Rightarrow> is_updated_at r < ts
           | Some i \<Rightarrow> is_updated_at r < ts \<or> (is_updated_at r = ts \<and> is_id r < i)))"

definition issue_matches :: "issue_filter \<Rightarrow> string option \<Rightarrow> issue \<Rightarrow> bool" where
  "issue_matches f severity r \<longleftrightarrow>
     same_lower (lf_project f) (Some (is_project r)) \<and> same_lower (lf_kind f) (is_kind r)
     \<and> same_lower (lf_source f) (is_source r)
     \<and> (status_values (lf_status f) = []
        \<or> map ascii_lower (issue_status_value (is_status r)) \<in> set (status_values (lf_status f)))
     \<and> (case severity of None \<Rightarrow> True | Some s \<Rightarrow> map upper_char (is_severity r) = s)
     \<and> (case given (lf_hash f) of None \<Rightarrow> True | Some h \<Rightarrow> is_hash r = lower h)
     \<and> (case given (lf_ftext f) of
          None \<Rightarrow> True | Some x \<Rightarrow> sql_like (''%'' @ lower x @ ''%'') (map ascii_lower (is_ftext r)))
     \<and> (case lf_since f of None \<Rightarrow> True | Some ts \<Rightarrow> ts \<le> is_updated_at r)
     \<and> (case lf_until f of None \<Rightarrow> True | Some ts \<Rightarrow> is_updated_at r \<le> ts)
     \<and> before_cursor (lf_before_ts f) (given (lf_before_id f)) r"

definition list_issues ::
    "runtime \<Rightarrow> issue_filter \<Rightarrow> int \<Rightarrow> issue_db \<Rightarrow> exn + (issue list \<times> real option \<times> string option)" where
  "list_issues rt f limit db =
     (case bad_status (status_values (lf_status f)) of
        Some s \<Rightarrow> Inl (ValueError (''invalid issue status filter: '' @ s))
      | None \<Rightarrow>
          (case (case given (lf_severity f) of
                   None \<Rightarrow> Inr None | Some _ \<Rightarrow> map_sum id Some (normalize_severity rt (lf_severity f))) of
             Inl e \<Rightarrow> Inl e
           | Inr severity \<Rightarrow>
               (let rows = take (nat (max 1 (min 1000 limit)))
                             (newest_first (filter (issue_matches f severity) (issues db)))
                in Inr (map row_to_issue rows,
                        (if rows = [] then None else Some (is_updated_at (last rows))),
                        (if rows = [] then None else Some (is_id (last rows)))))))"

text \<open>Events carry their position as \<open>id\<close>, from 1.\<close>

definition numbered :: "'a list \<Rightarrow> (int \<times> 'a) list" where
  "numbered xs = zip (map (\<lambda>k. int k + 1) [0..<length xs]) xs"

definition list_issue_events :: "string \<Rightarrow> int \<Rightarrow> int \<Rightarrow> issue_db \<Rightarrow> (int \<times> issue_event) list \<times> int" where
  "list_issue_events i after limit db =
     (let aid = max 0 after;
          es = take (nat (max 1 (min 5000 limit)))
                 (filter (\<lambda>(k, e). ie_issue e = i \<and> aid < k) (numbered (issue_events db)))
      in (es, if es = [] then aid else fst (last es)))"

definition list_issue_verifications :: "string \<Rightarrow> real \<Rightarrow> int \<Rightarrow> issue_db \<Rightarrow> issue_verification list" where
  "list_issue_verifications i after limit db =
     map row_to_verification (take (nat (max 1 (min 5000 limit)))
       (rev (sort_key (\<lambda>v. (vf_ts v, vf_id v))
         (filter (\<lambda>v. vf_issue v = i \<and> after \<le> vf_ts v) (verifications db)))))"

definition list_issue_usage_evidence :: "string \<Rightarrow> real \<Rightarrow> int \<Rightarrow> issue_db \<Rightarrow> issue_usage list" where
  "list_issue_usage_evidence i after limit db =
     map row_to_usage (take (nat (max 1 (min 5000 limit)))
       (rev (sort_key (\<lambda>u. (us_ts u, us_id u))
         (filter (\<lambda>u. us_issue u = i \<and> after \<le> us_ts u) (usages db)))))"

end
