(* ===== verification/IssueLedger.thy ===== *)
theory IssueLedger
  imports Issues
begin

text \<open>
  What the ledger of \<open>Issues\<close> keeps to: every operation is a sequence of a few kinds of moves
  (\<open>issue_move\<close>, \<open>evidence_move\<close>), which keep the counts, closing times and evidence consistent and
  the live issue of a fingerprint single; and the pages of a listing fit together.
\<close>

section \<open>The ledger stays consistent\<close>

datatype issue_call =
    Report string real issue_report
  | UpdateStatus "nat \<Rightarrow> string" real string "string option" "string option" "string option" "(string \<times> json) list"
      "string option"
  | LinkEvidence string "string option" "string option" "string option" "string option" "string option"
      "(string \<times> json) list" real
  | Verify string string string string json json json json json json real
  | Use string string string json json json "int option" json real

fun issue_step :: "runtime \<Rightarrow> world \<times> issue_call \<Rightarrow> issue_db \<Rightarrow> issue_db" where
  "issue_step rt (w, Report uid now q) db = snd (report_issue rt w uid now q db)"
| "issue_step rt (w, UpdateStatus uids now i st nt actor md job) db =
     snd (update_issue_status rt w uids now i st nt actor md job db)"
| "issue_step rt (w, LinkEvidence i job url path nt source md now) db =
     snd (link_issue_evidence i job url path nt source md now db)"
| "issue_step rt (w, Verify uid i vt st vf nt job url path md now) db =
     snd (record_issue_verification rt uid i vt st vf nt job url path md now db)"
| "issue_step rt (w, Use uid i job client kind st chars md now) db =
     snd (record_issue_usage_evidence rt w uid i job client kind st chars md now db)"

definition reports_of :: "string \<Rightarrow> issue_db \<Rightarrow> int" where
  "reports_of i db =
     int (length (filter (\<lambda>e. ie_issue e = i \<and> ie_type e = ''issue_reported'') (issue_events db)))"

definition row_ok :: "issue_db \<Rightarrow> issue \<Rightarrow> bool" where
  "row_ok db r \<longleftrightarrow> (is_closed_at r \<noteq> None \<longleftrightarrow> is_status r = ISSUE_CLOSED) \<and> is_count r = reports_of (is_id r) db"

definition ledger_ok :: "issue_db \<Rightarrow> bool" where
  "ledger_ok db \<longleftrightarrow>
     keys_distinct is_id (issues db) \<and> (\<forall>r \<in> set (issues db). row_ok db r)
     \<and> (\<forall>e \<in> set (issue_events db). ie_issue e \<in> is_id ` set (issues db))
     \<and> distinct (map (\<lambda>u. (us_issue u, us_job u)) (usages db))"

lemma get_issue_known: "get_issue i db = Some r \<Longrightarrow> i \<in> is_id ` set (issues db) \<and> is_id r = i"
  by (auto simp: get_issue_def find_issue_def row_to_issue_def dest: row_get_Some)

lemma reports_of_insert:
  "reports_of k (insert_issue_event i ty p now db) =
     reports_of k db + (if k = i \<and> ty = ''issue_reported'' then 1 else 0)"
  by (simp add: reports_of_def insert_issue_event_def)

lemma reports_of_rows [simp]:
  "reports_of k (db\<lparr>issues := rs\<rparr>) = reports_of k db" "reports_of k (update_issue i s db) = reports_of k db"
  "reports_of k (db\<lparr>verifications := vs\<rparr>) = reports_of k db" "reports_of k (db\<lparr>usages := us\<rparr>) = reports_of k db"
  by (simp_all add: reports_of_def update_issue_def)

lemma insert_issue_event_sel [simp]:
  "issues (insert_issue_event i ty p now db) = issues db"
  "usages (insert_issue_event i ty p now db) = usages db"
  "verifications (insert_issue_event i ty p now db) = verifications db"
  by (simp_all add: insert_issue_event_def)

lemma update_issue_sel [simp]:
  "issue_events (update_issue i s db) = issue_events db" "usages (update_issue i s db) = usages db"
  "keys_distinct is_id (issues (update_issue i s db)) = keys_distinct is_id (issues db)"
  "is_id ` set (issues (update_issue i s db)) = is_id ` set (issues db)"
  using issue_rows.map_key_update [of "\<lambda>r. is_id r = i" s "issues db"]
  by (simp_all add: update_issue_def flip: set_map)

text \<open>The three ways an operation changes the ledger: a new issue, an update with its event, a piece
  of evidence with its event.\<close>

lemma ledger_new:
  assumes "ledger_ok db" "i \<notin> set (map is_id (issues db))"
  shows "ledger_ok (insert_issue_event i ''issue_reported'' p t (db\<lparr>issues := issues db @ [new_issue i h ft n now]\<rparr>))"
proof -
  have "reports_of i db = 0"
    using assms by (auto simp: ledger_ok_def reports_of_def filter_empty_conv)
  then show ?thesis
    using assms
    by (auto simp: ledger_ok_def keys_distinct_def row_ok_def reports_of_insert new_issue_def)
      (auto simp: insert_issue_event_def)
qed

lemma ledger_update:
  assumes "ledger_ok db" "i \<in> is_id ` set (issues db)"
    and "\<And>r. row_ok db r \<Longrightarrow> is_id r = i \<Longrightarrow>
      (is_closed_at (run_issue_stmt s r) \<noteq> None \<longleftrightarrow> is_status (run_issue_stmt s r) = ISSUE_CLOSED)
      \<and> is_count (run_issue_stmt s r) = is_count r + (if ty = ''issue_reported'' then 1 else 0)"
  shows "ledger_ok (insert_issue_event i ty p now (update_issue i s db))"
proof -
  have "row_ok (insert_issue_event i ty p now (update_issue i s db)) r'" if r': "r' \<in> set (issues (update_issue i s db))" for r'
  proof -
    obtain r where r: "r \<in> set (issues db)" "r' = (if is_id r = i then run_issue_stmt s r else r)"
      using r' by (auto simp: update_issue_def set_row_update)
    then have "row_ok db r" using assms(1) by (simp add: ledger_ok_def)
    then show ?thesis
      using assms(3) [of r] r(2) by (auto simp: row_ok_def reports_of_insert)
  qed
  then show ?thesis
    using assms(1,2) by (auto simp: ledger_ok_def) (auto simp: insert_issue_event_def)
qed

lemma ledger_evidence:
  assumes "ledger_ok db" "i \<in> is_id ` set (issues db)" "ty \<noteq> ''issue_reported''"
  shows "ledger_ok (insert_issue_event i ty p now (db\<lparr>verifications := vs\<rparr>))"
    and "(\<forall>u \<in> set (usages db). (us_issue u, us_job u) \<noteq> (us_issue v, us_job v)) \<Longrightarrow>
      ledger_ok (insert_issue_event i ty p now (db\<lparr>usages := usages db @ [v]\<rparr>))"
proof -
  have row: "row_ok (insert_issue_event i ty p now (db\<lparr>usages := us, verifications := vs\<rparr>)) r = row_ok db r" for us vs r
    using assms(3) by (simp add: row_ok_def reports_of_insert)
  show "ledger_ok (insert_issue_event i ty p now (db\<lparr>verifications := vs\<rparr>))"
    using assms row [where us = "usages db" and vs = vs] by (auto simp: ledger_ok_def) (auto simp: insert_issue_event_def)
  show "ledger_ok (insert_issue_event i ty p now (db\<lparr>usages := usages db @ [v]\<rparr>))"
    if "\<forall>u \<in> set (usages db). (us_issue u, us_job u) \<noteq> (us_issue v, us_job v)"
    using assms that row [where us = "usages db @ [v]" and vs = "verifications db"]
    by (auto simp: ledger_ok_def) (auto simp: insert_issue_event_def)
qed

lemma newest_first_Nil [simp]: "newest_first rows = [] \<longleftrightarrow> rows = []"
  by (metis length_0_conv length_rev length_sort newest_first_def)

lemma newest_first_empty [simp]: "newest_first [] = []"
  by (simp add: newest_first_def)

lemma newest_first_mem: "r \<in> set (newest_first rows) \<longleftrightarrow> r \<in> set rows"
  by (simp add: newest_first_def)

lemma row_to_issue_sel [simp]:
  "is_id (row_to_issue r) = is_id r" "is_status (row_to_issue r) = is_status r"
  "is_hash (row_to_issue r) = is_hash r" "is_updated_at (row_to_issue r) = is_updated_at r"
  by (simp_all add: row_to_issue_def)

lemma get_after_update:
  "get_issue i (insert_issue_event i ty p t (update_issue i s db)) =
     map_option (\<lambda>r. row_to_issue (run_issue_stmt s r)) (find_issue i db)"
proof (cases "find_issue i db")
  case (Some r)
  then have "is_id r = i" unfolding find_issue_def by (blast dest: row_get_Some)
  then show ?thesis
    using Some by (simp add: get_issue_def find_issue_def update_issue_def issue_rows.row_get_update)
qed (simp add: get_issue_def find_issue_def update_issue_def issue_rows.row_get_update)

lemma get_after_new:
  "is_id r \<notin> set (map is_id (issues db)) \<Longrightarrow>
     get_issue (is_id r) (insert_issue_event i ty p t (db\<lparr>issues := issues db @ [r]\<rparr>)) = Some (row_to_issue r)"
  by (simp add: get_issue_def find_issue_def row_get_append row_get_None [THEN iffD2])

lemma find_issue_ex: "r \<in> set (issues db) \<Longrightarrow> \<exists>s. find_issue (is_id r) db = Some s"
  by (metis find_issue_def row_get_None not_Some_eq imageI)

lemma find_issue_id: "find_issue i db = Some r \<Longrightarrow> is_id r = i"
  unfolding find_issue_def by (blast dest: row_get_Some)

lemma new_issue_id [simp]: "is_id (new_issue i h t n now) = i"
  by (simp add: new_issue_def)

definition normal_hash :: "runtime \<Rightarrow> issue_report \<Rightarrow> normal_report \<Rightarrow> string" where
  "normal_hash rt q n =
     rt_sha256 rt (issue_fingerprint_text rt (nr_project n) (nr_title n) (nr_kind n) (nr_symptom n)
       (nr_raw_error n) (nr_source n) (ir_fingerprint q))"

lemma report_merged:
  assumes "normalize_report rt q w = Inr n" "newest_first (live_issues (normal_hash rt q n) db) = row # rows"
  shows "\<exists>tags md p r. report_issue rt w uid now q db =
           (Inr (row_to_issue (run_issue_stmt
               (Merge n (if is_status row = ISSUE_MITIGATED then ISSUE_OPEN else is_status row) tags md now) r),
              False, is_status row = ISSUE_MITIGATED),
            insert_issue_event (is_id row) ''issue_reported'' p now
              (update_issue (is_id row)
                (Merge n (if is_status row = ISSUE_MITIGATED then ISSUE_OPEN else is_status row) tags md now) db))
         \<and> find_issue (is_id row) db = Some r"
proof -
  have "row \<in> set (issues db)"
    using newest_first_mem [of row "live_issues (normal_hash rt q n) db"] assms(2) by (simp add: live_issues_def)
  then obtain r0 where r0: "find_issue (is_id row) db = Some r0" using find_issue_ex by blast
  obtain st tags md where m:
      "st = (if is_status row = ISSUE_MITIGATED then ISSUE_OPEN else is_status row)"
      "tags = normalize_tags (is_tags (row_to_issue row) @ nr_tags n)"
      "md = dict_update (is_metadata (row_to_issue row)) (nr_metadata n)" by blast
  have "report_issue rt w uid now q db =
      (Inr (row_to_issue (run_issue_stmt (Merge n st tags md now) r0), False, is_status row = ISSUE_MITIGATED),
       insert_issue_event (is_id row) ''issue_reported''
         (report_payload False (Some (is_status row = ISSUE_MITIGATED)) n (normal_hash rt q n)) now
         (update_issue (is_id row) (Merge n st tags md now) db))"
    using assms r0 by (simp add: report_issue_def normal_hash_def Let_def get_after_update m)
  with r0 m(1) show ?thesis by blast
qed

text \<open>What a report does: refused, a new issue, or merged into the newest live one.\<close>

lemma report_cases:
  obtains (refused) e where "report_issue rt w uid now q db = (Inl e, db)"
    | (new) n p t where "normalize_report rt q w = Inr n" "live_issues (normal_hash rt q n) db = []"
        "''iss_'' @ uid \<notin> set (map is_id (issues db))"
        "report_issue rt w uid now q db =
           (Inr (row_to_issue (new_issue (''iss_'' @ uid) (normal_hash rt q n) t n now), True, False),
            insert_issue_event (''iss_'' @ uid) ''issue_reported'' p now
              (db\<lparr>issues := issues db @ [new_issue (''iss_'' @ uid) (normal_hash rt q n) t n now]\<rparr>))"
    | (merged) n row rows tags md p r where "normalize_report rt q w = Inr n"
        "newest_first (live_issues (normal_hash rt q n) db) = row # rows"
        "report_issue rt w uid now q db =
           (Inr (r, False, is_status row = ISSUE_MITIGATED),
            insert_issue_event (is_id row) ''issue_reported'' p now
              (update_issue (is_id row)
                (Merge n (if is_status row = ISSUE_MITIGATED then ISSUE_OPEN else is_status row) tags md now) db))"
        "is_id r = is_id row"
proof (cases "normalize_report rt q w")
  case (Inl e)
  then show ?thesis using refused by (simp add: report_issue_def)
next
  case (Inr n)
  show ?thesis
  proof (cases "newest_first (live_issues (normal_hash rt q n) db)")
    case Nil
    then have none: "live_issues (normal_hash rt q n) db = []"
      by simp
    show ?thesis
    proof (cases "''iss_'' @ uid \<in> set (map is_id (issues db))")
      case True
      then have "report_issue rt w uid now q db = (Inl IntegrityError, db)"
        using Inr Nil by (simp add: report_issue_def normal_hash_def Let_def)
      then show ?thesis by (rule refused)
    next
      case False
      let ?t = "issue_fingerprint_text rt (nr_project n) (nr_title n) (nr_kind n) (nr_symptom n)
        (nr_raw_error n) (nr_source n) (ir_fingerprint q)"
      show ?thesis
        by (rule new [OF Inr none False, where t = ?t])
          (use Inr Nil False get_after_new [of "new_issue (''iss_'' @ uid) (normal_hash rt q n) ?t n now" db]
            in \<open>simp add: report_issue_def normal_hash_def Let_def\<close>)
    qed
  next
    case (Cons row rows)
    show ?thesis
      using report_merged [OF Inr Cons, of uid now] merged [OF Inr Cons] find_issue_id by fastforce
  qed
qed

text \<open>The moves of the ledger. Every operation is at most one move of the issues and then moves that
  add evidence.\<close>

inductive issue_move :: "issue_db \<Rightarrow> issue_db \<Rightarrow> bool" where
  created: "i \<notin> set (map is_id (issues db)) \<Longrightarrow> live_issues h db = [] \<Longrightarrow>
    issue_move db (insert_issue_event i ''issue_reported'' p t
      (db\<lparr>issues := issues db @ [new_issue i h ft n now]\<rparr>))"
| merged: "row \<in> set (issues db) \<Longrightarrow> is_status row \<noteq> ISSUE_CLOSED \<Longrightarrow> st \<noteq> ISSUE_CLOSED \<Longrightarrow>
    issue_move db (insert_issue_event (is_id row) ''issue_reported'' p t
      (update_issue (is_id row) (Merge n st tags md now) db))"
| moved: "i \<in> is_id ` set (issues db) \<Longrightarrow>
    issue_move db (insert_issue_event i ''issue_status_updated'' p t (update_issue i (Set_status st now job) db))"
| linked: "i \<in> is_id ` set (issues db) \<Longrightarrow>
    issue_move db (insert_issue_event i ''issue_evidence_linked'' p t
      (update_issue i (Link now source job url path) db))"

inductive evidence_move :: "issue_db \<Rightarrow> issue_db \<Rightarrow> bool" where
  verified: "i \<in> is_id ` set (issues db) \<Longrightarrow>
    evidence_move db (insert_issue_event i ''issue_verification_recorded'' p t (db\<lparr>verifications := vs\<rparr>))"
| used: "i \<in> is_id ` set (issues db) \<Longrightarrow> usage_of (us_issue v) (us_job v) db = None \<Longrightarrow>
    evidence_move db (insert_issue_event i ''issue_usage_evidence_recorded'' p t (db\<lparr>usages := usages db @ [v]\<rparr>))"

definition ledger_moves :: "issue_db \<Rightarrow> issue_db \<Rightarrow> bool" where
  "ledger_moves db db' \<longleftrightarrow> (\<exists>db1. (db1 = db \<or> issue_move db db1) \<and> evidence_move\<^sup>*\<^sup>* db1 db')"

lemma ledger_moves_refl [simp]: "ledger_moves db db"
  by (auto simp: ledger_moves_def)

lemma ledger_moves_evidence: "evidence_move\<^sup>*\<^sup>* db db' \<Longrightarrow> ledger_moves db db'"
  by (auto simp: ledger_moves_def)

lemma ledger_moves_issue: "issue_move db db1 \<Longrightarrow> evidence_move\<^sup>*\<^sup>* db1 db' \<Longrightarrow> ledger_moves db db'"
  by (auto simp: ledger_moves_def)

lemma ledger_moves_issue1: "issue_move db db' \<Longrightarrow> ledger_moves db db'"
  by (auto simp: ledger_moves_def)

lemma live_row: "row \<in> set (live_issues h db) \<Longrightarrow> row \<in> set (issues db) \<and> is_status row \<noteq> ISSUE_CLOSED \<and> is_hash row = h"
  by (auto simp: live_issues_def)

lemma report_moves: "ledger_moves db (snd (report_issue rt w uid now q db))"
proof (cases rule: report_cases [of rt w uid now q db])
  case (new n p t)
  then show ?thesis using issue_move.created [OF new(3,2)] by (simp add: ledger_moves_issue1)
next
  case (merged n row rows tags md p r)
  have "row \<in> set (live_issues (normal_hash rt q n) db)"
    using merged(2) newest_first_mem by (metis list.set_intros(1))
  then show ?thesis
    using merged(3) live_row by (auto intro!: ledger_moves_issue1 [OF issue_move.merged])
qed simp

lemma link_moves: "ledger_moves db (snd (link_issue_evidence i job url path nt source md now db))"
  by (auto simp: link_issue_evidence_def Let_def dest: get_issue_known split: option.splits
      intro!: ledger_moves_issue1 issue_move.linked)

lemma verification_moves:
  "evidence_move\<^sup>*\<^sup>* db (snd (record_issue_verification rt uid i vt st vf nt job url path md now db))"
  by (auto simp: record_issue_verification_def Let_def dest: get_issue_known split: option.splits
      intro!: r_into_rtranclp evidence_move.verified)

lemma usage_moves:
  "evidence_move\<^sup>*\<^sup>* db (snd (record_issue_usage_evidence rt w uid i job client kind st chars md now db))"
  by (auto simp: record_issue_usage_evidence_def Let_def dest: get_issue_known split: option.splits
      intro!: r_into_rtranclp evidence_move.used)

lemma successes_move: "evidence_move\<^sup>*\<^sup>* db (snd (record_successes rt w uids i kind now ss db))"
proof (induction ss arbitrary: uids db)
  case (Cons s ss)
  obtain r db1 where u: "record_issue_usage_evidence rt w (uids 0) i (str_or (rt_repr rt) (jget ''job_id'' s) '''')
      (jget ''client_name'' s) (json_or (jget ''kind'' s) (jopt kind))
      (json_or (jget ''status'' s) (JStr ''completed''))
      (if jget ''answer_chars'' s = JNull then None else py_int (jget ''answer_chars'' s)) (jget ''metadata'' s)
      (if jget ''created_at'' s = JNull then now else the (float_of_json (jget ''created_at'' s))) db = (r, db1)"
    by (meson surj_pair)
  then have 1: "evidence_move\<^sup>*\<^sup>* db db1" using usage_moves by (metis snd_conv)
  have 2: "evidence_move\<^sup>*\<^sup>* db1 (snd (record_successes rt w (\<lambda>k. uids (Suc k)) i kind now ss db1))"
    by (rule Cons.IH)
  have "snd (record_successes rt w uids i kind now (s # ss) db) \<in>
      {db, db1, snd (record_successes rt w (\<lambda>k. uids (Suc k)) i kind now ss db1)}"
    unfolding record_successes.simps Let_def u by (simp split: sum.splits)
  then show ?case
    using 1 rtranclp_trans [OF 1 2] by auto
qed simp

lemma update_status_moves: "ledger_moves db (snd (update_issue_status rt w uids now i st nt actor md job db))"
proof -
  have v: "evidence_move\<^sup>*\<^sup>* db1 db2"
    if "verify_mitigation rt uid i issue note_n actor_n job_n md now db1 = (r, db2)" for uid issue note_n actor_n job_n db1 r db2
    using verification_moves that by (metis snd_conv verify_mitigation_def)
  have s: "evidence_move\<^sup>*\<^sup>* db1 db2" if "record_successes rt w uids i kind now ss db1 = (r, db2)" for kind ss db1 r db2
    using successes_move that by (metis snd_conv)
  show ?thesis
  proof (cases "normalize_issue_status rt st")
    case (Inr s')
    show ?thesis
    proof (cases "get_issue i db")
      case (Some issue)
      let ?db1 = "write_issue_status i issue s' (optional_text 2000 nt) (optional_text 200 actor)
        (optional_text 128 job) md now db"
      have m: "issue_move db ?db1"
        using get_issue_known [OF Some] by (simp add: write_issue_status_def issue_move.moved)
      have "evidence_move\<^sup>*\<^sup>* ?db1 (snd (update_issue_status rt w uids now i st nt actor md job db))"
        using Inr Some by (auto simp: update_issue_status_def Let_def split: option.splits sum.splits prod.splits
            intro: v s)
      then show ?thesis by (rule ledger_moves_issue [OF m])
    qed (simp add: update_issue_status_def Inr)
  qed (simp add: update_issue_status_def)
qed

lemma step_moves: "ledger_moves db (issue_step rt c db)"
  by (cases "(rt, c, db)" rule: issue_step.cases)
    (simp_all add: report_moves link_moves update_status_moves ledger_moves_evidence verification_moves usage_moves)

lemma evidence_keeps_issues: "evidence_move db db' \<Longrightarrow> issues db' = issues db"
  by (erule evidence_move.cases) simp_all

lemma evidence_run_issues: "evidence_move\<^sup>*\<^sup>* db db' \<Longrightarrow> issues db' = issues db"
  by (induction rule: rtranclp_induct) (simp_all add: evidence_keeps_issues)

lemma ledger_ok_issue_move: "issue_move db db' \<Longrightarrow> ledger_ok db \<Longrightarrow> ledger_ok db'"
proof (induction rule: issue_move.induct)
  case (created i db h p t ft n now)
  then show ?case using ledger_new by simp
next
  case (merged row db st p t n tags md now)
  then show ?case
    by (intro ledger_update) (auto simp: row_ok_def run_issue_stmt_def)
next
  case (moved i db p t st now job)
  then show ?case
    by (intro ledger_update) (auto simp: row_ok_def run_issue_stmt_def)
next
  case (linked i db p t now source job url path)
  then show ?case
    by (intro ledger_update) (auto simp: row_ok_def run_issue_stmt_def)
qed

lemma ledger_ok_evidence: "evidence_move db db' \<Longrightarrow> ledger_ok db \<Longrightarrow> ledger_ok db'"
proof (induction rule: evidence_move.induct)
  case (verified i db p t vs)
  then show ?case by (intro ledger_evidence(1)) simp_all
next
  case (used i db v p t)
  then have "\<forall>u \<in> set (usages db). (us_issue u, us_job u) \<noteq> (us_issue v, us_job v)"
    by (auto simp: usage_of_def find_None_iff)
  then show ?case using used by (intro ledger_evidence(2)) simp_all
qed

lemma ledger_ok_moves:
  assumes "ledger_moves db db'" "ledger_ok db"
  shows "ledger_ok db'"
proof -
  obtain db1 where 1: "db1 = db \<or> issue_move db db1" "evidence_move\<^sup>*\<^sup>* db1 db'"
    using assms(1) by (auto simp: ledger_moves_def)
  then have "ledger_ok db1" using assms(2) ledger_ok_issue_move by blast
  with 1(2) show ?thesis by (induction rule: rtranclp_induct) (auto intro: ledger_ok_evidence)
qed

lemma ledger_ok_run: "ledger_ok db \<Longrightarrow> ledger_ok (fold (issue_step rt) calls db)"
  by (induction calls arbitrary: db) (auto intro: ledger_ok_moves [OF step_moves])

lemma ledger_ok_empty: "ledger_ok empty_issues"
  by (simp add: ledger_ok_def empty_issues_def keys_distinct_def)

section \<open>One live issue per fingerprint\<close>

definition closed_in :: "string \<Rightarrow> issue_db \<Rightarrow> bool" where
  "closed_in i db \<longleftrightarrow> (\<exists>r \<in> set (issues db). is_id r = i \<and> is_status r = ISSUE_CLOSED)"

definition single_live :: "issue_db \<Rightarrow> bool" where
  "single_live db \<longleftrightarrow> (\<forall>r \<in> set (issues db). \<forall>s \<in> set (issues db).
     is_hash r = is_hash s \<and> is_status r \<noteq> ISSUE_CLOSED \<and> is_status s \<noteq> ISSUE_CLOSED \<longrightarrow> is_id r = is_id s)"

lemma single_liveD:
  assumes "single_live db" "r \<in> set (issues db)" "s \<in> set (issues db)" "is_hash r = is_hash s"
    and "is_status r \<noteq> ISSUE_CLOSED" "is_status s \<noteq> ISSUE_CLOSED"
  shows "is_id r = is_id s"
  using assms(1) [unfolded single_live_def, rule_format, OF assms(2,3)] assms(4-6) by blast

lemma single_live_cong: "issues db' = issues db \<Longrightarrow> single_live db' = single_live db"
  unfolding single_live_def by (rule arg_cong [of _ _ "\<lambda>rs. \<forall>r \<in> set rs. \<forall>s \<in> set rs.
     is_hash r = is_hash s \<and> is_status r \<noteq> ISSUE_CLOSED \<and> is_status s \<noteq> ISSUE_CLOSED \<longrightarrow> is_id r = is_id s"])

lemma update_issue_mem:
  "r' \<in> set (issues (update_issue i s db)) \<longleftrightarrow>
     (\<exists>r \<in> set (issues db). r' = (if is_id r = i then run_issue_stmt s r else r))"
  by (auto simp: update_issue_def set_row_update)

text \<open>An update keeps the live issues apart unless it revives a closed one.\<close>

lemma single_live_update:
  assumes "single_live db"
    and "\<And>r. r \<in> set (issues db) \<Longrightarrow> is_id r = i \<Longrightarrow> is_status r = ISSUE_CLOSED \<Longrightarrow>
      is_status (run_issue_stmt s r) = ISSUE_CLOSED"
  shows "single_live (insert_issue_event i ty p t (update_issue i s db))"
proof -
  have old: "\<exists>r0 \<in> set (issues db). is_id r0 = is_id r \<and> is_hash r0 = is_hash r \<and> is_status r0 \<noteq> ISSUE_CLOSED"
    if r: "r \<in> set (issues (update_issue i s db))" "is_status r \<noteq> ISSUE_CLOSED" for r
  proof -
    obtain r0 where "r0 \<in> set (issues db)" "r = (if is_id r0 = i then run_issue_stmt s r0 else r0)"
      using r(1) unfolding update_issue_mem by blast
    then show ?thesis using r(2) assms(2) [of r0] by (intro bexI [of _ r0]) (auto split: if_splits)
  qed
  show ?thesis
    unfolding single_live_def insert_issue_event_sel
  proof (intro ballI impI)
    fix r s' assume a: "r \<in> set (issues (update_issue i s db))" "s' \<in> set (issues (update_issue i s db))"
      "is_hash r = is_hash s' \<and> is_status r \<noteq> ISSUE_CLOSED \<and> is_status s' \<noteq> ISSUE_CLOSED"
    obtain r0 where r0: "r0 \<in> set (issues db)" "is_id r0 = is_id r" "is_hash r0 = is_hash r"
        "is_status r0 \<noteq> ISSUE_CLOSED"
      using old [OF a(1)] a(3) by blast
    obtain s0 where s0: "s0 \<in> set (issues db)" "is_id s0 = is_id s'" "is_hash s0 = is_hash s'"
        "is_status s0 \<noteq> ISSUE_CLOSED"
      using old [OF a(2)] a(3) by blast
    have "is_id r0 = is_id s0"
      using single_liveD [OF assms(1) r0(1) s0(1)] r0(3,4) s0(3,4) a(3) by simp
    then show "is_id r = is_id s'" using r0(2) s0(2) by simp
  qed
qed

lemma update_issue_id:
  assumes "ledger_ok db" "row \<in> set (issues db)" "r \<in> set (issues db)" "is_id r = is_id row"
  shows "r = row"
proof -
  have d: "keys_distinct is_id (issues db)" using assms(1) by (simp add: ledger_ok_def)
  show ?thesis using row_get_mem [OF d assms(2)] row_get_mem [OF d assms(3)] assms(4) by simp
qed

lemma single_live_move:
  assumes "issue_move db db'" "ledger_ok db" "single_live db" "\<And>i. closed_in i db \<Longrightarrow> closed_in i db'"
  shows "single_live db'"
  using assms
proof (induction rule: issue_move.induct)
  case (created i db h p t ft n now)
  then have "\<forall>r \<in> set (issues db). is_hash r = h \<longrightarrow> is_status r = ISSUE_CLOSED"
    by (auto simp: live_issues_def filter_empty_conv)
  then have new: "is_hash r \<noteq> h" if "r \<in> set (issues db)" "is_status r \<noteq> ISSUE_CLOSED" for r
    using that by blast
  have h: "is_hash (new_issue i h ft n now) = h" by (simp add: new_issue_def)
  show ?case
    unfolding single_live_def
  proof (intro ballI impI)
    fix r s assume m: "r \<in> set (issues (insert_issue_event i ''issue_reported'' p t
          (db\<lparr>issues := issues db @ [new_issue i h ft n now]\<rparr>)))"
      "s \<in> set (issues (insert_issue_event i ''issue_reported'' p t
          (db\<lparr>issues := issues db @ [new_issue i h ft n now]\<rparr>)))"
      and l: "is_hash r = is_hash s \<and> is_status r \<noteq> ISSUE_CLOSED \<and> is_status s \<noteq> ISSUE_CLOSED"
    then consider "r \<in> set (issues db)" "s \<in> set (issues db)"
      | "r = s" | "r \<in> set (issues db)" "is_hash s = h" | "s \<in> set (issues db)" "is_hash r = h"
      using h by auto
    then show "is_id r = is_id s"
    proof cases
      case 1
      then show ?thesis using single_liveD [OF created(4) 1] l by blast
    next
      case 3
      then show ?thesis using new [of r] l by simp
    next
      case 4
      then show ?thesis using new [of s] l by simp
    qed simp
  qed
next
  case (merged row db st p t n tags md now)
  have "r = row" if "r \<in> set (issues db)" "is_id r = is_id row" for r
    using update_issue_id [OF merged(4) merged(1) that] .
  then show ?case
    using merged(2,3,5) by (intro single_live_update) auto
next
  case (moved i db p t st now job)
  have "is_status (run_issue_stmt (Set_status st now job) r) = ISSUE_CLOSED"
    if r: "r \<in> set (issues db)" "is_id r = i" "is_status r = ISSUE_CLOSED" for r
  proof -
    have "closed_in i (insert_issue_event i ''issue_status_updated'' p t (update_issue i (Set_status st now job) db))"
      using moved(4) r by (auto simp: closed_in_def)
    then obtain r' where "r' \<in> set (issues (update_issue i (Set_status st now job) db))" "is_id r' = i"
        "is_status r' = ISSUE_CLOSED"
      unfolding closed_in_def insert_issue_event_sel by blast
    then obtain r0 where "is_status (run_issue_stmt (Set_status st now job) r0) = ISSUE_CLOSED"
      unfolding update_issue_mem by (metis run_issue_stmt_sel(1))
    then show ?thesis by (simp add: run_issue_stmt_def)
  qed
  then show ?case using moved(3) by (intro single_live_update) auto
next
  case (linked i db p t now source job url path)
  then show ?case by (intro single_live_update) (auto simp: run_issue_stmt_def)
qed

lemma single_live_moves:
  assumes "ledger_moves db db'" "ledger_ok db" "single_live db" "\<And>i. closed_in i db \<Longrightarrow> closed_in i db'"
  shows "single_live db'"
proof -
  obtain db1 where 1: "db1 = db \<or> issue_move db db1" "evidence_move\<^sup>*\<^sup>* db1 db'"
    using assms(1) by (auto simp: ledger_moves_def)
  note e = evidence_run_issues [OF 1(2)]
  have c: "closed_in i db \<Longrightarrow> closed_in i db1" for i
    using assms(4) [of i] by (simp add: closed_in_def e)
  have "single_live db1"
    using 1(1) assms(3) single_live_move [OF _ assms(2,3) c] by blast
  then show ?thesis using single_live_cong [OF e] by blast
qed

text \<open>No call of the run takes an issue that is closed out of that status.\<close>

fun no_revival :: "runtime \<Rightarrow> (world \<times> issue_call) list \<Rightarrow> issue_db \<Rightarrow> bool" where
  "no_revival rt [] db = True"
| "no_revival rt (c # cs) db =
     ((\<forall>r \<in> set (issues db). is_status r = ISSUE_CLOSED \<longrightarrow> closed_in (is_id r) (issue_step rt c db))
      \<and> no_revival rt cs (issue_step rt c db))"

lemma single_live_run:
  "no_revival rt calls db \<Longrightarrow> ledger_ok db \<Longrightarrow> single_live db \<Longrightarrow> single_live (fold (issue_step rt) calls db)"
proof (induction calls arbitrary: db)
  case (Cons c cs)
  have "single_live (issue_step rt c db)"
    by (rule single_live_moves [OF step_moves Cons.prems(2,3)]) (use Cons.prems(1) in \<open>auto simp: closed_in_def\<close>)
  then show ?case
    using Cons.IH [of "issue_step rt c db"] Cons.prems(1,2) ledger_ok_moves [OF step_moves] by simp
qed simp

lemma single_live_empty: "single_live empty_issues"
  by (simp add: single_live_def empty_issues_def)

lemma report_to_live:
  assumes "ledger_ok db" "single_live db" "row \<in> set (issues db)" "is_status row \<noteq> ISSUE_CLOSED"
    and "normalize_report rt q w = Inr n" "normal_hash rt q n = is_hash row"
  shows "\<exists>r db'. report_issue rt w uid now q db = (Inr (r, False, is_status row = ISSUE_MITIGATED), db')
    \<and> is_id r = is_id row \<and> is_count r = is_count row + 1
    \<and> is_status r = (if is_status row = ISSUE_MITIGATED then ISSUE_OPEN else is_status row)
    \<and> length (issues db') = length (issues db)"
proof -
  have "row \<in> set (live_issues (is_hash row) db)"
    using assms(3,4) by (simp add: live_issues_def)
  then obtain row' rows where l: "newest_first (live_issues (is_hash row) db) = row' # rows"
    using newest_first_mem by (metis list.exhaust list.set(1) empty_iff)
  then have "row' \<in> set (live_issues (is_hash row) db)"
    using newest_first_mem by (metis list.set_intros(1))
  then have r': "row' \<in> set (issues db)" "is_status row' \<noteq> ISSUE_CLOSED" "is_hash row' = is_hash row"
    using live_row by blast+
  have "row' = row"
    using update_issue_id [OF assms(1,3) r'(1)] single_liveD [OF assms(2) r'(1) assms(3) r'(3,2) assms(4)] by simp
  then have l': "newest_first (live_issues (normal_hash rt q n) db) = row # rows" using l assms(6) by simp
  obtain tags md p r where m: "report_issue rt w uid now q db =
           (Inr (row_to_issue (run_issue_stmt
               (Merge n (if is_status row = ISSUE_MITIGATED then ISSUE_OPEN else is_status row) tags md now) r),
              False, is_status row = ISSUE_MITIGATED),
            insert_issue_event (is_id row) ''issue_reported'' p now
              (update_issue (is_id row)
                (Merge n (if is_status row = ISSUE_MITIGATED then ISSUE_OPEN else is_status row) tags md now) db))"
      "find_issue (is_id row) db = Some r"
    using report_merged [OF assms(5) l', of uid now] by blast
  have "r = row"
    using m(2) row_get_mem [of is_id "issues db" row] assms(1,3) by (simp add: find_issue_def ledger_ok_def)
  with m(1) show ?thesis by (simp add: row_to_issue_def run_issue_stmt_def update_issue_def row_update_def)
qed

section \<open>Pages\<close>

lemma newest_first_filter: "newest_first (filter P rows) = filter P (newest_first rows)"
  by (simp add: newest_first_def rev_filter flip: filter_sort)

lemma newest_first_sorted: "sorted_wrt (\<lambda>a b. issue_order b \<le> issue_order a) (newest_first rows)"
proof -
  have "sorted (map issue_order (sort_key issue_order rows))" by simp
  then show ?thesis by (simp add: newest_first_def sorted_map sorted_wrt_rev)
qed

lemma filter_below:
  "sorted_wrt (\<lambda>a b. key b < (key a :: 'k :: linorder)) xs \<Longrightarrow> n < length xs \<Longrightarrow>
     filter (\<lambda>x. key x < key (xs ! n)) xs = drop (Suc n) xs"
proof (induction xs arbitrary: n)
  case (Cons x xs)
  show ?case
  proof (cases n)
    case 0
    then have "\<forall>y \<in> set xs. key y < key x" using Cons.prems by simp
    then show ?thesis using 0 by (simp add: filter_id_conv)
  next
    case (Suc m)
    then have "key (xs ! m) < key x" using Cons.prems by simp
    then have "\<not> key x < key (xs ! m)" by simp
    then show ?thesis using Suc Cons by simp
  qed
qed simp

lemma newest_first_strict:
  assumes "keys_distinct is_id rows"
  shows "sorted_wrt (\<lambda>a b. issue_order b < issue_order a) (newest_first rows)"
proof -
  have "distinct (map snd (map issue_order rows))"
    using assms by (simp add: keys_distinct_def issue_order_def comp_def)
  then have "distinct (map issue_order rows)" by (simp only: distinct_map)
  then have "distinct (map issue_order (sort_key issue_order rows))"
    by (simp add: distinct_map)
  then have "sorted_wrt (<) (map issue_order (sort_key issue_order rows))"
    by (simp add: strict_sorted_iff)
  then show ?thesis by (simp add: newest_first_def sorted_wrt_rev sorted_wrt_map)
qed

text \<open>The rows of a filter, newest first, and the cursor a page returns.\<close>

definition filtered :: "runtime \<Rightarrow> issue_filter \<Rightarrow> issue_db \<Rightarrow> issue list" where
  "filtered rt f db =
     newest_first (filter (issue_matches f (case given (lf_severity f) of None \<Rightarrow> None
         | Some _ \<Rightarrow> (case normalize_severity rt (lf_severity f) of Inl _ \<Rightarrow> None | Inr s \<Rightarrow> Some s))) (issues db))"

definition page_size :: "int \<Rightarrow> nat" where
  "page_size limit = nat (max 1 (min 1000 limit))"

lemma page_size_pos: "0 < page_size limit"
  by (simp add: page_size_def)

lemma list_issues_Inr:
  assumes "list_issues rt f limit db = Inr (page, ts, i)"
  shows "page = map row_to_issue (take (page_size limit) (filtered rt f db))"
    and "ts = (if page = [] then None else Some (is_updated_at (last (take (page_size limit) (filtered rt f db)))))"
    and "i = (if page = [] then None else Some (is_id (last (take (page_size limit) (filtered rt f db)))))"
  using assms page_size_pos [of limit]
  by (auto simp: list_issues_def filtered_def page_size_def [symmetric] Let_def split: option.splits sum.splits if_splits)

lemma before_cursor_at: "before_cursor (Some (is_updated_at r0)) (Some (is_id r0)) r \<longleftrightarrow> issue_order r < issue_order r0"
  by (auto simp: before_cursor_def issue_order_def less_prod_def')

lemma before_cursor_trans: "before_cursor ts i r0 \<Longrightarrow> issue_order r < issue_order r0 \<Longrightarrow> before_cursor ts i r"
  by (auto simp: before_cursor_def issue_order_def less_prod_def' split: option.splits)

lemma matches_cursor:
  assumes "issue_matches f sev r0" "given (Some (is_id r0)) = Some (is_id r0)"
  shows "issue_matches (f\<lparr>lf_before_ts := Some (is_updated_at r0), lf_before_id := Some (is_id r0)\<rparr>) sev r
    \<longleftrightarrow> issue_matches f sev r \<and> issue_order r < issue_order r0"
proof -
  have "before_cursor (lf_before_ts f) (given (lf_before_id f)) r0"
    using assms(1) by (simp only: issue_matches_def)
  then have "issue_order r < issue_order r0 \<Longrightarrow> before_cursor (lf_before_ts f) (given (lf_before_id f)) r"
    using before_cursor_trans by blast
  then show ?thesis
    unfolding issue_matches_def by (simp add: assms(2) before_cursor_at) blast
qed

lemma next_page:
  assumes "ledger_ok db" "list_issues rt f limit db = Inr (page, Some ts, Some i)" "given (Some i) = Some i"
    and "list_issues rt (f\<lparr>lf_before_ts := Some ts, lf_before_id := Some i\<rparr>) limit db = Inr (page2, c2)"
  shows "page @ page2 = map row_to_issue (take (2 * page_size limit) (filtered rt f db))"
proof -
  let ?f2 = "f\<lparr>lf_before_ts := Some ts, lf_before_id := Some i\<rparr>"
  let ?n = "page_size limit" and ?M = "filtered rt f db"
  define sev where "sev = (case given (lf_severity f) of None \<Rightarrow> None
         | Some _ \<Rightarrow> (case normalize_severity rt (lf_severity f) of Inl _ \<Rightarrow> None | Inr s \<Rightarrow> Some s))"
  have M: "?M = newest_first (filter (issue_matches f sev) (issues db))" by (simp add: filtered_def sev_def)
  have ne: "take ?n ?M \<noteq> []"
    using list_issues_Inr [OF assms(2)] by (auto split: if_splits)
  define k where "k = length (take ?n ?M) - 1"
  define r0 where "r0 = ?M ! k"
  have k: "k < length ?M" "Suc k = min ?n (length ?M)"
    using ne page_size_pos [of limit] by (auto simp: k_def min_def)
  have r0: "last (take ?n ?M) = r0"
  proof -
    have "length (take ?n ?M) = Suc k" by (simp add: k(2) min.commute)
    moreover have "k < ?n" using k(2) by linarith
    ultimately show ?thesis using ne by (simp add: last_conv_nth r0_def del: length_take)
  qed
  have c: "ts = is_updated_at r0" "i = is_id r0"
    using list_issues_Inr(2,3) [OF assms(2)] r0 by (auto split: if_splits)
  have m: "issue_matches f sev r0"
    using nth_mem [OF k(1)] newest_first_mem M by (auto simp: r0_def)
  have "filtered rt ?f2 db = newest_first (filter (\<lambda>r. issue_matches f sev r \<and> issue_order r < issue_order r0) (issues db))"
  proof -
    have "filtered rt ?f2 db = newest_first (filter (issue_matches ?f2 sev) (issues db))"
      by (simp add: filtered_def sev_def split: option.split)
    moreover have "issue_matches ?f2 sev = (\<lambda>r. issue_matches f sev r \<and> issue_order r < issue_order r0)"
      using matches_cursor [OF m] assms(3) by (intro ext) (simp add: c)
    ultimately show ?thesis by simp
  qed
  also have "\<dots> = filter (\<lambda>r. issue_order r < issue_order r0) ?M"
    unfolding M newest_first_filter [symmetric] by (simp add: conj_commute)
  also have "\<dots> = drop (Suc k) ?M"
    unfolding r0_def
  proof (rule filter_below [OF _ k(1)])
    have "keys_distinct is_id (filter (issue_matches f sev) (issues db))"
      using assms(1) by (simp add: ledger_ok_def keys_distinct_def distinct_map_filter)
    then show "sorted_wrt (\<lambda>a b. issue_order b < issue_order a) ?M" unfolding M by (rule newest_first_strict)
  qed
  finally have "page2 = map row_to_issue (take ?n (drop (Suc k) ?M))"
    using list_issues_Inr(1) assms(4) by (metis prod.collapse)
  moreover have "page = map row_to_issue (take ?n ?M)" using list_issues_Inr(1) [OF assms(2)] .
  moreover have "take ?n ?M @ take ?n (drop (Suc k) ?M) = take (2 * ?n) ?M"
    using k(2) by (cases "?n \<le> length ?M") (simp_all add: mult_2 take_add)
  ultimately show ?thesis by (metis map_append)
qed

section \<open>Properties\<close>

text \<open>C25. Whatever is called on an empty ledger, every issue is closed exactly when it has a
  closing time, its count is the number of reports recorded for it, and no two records of usage
  evidence are of one issue and one job.\<close>

theorem ledger_is_consistent:
  "let db = fold (issue_step rt) calls empty_issues in
    (\<forall>r \<in> set (issues db). (is_status r = ISSUE_CLOSED \<longleftrightarrow> is_closed_at r \<noteq> None)
      \<and> is_count r = int (length (filter (\<lambda>e. ie_issue e = is_id r \<and> ie_type e = ''issue_reported'') (issue_events db))))
    \<and> distinct (map is_id (issues db)) \<and> distinct (map (\<lambda>u. (us_issue u, us_job u)) (usages db))"
  using ledger_ok_run [OF ledger_ok_empty, of rt calls]
  by (auto simp: Let_def ledger_ok_def row_ok_def reports_of_def keys_distinct_def)

text \<open>Two reports under one fingerprint.\<close>

definition issue_report0 :: issue_report where
  "issue_report0 =
     \<lparr>ir_project = ''p'', ir_title = ''t'', ir_severity = None, ir_kind = None, ir_symptom = None, ir_raw_error = None,
      ir_job = Some ''j1'', ir_url = None, ir_path = None, ir_source = None, ir_tags = [], ir_metadata = [],
      ir_fingerprint = Some ''x''\<rparr>"

definition issue_calls0 :: "(world \<times> issue_call) list" where
  "issue_calls0 = [(empty_world, Report ''a'' 1 issue_report0), (empty_world, Report ''b'' 2 issue_report0)]"

lemmas report0_simps =
  issue_report0_def normalize_report_def normalize_required_def normalize_severity_def optional_text_def
  normalize_ws_def strip_def py_space_def space_chars_def or_empty_def normalize_tags_def report_metadata_def
  jget_def str_or_def attachment_contract_issue_metadata_def job_events_def empty_world_def dict_update_def

lemma normal_report0:
  "normalize_report rt issue_report0 empty_world = Inr
     \<lparr>nr_project = ''p'', nr_title = ''t'', nr_severity = ''P2'', nr_kind = None, nr_symptom = None,
      nr_raw_error = None, nr_job = Some ''j1'', nr_url = None, nr_path = None, nr_source = None, nr_tags = [],
      nr_metadata = []\<rparr>"
  by (simp add: report0_simps)

theorem ledger_is_consistent_witness:
  "\<forall>rt. \<exists>r. issues (fold (issue_step rt) issue_calls0 empty_issues) = [r] \<and> is_count r = 2"
proof
  fix rt
  let ?db = "fold (issue_step rt) issue_calls0 empty_issues"
  have e: "map is_id (issues ?db) = [''iss_a'']" "map (\<lambda>e. (ie_issue e, ie_type e)) (issue_events ?db) =
      [(''iss_a'', ''issue_reported''), (''iss_a'', ''issue_reported'')]"
    by (simp_all add: issue_calls0_def report_issue_def normal_report0 live_issues_def empty_issues_def Let_def
        get_after_new get_after_update new_issue_def insert_issue_event_def find_issue_def update_issue_def
        row_update_def run_issue_stmt_def row_to_issue_def newest_first_def get_issue_def)
  then obtain r where r: "issues ?db = [r]" "is_id r = ''iss_a''" by (cases "issues ?db") auto
  have "length (filter (\<lambda>(i, ty). i = ''iss_a'' \<and> ty = ''issue_reported'')
      (map (\<lambda>e. (ie_issue e, ie_type e)) (issue_events ?db))) = 2"
    unfolding e by simp
  then have "length (filter (\<lambda>e. ie_issue e = ''iss_a'' \<and> ie_type e = ''issue_reported'') (issue_events ?db)) = 2"
    by (simp add: filter_map comp_def)
  then have "is_count r = 2"
    using ledger_is_consistent [of rt issue_calls0] r by (simp add: Let_def)
  with r show "\<exists>r. issues ?db = [r] \<and> is_count r = 2" by blast
qed

text \<open>C26. Reports of one fingerprint are merged: as long as no call takes a closed issue out of that
  status, a report whose fingerprint is that of an issue which is not closed creates nothing. It is
  counted on that issue, and reopens it if it was mitigated.\<close>

theorem reports_are_merged:
  assumes "no_revival rt calls empty_issues"
    and "row \<in> set (issues (fold (issue_step rt) calls empty_issues))" and "is_status row \<noteq> ISSUE_CLOSED"
    and "normalize_report rt q w = Inr n" and "normal_hash rt q n = is_hash row"
  shows "\<exists>r db'. report_issue rt w uid now q (fold (issue_step rt) calls empty_issues) =
      (Inr (r, False, is_status row = ISSUE_MITIGATED), db')
    \<and> is_id r = is_id row \<and> is_count r = is_count row + 1
    \<and> is_status r = (if is_status row = ISSUE_MITIGATED then ISSUE_OPEN else is_status row)
    \<and> length (issues db') = length (issues (fold (issue_step rt) calls empty_issues))"
  by (rule report_to_live [OF ledger_ok_run [OF ledger_ok_empty] single_live_run [OF assms(1) ledger_ok_empty
        single_live_empty] assms(2-5)])

text \<open>The issue of a report that was then mitigated: the same report reopens it.\<close>

definition mitigated_calls0 :: "(world \<times> issue_call) list" where
  "mitigated_calls0 = [(empty_world, Report ''a'' 1 issue_report0),
     (empty_world, UpdateStatus (\<lambda>_. ''v'') 2 ''iss_a'' (Some ''mitigated'') None None [] None)]"

lemma fingerprint0: "ir_fingerprint issue_report0 = Some ''x''"
  by (simp add: issue_report0_def)

lemma mitigated0:
  "\<exists>row. issues (fold (issue_step rt) mitigated_calls0 empty_issues) = [row] \<and> is_id row = ''iss_a''
     \<and> is_status row = ISSUE_MITIGATED \<and> is_hash row = rt_sha256 rt ''manual:x''"
  by (simp add: mitigated_calls0_def report_issue_def normal_report0 live_issues_def empty_issues_def Let_def
      new_issue_def insert_issue_event_def find_issue_def get_issue_def row_to_issue_def
      update_issue_status_def normalize_issue_status_def issue_status_of_def issue_statuses_def issue_status_value_def
      normalize_ws_def strip_def py_space_def space_chars_def lower_def lower_char_def write_issue_status_def
      update_issue_def row_update_def run_issue_stmt_def verify_mitigation_def record_issue_verification_def
      issue_fingerprint_text_def fingerprint0 optional_text_def or_empty_def fingerprint_norm_def coalesce_def
      newest_first_def
      split: option.splits sum.splits prod.splits)

theorem reports_are_merged_witness:
  "\<forall>rt. \<exists>r db'. report_issue rt empty_world ''b'' 3 issue_report0 (fold (issue_step rt) mitigated_calls0 empty_issues) =
      (Inr (r, False, True), db') \<and> is_id r = ''iss_a'' \<and> is_status r = ISSUE_OPEN \<and> length (issues db') = 1"
proof
  fix rt
  obtain row where row: "issues (fold (issue_step rt) mitigated_calls0 empty_issues) = [row]" "is_id row = ''iss_a''"
      "is_status row = ISSUE_MITIGATED" "is_hash row = rt_sha256 rt ''manual:x''"
    using mitigated0 by blast
  have "no_revival rt mitigated_calls0 empty_issues"
    by (simp add: mitigated_calls0_def report_issue_def normal_report0 live_issues_def empty_issues_def Let_def
        new_issue_def insert_issue_event_def get_issue_def find_issue_def row_to_issue_def)
  moreover have "normal_hash rt issue_report0 n = rt_sha256 rt ''manual:x''" for n
    by (simp add: normal_hash_def issue_fingerprint_text_def fingerprint0 optional_text_def or_empty_def
        fingerprint_norm_def normalize_ws_def strip_def py_space_def space_chars_def lower_def lower_char_def)
  ultimately show "\<exists>r db'. report_issue rt empty_world ''b'' 3 issue_report0 (fold (issue_step rt) mitigated_calls0 empty_issues) =
      (Inr (r, False, True), db') \<and> is_id r = ''iss_a'' \<and> is_status r = ISSUE_OPEN \<and> length (issues db') = 1"
    using reports_are_merged [of rt mitigated_calls0 row issue_report0 empty_world, OF _ _ _ normal_report0, of "''b''" 3] row
    by fastforce
qed

text \<open>C27. The pages of a listing fit together: the page asked for with the cursor a page returned
  carries on right after it, so that the two are the first two pages' worth of the rows the filter
  selects, newest first, with none left out and none twice.\<close>

theorem pages_fit_together:
  assumes "list_issues rt f limit (fold (issue_step rt) calls empty_issues) = Inr (page, Some ts, Some i)"
    and "given (Some i) = Some i"
    and "list_issues rt (f\<lparr>lf_before_ts := Some ts, lf_before_id := Some i\<rparr>) limit
           (fold (issue_step rt) calls empty_issues) = Inr (page2, c2)"
  shows "page @ page2 =
    map row_to_issue (take (2 * page_size limit) (filtered rt f (fold (issue_step rt) calls empty_issues)))"
  by (rule next_page [OF ledger_ok_run [OF ledger_ok_empty] assms])

text \<open>Two issues, in pages of one.\<close>

definition hash_runtime :: runtime where
  "hash_runtime = \<lparr>rt_env = Map.empty, rt_sha256 = id, rt_dumps = (\<lambda>_. ''''), rt_repr = (\<lambda>_. '''')\<rparr>"

definition two_issues :: "(world \<times> issue_call) list" where
  "two_issues = [(empty_world, Report ''a'' 1 issue_report0),
     (empty_world, Report ''b'' 2 (issue_report0\<lparr>ir_fingerprint := Some ''y''\<rparr>))]"

definition any_issue :: issue_filter where
  "any_issue = \<lparr>lf_project = None, lf_kind = None, lf_source = None, lf_status = None, lf_severity = None,
     lf_hash = None, lf_ftext = None, lf_since = None, lf_until = None, lf_before_ts = None, lf_before_id = None\<rparr>"

lemma normal_report1:
  "normalize_report rt (issue_report0\<lparr>ir_fingerprint := Some ''y''\<rparr>) empty_world = normalize_report rt issue_report0 empty_world"
  by (simp add: report0_simps)

lemma two_issues_rows:
  "\<exists>r s. issues (fold (issue_step hash_runtime) two_issues empty_issues) = [r, s] \<and> is_id r = ''iss_a'' \<and> is_id s = ''iss_b''
     \<and> is_updated_at r = 1 \<and> is_updated_at s = 2"
  by (simp add: two_issues_def report_issue_def normal_report0 normal_report1 live_issues_def empty_issues_def Let_def
      new_issue_def insert_issue_event_def find_issue_def get_issue_def row_to_issue_def hash_runtime_def
      issue_fingerprint_text_def fingerprint0 optional_text_def or_empty_def fingerprint_norm_def
      normalize_ws_def strip_def py_space_def space_chars_def lower_def lower_char_def)

lemma any_issue_matches: "issue_matches any_issue None r"
  by (simp add: issue_matches_def any_issue_def same_lower_def given_def status_values_def before_cursor_def
      normalize_ws_def strip_def or_none_def or_empty_def)

lemma given_iss_b: "given (Some ''iss_b'') = Some ''iss_b''"
  by (simp add: given_def or_none_def or_empty_def normalize_ws_def strip_def py_space_def space_chars_def)

lemma any_issue_given [simp]:
  "lf_severity any_issue = None" "lf_status any_issue = None" "given None = None" "status_values None = []"
  by (simp_all add: any_issue_def given_def status_values_def normalize_ws_def strip_def or_none_def or_empty_def)

theorem pages_fit_together_witness:
  "\<exists>page page2 c2. list_issues hash_runtime any_issue 1 (fold (issue_step hash_runtime) two_issues empty_issues) =
       Inr (page, Some 2, Some ''iss_b'')
     \<and> list_issues hash_runtime (any_issue\<lparr>lf_before_ts := Some 2, lf_before_id := Some ''iss_b''\<rparr>) 1
         (fold (issue_step hash_runtime) two_issues empty_issues) = Inr (page2, c2)
     \<and> map is_id (page @ page2) = [''iss_b'', ''iss_a'']"
proof -
  let ?db = "fold (issue_step hash_runtime) two_issues empty_issues"
  let ?f = "any_issue\<lparr>lf_before_ts := Some 2, lf_before_id := Some ''iss_b''\<rparr>"
  obtain r s where rs: "issues ?db = [r, s]" "is_id r = ''iss_a''" "is_id s = ''iss_b''"
      "is_updated_at r = 1" "is_updated_at s = 2"
    using two_issues_rows by blast
  have all: "filtered hash_runtime any_issue ?db = [s, r]"
    by (simp add: filtered_def any_issue_matches rs newest_first_def issue_order_def less_eq_prod_def)
  have 1: "list_issues hash_runtime any_issue 1 ?db = Inr ([row_to_issue s], Some 2, Some ''iss_b'')"
    by (simp add: list_issues_def bad_status_def any_issue_matches rs newest_first_def issue_order_def less_eq_prod_def)
  obtain page2 c2 where 2: "list_issues hash_runtime ?f 1 ?db = Inr (page2, c2)"
    by (simp add: list_issues_def bad_status_def Let_def)
  have "[row_to_issue s] @ page2 = map row_to_issue (take (2 * page_size 1) (filtered hash_runtime any_issue ?db))"
    by (rule pages_fit_together [OF 1 given_iss_b 2])
  then have "map is_id ([row_to_issue s] @ page2) = [''iss_b'', ''iss_a'']"
    by (simp add: all page_size_def rs)
  with 1 2 show ?thesis by (intro exI conjI)
qed

end
