(* ===== verification/Utf8.thy ===== *)
theory Utf8
  imports Prelude "HOL-Library.Word"
begin

text \<open>
  Python's \<open>utf-8\<close> codec, as the readers of \<open>core/artifacts.py\<close> use it: \<open>str.encode\<close>, the
  incremental decoder in the modes \<open>strict\<close> and \<open>replace\<close>, and the newline translation of a file
  opened as text. Code points are natural numbers here, so the whole of Unicode is covered; bytes
  are words of 8 bits. \<open>utf8_step\<close> reads one character at the front of a byte list and says how
  many bytes it takes, how many are wrong, or that more have to come.
\<close>

type_synonym byte = "8 word"

unbundle bit_operations_syntax

section \<open>Encoding\<close>

text \<open>The code points that may be encoded: no surrogates.\<close>

definition scalar :: "nat \<Rightarrow> bool" where
  "scalar n \<longleftrightarrow> n < 0xD800 \<or> (0xE000 \<le> n \<and> n < 0x110000)"

definition byte_of :: "nat \<Rightarrow> byte" where
  "byte_of n = of_nat n"

definition tail_byte :: "nat \<Rightarrow> byte" where
  "tail_byte n = byte_of (0x80 + n mod 64)"

definition utf8_char :: "nat \<Rightarrow> byte list" where
  "utf8_char n =
     (if n < 0x80 then [byte_of n]
      else if n < 0x800 then [byte_of (0xC0 + n div 64), tail_byte n]
      else if n < 0x10000 then [byte_of (0xE0 + n div 4096), tail_byte (n div 64), tail_byte n]
      else [byte_of (0xF0 + n div 262144), tail_byte (n div 4096), tail_byte (n div 64), tail_byte n])"

definition utf8 :: "nat list \<Rightarrow> byte list" where
  "utf8 tx = concat (map utf8_char tx)"

section \<open>Decoding\<close>

definition is_tail :: "byte \<Rightarrow> bool" where
  "is_tail b \<longleftrightarrow> b AND 0xC0 = 0x80"

text \<open>The second byte after a leading byte: overlong forms, surrogates and values above the
  last code point are refused here.\<close>

definition second_ok :: "nat \<Rightarrow> byte \<Rightarrow> bool" where
  "second_ok lead b \<longleftrightarrow> is_tail b
     \<and> (lead = 0xE0 \<longrightarrow> 0xA0 \<le> unat b) \<and> (lead = 0xED \<longrightarrow> unat b < 0xA0)
     \<and> (lead = 0xF0 \<longrightarrow> 0x90 \<le> unat b) \<and> (lead = 0xF4 \<longrightarrow> unat b < 0x90)"

datatype utf8_result = Char nat nat | Invalid nat | Incomplete

fun utf8_step :: "byte list \<Rightarrow> utf8_result" where
  "utf8_step [] = Incomplete"
| "utf8_step (b # bs) =
     (let lead = unat b in
      if lead < 0x80 then Char lead 1
      else if lead < 0xC2 then Invalid 1
      else if lead < 0xE0 then
        (case bs of
           [] \<Rightarrow> Incomplete
         | b1 # _ \<Rightarrow>
             if \<not> is_tail b1 then Invalid 1
             else Char ((lead - 0xC0) * 64 + (unat b1 - 0x80)) 2)
      else if lead < 0xF0 then
        (case bs of
           [] \<Rightarrow> Incomplete
         | b1 # bs1 \<Rightarrow>
             if \<not> second_ok lead b1 then Invalid 1
             else (case bs1 of
                     [] \<Rightarrow> Incomplete
                   | b2 # _ \<Rightarrow>
                       if \<not> is_tail b2 then Invalid 2
                       else Char ((lead - 0xE0) * 4096 + (unat b1 - 0x80) * 64 + (unat b2 - 0x80)) 3))
      else if lead < 0xF5 then
        (case bs of
           [] \<Rightarrow> Incomplete
         | b1 # bs1 \<Rightarrow>
             if \<not> second_ok lead b1 then Invalid 1
             else (case bs1 of
                     [] \<Rightarrow> Incomplete
                   | b2 # bs2 \<Rightarrow>
                       if \<not> is_tail b2 then Invalid 2
                       else (case bs2 of
                               [] \<Rightarrow> Incomplete
                             | b3 # _ \<Rightarrow>
                                 if \<not> is_tail b3 then Invalid 3
                                 else Char ((lead - 0xF0) * 262144 + (unat b1 - 0x80) * 4096
                                            + (unat b2 - 0x80) * 64 + (unat b3 - 0x80)) 4)))
      else Invalid 1)"

declare utf8_step.simps(2) [simp del]

lemma step_lengths:
  "utf8_step bs = Char c k \<Longrightarrow> 0 < k \<and> k \<le> length bs"
  "utf8_step bs = Invalid k \<Longrightarrow> 0 < k \<and> k \<le> length bs"
  by (cases bs; auto simp: utf8_step.simps Let_def split: if_splits list.splits)+

text \<open>\<open>decode(data, final=False)\<close> in the mode \<open>strict\<close>: the complete characters at the front, or
  nothing where a byte is wrong.\<close>

function strict_decode :: "byte list \<Rightarrow> nat list option" where
  "strict_decode bs =
     (if bs = [] then Some []
      else case utf8_step bs of
             Char c k \<Rightarrow> map_option ((#) c) (strict_decode (drop k bs))
           | Invalid _ \<Rightarrow> None
           | Incomplete \<Rightarrow> Some [])"
  by pat_completeness auto
termination by (relation "measure length") (auto dest: step_lengths(1))

text \<open>The same in the mode \<open>replace\<close>, with what is left to be decoded with the next bytes; and
  \<open>bytes.decode(errors="replace")\<close>, which ends with the bytes it is given.\<close>

function replace_decode :: "byte list \<Rightarrow> nat list \<times> byte list" where
  "replace_decode bs =
     (if bs = [] then ([], [])
      else case utf8_step bs of
             Char c k \<Rightarrow> (let (cs, r) = replace_decode (drop k bs) in (c # cs, r))
           | Invalid k \<Rightarrow> (let (cs, r) = replace_decode (drop k bs) in (0xFFFD # cs, r))
           | Incomplete \<Rightarrow> ([], bs))"
  by pat_completeness auto
termination by (relation "measure length") (auto dest: step_lengths)

declare strict_decode.simps [simp del] replace_decode.simps [simp del]

definition replace_decode_final :: "byte list \<Rightarrow> nat list" where
  "replace_decode_final bs =
     (let (cs, r) = replace_decode bs in cs @ (if r = [] then [] else [0xFFFD]))"

text \<open>A file opened as text: a carriage return, or one with a line feed after it, reads as a line
  feed.\<close>

fun universal_newlines :: "nat list \<Rightarrow> nat list" where
  "universal_newlines [] = []"
| "universal_newlines [c] = [if c = 13 then 10 else c]"
| "universal_newlines (c # d # ds) =
     (if c = 13 \<and> d = 10 then 10 # universal_newlines ds
      else (if c = 13 then 10 else c) # universal_newlines (d # ds))"

section \<open>Bytes of encoded characters\<close>

lemma top_bits: "(n::nat) AND 0xC0 = 64 * (n div 64 mod 4)"
proof -
  have "(0xC0::nat) = push_bit 6 (mask 2)"
    by (simp add: mask_eq_exp_minus_1 push_bit_eq_mult)
  then have "n AND 0xC0 = push_bit 6 (take_bit 2 (drop_bit 6 n))"
    by (auto simp: bit_eq_iff bit_simps)
  then show ?thesis
    by (simp add: push_bit_eq_mult drop_bit_eq_div take_bit_eq_mod)
qed

lemma byte_bound: "unat (b :: byte) < 256"
  using unsigned_less [of b, where ?'a = nat] by simp

lemma is_tail_unat: "is_tail b \<longleftrightarrow> 0x80 \<le> unat b \<and> unat b < 0xC0"
proof -
  have "is_tail b \<longleftrightarrow> unat (b AND 0xC0) = unat (0x80 :: byte)"
    by (simp only: is_tail_def word_unat_eq_iff)
  also have "... \<longleftrightarrow> unat b AND 0xC0 = 0x80"
    by (simp add: unsigned_and_eq)
  finally show ?thesis using byte_bound [of b] by (simp add: top_bits) arith
qed

lemma unat_byte [simp]: "n < 256 \<Longrightarrow> unat (byte_of n) = n"
  by (simp add: byte_of_def unat_of_nat)

lemma unat_tail_byte [simp]: "unat (tail_byte n) = 0x80 + n mod 64"
proof -
  have "0x80 + n mod 64 < (256::nat)" using mod_less_divisor [of 64 n] by linarith
  then show ?thesis unfolding tail_byte_def by (rule unat_byte)
qed

lemma is_tail_byte [simp]: "is_tail (tail_byte n)"
  by (simp add: is_tail_unat)

lemma not_tail_small [simp]: "n < 0x80 \<Longrightarrow> \<not> is_tail (byte_of n)"
  by (simp add: is_tail_unat)

lemma not_tail_lead [simp]: "0xC0 \<le> n \<Longrightarrow> n < 256 \<Longrightarrow> \<not> is_tail (byte_of n)"
  by (simp add: is_tail_unat)

text \<open>The bytes of a character, by its size.\<close>

lemma div_64: "(n::nat) div 4096 = n div 64 div 64" "(n::nat) div 262144 = n div 64 div 64 div 64"
  by (simp_all add: div_mult2_eq [symmetric])

lemma base_64: "(m div 64) * 64 + m mod 64 = (m::nat)"
  by simp

lemma lead_3:
  assumes "scalar n" and "0x800 \<le> n" and "n < 0x10000"
  shows "unat (byte_of (0xE0 + n div 4096)) = 0xE0 + n div 4096"
    and "second_ok (0xE0 + n div 4096) (tail_byte (n div 64))"
proof -
  have m: "32 \<le> n div 64" "n div 64 < 1024" "n div 64 < 864 \<or> 896 \<le> n div 64"
    using assms by (auto simp: scalar_def)
  then have q: "n div 4096 < 16" by (simp add: div_64)
  then show "unat (byte_of (0xE0 + n div 4096)) = 0xE0 + n div 4096"
    by (intro unat_byte) simp
  have "n div 4096 = 0 \<Longrightarrow> 32 \<le> n div 64 mod 64"
    using m(1) base_64 [of "n div 64"] by (simp add: div_64)
  moreover have "n div 4096 = 13 \<Longrightarrow> n div 64 mod 64 < 32"
    using m(3) base_64 [of "n div 64"] mod_less_divisor [of 64 "n div 64"] by (auto simp: div_64)
  ultimately show "second_ok (0xE0 + n div 4096) (tail_byte (n div 64))"
    using q by (auto simp: second_ok_def)
qed

lemma lead_4:
  assumes "scalar n" and "0x10000 \<le> n"
  shows "unat (byte_of (0xF0 + n div 262144)) = 0xF0 + n div 262144"
    and "n div 262144 < 5"
    and "second_ok (0xF0 + n div 262144) (tail_byte (n div 4096))"
proof -
  have m: "16 \<le> n div 4096" "n div 4096 < 272"
    using assms by (auto simp: scalar_def)
  have d: "n div 262144 = n div 4096 div 64" by (simp add: div_64)
  then show q: "n div 262144 < 5" using m(2) by simp
  then show "unat (byte_of (0xF0 + n div 262144)) = 0xF0 + n div 262144"
    by (intro unat_byte) simp
  have "n div 262144 = 0 \<Longrightarrow> 16 \<le> n div 4096 mod 64"
    using m(1) base_64 [of "n div 4096"] d by simp
  moreover have "n div 262144 = 4 \<Longrightarrow> n div 4096 mod 64 < 16"
    using m(2) base_64 [of "n div 4096"] mod_less_divisor [of 64 "n div 4096"] d by simp
  ultimately show "second_ok (0xF0 + n div 262144) (tail_byte (n div 4096))"
    using q by (auto simp: second_ok_def)
qed

lemma value_3: "(n div 4096) * 4096 + (n div 64 mod 64) * 64 + n mod 64 = (n::nat)"
proof -
  have "((n div 4096) * 64 + n div 64 mod 64) * 64 + n mod 64 = n"
    using base_64 [of n] base_64 [of "n div 64"] by (simp add: div_64)
  then show ?thesis by simp
qed

lemma value_4:
  "(n div 262144) * 262144 + (n div 4096 mod 64) * 4096 + (n div 64 mod 64) * 64 + n mod 64 = (n::nat)"
proof -
  have "((n div 262144) * 64 + n div 4096 mod 64) * 4096 + (n div 64 mod 64) * 64 + n mod 64 = n"
    using value_3 [of n] base_64 [of "n div 4096"] by (simp add: div_64)
  then show ?thesis by simp
qed

text \<open>The decoder reads back what the encoder wrote, whatever comes after it.\<close>

lemma step_char:
  assumes "scalar n"
  shows "utf8_step (utf8_char n @ rest) = Char n (length (utf8_char n))"
proof -
  consider "n < 0x80" | "0x80 \<le> n" "n < 0x800" | "0x800 \<le> n" "n < 0x10000" | "0x10000 \<le> n"
    by linarith
  then show ?thesis
  proof cases
    case 1
    then show ?thesis by (simp add: utf8_char_def utf8_step.simps)
  next
    case 2
    then have "2 \<le> n div 64" "n div 64 < 32" by auto
    then show ?thesis
      using 2 by (simp add: utf8_char_def utf8_step.simps Let_def)
  next
    case 3
    then have "n div 4096 < 16" by (simp add: div_64)
    then show ?thesis
      using 3 lead_3 [OF assms 3] value_3 [of n] by (simp add: utf8_char_def utf8_step.simps Let_def)
  next
    case 4
    then show ?thesis
      using lead_4 [OF assms 4] value_4 [of n] by (simp add: utf8_char_def utf8_step.simps Let_def)
  qed
qed

lemma utf8_char_length: "0 < length (utf8_char n)" "length (utf8_char n) \<le> 4"
  by (simp_all add: utf8_char_def)

text \<open>The start of a character is not taken for anything else.\<close>

lemma step_cut:
  assumes "scalar n" and "k < length (utf8_char n)"
  shows "utf8_step (take k (utf8_char n)) = Incomplete"
proof -
  consider "n < 0x80" | "0x80 \<le> n" "n < 0x800" | "0x800 \<le> n" "n < 0x10000" | "0x10000 \<le> n"
    by linarith
  then show ?thesis
  proof cases
    case 1
    then show ?thesis using assms by (simp add: utf8_char_def)
  next
    case 2
    then have "2 \<le> n div 64" "n div 64 < 32" by auto
    moreover have "k = 0 \<or> k = 1" using assms 2 by (auto simp: utf8_char_def)
    ultimately show ?thesis
      using 2 by (auto simp: utf8_char_def utf8_step.simps Let_def)
  next
    case 3
    then have "n div 4096 < 16" by (simp add: div_64)
    moreover have "k = 0 \<or> k = 1 \<or> k = 2" using assms 3 by (auto simp: utf8_char_def)
    ultimately show ?thesis
      using 3 lead_3 [OF assms(1) 3] by (auto simp: utf8_char_def utf8_step.simps Let_def numeral_2_eq_2)
  next
    case 4
    moreover have "k = 0 \<or> k = 1 \<or> k = 2 \<or> k = 3" using assms 4 by (auto simp: utf8_char_def)
    ultimately show ?thesis
      using lead_4 [OF assms(1) 4]
      by (auto simp: utf8_char_def utf8_step.simps Let_def numeral_2_eq_2 numeral_3_eq_3)
  qed
qed

text \<open>Only the first byte of a character does not continue one.\<close>

lemma utf8_char_tails:
  assumes "scalar n"
  shows "\<not> is_tail (hd (utf8_char n))" and "\<forall>b \<in> set (tl (utf8_char n)). is_tail b"
proof -
  show "\<forall>b \<in> set (tl (utf8_char n)). is_tail b"
    by (auto simp: utf8_char_def)
  consider "n < 0x80" | "0x80 \<le> n" "n < 0x800" | "0x800 \<le> n" "n < 0x10000" | "0x10000 \<le> n"
    by linarith
  then show "\<not> is_tail (hd (utf8_char n))"
  proof cases
    case 2
    then have "n div 64 < 32" by auto
    with 2 show ?thesis by (simp add: utf8_char_def)
  next
    case 3
    then have "n div 4096 < 16" by (simp add: div_64)
    with 3 show ?thesis by (simp add: utf8_char_def)
  next
    case 4
    with lead_4 [OF assms 4] show ?thesis by (simp add: utf8_char_def)
  qed (simp add: utf8_char_def)
qed

section \<open>Decoding in pieces\<close>

text \<open>More bytes do not change a character that is complete, nor one that is wrong.\<close>

lemma step_append:
  "utf8_step bs = Char c k \<Longrightarrow> utf8_step (bs @ cs) = Char c k"
  "utf8_step bs = Invalid k \<Longrightarrow> utf8_step (bs @ cs) = Invalid k"
  by (cases bs; auto simp: utf8_step.simps Let_def split: if_splits list.splits)+

lemma replace_decode_Nil [simp]: "replace_decode [] = ([], [])"
  by (simp add: replace_decode.simps)

lemma strict_decode_Nil [simp]: "strict_decode [] = Some []"
  by (simp add: strict_decode.simps)

text \<open>Decoding in two pieces, with what the first leaves over in front of the second, is
  decoding at once.\<close>

lemma replace_decode_append:
  "replace_decode (a @ b) =
     (let (cs, r) = replace_decode a; (ds, s) = replace_decode (r @ b) in (cs @ ds, s))"
proof (induction a rule: replace_decode.induct)
  case (1 bs)
  show ?case
  proof (cases "bs = []")
    case False
    show ?thesis
    proof (cases "utf8_step bs")
      case (Char c k)
      then have "k \<le> length bs" using step_lengths(1) by blast
      then show ?thesis
        using False 1(1) [OF False Char] Char step_append(1) [OF Char, of b]
        by (simp add: replace_decode.simps [of bs] replace_decode.simps [of "bs @ b"] case_prod_beta Let_def)
    next
      case (Invalid k)
      then have "k \<le> length bs" using step_lengths(2) by blast
      then show ?thesis
        using False 1(2) [OF False Invalid] Invalid step_append(2) [OF Invalid, of b]
        by (simp add: replace_decode.simps [of bs] replace_decode.simps [of "bs @ b"] case_prod_beta Let_def)
    next
      case Incomplete
      with False show ?thesis
        by (simp add: replace_decode.simps [of bs] case_prod_beta Let_def)
    qed
  qed simp
qed

text \<open>What is left over is the start of a character.\<close>

lemma replace_decode_rest:
  "snd (replace_decode bs) \<noteq> [] \<Longrightarrow> utf8_step (snd (replace_decode bs)) = Incomplete"
proof (induction bs rule: replace_decode.induct)
  case (1 bs)
  then show ?case
    by (cases "bs = []"; cases "utf8_step bs")
       (simp_all add: replace_decode.simps [of bs] case_prod_beta Let_def)
qed

text \<open>A line feed after the start of a character ends it: the start is wrong.\<close>

lemma step_cut_newline:
  assumes "utf8_step bs = Incomplete" and "bs \<noteq> []"
  shows "utf8_step (bs @ [0x0A]) = Invalid (length bs)"
proof -
  have "\<not> is_tail 0x0A" by (simp add: is_tail_unat)
  with assms show ?thesis
    by (cases bs) (auto simp: utf8_step.simps second_ok_def Let_def split: if_splits list.splits)
qed

lemma replace_newline:
  "replace_decode_final (bs @ [0x0A]) = replace_decode_final bs @ [0x0A]"
proof -
  obtain cs r where d: "replace_decode bs = (cs, r)" by fastforce
  have nl: "replace_decode [0x0A] = ([0x0A], [])"
    by (simp add: replace_decode.simps utf8_step.simps)
  show ?thesis
  proof (cases "r = []")
    case True
    then show ?thesis
      by (simp add: replace_decode_final_def replace_decode_append [of bs] d nl)
  next
    case False
    then have "utf8_step (r @ [0x0A]) = Invalid (length r)"
      using step_cut_newline replace_decode_rest [of bs] d by simp
    then have "replace_decode (r @ [0x0A]) = ([0xFFFD, 0x0A], [])"
      using False nl by (simp add: replace_decode.simps [of "r @ [0x0A]"])
    then show ?thesis
      using False by (simp add: replace_decode_final_def replace_decode_append [of bs] d)
  qed
qed

section \<open>Pieces of an encoded text\<close>

lemma utf8_simps [simp]: "utf8 [] = []" "utf8 (c # cs) = utf8_char c @ utf8 cs"
  by (simp_all add: utf8_def)

lemma utf8_append [simp]: "utf8 (a @ b) = utf8 a @ utf8 b"
  by (simp add: utf8_def)

lemma replace_utf8: "list_all scalar tx \<Longrightarrow> replace_decode (utf8 tx) = (tx, [])"
proof (induction tx)
  case (Cons c cs)
  then show ?case
    using step_char [of c "utf8 cs"] utf8_char_length(1) [of c]
    by (simp add: replace_decode.simps [of "utf8_char c @ utf8 cs"])
qed simp

text \<open>The characters that are complete within \<open>m\<close> bytes.\<close>

fun fit_chars :: "nat \<Rightarrow> nat list \<Rightarrow> nat list" where
  "fit_chars m [] = []"
| "fit_chars m (c # cs) =
     (if length (utf8_char c) \<le> m then c # fit_chars (m - length (utf8_char c)) cs else [])"

lemma strict_take:
  "list_all scalar tx \<Longrightarrow> strict_decode (take m (utf8 tx)) = Some (fit_chars m tx)"
proof (induction tx arbitrary: m)
  case (Cons c cs)
  show ?case
  proof (cases "length (utf8_char c) \<le> m")
    case True
    then show ?thesis
      using Cons step_char [of c "take (m - length (utf8_char c)) (utf8 cs)"] utf8_char_length(1) [of c]
      by (simp add: strict_decode.simps [of "utf8_char c @ take (m - length (utf8_char c)) (utf8 cs)"])
  next
    case False
    then show ?thesis
      using Cons step_cut [of c m] by (simp add: strict_decode.simps [of "take m (utf8_char c)"])
  qed
qed simp

lemma fit_chars_take: "fit_chars m tx = take (length (fit_chars m tx)) tx"
  by (induction m tx rule: fit_chars.induct) simp_all

lemma fit_chars_bytes: "length (utf8 (fit_chars m tx)) \<le> m"
  by (induction m tx rule: fit_chars.induct) auto

lemma fit_chars_some: "4 \<le> m \<Longrightarrow> tx \<noteq> [] \<Longrightarrow> fit_chars m tx \<noteq> []"
  using utf8_char_length(2) by (cases tx) (auto intro: order_trans)

lemma utf8_take_le: "length (utf8 (take i tx)) \<le> length (utf8 tx)"
  by (metis append_take_drop_id le_add1 length_append utf8_append)

lemma drop_utf8: "drop (length (utf8 (take i tx))) (utf8 tx) = utf8 (drop i tx)"
  by (metis append_eq_conv_conj append_take_drop_id utf8_append)

lemma utf8_take_all: "length (utf8 tx) \<le> length (utf8 (take i tx)) \<Longrightarrow> length tx \<le> i"
proof (rule ccontr)
  assume le: "length (utf8 tx) \<le> length (utf8 (take i tx))" and "\<not> length tx \<le> i"
  then obtain c cs where "drop i tx = c # cs"
    by (cases "drop i tx") auto
  then have "length (utf8 tx) = length (utf8 (take i tx)) + length (utf8_char c) + length (utf8 cs)"
    by (metis append_take_drop_id length_append utf8_append utf8_simps(2) add.assoc)
  then show False using le utf8_char_length(1) [of c] by linarith
qed

text \<open>From an arbitrary offset on, the tail bytes lead to the next character: there are at most
  three of them.\<close>

lemma next_boundary:
  assumes "list_all scalar tx" and "start \<le> length (utf8 tx)"
  shows "\<exists>i \<le> length tx.
     start + length (takeWhile is_tail (take 4 (drop start (utf8 tx)))) = length (utf8 (take i tx))
     \<and> (\<forall>j. start \<le> length (utf8 (take j tx)) \<longrightarrow> i \<le> j)"
  using assms
proof (induction tx arbitrary: start)
  case (Cons c cs)
  let ?n = "length (utf8_char c)"
  obtain b bs where c: "utf8_char c = b # bs"
    using utf8_char_length(1) [of c] by (cases "utf8_char c") auto
  have tails: "\<not> is_tail b" "\<forall>x \<in> set bs. is_tail x"
    using utf8_char_tails [of c] Cons.prems(1) by (simp_all add: c)
  have head: "takeWhile is_tail (take m (utf8 cs)) = []" for m
  proof (cases cs)
    case (Cons d ds)
    then have "scalar d" using Cons.prems(1) by simp
    then show ?thesis
      using utf8_char_tails(1) [of d] utf8_char_length(1) [of d] Cons
      by (cases "utf8_char d"; cases m) auto
  qed simp
  consider "start = 0" | "0 < start" "start < ?n" | "?n \<le> start" by linarith
  then show ?case
  proof cases
    case 1
    then show ?thesis using tails(1) by (intro exI [of _ 0]) (simp add: c)
  next
    case 2
    let ?r = "drop start (utf8_char c)"
    have r: "\<forall>x \<in> set ?r. is_tail x"
      using tails(2) 2(1) by (cases start) (auto simp: c dest: in_set_dropD)
    have "length ?r \<le> 3"
      using utf8_char_length(2) [of c] 2(1) by simp
    then have "take 4 (drop start (utf8 (c # cs))) = ?r @ take (4 - length ?r) (utf8 cs)"
      using 2(2) by simp
    then have "takeWhile is_tail (take 4 (drop start (utf8 (c # cs)))) = ?r"
      using r head by (simp only: takeWhile_append2) simp
    moreover have "\<forall>j. start \<le> length (utf8 (take j (c # cs))) \<longrightarrow> 1 \<le> j"
      using 2(1) by (auto simp: take_Cons' split: if_splits)
    ultimately show ?thesis
      using 2(2) by (intro exI [of _ 1]) simp
  next
    case 3
    then have "start - ?n \<le> length (utf8 cs)" using Cons.prems(2) by simp
    then obtain i where i: "i \<le> length cs"
      "start - ?n + length (takeWhile is_tail (take 4 (drop (start - ?n) (utf8 cs)))) = length (utf8 (take i cs))"
      "\<forall>j. start - ?n \<le> length (utf8 (take j cs)) \<longrightarrow> i \<le> j"
      using Cons.IH Cons.prems(1) by fastforce
    have "Suc i \<le> j" if "start \<le> length (utf8 (take j (c # cs)))" for j
    proof (cases j)
      case 0
      then show ?thesis using that 3 utf8_char_length(1) [of c] by simp
    next
      case (Suc k)
      then show ?thesis using that 3 i(3) by auto
    qed
    then show ?thesis
      using i(1,2) 3 by (intro exI [of _ "Suc i"]) simp
  qed
qed auto

end
