(* ===== verification/ArtifactReads.thy ===== *)
theory ArtifactReads
  imports Utf8 Examples
begin

text \<open>
  Reading the artifact directory: the paths \<open>core/artifacts.py\<close> accepts, its readers of whole files
  and of pieces, the copy of a conversation export, the route
  \<open>/v1/jobs/{job_id}/conversation\<close> of \<open>api/routes_jobs.py\<close> and the loop with which \<open>cli.py\<close> fetches
  a text piece by piece. Here a file is its bytes, under the names that lead to it from the root of
  the file system, and a text is the list of its code points. There are no symbolic links, and a
  directory is no entry of \<open>disk\<close>: where the path of an export leads to one, the code answers with an
  internal error and the model with 503, as for a missing file.
\<close>

section \<open>Paths\<close>

type_synonym disk = "string list \<Rightarrow> byte list option"

text \<open>The parts of a path, and the place they lead to from a directory: \<open>Path.resolve\<close>.\<close>

definition path_parts :: "string \<Rightarrow> string list" where
  "path_parts p = filter (\<lambda>s. s \<noteq> '''' \<and> s \<noteq> ''.'') (split_on (CHR ''/'') p)"

definition walk :: "string list \<Rightarrow> string list \<Rightarrow> string list" where
  "walk start parts = foldl (\<lambda>here s. if s = ''..'' then butlast here else here @ [s]) start parts"

definition resolve_artifact_path :: "string list \<Rightarrow> string \<Rightarrow> exn + string list" where
  "resolve_artifact_path home path =
     (if path = '''' then Inl (ValueError ''path is empty'')
      else if CHR 0x00 \<in> set path then Inl (ValueError ''embedded null byte'')
      else let resolved = walk (if starts_with ''/'' path then [] else home) (path_parts path)
           in if resolved = home \<or> take (length home) resolved \<noteq> home
              then Inl (ValueError ''refusing to resolve path outside artifacts_dir'')
              else Inr resolved)"

section \<open>Readers\<close>

text \<open>\<open>Path.read_text(encoding="utf-8", errors="replace")\<close>.\<close>

definition read_text :: "disk \<Rightarrow> string list \<Rightarrow> exn + nat list" where
  "read_text d p =
     (case d p of
        None \<Rightarrow> Inl (OSError ''FileNotFoundError'')
      | Some bytes \<Rightarrow> Inr (universal_newlines (replace_decode_final bytes)))"

definition read_text_preview :: "disk \<Rightarrow> string list \<Rightarrow> string option \<Rightarrow> int \<Rightarrow> exn + nat list" where
  "read_text_preview d home path max_chars =
     (case path of
        None \<Rightarrow> Inr []
      | Some p \<Rightarrow>
          if p = '''' then Inr []
          else case resolve_artifact_path home p of
                 Inl e \<Rightarrow> Inl e
               | Inr abs_path \<Rightarrow>
                   if d abs_path = None then Inr []
                   else case read_text d abs_path of
                          Inl e \<Rightarrow> Inl e
                        | Inr content \<Rightarrow> Inr (take (nat (max 0 max_chars)) content))"

text \<open>A piece: the text, where the next one begins, and whether there is none.\<close>

type_synonym piece = "nat list \<times> int option \<times> bool"

definition text_piece :: "nat list \<Rightarrow> int \<Rightarrow> int \<Rightarrow> piece" where
  "text_piece content max_chars offset =
     (let total = int (length content);
          start = max 0 offset;
          size = max 1 (min 20000 max_chars);
          chunk = take (nat size) (drop (nat start) content);
          next_offset = start + int (length chunk);
          done = total \<le> next_offset
      in (chunk, if done then None else Some next_offset, done))"

definition read_text_chunk :: "disk \<Rightarrow> string list \<Rightarrow> string \<Rightarrow> int \<Rightarrow> int \<Rightarrow> exn + piece" where
  "read_text_chunk d home path offset max_chars =
     (case resolve_artifact_path home path of
        Inl e \<Rightarrow> Inl e
      | Inr abs_path \<Rightarrow>
          (case read_text d abs_path of
             Inl e \<Rightarrow> Inl e
           | Inr content \<Rightarrow> Inr (text_piece content max_chars offset)))"

text \<open>The reader by bytes: it moves to the start of a character, takes at most
  \<open>max_bytes\<close> bytes and returns the complete characters of them, and the place it read from.\<close>

definition align :: "byte list \<Rightarrow> nat \<Rightarrow> nat" where
  "align bytes start =
     (if start < length bytes
      then min (length bytes) (start + length (takeWhile is_tail (take 4 (drop start bytes))))
      else start)"

definition byte_piece :: "byte list \<Rightarrow> int \<Rightarrow> int \<Rightarrow> exn + (piece \<times> int)" where
  "byte_piece bytes max_bytes offset =
     (let size = length bytes;
          limit = nat (max 1 (min 20000 max_bytes));
          start = align bytes (nat (max 0 (min offset (int size))))
      in if size \<le> start then Inr (([], None, True), int start)
         else case strict_decode (take limit (drop start bytes)) of
                None \<Rightarrow> Inl (ValueError ''UnicodeDecodeError'')
              | Some content \<Rightarrow>
                  (let next_offset = start + length (utf8 content);
                       done = size \<le> next_offset
                   in Inr ((content, if done then None else Some (int next_offset), done), int start)))"

definition read_utf8_chunk_by_bytes ::
    "disk \<Rightarrow> string list \<Rightarrow> string \<Rightarrow> int \<Rightarrow> int \<Rightarrow> exn + (piece \<times> int)" where
  "read_utf8_chunk_by_bytes d home path offset max_bytes =
     (case resolve_artifact_path home path of
        Inl e \<Rightarrow> Inl e
      | Inr abs_path \<Rightarrow>
          (case d abs_path of
             None \<Rightarrow> Inl (OSError ''FileNotFoundError'')
           | Some bytes \<Rightarrow> byte_piece bytes max_bytes offset))"

section \<open>Copying a conversation export\<close>

text \<open>The state of the copy loop: the decoder's pending bytes, what was hashed and written (the
  same bytes), the characters counted and the last byte.\<close>

record copy_state =
  cs_pending :: "byte list"
  cs_written :: "byte list"
  cs_chars :: nat
  cs_last :: "byte option"

definition copy_block :: "byte list \<Rightarrow> copy_state \<Rightarrow> copy_state" where
  "copy_block chunk s =
     (let (cs, r) = replace_decode (cs_pending s @ chunk)
      in s\<lparr>cs_pending := r, cs_written := cs_written s @ chunk, cs_chars := cs_chars s + length cs,
           cs_last := Some (last chunk)\<rparr>)"

function copy_blocks :: "byte list \<Rightarrow> copy_state \<Rightarrow> copy_state" where
  "copy_blocks data s =
     (if data = [] then s else copy_blocks (drop 65536 data) (copy_block (take 65536 data) s))"
  by pat_completeness auto
termination by (relation "measure (\<lambda>(data, s). length data)") auto

declare copy_blocks.simps [simp del]

text \<open>The digest and the character count, and the bytes of the copy. How SHA-256 prints is the
  parameter \<open>sha\<close>; hashing in pieces hashes the whole.\<close>

definition copy_utf8_text :: "(byte list \<Rightarrow> string) \<Rightarrow> byte list \<Rightarrow> (string \<times> nat) \<times> byte list" where
  "copy_utf8_text sha data =
     (let s = copy_blocks data \<lparr>cs_pending = [], cs_written = [], cs_chars = 0, cs_last = None\<rparr>;
          chars = cs_chars s + length (replace_decode_final (cs_pending s))
      in if cs_last s \<noteq> Some 0x0A
         then ((sha (cs_written s @ [0x0A]), chars + 1), cs_written s @ [0x0A])
         else ((sha (cs_written s), chars), cs_written s))"

record export_meta =
  em_path :: string
  em_sha256 :: string
  em_chars :: nat
  em_format :: string

definition conversation_export_rel_path :: "string \<Rightarrow> string" where
  "conversation_export_rel_path jid = job_dir jid @ ''/conversation.json''"

definition write_conversation_export_from_file ::
    "(byte list \<Rightarrow> string) \<Rightarrow> string list \<Rightarrow> string \<Rightarrow> string list \<Rightarrow> disk \<Rightarrow> (export_meta, disk) outcome" where
  "write_conversation_export_from_file sha home jid src d =
     (let rel_path = conversation_export_rel_path jid
      in case resolve_artifact_path home rel_path of
           Inl e \<Rightarrow> (Inl e, d)
         | Inr abs_path \<Rightarrow>
             (case d src of
                None \<Rightarrow> (Inl (OSError ''FileNotFoundError''), d)
              | Some data \<Rightarrow>
                  (let ((digest, chars), out) = copy_utf8_text sha data
                   in (Inr \<lparr>em_path = rel_path, em_sha256 = digest, em_chars = chars, em_format = ''json''\<rparr>,
                       d(abs_path \<mapsto> out)))))"

section \<open>The route and its client\<close>

datatype http_error = HTTPException int json

record chunk_reply =
  ck_job :: string
  ck_offset :: int
  ck_returned_chars :: nat
  ck_next_offset :: "int option"
  ck_done :: bool
  ck_chunk :: "nat list"

definition chunk_reply_of :: "string \<Rightarrow> piece \<Rightarrow> int \<Rightarrow> chunk_reply" where
  "chunk_reply_of jid piece used_offset =
     (let (chunk, next_offset, done) = piece
      in \<lparr>ck_job = jid, ck_offset = max 0 used_offset, ck_returned_chars = length chunk,
          ck_next_offset = next_offset, ck_done = done, ck_chunk = chunk\<rparr>)"

text \<open>\<open>max(0, int(job.not_before - now)) if job.not_before and job.not_before > now else None\<close>.\<close>

definition retry_after :: "clock \<Rightarrow> job \<Rightarrow> int option" where
  "retry_after t job =
     (if j_not_before job \<noteq> 0 \<and> t 0 < j_not_before job
      then Some (max 0 (py_trunc (j_not_before job - t 1))) else None)"

definition conversation_chunk_route ::
    "clock \<Rightarrow> disk \<Rightarrow> string list \<Rightarrow> world \<Rightarrow> string \<Rightarrow> int \<Rightarrow> int \<Rightarrow> http_error + chunk_reply" where
  "conversation_chunk_route t d home w jid offset max_chars =
     (case get_job jid w of
        None \<Rightarrow> Inl (HTTPException 404 (JStr ''job not found''))
      | Some job \<Rightarrow>
          (let path = strip (or_empty (j_export_path job))
           in if path = ''''
              then Inl (HTTPException 409 (JObj
                     [(''error'', JStr ''conversation export not ready''),
                      (''status'', JStr (status_value (j_status job))),
                      (''retry_after_seconds'', jopt_int (retry_after t job))]))
              else case read_utf8_chunk_by_bytes d home path offset max_chars of
                     Inl (OSError _) \<Rightarrow>
                       Inl (HTTPException 503 (JStr ''conversation export artifact missing''))
                   | Inl (ValueError e) \<Rightarrow> Inl (HTTPException 400 (JStr e))
                   | Inl _ \<Rightarrow> Inl (HTTPException 500 JNull)
                   | Inr (piece, used_offset) \<Rightarrow> Inr (chunk_reply_of jid piece used_offset)))"

text \<open>\<open>_read_chunk_stream\<close>: ask for one piece after the other until one is the last. A
  request that fails raises. Nothing bounds the loop, so its value is \<open>None\<close> where it does not
  end. The result holds the pieces in order.\<close>

partial_function (option) fetch_chunks ::
    "(int \<Rightarrow> http_error + chunk_reply) \<Rightarrow> int \<Rightarrow> nat list list \<Rightarrow> (http_error + nat list list) option" where
  "fetch_chunks request current chunks =
     (case request current of
        Inl e \<Rightarrow> Some (Inl e)
      | Inr reply \<Rightarrow>
          (let chunks' = chunks @ [ck_chunk reply]
           in if ck_done reply then Some (Inr chunks')
              else case ck_next_offset reply of
                     None \<Rightarrow> Some (Inr chunks')
                   | Some next_offset \<Rightarrow> fetch_chunks request next_offset chunks'))"

definition read_chunk_stream ::
    "(int \<Rightarrow> http_error + chunk_reply) \<Rightarrow> int \<Rightarrow> (http_error + nat list) option" where
  "read_chunk_stream request offset =
     map_option (map_sum id concat) (fetch_chunks request (max 0 offset) [])"

section \<open>Paths stay inside\<close>

lemma walk_no_dots: "''..'' \<notin> set start \<Longrightarrow> ''..'' \<notin> set (walk start parts)"
  unfolding walk_def
  by (induction parts arbitrary: start) (auto dest: in_set_butlastD)

lemma resolved_inside:
  assumes "resolve_artifact_path home path = Inr p"
  shows "\<exists>rel. rel \<noteq> [] \<and> p = home @ rel"
proof -
  have p: "take (length home) p = home" "p \<noteq> home"
    using assms by (auto simp: resolve_artifact_path_def Let_def split: if_splits)
  then have "p = home @ drop (length home) p" by (metis append_take_drop_id)
  with p(2) show ?thesis by (metis append_Nil2)
qed

lemma resolved_no_dots:
  assumes "resolve_artifact_path home path = Inr p" and "''..'' \<notin> set home"
  shows "''..'' \<notin> set p"
  using assms walk_no_dots by (auto simp: resolve_artifact_path_def Let_def split: if_splits)

text \<open>What is outside the directory makes no difference to a reader.\<close>

definition same_artifacts :: "string list \<Rightarrow> disk \<Rightarrow> disk \<Rightarrow> bool" where
  "same_artifacts home d d' \<longleftrightarrow> (\<forall>rel. rel \<noteq> [] \<longrightarrow> d (home @ rel) = d' (home @ rel))"

lemma same_artifacts_resolved:
  "same_artifacts home d d' \<Longrightarrow> resolve_artifact_path home path = Inr p \<Longrightarrow> d p = d' p"
  unfolding same_artifacts_def by (metis resolved_inside)

lemma readers_inside:
  assumes "same_artifacts home d d'"
  shows "read_utf8_chunk_by_bytes d home path offset m = read_utf8_chunk_by_bytes d' home path offset m"
    and "read_text_chunk d home path offset m = read_text_chunk d' home path offset m"
    and "read_text_preview d home popt m = read_text_preview d' home popt m"
proof -
  have same: "resolve_artifact_path home p = Inr a \<Longrightarrow> d' a = d a" for p a
    by (simp add: same_artifacts_resolved [OF assms])
  show "read_utf8_chunk_by_bytes d home path offset m = read_utf8_chunk_by_bytes d' home path offset m"
    by (cases "resolve_artifact_path home path") (simp_all add: read_utf8_chunk_by_bytes_def same)
  show "read_text_chunk d home path offset m = read_text_chunk d' home path offset m"
    by (cases "resolve_artifact_path home path") (simp_all add: read_text_chunk_def read_text_def same)
  have "read_text_preview d home (Some p) m = read_text_preview d' home (Some p) m" for p
    by (cases "resolve_artifact_path home p") (simp_all add: read_text_preview_def read_text_def same)
  then show "read_text_preview d home popt m = read_text_preview d' home popt m"
    by (cases popt) (simp_all add: read_text_preview_def)
qed

section \<open>The copy of an export\<close>

definition copy_ok :: "byte list \<Rightarrow> copy_state \<Rightarrow> bool" where
  "copy_ok done s \<longleftrightarrow> cs_written s = done \<and> cs_chars s = length (fst (replace_decode done))
     \<and> cs_pending s = snd (replace_decode done)
     \<and> cs_last s = (if done = [] then None else Some (last done))"

lemma copy_block_ok:
  assumes "copy_ok done s" and "chunk \<noteq> []"
  shows "copy_ok (done @ chunk) (copy_block chunk s)"
proof -
  obtain cs r where a: "replace_decode done = (cs, r)" by fastforce
  obtain ds r' where b: "replace_decode (r @ chunk) = (ds, r')" by fastforce
  show ?thesis
    using assms b replace_decode_append [of "done" chunk] by (simp add: copy_ok_def copy_block_def a Let_def)
qed

lemma copy_blocks_ok: "copy_ok done s \<Longrightarrow> copy_ok (done @ data) (copy_blocks data s)"
proof (induction data s arbitrary: "done" rule: copy_blocks.induct)
  case (1 data s)
  show ?case
  proof (cases "data = []")
    case True
    then show ?thesis using 1(2) by (simp add: copy_blocks.simps)
  next
    case False
    then have "copy_ok ((done @ take 65536 data) @ drop 65536 data)
        (copy_blocks (drop 65536 data) (copy_block (take 65536 data) s))"
      using 1(1) [OF False copy_block_ok] 1(2) False by simp
    then show ?thesis
      using False by (simp only: copy_blocks.simps [of data] append_assoc append_take_drop_id) simp
  qed
qed

lemma copied:
  "copy_utf8_text sha data =
     (let out = (if data \<noteq> [] \<and> last data = 0x0A then data else data @ [0x0A])
      in ((sha out, length (replace_decode_final out)), out))"
proof -
  have "copy_ok [] \<lparr>cs_pending = [], cs_written = [], cs_chars = 0, cs_last = None\<rparr>"
    by (simp add: copy_ok_def)
  then have "copy_ok data (copy_blocks data \<lparr>cs_pending = [], cs_written = [], cs_chars = 0, cs_last = None\<rparr>)"
    using copy_blocks_ok by fastforce
  moreover obtain cs r where d: "replace_decode data = (cs, r)" by fastforce
  moreover have "length (replace_decode_final data) = length cs + length (replace_decode_final r)"
  proof (cases "r = []")
    case False
    then have "utf8_step r = Incomplete" using replace_decode_rest [of data] d by simp
    then have "replace_decode r = ([], r)" using False by (simp add: replace_decode.simps [of r])
    then show ?thesis by (simp add: replace_decode_final_def d)
  qed (simp add: replace_decode_final_def d)
  ultimately show ?thesis
    using replace_newline [of data]
    by (cases "data = []") (simp_all add: copy_utf8_text_def copy_ok_def Let_def)
qed

text \<open>C30. The record of an exported conversation is exact: the copy is the source, ended by a line
  feed where it had none, the digest is that of the copy's bytes, and the count is the number of
  characters that the copy decodes to, although both are taken block by block; nothing else on
  the disk changes. An export whose source is missing raises and changes nothing.\<close>

theorem export_record_is_exact:
  assumes "resolve_artifact_path home (conversation_export_rel_path jid) = Inr p"
  shows "write_conversation_export_from_file sha home jid src d =
    (case d src of
       None \<Rightarrow> (Inl (OSError ''FileNotFoundError''), d)
     | Some data \<Rightarrow>
         (let out = (if data \<noteq> [] \<and> last data = 0x0A then data else data @ [0x0A])
          in (Inr \<lparr>em_path = conversation_export_rel_path jid, em_sha256 = sha out,
                   em_chars = length (replace_decode_final out), em_format = ''json''\<rparr>, d(p \<mapsto> out))))"
  using assms by (simp add: write_conversation_export_from_file_def copied Let_def split: option.split)

definition export0 :: job where
  "export0 = job0\<lparr>j_export_path := Some ''jobs/j1/conversation.json''\<rparr>"

lemma resolve0: "resolve_artifact_path [''data''] ''jobs/j1/conversation.json'' = Inr [''data'', ''jobs'', ''j1'', ''conversation.json'']"
  by (simp add: resolve_artifact_path_def path_parts_def walk_def Let_def)

theorem export_record_is_exact_witness:
  "\<exists>r d'. write_conversation_export_from_file (\<lambda>_. []) [''data''] ''j1'' [''tmp'']
      (\<lambda>p. if p = [''tmp''] then Some [0x41] else None) = (Inr r, d')
    \<and> d' [''data'', ''jobs'', ''j1'', ''conversation.json''] = Some [0x41, 0x0A]"
proof -
  have "resolve_artifact_path [''data''] (conversation_export_rel_path ''j1'')
      = Inr [''data'', ''jobs'', ''j1'', ''conversation.json'']"
    using resolve0 by (simp add: conversation_export_rel_path_def job_dir_def)
  then show ?thesis
    by (simp add: export_record_is_exact Let_def)
qed

section \<open>Reading piece by piece\<close>

text \<open>
  The contract between a reader and a client that follows \<open>next_offset\<close>: at the place where
  character \<open>i\<close> begins the reader answers with some of the characters from there on, at least one
  unless there is none left, and says truly whether it reached the end or where the rest begins.
\<close>

locale piecewise =
  fixes request :: "'c \<Rightarrow> int \<Rightarrow> http_error + chunk_reply"
    and content :: "'c \<Rightarrow> nat list"
    and pos :: "'c \<Rightarrow> nat \<Rightarrow> int"
    and ok :: "'c \<Rightarrow> nat \<Rightarrow> bool"
  assumes ok_later: "ok c i \<Longrightarrow> i \<le> j \<Longrightarrow> ok c j"
    and piece: "ok c i \<Longrightarrow> i \<le> length (content c) \<Longrightarrow>
    \<exists>n reply. request c (pos c i) = Inr reply \<and> i + n \<le> length (content c)
      \<and> (n = 0 \<longrightarrow> i = length (content c)) \<and> ck_chunk reply = take n (drop i (content c))
      \<and> ck_done reply = (i + n = length (content c))
      \<and> (ck_done reply \<or> ck_next_offset reply = Some (pos c (i + n)))"
begin

lemma fetch_all:
  "ok c i \<Longrightarrow> i \<le> length (content c) \<Longrightarrow>
     \<exists>cs. fetch_chunks (request c) (pos c i) chunks = Some (Inr (chunks @ cs)) \<and> concat cs = drop i (content c)"
proof (induction "length (content c) - i" arbitrary: i chunks rule: less_induct)
  case less
  obtain n reply where p: "request c (pos c i) = Inr reply" "i + n \<le> length (content c)"
    "n = 0 \<longrightarrow> i = length (content c)" "ck_chunk reply = take n (drop i (content c))"
    "ck_done reply = (i + n = length (content c))"
    "ck_done reply \<or> ck_next_offset reply = Some (pos c (i + n))"
    using piece [OF less.prems] by blast
  show ?case
  proof (cases "ck_done reply")
    case True
    then show ?thesis
      using p by (intro exI [of _ "[ck_chunk reply]"]) (simp add: fetch_chunks.simps [of "request c" "pos c i"])
  next
    case False
    then have "n \<noteq> 0" using p by auto
    then have "length (content c) - (i + n) < length (content c) - i" using p(2) by simp
    then obtain cs where cs: "fetch_chunks (request c) (pos c (i + n)) (chunks @ [ck_chunk reply])
        = Some (Inr ((chunks @ [ck_chunk reply]) @ cs))" "concat cs = drop (i + n) (content c)"
      using less.hyps [of "i + n" "chunks @ [ck_chunk reply]"] ok_later [OF less.prems(1), of "i + n"] p(2)
      by auto
    have "take n (drop i (content c)) @ drop (i + n) (content c) = drop i (content c)"
      by (metis add.commute append_take_drop_id drop_drop)
    then show ?thesis
      using False p(1,4,6) cs
      by (intro exI [of _ "ck_chunk reply # cs"]) (simp add: fetch_chunks.simps [of "request c" "pos c i"] Let_def)
  qed
qed

end

lemma take_own_length: "take (length (take k xs)) xs = take k xs"
  by (cases "k \<le> length xs") simp_all

text \<open>The reader by characters keeps it for every text and every size asked for.\<close>

interpretation text_pieces: piecewise
  "\<lambda>(content, m) offset. Inr (chunk_reply_of [] (text_piece content m offset) offset)" fst "\<lambda>_. int" "\<lambda>_ _. True"
proof (unfold_locales, rule TrueI)
  fix c :: "nat list \<times> int" and i
  obtain content m where c: "c = (content, m)" by fastforce
  assume "i \<le> length (fst c)"
  then have i: "i \<le> length content" by (simp add: c)
  define n where "n = length (take (nat (max 1 (min 20000 m))) (drop i content))"
  have n: "i + n \<le> length content" "n = 0 \<longrightarrow> i = length content"
      "take (nat (max 1 (min 20000 m))) (drop i content) = take n (drop i content)"
    using i unfolding n_def take_own_length by auto
  have p: "text_piece content m (int i) = (take n (drop i content),
      if i + n = length content then None else Some (int (i + n)), i + n = length content)"
    using n i unfolding text_piece_def Let_def by (auto simp: n(3) min_def)
  show "\<exists>n reply. (case c of (content, m) \<Rightarrow> \<lambda>offset. Inr (chunk_reply_of [] (text_piece content m offset) offset)) (int i)
        = Inr reply \<and> i + n \<le> length (fst c) \<and> (n = 0 \<longrightarrow> i = length (fst c))
      \<and> ck_chunk reply = take n (drop i (fst c)) \<and> ck_done reply = (i + n = length (fst c))
      \<and> (ck_done reply \<or> ck_next_offset reply = Some (int (i + n)))"
    using n by (intro exI [of _ n]) (simp add: c p chunk_reply_of_def)
qed

text \<open>The reader by bytes: where it starts, and what it returns there.\<close>

abbreviation piece_limit :: "int \<Rightarrow> nat" where
  "piece_limit m \<equiv> nat (max 1 (min 20000 m))"

definition char_pos :: "nat list \<Rightarrow> nat \<Rightarrow> int" where
  "char_pos cs i = int (length (utf8 (take i cs)))"

lemma utf8_take_mono: "i \<le> j \<Longrightarrow> length (utf8 (take i cs)) \<le> length (utf8 (take j cs))"
  by (metis min.absorb1 take_take utf8_take_le)

lemma align_ge: "start \<le> length bytes \<Longrightarrow> start \<le> align bytes start"
  by (simp add: align_def)

lemma align_start:
  assumes "list_all scalar cs" and "start \<le> length (utf8 cs)"
  shows "\<exists>i \<le> length cs. align (utf8 cs) start = length (utf8 (take i cs))
     \<and> (\<forall>j. start \<le> length (utf8 (take j cs)) \<longrightarrow> i \<le> j)"
proof -
  obtain i where i: "i \<le> length cs"
      "start + length (takeWhile is_tail (take 4 (drop start (utf8 cs)))) = length (utf8 (take i cs))"
      "\<forall>j. start \<le> length (utf8 (take j cs)) \<longrightarrow> i \<le> j"
    using next_boundary [OF assms] by blast
  moreover have "align (utf8 cs) start = length (utf8 (take i cs))"
    using i(2) assms(2) utf8_take_le [of i cs] by (auto simp: align_def)
  ultimately show ?thesis by blast
qed

lemma align_at:
  assumes "list_all scalar cs"
  shows "align (utf8 cs) (length (utf8 (take i cs))) = length (utf8 (take i cs))"
proof -
  obtain i' where i': "align (utf8 cs) (length (utf8 (take i cs))) = length (utf8 (take i' cs))" "i' \<le> i"
    using align_start [OF assms utf8_take_le] by blast
  moreover have "length (utf8 (take i cs)) \<le> align (utf8 cs) (length (utf8 (take i cs)))"
    using utf8_take_le [of i cs] by (auto simp: align_def)
  ultimately show ?thesis using utf8_take_mono [OF i'(2), of cs] by simp
qed

lemma byte_piece_at:
  fixes m :: int
  assumes "list_all scalar cs" and "i \<le> length cs"
  defines "n \<equiv> length (fit_chars (piece_limit m) (drop i cs))"
  shows "byte_piece (utf8 cs) m (char_pos cs i) =
    Inr ((take n (drop i cs), if i + n = length cs then None else Some (char_pos cs (i + n)),
          i + n = length cs), char_pos cs i)"
    and "i + n \<le> length cs"
proof -
  have fits: "take n (drop i cs) = fit_chars (piece_limit m) (drop i cs)"
    unfolding n_def by (rule fit_chars_take [symmetric])
  have "n \<le> length (drop i cs)"
    unfolding n_def by (subst fit_chars_take) simp
  then show bound: "i + n \<le> length cs" using assms(2) by simp
  have start: "align (utf8 cs) (nat (max 0 (min (char_pos cs i) (int (length (utf8 cs))))))
      = length (utf8 (take i cs))"
    using align_at [OF assms(1)] utf8_take_le [of i cs] by (simp add: char_pos_def)
  have tail: "list_all scalar (drop i cs)"
    using assms(1) by (metis append_take_drop_id list_all_append)
  have whole: "length (utf8 cs) \<le> length (utf8 (take j cs)) \<longleftrightarrow> j = length cs" if "j \<le> length cs" for j
    using utf8_take_all [of cs j] that by (metis le_antisym order_refl take_all)
  have join: "length (utf8 (take i cs)) + length (utf8 (take n (drop i cs))) = length (utf8 (take (i + n) cs))"
    by (simp add: take_add)
  show "byte_piece (utf8 cs) m (char_pos cs i) =
    Inr ((take n (drop i cs), if i + n = length cs then None else Some (char_pos cs (i + n)),
          i + n = length cs), char_pos cs i)"
  proof (cases "i = length cs")
    case True
    then show ?thesis
      unfolding byte_piece_def Let_def start using whole [OF assms(2)] bound by (simp add: char_pos_def)
  next
    case False
    then have "\<not> length (utf8 cs) \<le> length (utf8 (take i cs))" using whole [OF assms(2)] by simp
    then show ?thesis
      unfolding byte_piece_def Let_def start drop_utf8 strict_take [OF tail]
      using whole [OF bound] by (simp add: fits [symmetric] join char_pos_def)
  qed
qed

lemma fit_chars_mem: "x \<in> set (fit_chars m cs) \<Longrightarrow> length (utf8_char x) \<le> m"
  by (induction m cs rule: fit_chars.induct) (auto split: if_splits)

lemma fit_chars_Nil: "fit_chars m cs = [] \<Longrightarrow> \<forall>x \<in> set cs. length (utf8_char x) \<le> m \<Longrightarrow> cs = []"
  by (cases cs) (auto split: if_splits)

text \<open>A text is within a size when each of its characters fits into a piece of that size.\<close>

definition within_limit :: "int \<Rightarrow> nat list \<Rightarrow> bool" where
  "within_limit m cs \<longleftrightarrow> (\<forall>c \<in> set cs. length (utf8_char c) \<le> piece_limit m)"

definition byte_reply :: "string \<Rightarrow> nat list \<Rightarrow> int \<Rightarrow> int \<Rightarrow> http_error + chunk_reply" where
  "byte_reply jid cs m offset =
     (case byte_piece (utf8 cs) m offset of
        Inl _ \<Rightarrow> Inl (HTTPException 400 (JStr ''UnicodeDecodeError''))
      | Inr (piece, used) \<Rightarrow> Inr (chunk_reply_of jid piece used))"

text \<open>The reader by bytes keeps the contract for encoded texts whose characters fit.\<close>

interpretation byte_pieces: piecewise
  "\<lambda>(cs, jid, m). byte_reply jid cs m" fst "\<lambda>(cs, _). char_pos cs"
  "\<lambda>(cs, _, m) i. list_all scalar cs \<and> within_limit m (drop i cs)"
proof
  fix c :: "nat list \<times> string \<times> int" and i j :: nat
  assume "(case c of (cs, _, m) \<Rightarrow> \<lambda>i. list_all scalar cs \<and> within_limit m (drop i cs)) i" and "i \<le> j"
  then show "(case c of (cs, _, m) \<Rightarrow> \<lambda>i. list_all scalar cs \<and> within_limit m (drop i cs)) j"
    using set_drop_subset_set_drop [of i j] by (fastforce simp: within_limit_def split: prod.splits)
next
  fix c :: "nat list \<times> string \<times> int" and i
  obtain cs jid m where c: "c = (cs, jid, m)" by (metis surj_pair)
  assume "(case c of (cs, _, m) \<Rightarrow> \<lambda>i. list_all scalar cs \<and> within_limit m (drop i cs)) i" and "i \<le> length (fst c)"
  then have a: "list_all scalar cs" "within_limit m (drop i cs)" "i \<le> length cs" by (simp_all add: c)
  define n where "n = length (fit_chars (piece_limit m) (drop i cs))"
  have p: "byte_piece (utf8 cs) m (char_pos cs i) =
    Inr ((take n (drop i cs), if i + n = length cs then None else Some (char_pos cs (i + n)),
          i + n = length cs), char_pos cs i)" "i + n \<le> length cs"
    using byte_piece_at [OF a(1,3), of m] by (simp_all add: n_def)
  have "n = 0 \<longrightarrow> i = length cs"
  proof
    assume "n = 0"
    moreover have "\<forall>x \<in> set (drop i cs). length (utf8_char x) \<le> piece_limit m"
      using a(2) unfolding within_limit_def .
    ultimately have "drop i cs = []"
      using fit_chars_Nil [of "piece_limit m" "drop i cs"] unfolding n_def by simp
    then show "i = length cs" using a(3) by simp
  qed
  with p show "\<exists>n reply. (case c of (cs, jid, m) \<Rightarrow> byte_reply jid cs m) ((case c of (cs, _) \<Rightarrow> char_pos cs) i) = Inr reply
      \<and> i + n \<le> length (fst c) \<and> (n = 0 \<longrightarrow> i = length (fst c)) \<and> ck_chunk reply = take n (drop i (fst c))
      \<and> ck_done reply = (i + n = length (fst c))
      \<and> (ck_done reply \<or> ck_next_offset reply = Some ((case c of (cs, _) \<Rightarrow> char_pos cs) (i + n)))"
    by (intro exI [of _ n]) (simp add: c byte_reply_def chunk_reply_of_def)
qed

text \<open>Where a character does not fit, the client never comes to an end: what it returned from,
  fitted.\<close>

lemma within_limit_from:
  "within_limit m (drop i cs) \<longleftrightarrow> within_limit m (take n (drop i cs)) \<and> within_limit m (drop (i + n) cs)"
proof -
  have "set (drop i cs) = set (take n (drop i cs)) \<union> set (drop (i + n) cs)"
    by (metis add.commute append_take_drop_id drop_drop set_append)
  then show ?thesis unfolding within_limit_def by auto
qed

lemma fetched_within:
  assumes "fetch_chunks (byte_reply jid cs m) (char_pos cs i) chunks = Some y" and "list_all scalar cs"
    and "i \<le> length cs"
  shows "within_limit m (drop i cs)"
proof -
  have "request = byte_reply jid cs m \<longrightarrow> (\<forall>i \<le> length cs. current = char_pos cs i \<longrightarrow> within_limit m (drop i cs))"
    if "fetch_chunks request current chunks = Some y" for request current chunks y
    using that
  proof (rule fetch_chunks.raw_induct [where P = "\<lambda>request current chunks y. request = byte_reply jid cs m \<longrightarrow>
        (\<forall>i \<le> length cs. current = char_pos cs i \<longrightarrow> within_limit m (drop i cs))", rotated], intro impI allI)
    fix fetch request current chunks y i
    assume IH: "\<And>request current chunks y. fetch request current chunks = Some y \<Longrightarrow>
        request = byte_reply jid cs m \<longrightarrow> (\<forall>i \<le> length cs. current = char_pos cs i \<longrightarrow> within_limit m (drop i cs))"
      and run: "(case request current of Inl e \<Rightarrow> Some (Inl e)
         | Inr reply \<Rightarrow> let chunks' = chunks @ [ck_chunk reply]
             in if ck_done reply then Some (Inr chunks')
                else case ck_next_offset reply of None \<Rightarrow> Some (Inr chunks')
                     | Some next_offset \<Rightarrow> fetch request next_offset chunks') = Some y"
      and req: "request = byte_reply jid cs m" and i: "i \<le> length cs" and cur: "current = char_pos cs i"
    define n where "n = length (fit_chars (piece_limit m) (drop i cs))"
    have p: "byte_piece (utf8 cs) m (char_pos cs i) =
      Inr ((take n (drop i cs), if i + n = length cs then None else Some (char_pos cs (i + n)),
            i + n = length cs), char_pos cs i)" "i + n \<le> length cs"
      using byte_piece_at [OF assms(2) i, of m] by (simp_all add: n_def)
    have "take n (drop i cs) = fit_chars (piece_limit m) (drop i cs)"
      unfolding n_def by (rule fit_chars_take [symmetric])
    then have front: "within_limit m (take n (drop i cs))"
      unfolding within_limit_def using fit_chars_mem by metis
    have "within_limit m (drop (i + n) cs)"
    proof (cases "i + n = length cs")
      case True
      then show ?thesis by (simp add: within_limit_def)
    next
      case False
      then obtain chunks' where "fetch request (char_pos cs (i + n)) chunks' = Some y"
        using run p(1) by (auto simp: req cur byte_reply_def chunk_reply_of_def Let_def)
      then show ?thesis using IH req p(2) by blast
    qed
    with front show "within_limit m (drop i cs)" using within_limit_from by blast
  qed
  then show ?thesis using assms by blast
qed

text \<open>The route answers with the reader's pieces.\<close>

lemma route_pieces:
  assumes "get_job jid w = Some job" and "strip (or_empty (j_export_path job)) = path" and "path \<noteq> ''''"
    and "resolve_artifact_path home path = Inr p" and "d p = Some (utf8 cs)"
  shows "conversation_chunk_route t d home w jid offset m = byte_reply jid cs m offset"
proof -
  have "e = ValueError ''UnicodeDecodeError''" if "byte_piece (utf8 cs) m offset = Inl e" for e
    using that by (auto simp: byte_piece_def Let_def split: if_splits option.splits)
  then show ?thesis
    using assms
    by (cases "byte_piece (utf8 cs) m offset")
       (auto simp: conversation_chunk_route_def read_utf8_chunk_by_bytes_def byte_reply_def Let_def)
qed

text \<open>Anywhere in the file the reader answers as at the next character.\<close>

lemma byte_piece_anywhere:
  assumes "list_all scalar cs"
  shows "\<exists>i \<le> length cs. byte_piece (utf8 cs) m offset = byte_piece (utf8 cs) m (char_pos cs i)
     \<and> (\<forall>j \<le> length cs. offset \<le> char_pos cs j \<longrightarrow> i \<le> j)
     \<and> (offset \<le> char_pos cs i \<or> i = length cs)"
proof -
  let ?start = "nat (max 0 (min offset (int (length (utf8 cs)))))"
  have le: "?start \<le> length (utf8 cs)" by simp
  obtain i where i: "i \<le> length cs" "align (utf8 cs) ?start = length (utf8 (take i cs))"
      "\<forall>j. ?start \<le> length (utf8 (take j cs)) \<longrightarrow> i \<le> j"
    using align_start [OF assms le] by blast
  have "nat (max 0 (min (char_pos cs i) (int (length (utf8 cs))))) = length (utf8 (take i cs))"
    using utf8_take_le [of i cs] by (simp add: char_pos_def)
  then have "byte_piece (utf8 cs) m offset = byte_piece (utf8 cs) m (char_pos cs i)"
    by (simp only: byte_piece_def Let_def i(2) align_at [OF assms])
  moreover have "i \<le> j" if "j \<le> length cs" "offset \<le> char_pos cs j" for j
    using i(3) that(2) by (auto simp: char_pos_def)
  moreover have "offset \<le> char_pos cs i \<or> i = length cs"
  proof -
    have "?start \<le> align (utf8 cs) ?start" using le by (rule align_ge)
    then have "?start \<le> length (utf8 (take i cs))" unfolding i(2) .
    moreover have "i = length cs" if "length (utf8 cs) \<le> length (utf8 (take i cs))"
      using i(1) utf8_take_all [OF that] by simp
    ultimately show ?thesis
      unfolding char_pos_def by linarith
  qed
  ultimately show ?thesis using i(1) by blast
qed

text \<open>C28. Whatever is asked for, the route discloses nothing outside the artifact directory: two disks
  that hold the same artifacts, without symbolic links, give the same reply.\<close>

theorem route_reads_artifacts_only:
  assumes "same_artifacts home d d'"
  shows "conversation_chunk_route t d home w jid offset m = conversation_chunk_route t d' home w jid offset m"
  unfolding conversation_chunk_route_def readers_inside(1) [OF assms] by (rule refl)

theorem route_reads_artifacts_only_witness:
  "conversation_chunk_route (at_time 1) (\<lambda>p. if p = [''etc'', ''passwd''] then Some [0x41] else None) [''data'']
      (world_of [job0\<lparr>j_export_path := Some ''../etc/passwd''\<rparr>]) ''j1'' 0 100
   = conversation_chunk_route (at_time 1) (\<lambda>_. None) [''data'']
      (world_of [job0\<lparr>j_export_path := Some ''../etc/passwd''\<rparr>]) ''j1'' 0 100"
  by (rule route_reads_artifacts_only) (simp add: same_artifacts_def)

text \<open>The client from an arbitrary offset.\<close>

lemma fetch_anywhere:
  assumes "list_all scalar cs" and "i \<le> length cs"
    and "byte_piece (utf8 cs) m offset = byte_piece (utf8 cs) m (char_pos cs i)"
  shows "fetch_chunks (byte_reply jid cs m) offset chunks = fetch_chunks (byte_reply jid cs m) (char_pos cs i) chunks"
  using assms(3) by (simp add: fetch_chunks.simps [of _ offset] fetch_chunks.simps [of _ "char_pos cs i"] byte_reply_def)

lemma stream_result:
  assumes "list_all scalar cs" and "i \<le> length cs"
    and "byte_piece (utf8 cs) m (max 0 offset) = byte_piece (utf8 cs) m (char_pos cs i)"
  shows "read_chunk_stream (byte_reply jid cs m) offset =
    (if within_limit m (drop i cs) then Some (Inr (drop i cs)) else None)"
proof (cases "within_limit m (drop i cs)")
  case True
  have same: "fetch_chunks (byte_reply jid cs m) (max 0 offset) [] = fetch_chunks (byte_reply jid cs m) (char_pos cs i) []"
    by (rule fetch_anywhere [OF assms])
  have "\<exists>ps. fetch_chunks (byte_reply jid cs m) (char_pos cs i) [] = Some (Inr ps) \<and> concat ps = drop i cs"
    using byte_pieces.fetch_all [of "(cs, jid, m)" i "[]"] assms(1,2) True by simp
  then show ?thesis using True by (auto simp: read_chunk_stream_def same)
next
  case False
  then have "fetch_chunks (byte_reply jid cs m) (char_pos cs i) [] = None"
    using fetched_within [of jid cs m i "[]"] assms(1,2) by (cases "fetch_chunks (byte_reply jid cs m) (char_pos cs i) []") auto
  then show ?thesis
    using False fetch_anywhere [OF assms] by (simp add: read_chunk_stream_def)
qed

text \<open>C29. The client of the command line, asking for a conversation from any offset on: where every
  character from the first one at or after the offset fits into the size it asks for, it returns, with exactly the
  text from that character to the end; where one does not fit, it never returns.\<close>

theorem stream_returns_the_rest:
  assumes "get_job jid w = Some job" and "strip (or_empty (j_export_path job)) = path" and "path \<noteq> ''''"
    and "resolve_artifact_path home path = Inr p" and "d p = Some (utf8 cs)" and "list_all scalar cs"
  shows "\<exists>i \<le> length cs.
      (\<forall>j \<le> length cs. max 0 offset \<le> char_pos cs j \<longrightarrow> i \<le> j)
      \<and> (max 0 offset \<le> char_pos cs i \<or> i = length cs)
      \<and> read_chunk_stream (\<lambda>at_offset. conversation_chunk_route (t at_offset) d home w jid at_offset m) offset =
        (if within_limit m (drop i cs) then Some (Inr (drop i cs)) else None)"
proof -
  obtain i where i: "i \<le> length cs"
      "byte_piece (utf8 cs) m (max 0 offset) = byte_piece (utf8 cs) m (char_pos cs i)"
      "\<forall>j \<le> length cs. max 0 offset \<le> char_pos cs j \<longrightarrow> i \<le> j" "max 0 offset \<le> char_pos cs i \<or> i = length cs"
    using byte_piece_anywhere [OF assms(6), of m "max 0 offset"] by blast
  moreover have "(\<lambda>at_offset. conversation_chunk_route (t at_offset) d home w jid at_offset m) = byte_reply jid cs m"
    by (rule ext) (rule route_pieces [where d = d and home = home, OF assms(1-5)])
  ultimately show ?thesis
    using stream_result [OF assms(6) i(1,2), of jid] by auto
qed

theorem stream_returns_the_rest_witness:
  "read_chunk_stream (\<lambda>at_offset. conversation_chunk_route (at_time 1)
      (\<lambda>p. if p = [''data'', ''jobs'', ''j1'', ''conversation.json''] then Some (utf8 [0x20AC, 0x41]) else None)
      [''data''] (world_of [export0]) ''j1'' at_offset 1) 0 = None"
proof -
  have euro: "list_all scalar [0x20AC, 0x41]" "\<not> within_limit 1 [0x20AC, 0x41]"
    by (simp_all add: scalar_def within_limit_def utf8_char_def)
  have path: "strip ''jobs/j1/conversation.json'' = ''jobs/j1/conversation.json''"
    using strip_prefix [of "''jobs/j1/conversation.json''" "[]"] by (simp add: py_space_code)
  show ?thesis
    using stream_returns_the_rest [of "''j1''" "world_of [export0]" export0 "''jobs/j1/conversation.json''" "[''data'']"
        "[''data'', ''jobs'', ''j1'', ''conversation.json'']"
        "\<lambda>p. if p = [''data'', ''jobs'', ''j1'', ''conversation.json''] then Some (utf8 [0x20AC, 0x41]) else None"
        "[0x20AC, 0x41]" 0 "\<lambda>_. at_time 1" 1] euro resolve0 path
    by (auto dest!: spec [of _ 0] simp: export0_def char_pos_def get_job_def)
qed

text \<open>Four bytes are enough for every text.\<close>

lemma within_four: "4 \<le> m \<Longrightarrow> within_limit m cs"
proof -
  assume "4 \<le> m"
  then have "4 \<le> piece_limit m" by simp
  then show ?thesis unfolding within_limit_def using utf8_char_length(2) order_trans by blast
qed

end
