(* ===== verification/Reconcile.thy ===== *)
theory Reconcile
  imports ArtifactReads
begin

text \<open>
  \<open>reconcile_job_artifacts\<close> of \<open>core/artifacts.py\<close>: whoever looks at a job repairs its files first. A
  job that is completed but whose answer is still under its staging name gets the answer published,
  and a job at rest without a result file gets one from its row. The theorems say what is repaired,
  that nothing that is there is overwritten, that a second repair does nothing, and that a process
  which dies between the final transition and the publication loses no answer.
\<close>

section \<open>The repair\<close>

text \<open>A path as the files of \<open>world\<close> are named: relative to the artifact directory.\<close>

fun join_parts :: "string list \<Rightarrow> string" where
  "join_parts [] = []"
| "join_parts [s] = s"
| "join_parts (s # t # ss) = s @ ''/'' @ join_parts (t # ss)"

definition artifact_name :: "string list \<Rightarrow> string \<Rightarrow> string option" where
  "artifact_name home path =
     (case resolve_artifact_path home path of
        Inl _ \<Rightarrow> None
      | Inr p \<Rightarrow> Some (join_parts (drop (length home) p)))"

definition publish_staged :: "string list \<Rightarrow> job \<Rightarrow> world \<Rightarrow> world" where
  "publish_staged home job w =
     (case or_none (or_empty (j_answer_path job)) of
        None \<Rightarrow> w
      | Some path \<Rightarrow>
          (case artifact_name home path of
             None \<Rightarrow> w
           | Some canonical \<Rightarrow>
               if files w canonical \<noteq> None then w
               else case or_none (or_empty (j_lease_token job)) of
                      None \<Rightarrow> w
                    | Some token \<Rightarrow>
                        (let stage = stage_path canonical token
                         in if files w stage \<noteq> None then replace_file stage canonical w else w)))"

definition at_rest :: "job_status \<Rightarrow> bool" where
  "at_rest st \<longleftrightarrow> st \<in> {COMPLETED, ERROR, CANCELED, BLOCKED, COOLDOWN, NEEDS_FOLLOWUP}"

definition repaired_result :: "job \<Rightarrow> string \<Rightarrow> json" where
  "repaired_result job jid =
     (let shared = [(''job_id'', JStr jid), (''status'', JStr (status_value (j_status job))),
                    (''phase'', JStr (phase_value (j_phase job))),
                    (''conversation_url'', jopt (j_conversation_url job)),
                    (''conversation_id'', jopt (j_conversation_id job))];
          errors = [(''error_type'', jopt (j_last_error_type job)), (''error'', jopt (j_last_error job))]
      in JObj
        (if j_status job = COMPLETED
         then (''ok'', JBool True) # shared @
              [(''path'', jopt (j_answer_path job)), (''answer_sha256'', jopt (j_answer_sha256 job)),
               (''answer_chars'', jopt_int (j_answer_chars job)), (''answer_format'', jopt (j_answer_format job))]
         else if j_status job = CANCELED
         then (''ok'', JBool False) # shared @
              [(''canceled'', JBool True), (''reason'', jopt (j_last_error job))]
         else if j_status job \<in> {BLOCKED, COOLDOWN, NEEDS_FOLLOWUP}
         then (''ok'', JBool False) # shared @
              [(''retryable'', JBool True), (''not_before'', JReal (j_not_before job))] @ errors
         else (''ok'', JBool False) # shared @ errors))"

definition reconcile_job_artifacts :: "string list \<Rightarrow> job \<Rightarrow> world \<Rightarrow> world" where
  "reconcile_job_artifacts home job w =
     (let jid = strip (j_id job)
      in if jid = '''' then w
         else let w1 = (if j_status job = COMPLETED then publish_staged home job w else w)
              in if \<not> at_rest (j_status job) \<or> files w1 (result_path jid) \<noteq> None then w1
                 else write_result jid (repaired_result job jid) w1)"

section \<open>Names of a job's files\<close>

text \<open>A job id as \<open>uuid4().hex\<close> makes it is one part of a path.\<close>

definition plain_id :: "string \<Rightarrow> bool" where
  "plain_id jid \<longleftrightarrow> jid \<noteq> '''' \<and> CHR ''/'' \<notin> set jid \<and> CHR ''.'' \<notin> set jid
     \<and> CHR 0x00 \<notin> set jid \<and> (\<forall>c \<in> set jid. \<not> py_space c)"

lemma split_on_plain: "c \<notin> set a \<Longrightarrow> split_on c a = [a]"
  by (induction a) auto

lemma split_on_append: "c \<notin> set a \<Longrightarrow> split_on c (a @ c # b) = a # split_on c b"
proof (induction a)
  case Nil
  have "split_on c b \<noteq> []" for b by (cases b) (auto split: list.split)
  then show ?case by (auto split: list.split)
next
  case (Cons x a)
  then show ?case by auto
qed

lemma plain_id_strip [simp]: "plain_id jid \<Longrightarrow> strip jid = jid"
proof -
  assume p: "plain_id jid"
  then have "jid \<noteq> ''''" "\<not> py_space (hd jid)" "\<not> py_space (last jid)"
    by (simp_all add: plain_id_def)
  then show ?thesis using strip_prefix [of jid "[]"] by simp
qed

lemma walk_plain: "''..'' \<notin> set parts \<Longrightarrow> walk start parts = start @ parts"
  unfolding walk_def by (induction parts arbitrary: start) auto

lemma answer_name:
  assumes "plain_id jid"
  shows "artifact_name home (answer_rel_path jid fmt) = Some (answer_rel_path jid fmt)"
proof -
  define leaf where "leaf = ''answer.'' @ snd (normalize_answer_format fmt)"
  have leaf: "leaf = ''answer.md'' \<or> leaf = ''answer.txt''"
    by (simp add: leaf_def normalize_answer_format_def Let_def)
  have path: "answer_rel_path jid fmt = ''jobs'' @ CHR ''/'' # jid @ CHR ''/'' # leaf"
    by (simp add: answer_rel_path_def job_dir_def leaf_def)
  have jid: "CHR ''/'' \<notin> set jid" "jid \<noteq> ''''" "jid \<noteq> ''.''" "jid \<noteq> ''..''" "CHR 0x00 \<notin> set jid"
    using assms unfolding plain_id_def by fastforce+
  have "split_on (CHR ''/'') (answer_rel_path jid fmt) = [''jobs'', jid, leaf]"
  proof -
    have "CHR ''/'' \<notin> set leaf" using leaf by auto
    then show ?thesis
      unfolding path using split_on_append [of "CHR ''/''" "''jobs''" "jid @ CHR ''/'' # leaf"]
        split_on_append [OF jid(1), of leaf] split_on_plain [of "CHR ''/''" leaf] by simp
  qed
  then have "path_parts (answer_rel_path jid fmt) = [''jobs'', jid, leaf]"
    using leaf jid by (auto simp: path_parts_def)
  moreover have "walk home [''jobs'', jid, leaf] = home @ [''jobs'', jid, leaf]"
    using leaf jid by (intro walk_plain) auto
  moreover have "CHR 0x00 \<notin> set (answer_rel_path jid fmt)" "\<not> starts_with ''/'' (answer_rel_path jid fmt)"
    unfolding path using leaf jid by auto
  ultimately have "resolve_artifact_path home (answer_rel_path jid fmt) = Inr (home @ [''jobs'', jid, leaf])"
    by (simp add: resolve_artifact_path_def path)
  then show ?thesis by (simp add: artifact_name_def path)
qed

section \<open>What the repair does\<close>

lemma reconcile_sel [store_simps]:
  "jobs (reconcile_job_artifacts home job w) = jobs w"
  "events (reconcile_job_artifacts home job w) = events w"
  "get_job i (reconcile_job_artifacts home job w) = get_job i w"
  by (simp_all add: reconcile_job_artifacts_def publish_staged_def Let_def store_simps split: option.split)

text \<open>Staging names are nobody else's.\<close>

lemma stage_differs [simp]: "stage_path p token \<noteq> p" "p \<noteq> stage_path p token"
  by (simp_all add: stage_path_def)

lemma answer_not_result [simp]:
  "answer_rel_path jid fmt \<noteq> result_path jid" "stage_path (answer_rel_path jid fmt) token \<noteq> result_path jid"
  "result_path jid \<noteq> answer_rel_path jid fmt" "result_path jid \<noteq> stage_path (answer_rel_path jid fmt) token"
  by (simp_all add: stage_path_def answer_rel_path_def result_path_def)

text \<open>The row of a job as the job store leaves it: a completed one names its answer file.\<close>

definition answer_named :: "job \<Rightarrow> bool" where
  "answer_named job \<longleftrightarrow> plain_id (j_id job)
     \<and> (j_status job = COMPLETED \<longrightarrow> (\<exists>fmt. j_answer_path job = Some (answer_rel_path (j_id job) fmt)))"

definition has_staged :: "job \<Rightarrow> world \<Rightarrow> string \<Rightarrow> string \<Rightarrow> bool" where
  "has_staged job w path token \<longleftrightarrow> j_status job = COMPLETED \<and> j_answer_path job = Some path
     \<and> j_lease_token job = Some token \<and> token \<noteq> '''' \<and> files w path = None
     \<and> files w (stage_path path token) \<noteq> None"

lemma publish_staged_files:
  assumes "answer_named job" and "j_status job = COMPLETED"
  shows "files (publish_staged home job w) =
    (if has_staged job w (or_empty (j_answer_path job)) (or_empty (j_lease_token job))
     then (files w)(or_empty (j_answer_path job) :=
              files w (stage_path (or_empty (j_answer_path job)) (or_empty (j_lease_token job))),
            stage_path (or_empty (j_answer_path job)) (or_empty (j_lease_token job)) := None)
     else files w)"
proof -
  obtain fmt where a: "plain_id (j_id job)" "j_answer_path job = Some (answer_rel_path (j_id job) fmt)"
    using assms by (auto simp: answer_named_def)
  have "or_none (answer_rel_path (j_id job) fmt) = Some (answer_rel_path (j_id job) fmt)"
    by (simp add: answer_rel_path_def job_dir_def)
  then show ?thesis
    using answer_name [OF a(1), of home fmt] assms(2)
    by (cases "j_lease_token job")
       (auto simp: publish_staged_def has_staged_def a(2) Let_def files_sel or_none_def)
qed

text \<open>The files after a repair.\<close>

lemma repaired_files:
  assumes "answer_named job"
  defines "path \<equiv> or_empty (j_answer_path job)" and "stage \<equiv> stage_path (or_empty (j_answer_path job)) (or_empty (j_lease_token job))"
  shows "files (reconcile_job_artifacts home job w) =
    (let f = (if has_staged job w path (or_empty (j_lease_token job))
              then (files w)(path := files w stage, stage := None) else files w)
     in if at_rest (j_status job) \<and> files w (result_path (j_id job)) = None
        then f(result_path (j_id job) \<mapsto> FJson (repaired_result job (j_id job))) else f)"
proof -
  have id: "strip (j_id job) = j_id job" "j_id job \<noteq> ''''"
    using assms(1) by (simp_all add: answer_named_def) (simp add: plain_id_def)
  have other: "has_staged job w path (or_empty (j_lease_token job)) \<Longrightarrow> result_path (j_id job) \<noteq> path \<and> result_path (j_id job) \<noteq> stage"
    using assms(1) by (auto simp: has_staged_def answer_named_def path_def stage_def)
  show ?thesis
  proof (cases "j_status job = COMPLETED")
    case True
    then show ?thesis
      using publish_staged_files [OF assms(1) True, of home w] other
      by (auto simp: reconcile_job_artifacts_def id Let_def files_sel path_def stage_def)
  next
    case False
    then have "\<not> has_staged job w path (or_empty (j_lease_token job))" by (simp add: has_staged_def)
    with False show ?thesis
      by (auto simp: reconcile_job_artifacts_def id Let_def files_sel)
  qed
qed

text \<open>C31. Looking at a job as the job store leaves it, whose id is plain and whose answer, when it is
  completed, is named by its row, repairs its files once and loses none: a file that was there is as it was,
  unless it was the staged answer of a completed job whose answer was missing, and then its content is the
  answer now; a job at rest has a result file; no row and no event changes; and a second repair changes nothing.\<close>

theorem repair_settles:
  assumes "answer_named job"
  shows "(\<forall>p f. files w p = Some f \<longrightarrow> files (reconcile_job_artifacts home job w) p = Some f
        \<or> (\<exists>answer token. has_staged job w answer token \<and> p = stage_path answer token
             \<and> files (reconcile_job_artifacts home job w) answer = Some f))
    \<and> (at_rest (j_status job) \<longrightarrow> files (reconcile_job_artifacts home job w) (result_path (j_id job)) \<noteq> None)
    \<and> jobs (reconcile_job_artifacts home job w) = jobs w
    \<and> events (reconcile_job_artifacts home job w) = events w
    \<and> files (reconcile_job_artifacts home job (reconcile_job_artifacts home job w)) = files (reconcile_job_artifacts home job w)"
proof -
  define answer where "answer = or_empty (j_answer_path job)"
  define token where "token = or_empty (j_lease_token job)"
  define result where "result = result_path (j_id job)"
  define staged where "staged = has_staged job w answer token"
  let ?w' = "reconcile_job_artifacts home job w"
  note files_of = repaired_files [OF assms, of home, folded answer_def token_def, folded result_def, unfolded Let_def]
  have apart: "result \<noteq> answer" "result \<noteq> stage_path answer token" if "staged"
    using that assms by (auto simp: staged_def has_staged_def answer_named_def answer_def result_def)
  have later: "\<not> has_staged job ?w' answer token"
  proof (cases staged)
    case True
    then show ?thesis using apart by (auto simp: has_staged_def files_of staged_def)
  next
    case False
    then show ?thesis
      using assms by (auto simp: has_staged_def files_of staged_def answer_named_def answer_def result_def split: if_splits)
  qed
  have kept: "files ?w' p = Some f \<or> (staged \<and> p = stage_path answer token \<and> files ?w' answer = Some f)"
    if "files w p = Some f" for p f
    using that apart by (auto simp: files_of staged_def has_staged_def)
  have rest: "at_rest (j_status job) \<longrightarrow> files ?w' result \<noteq> None"
    using apart by (auto simp: files_of staged_def)
  have twice: "files (reconcile_job_artifacts home job ?w') = files ?w'"
    using later rest by (auto simp: files_of [of ?w'])
  show ?thesis
    using kept rest twice by (fastforce simp: reconcile_sel staged_def result_def)
qed

theorem repair_settles_witness:
  "files (reconcile_job_artifacts [''data''] (job0\<lparr>j_status := ERROR\<rparr>) empty_world) (result_path ''j1'') \<noteq> None"
proof -
  have "answer_named (job0\<lparr>j_status := ERROR\<rparr>)"
    by (simp add: answer_named_def plain_id_def py_space_code)
  from repair_settles [OF this, of empty_world "[''data'']"] show ?thesis
    by (simp add: at_rest_def)
qed



end
