(* ===== verification/AdvisorRuns.thy ===== *)
theory AdvisorRuns
  imports Table "HOL-Library.List_Lexorder" "HOL-Library.Char_ord" "HOL-Library.Product_Lexorder"
begin

text \<open>
  The runs of the advisor, \<open>core/advisor_runs.py\<close>: the tables \<open>advisor_runs\<close>, \<open>advisor_steps\<close>,
  \<open>advisor_leases\<close> and \<open>advisor_events\<close> of \<open>core/db.py\<close> and the operations on them. A run asks one
  question through steps; a step is worked on under a lease that expires; the events are the log
  from which \<open>replay_run\<close> computes the run's state again. Statuses are held as the values the code
  normalises them to, JSON columns are held parsed. The ledger of outcomes that \<open>update_run\<close> feeds,
  and whose failures it swallows, is left out. After the operations come the facts on them
  (\<open>advisor_simps\<close>), the contract of a log read in pages (locale \<open>paged_log\<close>), which \<open>list_events\<close>
  meets, and what reclaiming expired leases does.
\<close>

section \<open>Statuses\<close>

datatype run_status =
    RUN_NEW | INTAKE_NORMALIZED | PLAN_COMPILED | DISPATCHING | RUNNING | WAITING_GATES | PAUSED
  | DEGRADED | MANUAL_TAKEOVER | RUN_COMPLETED | RUN_FAILED | RUN_CANCELLED

fun run_status_value :: "run_status \<Rightarrow> string" where
  "run_status_value RUN_NEW = ''NEW''"
| "run_status_value INTAKE_NORMALIZED = ''INTAKE_NORMALIZED''"
| "run_status_value PLAN_COMPILED = ''PLAN_COMPILED''"
| "run_status_value DISPATCHING = ''DISPATCHING''"
| "run_status_value RUNNING = ''RUNNING''"
| "run_status_value WAITING_GATES = ''WAITING_GATES''"
| "run_status_value PAUSED = ''PAUSED''"
| "run_status_value DEGRADED = ''DEGRADED''"
| "run_status_value MANUAL_TAKEOVER = ''MANUAL_TAKEOVER''"
| "run_status_value RUN_COMPLETED = ''COMPLETED''"
| "run_status_value RUN_FAILED = ''FAILED''"
| "run_status_value RUN_CANCELLED = ''CANCELLED''"

definition run_terminal :: "run_status \<Rightarrow> bool" where
  "run_terminal s \<longleftrightarrow> s \<in> {RUN_COMPLETED, RUN_FAILED, RUN_CANCELLED}"

datatype step_status =
  STEP_PENDING | LEASED | EXECUTING | RETRY_WAIT | STEP_SUCCEEDED | STEP_FAILED | COMPENSATED

fun step_status_value :: "step_status \<Rightarrow> string" where
  "step_status_value STEP_PENDING = ''PENDING''"
| "step_status_value LEASED = ''LEASED''"
| "step_status_value EXECUTING = ''EXECUTING''"
| "step_status_value RETRY_WAIT = ''RETRY_WAIT''"
| "step_status_value STEP_SUCCEEDED = ''SUCCEEDED''"
| "step_status_value STEP_FAILED = ''FAILED''"
| "step_status_value COMPENSATED = ''COMPENSATED''"

datatype lease_status = LEASE_LEASED | LEASE_RELEASED | LEASE_EXPIRED

section \<open>Rows\<close>

record run =
  rn_id :: string
  rn_request :: "string option"
  rn_mode :: string
  rn_status :: run_status
  rn_route :: "string option"
  rn_raw_question :: "string option"
  rn_question :: "string option"
  rn_context :: json
  rn_threshold :: "int option"
  rn_crosscheck :: bool
  rn_max_retries :: int
  rn_orchestrate_job :: "string option"
  rn_final_job :: "string option"
  rn_degraded :: bool
  rn_created_at :: real
  rn_updated_at :: real
  rn_ended_at :: "real option"
  rn_error_type :: "string option"
  rn_error :: "string option"

record step =
  sp_run :: string
  sp_id :: string
  sp_type :: string
  sp_status :: step_status
  sp_attempt :: int
  sp_job :: "string option"
  sp_lease :: "string option"
  sp_expires_at :: "real option"
  sp_input :: json
  sp_output :: json
  sp_evidence :: "string option"
  sp_created_at :: real
  sp_updated_at :: real

record advisor_lease =
  al_id :: string
  al_run :: string
  al_step :: string
  al_owner :: "string option"
  al_token :: "string option"
  al_status :: lease_status
  al_created_at :: real
  al_updated_at :: real
  al_expires_at :: "real option"
  al_heartbeat_at :: "real option"

record advisor_event =
  ae_id :: int
  ae_run :: string
  ae_step :: "string option"
  ae_ts :: real
  ae_type :: string
  ae_payload :: json

text \<open>The tables, and the files of the runs under their names in the artifact directory.\<close>

record advisor_db =
  a_runs :: "run list"
  a_steps :: "step list"
  a_leases :: "advisor_lease list"
  a_events :: "advisor_event list"
  a_files :: "string \<Rightarrow> json option"

definition empty_advisor :: advisor_db where
  "empty_advisor = \<lparr>a_runs = [], a_steps = [], a_leases = [], a_events = [], a_files = (\<lambda>_. None)\<rparr>"

text \<open>\<open>str(x).strip() if x else None\<close>, and \<open>str(x).strip() or None\<close>.\<close>

definition strip_if :: "string option \<Rightarrow> string option" where
  "strip_if x = (case x of None \<Rightarrow> None | Some s \<Rightarrow> if s = '''' then None else Some (strip s))"

definition strip_or_none :: "string \<Rightarrow> string option" where
  "strip_or_none s = or_none (strip s)"

section \<open>Runs\<close>

definition get_run :: "string \<Rightarrow> advisor_db \<Rightarrow> run option" where
  "get_run i db = row_get rn_id i (a_runs db)"

record new_run =
  nw_id :: string
  nw_request :: "string option"
  nw_mode :: string
  nw_status :: run_status
  nw_route :: "string option"
  nw_raw_question :: string
  nw_question :: string
  nw_context :: json
  nw_threshold :: "int option"
  nw_crosscheck :: bool
  nw_max_retries :: int
  nw_orchestrate_job :: "string option"
  nw_final_job :: "string option"
  nw_degraded :: bool

definition create_run :: "real \<Rightarrow> new_run \<Rightarrow> advisor_db \<Rightarrow> (run, advisor_db) outcome" where
  "create_run now n db =
     (let i = strip (nw_id n)
      in if i = '''' then (Inl (ValueError ''run_id is required''), db)
         else if get_run i db \<noteq> None then (Inl IntegrityError, db)
         else let r = \<lparr>rn_id = i, rn_request = strip_if (nw_request n), rn_mode = text_or (nw_mode n) ''balanced'',
                       rn_status = nw_status n, rn_route = strip_if (nw_route n),
                       rn_raw_question = Some (nw_raw_question n), rn_question = Some (nw_question n),
                       rn_context = JObj (dict_of (nw_context n)), rn_threshold = nw_threshold n,
                       rn_crosscheck = nw_crosscheck n, rn_max_retries = max 0 (nw_max_retries n),
                       rn_orchestrate_job = strip_if (nw_orchestrate_job n),
                       rn_final_job = strip_if (nw_final_job n), rn_degraded = nw_degraded n,
                       rn_created_at = now, rn_updated_at = now, rn_ended_at = None,
                       rn_error_type = None, rn_error = None\<rparr>
              in (Inr r, db\<lparr>a_runs := a_runs db @ [r]\<rparr>))"

text \<open>The keyword arguments of \<open>update_run\<close>: \<open>None\<close> is an argument that is not given, which the code
  does not tell from one that is \<open>None\<close>.\<close>

record run_update =
  ru_status :: "run_status option"
  ru_route :: "string option"
  ru_mode :: "string option"
  ru_question :: "string option"
  ru_threshold :: "int option"
  ru_crosscheck :: "bool option"
  ru_max_retries :: "int option"
  ru_orchestrate_job :: "string option"
  ru_final_job :: "string option"
  ru_degraded :: "bool option"
  ru_error_type :: "string option"
  ru_error :: "string option"
  ru_ended_at :: "real option"

definition no_update :: run_update where
  "no_update = \<lparr>ru_status = None, ru_route = None, ru_mode = None, ru_question = None, ru_threshold = None,
     ru_crosscheck = None, ru_max_retries = None, ru_orchestrate_job = None, ru_final_job = None,
     ru_degraded = None, ru_error_type = None, ru_error = None, ru_ended_at = None\<rparr>"

definition given_or :: "('a \<Rightarrow> 'b) \<Rightarrow> 'a option \<Rightarrow> 'b \<Rightarrow> 'b" where
  "given_or f x d = (case x of None \<Rightarrow> d | Some v \<Rightarrow> f v)"

definition updated_run :: "clock \<Rightarrow> run_update \<Rightarrow> run \<Rightarrow> run" where
  "updated_run t u r =
     (let st = given_or id (ru_status u) (rn_status r)
      in r\<lparr>rn_status := st,
           rn_route := given_or strip_or_none (ru_route u) (rn_route r),
           rn_mode := given_or (\<lambda>m. text_or m ''balanced'') (ru_mode u) (rn_mode r),
           rn_question := given_or Some (ru_question u) (rn_question r),
           rn_threshold := given_or Some (ru_threshold u) (rn_threshold r),
           rn_crosscheck := given_or id (ru_crosscheck u) (rn_crosscheck r),
           rn_max_retries := given_or (max 0) (ru_max_retries u) (rn_max_retries r),
           rn_orchestrate_job := given_or strip_or_none (ru_orchestrate_job u) (rn_orchestrate_job r),
           rn_final_job := given_or strip_or_none (ru_final_job u) (rn_final_job r),
           rn_degraded := given_or id (ru_degraded u) (rn_degraded r),
           rn_error_type := given_or strip_or_none (ru_error_type u) (rn_error_type r),
           rn_error := given_or strip_or_none (ru_error u) (rn_error r),
           rn_ended_at := (case ru_ended_at u of
                             Some x \<Rightarrow> Some x
                           | None \<Rightarrow> if run_terminal st then Some (t 0) else rn_ended_at r),
           rn_updated_at := t 1\<rparr>)"

definition update_run :: "clock \<Rightarrow> string \<Rightarrow> run_update \<Rightarrow> advisor_db \<Rightarrow> run option \<times> advisor_db" where
  "update_run t i u db =
     (case get_run i db of
        None \<Rightarrow> (None, db)
      | Some _ \<Rightarrow>
          (let db' = db\<lparr>a_runs := row_update (\<lambda>r. rn_id r = i) (updated_run t u) (a_runs db)\<rparr>
           in (get_run i db', db')))"

section \<open>Steps\<close>

definition step_key :: "step \<Rightarrow> string \<times> string" where
  "step_key s = (sp_run s, sp_id s)"

definition get_step :: "string \<Rightarrow> string \<Rightarrow> advisor_db \<Rightarrow> step option" where
  "get_step i k db = row_get step_key (i, k) (a_steps db)"

text \<open>\<open>ORDER BY created_at ASC, step_id ASC\<close>.\<close>

definition list_steps :: "string \<Rightarrow> advisor_db \<Rightarrow> step list" where
  "list_steps i db = sort_key (\<lambda>s. (sp_created_at s, sp_id s)) (filter (\<lambda>s. sp_run s = i) (a_steps db))"

record step_args =
  sa_type :: string
  sa_status :: step_status
  sa_attempt :: int
  sa_job :: "string option"
  sa_lease :: "string option"
  sa_expires_at :: "real option"
  sa_input :: json
  sa_output :: json
  sa_evidence :: "string option"

definition step_row :: "real \<Rightarrow> real \<Rightarrow> string \<Rightarrow> string \<Rightarrow> string \<Rightarrow> step_args \<Rightarrow> step" where
  "step_row created now i k ty a =
     \<lparr>sp_run = i, sp_id = k, sp_type = ty, sp_status = sa_status a, sp_attempt = max 0 (sa_attempt a),
      sp_job = strip_if (sa_job a), sp_lease = strip_if (sa_lease a), sp_expires_at = sa_expires_at a,
      sp_input = JObj (dict_of (sa_input a)), sp_output = JObj (dict_of (sa_output a)),
      sp_evidence = strip_if (sa_evidence a), sp_created_at = created, sp_updated_at = now\<rparr>"

definition upsert_step :: "real \<Rightarrow> string \<Rightarrow> string \<Rightarrow> step_args \<Rightarrow> advisor_db \<Rightarrow> advisor_db" where
  "upsert_step now i k a db =
     (case get_step i k db of
        None \<Rightarrow> db\<lparr>a_steps := a_steps db @ [step_row now now i k (text_or (sa_type a) ''task'') a]\<rparr>
      | Some s \<Rightarrow>
          db\<lparr>a_steps := row_update (\<lambda>r. step_key r = (i, k))
               (\<lambda>r. step_row (sp_created_at r) now i k (text_or (sa_type a) (text_or (sp_type s) ''task'')) a)
               (a_steps db)\<rparr>)"

section \<open>Leases\<close>

record lease_args =
  la_owner :: "string option"
  la_token :: "string option"
  la_status :: lease_status
  la_expires_at :: "real option"
  la_heartbeat_at :: "real option"

definition find_lease :: "string \<Rightarrow> advisor_db \<Rightarrow> advisor_lease option" where
  "find_lease l db = row_get al_id l (a_leases db)"

definition upsert_lease :: "real \<Rightarrow> string \<Rightarrow> string \<Rightarrow> string \<Rightarrow> lease_args \<Rightarrow> advisor_db \<Rightarrow> advisor_db" where
  "upsert_lease now l i k a db =
     (case find_lease l db of
        None \<Rightarrow>
          db\<lparr>a_leases := a_leases db @
               [\<lparr>al_id = l, al_run = i, al_step = k, al_owner = strip_if (la_owner a),
                 al_token = strip_if (la_token a), al_status = la_status a, al_created_at = now,
                 al_updated_at = now, al_expires_at = la_expires_at a, al_heartbeat_at = la_heartbeat_at a\<rparr>]\<rparr>
      | Some _ \<Rightarrow>
          db\<lparr>a_leases := row_update (\<lambda>r. al_id r = l)
               (\<lambda>r. r\<lparr>al_owner := strip_if (la_owner a), al_token := strip_if (la_token a),
                      al_status := la_status a, al_updated_at := now, al_expires_at := la_expires_at a,
                      al_heartbeat_at := la_heartbeat_at a\<rparr>)
               (a_leases db)\<rparr>)"

definition list_leases :: "string option \<Rightarrow> lease_status option \<Rightarrow> advisor_db \<Rightarrow> advisor_lease list" where
  "list_leases run st db =
     sort_key (\<lambda>l. (al_updated_at l, al_id l))
       (filter (\<lambda>l. (run = None \<or> run = Some (al_run l)) \<and> (st = None \<or> st = Some (al_status l))) (a_leases db))"

section \<open>Events\<close>

definition set_default :: "string \<Rightarrow> json \<Rightarrow> (string \<times> json) list \<Rightarrow> (string \<times> json) list" where
  "set_default k v d = (if map_of d k = None then d @ [(k, v)] else d)"

text \<open>The keyword arguments of \<open>append_event\<close> after the type.\<close>

record event_args =
  ea_step :: "string option"
  ea_payload :: "(string \<times> json) list"
  ea_attempt :: "int option"
  ea_agent :: "string option"
  ea_session :: "string option"
  ea_correlation :: "string option"
  ea_idempotency :: "string option"
  ea_evidence :: "string option"

definition no_args :: event_args where
  "no_args = \<lparr>ea_step = None, ea_payload = [], ea_attempt = None, ea_agent = None, ea_session = None,
     ea_correlation = None, ea_idempotency = None, ea_evidence = None\<rparr>"

definition text_if :: "string option \<Rightarrow> json" where
  "text_if x = jopt (or_none (or_empty x))"

definition event_payload :: "string \<Rightarrow> real \<Rightarrow> event_args \<Rightarrow> (string \<times> json) list" where
  "event_payload i ts a =
     fold (\<lambda>(k, v). set_default k v)
       [(''run_id'', JStr i), (''step_id'', text_if (ea_step a)), (''attempt'', jopt_int (ea_attempt a)),
        (''agent_id'', text_if (ea_agent a)), (''session_key'', text_if (ea_session a)),
        (''correlation_id'', text_if (ea_correlation a)), (''idempotency_key'', text_if (ea_idempotency a)),
        (''event_ts'', JReal ts), (''evidence_path'', text_if (ea_evidence a))]
       (ea_payload a)"

text \<open>\<open>append_event\<close>: the table numbers its rows from 1, and no row is ever deleted.\<close>

definition append_run_event :: "real \<Rightarrow> string \<Rightarrow> string \<Rightarrow> event_args \<Rightarrow> advisor_db \<Rightarrow> advisor_db" where
  "append_run_event ts i ty a db =
     db\<lparr>a_events := a_events db @
          [\<lparr>ae_id = int (length (a_events db)) + 1, ae_run = i, ae_step = strip_if (ea_step a), ae_ts = ts,
            ae_type = ty, ae_payload = JObj (event_payload i ts a)\<rparr>]\<rparr>"

definition has_event :: "string \<Rightarrow> string \<Rightarrow> string option \<Rightarrow> advisor_db \<Rightarrow> bool" where
  "has_event i ty k db \<longleftrightarrow>
     (\<exists>e \<in> set (a_events db). ae_run e = i \<and> ae_type e = ty \<and> (k = None \<or> ae_step e = k))"

text \<open>One page of the log, and the id to go on from.\<close>

definition list_run_events :: "string \<Rightarrow> int \<Rightarrow> int \<Rightarrow> advisor_db \<Rightarrow> advisor_event list \<times> int" where
  "list_run_events i after_id limit db =
     (let lim = max 1 (min 1000 limit);
          rows = take (nat lim) (filter (\<lambda>e. ae_run e = i \<and> max 0 after_id < ae_id e) (a_events db))
      in (rows, if rows = [] then max 0 after_id else ae_id (last rows)))"

section \<open>Expired leases\<close>

definition lease_expired :: "real \<Rightarrow> string option \<Rightarrow> advisor_lease \<Rightarrow> bool" where
  "lease_expired now run l \<longleftrightarrow> al_status l = LEASE_LEASED
     \<and> (case al_expires_at l of None \<Rightarrow> False | Some e \<Rightarrow> e \<le> now) \<and> (run = None \<or> run = Some (al_run l))"

definition expires_order :: "advisor_lease \<Rightarrow> real \<times> string" where
  "expires_order l = ((case al_expires_at l of None \<Rightarrow> 0 | Some e \<Rightarrow> e), al_id l)"

text \<open>The step of a reclaimed lease waits for a retry if it was being worked on.\<close>

definition requeue_step :: "real \<Rightarrow> advisor_lease \<Rightarrow> step \<Rightarrow> advisor_db \<Rightarrow> advisor_db" where
  "requeue_step now l s db =
     (if sp_status s \<in> {LEASED, EXECUTING}
      then upsert_step now (al_run l) (al_step l)
             \<lparr>sa_type = text_or (sp_type s) ''task'', sa_status = RETRY_WAIT, sa_attempt = max 0 (sp_attempt s),
              sa_job = or_none (or_empty (sp_job s)), sa_lease = Some (al_id l),
              sa_expires_at = al_expires_at l, sa_input = sp_input s, sa_output = sp_output s,
              sa_evidence = or_none (or_empty (sp_evidence s))\<rparr> db
      else db)"

text \<open>One turn of the loop. The clock gives the time the step is written and that of the event.\<close>

definition reclaim_lease :: "real \<Rightarrow> clock \<Rightarrow> advisor_lease \<Rightarrow> advisor_db \<Rightarrow> advisor_db" where
  "reclaim_lease now t l db =
     (let db1 = db\<lparr>a_leases := row_update (\<lambda>r. al_id r = al_id l)
                     (\<lambda>r. r\<lparr>al_status := LEASE_EXPIRED, al_updated_at := now, al_heartbeat_at := Some now\<rparr>)
                     (a_leases db)\<rparr>;
          step = get_step (al_run l) (al_step l) db1;
          db2 = (case step of None \<Rightarrow> db1 | Some s \<Rightarrow> requeue_step (t 0) l s db1)
      in append_run_event (t 1) (al_run l) ''step.failed''
           (no_args\<lparr>ea_step := Some (al_step l),
                    ea_attempt := Some (case step of None \<Rightarrow> 0 | Some s \<Rightarrow> max 0 (sp_attempt s)),
                    ea_payload := [(''reason_type'', JStr ''LeaseExpired''),
                                   (''reason'', JStr ''lease expired before step completion''),
                                   (''lease_id'', JStr (al_id l)), (''expired_at'', JReal now)]\<rparr>) db2)"

fun reclaim_leases :: "real \<Rightarrow> clock \<Rightarrow> advisor_lease list \<Rightarrow> advisor_db \<Rightarrow> advisor_db" where
  "reclaim_leases now t [] db = db"
| "reclaim_leases now t (l # ls) db = reclaim_leases now (later 2 t) ls (reclaim_lease now t l db)"

definition reclaim_expired_leases ::
    "real \<Rightarrow> clock \<Rightarrow> string option \<Rightarrow> advisor_db \<Rightarrow> advisor_lease list \<times> advisor_db" where
  "reclaim_expired_leases now t run db =
     (let ls = sort_key expires_order (filter (lease_expired now run) (a_leases db))
      in (ls, reclaim_leases now t ls db))"

section \<open>Files of a run\<close>

definition run_file :: "string \<Rightarrow> string \<Rightarrow> string" where
  "run_file i name = ''advisor_runs/'' @ i @ ''/'' @ name"

definition write_run_json :: "string \<Rightarrow> string \<Rightarrow> json \<Rightarrow> advisor_db \<Rightarrow> advisor_db" where
  "write_run_json i name payload db = db\<lparr>a_files := (a_files db)(run_file i name \<mapsto> payload)\<rparr>"

definition run_json :: "run \<Rightarrow> json" where
  "run_json r = JObj
     [(''run_id'', JStr (rn_id r)), (''request_id'', jopt (rn_request r)),
      (''mode'', JStr (text_or (rn_mode r) ''balanced'')), (''status'', JStr (run_status_value (rn_status r))),
      (''route'', jopt (rn_route r)), (''raw_question'', jopt (rn_raw_question r)),
      (''normalized_question'', jopt (rn_question r)), (''context'', rn_context r),
      (''quality_threshold'', jopt_int (rn_threshold r)), (''crosscheck'', JBool (rn_crosscheck r)),
      (''max_retries'', JInt (rn_max_retries r)), (''orchestrate_job_id'', jopt (rn_orchestrate_job r)),
      (''final_job_id'', jopt (rn_final_job r)), (''degraded'', JBool (rn_degraded r)),
      (''created_at'', JReal (rn_created_at r)), (''updated_at'', JReal (rn_updated_at r)),
      (''ended_at'', jopt_real (rn_ended_at r)), (''error_type'', jopt (rn_error_type r)),
      (''error'', jopt (rn_error r))]"

definition step_json :: "step \<Rightarrow> json" where
  "step_json s = JObj
     [(''run_id'', JStr (sp_run s)), (''step_id'', JStr (sp_id s)), (''step_type'', JStr (sp_type s)),
      (''status'', JStr (step_status_value (sp_status s))), (''attempt'', JInt (sp_attempt s)),
      (''job_id'', jopt (sp_job s)), (''lease_id'', jopt (sp_lease s)),
      (''lease_expires_at'', jopt_real (sp_expires_at s)), (''input'', sp_input s), (''output'', sp_output s),
      (''evidence_path'', jopt (sp_evidence s)), (''created_at'', JReal (sp_created_at s)),
      (''updated_at'', JReal (sp_updated_at s))]"

definition write_snapshot_json :: "real \<Rightarrow> string \<Rightarrow> run \<Rightarrow> step list \<Rightarrow> json option \<Rightarrow> advisor_db \<Rightarrow> advisor_db" where
  "write_snapshot_json now i r steps replay db =
     write_run_json i ''snapshot.json''
       (JObj ([(''run_id'', JStr i), (''snapshot_at'', JReal now), (''run'', run_json r),
               (''steps'', JList (map step_json steps))]
              @ (case replay of None \<Rightarrow> [] | Some v \<Rightarrow> [(''replay'', v)]))) db"

section \<open>Facts\<close>

interpretation run_rows: row_store rn_id "\<lambda>x. updated_run (fst x) (snd x)"
  by unfold_locales (auto simp: updated_run_def Let_def)

text \<open>Which table an operation writes.\<close>

lemma update_run_sel [advisor_simps]:
  "a_steps (snd (update_run t i u db)) = a_steps db"
  "a_leases (snd (update_run t i u db)) = a_leases db"
  "a_events (snd (update_run t i u db)) = a_events db"
  "a_files (snd (update_run t i u db)) = a_files db"
  by (simp_all add: update_run_def Let_def split: option.splits)

lemma upsert_step_sel [advisor_simps]:
  "a_runs (upsert_step now i k a db) = a_runs db"
  "a_leases (upsert_step now i k a db) = a_leases db"
  "a_events (upsert_step now i k a db) = a_events db"
  "a_files (upsert_step now i k a db) = a_files db"
  by (simp_all add: upsert_step_def split: option.splits)

lemma upsert_lease_sel [advisor_simps]:
  "a_runs (upsert_lease now l i k la db) = a_runs db"
  "a_steps (upsert_lease now l i k la db) = a_steps db"
  "a_events (upsert_lease now l i k la db) = a_events db"
  "a_files (upsert_lease now l i k la db) = a_files db"
  by (simp_all add: upsert_lease_def split: option.splits)

lemma append_run_event_sel [advisor_simps]:
  "a_runs (append_run_event now i ty ea db) = a_runs db"
  "a_steps (append_run_event now i ty ea db) = a_steps db"
  "a_leases (append_run_event now i ty ea db) = a_leases db"
  "a_files (append_run_event now i ty ea db) = a_files db"
  by (simp_all add: append_run_event_def)

lemma write_json_sel [advisor_simps]:
  "a_runs (write_run_json i name v db) = a_runs db"
  "a_steps (write_run_json i name v db) = a_steps db"
  "a_leases (write_run_json i name v db) = a_leases db"
  "a_events (write_run_json i name v db) = a_events db"
  "a_runs (write_snapshot_json now i r ss v' db) = a_runs db"
  "a_steps (write_snapshot_json now i r ss v' db) = a_steps db"
  "a_leases (write_snapshot_json now i r ss v' db) = a_leases db"
  "a_events (write_snapshot_json now i r ss v' db) = a_events db"
  by (simp_all add: write_snapshot_json_def write_run_json_def)

lemma create_run_sel [advisor_simps]:
  "a_steps (snd (create_run now n db)) = a_steps db"
  "a_leases (snd (create_run now n db)) = a_leases db"
  "a_events (snd (create_run now n db)) = a_events db"
  "a_files (snd (create_run now n db)) = a_files db"
  by (simp_all add: create_run_def Let_def)

lemma requeue_step_sel [advisor_simps]:
  "a_runs (requeue_step now l st db) = a_runs db"
  "a_leases (requeue_step now l st db) = a_leases db"
  "a_events (requeue_step now l st db) = a_events db"
  "a_files (requeue_step now l st db) = a_files db"
  by (simp_all add: requeue_step_def advisor_simps)

lemma get_run_same_runs: "a_runs db = a_runs db' \<Longrightarrow> get_run i db = get_run i db'"
  by (simp add: get_run_def)

lemma get_step_same_steps: "a_steps db = a_steps db' \<Longrightarrow> get_step i k db = get_step i k db'"
  by (simp add: get_step_def)

lemma get_run_sel [advisor_simps]:
  "get_run j (upsert_step now i k a db) = get_run j db"
  "get_run j (upsert_lease now l i k la db) = get_run j db"
  "get_run j (append_run_event now i ty ea db) = get_run j db"
  "get_run j (write_run_json i name v db) = get_run j db"
  "get_run j (write_snapshot_json now i r ss v' db) = get_run j db"
  by (simp_all add: get_run_def advisor_simps)

lemma get_step_sel [advisor_simps]:
  "get_step j k' (snd (update_run t i u db)) = get_step j k' db"
  "get_step j k' (upsert_lease now l i k la db) = get_step j k' db"
  "get_step j k' (append_run_event now i ty ea db) = get_step j k' db"
  "get_step j k' (write_run_json i name v db) = get_step j k' db"
  "get_step j k' (write_snapshot_json now i r ss v' db) = get_step j k' db"
  by (simp_all add: get_step_def advisor_simps)

text \<open>Updating a run is seen on that run and on no other.\<close>

lemma get_run_update_run [advisor_simps]:
  "get_run j (snd (update_run t i u db)) =
     (if i = j then map_option (updated_run t u) (get_run j db) else get_run j db)"
proof (cases "get_run i db")
  case None
  then show ?thesis by (auto simp: update_run_def)
next
  case (Some r)
  have "row_get rn_id j (row_update (\<lambda>r. rn_id r = i) (updated_run t u) (a_runs db)) =
          map_option (\<lambda>r. if rn_id r = i then updated_run t u r else r) (row_get rn_id j (a_runs db))"
    using run_rows.row_get_update [where u = "(t, u)" and c = "\<lambda>r. rn_id r = i"]
    unfolding fst_conv snd_conv .
  with Some show ?thesis
    by (cases "row_get rn_id j (a_runs db)")
       (auto simp: update_run_def get_run_def Let_def dest: row_get_Some)
qed

lemma fst_update_run: "fst (update_run t i u db) = map_option (updated_run t u) (get_run i db)"
proof -
  have "fst (update_run t i u db) = get_run i (snd (update_run t i u db))"
    by (auto simp: update_run_def Let_def split: option.splits)
  then show ?thesis by (simp add: get_run_update_run)
qed

lemma updated_run_simps [simp]:
  "rn_id (updated_run t u r) = rn_id r"
  "rn_status (updated_run t u r) = given_or id (ru_status u) (rn_status r)"
  "rn_final_job (updated_run t u r) = given_or strip_or_none (ru_final_job u) (rn_final_job r)"
  "rn_degraded (updated_run t u r) = given_or id (ru_degraded u) (rn_degraded r)"
  "rn_max_retries (updated_run t u r) = given_or (max 0) (ru_max_retries u) (rn_max_retries r)"
  "rn_threshold (updated_run t u r) = given_or Some (ru_threshold u) (rn_threshold r)"
  "rn_context (updated_run t u r) = rn_context r"
  by (simp_all add: updated_run_def Let_def)

lemma given_or_simps [simp]: "given_or f None d = d" "given_or f (Some v) d = f v"
  by (simp_all add: given_or_def)

text \<open>The step that was written is the step that is read.\<close>

lemma get_step_upsert [advisor_simps]:
  "get_step j k' (upsert_step now i k a db) =
     (if j = i \<and> k' = k
      then Some (case get_step i k db of
                   None \<Rightarrow> step_row now now i k (text_or (sa_type a) ''task'') a
                 | Some st \<Rightarrow> step_row (sp_created_at st) now i k (text_or (sa_type a) (text_or (sp_type st) ''task'')) a)
      else get_step j k' db)"
proof -
  have [simp]: "step_key (step_row c now i k ty a) = (i, k)" for c ty
    by (simp add: step_key_def step_row_def)
  let ?f = "\<lambda>ty r. step_row (sp_created_at r) now i k (text_or (sa_type a) ty) a"
  have rows: "row_get step_key (j, k') (row_update (\<lambda>r. step_key r = (i, k)) (?f ty) rows) =
      (if j = i \<and> k' = k then map_option (?f ty) (row_get step_key (i, k) rows)
       else row_get step_key (j, k') rows)" for ty rows
    unfolding row_update_def by (induction rows) auto
  show ?thesis
  proof (cases "get_step i k db")
    case None
    then show ?thesis by (auto simp: upsert_step_def get_step_def row_get_append split: option.splits)
  next
    case (Some st)
    then show ?thesis
      using rows [of "text_or (sp_type st) ''task''" "a_steps db"]
      by (simp add: upsert_step_def get_step_def)
  qed
qed

lemma step_row_simps [simp]:
  "sp_run (step_row c now i k ty a) = i" "sp_id (step_row c now i k ty a) = k"
  "sp_status (step_row c now i k ty a) = sa_status a"
  "sp_attempt (step_row c now i k ty a) = max 0 (sa_attempt a)"
  "sp_job (step_row c now i k ty a) = strip_if (sa_job a)"
  by (simp_all add: step_row_def)

section \<open>What reclaiming does\<close>

definition overdue :: "real \<Rightarrow> advisor_lease \<Rightarrow> advisor_lease" where
  "overdue now l = l\<lparr>al_status := LEASE_EXPIRED, al_updated_at := now, al_heartbeat_at := Some now\<rparr>"

lemma overdue_simps [simp]: "al_id (overdue now l) = al_id l" "overdue now (overdue now l) = overdue now l"
  "\<not> lease_expired now' run (overdue now l)"
  by (simp_all add: overdue_def lease_expired_def)

lemma reclaim_lease_tables:
  "a_leases (reclaim_lease now t l db) = row_update (\<lambda>r. al_id r = al_id l) (overdue now) (a_leases db)"
  "a_runs (reclaim_lease now t l db) = a_runs db"
  "a_files (reclaim_lease now t l db) = a_files db"
  by (simp_all add: reclaim_lease_def Let_def advisor_simps overdue_def [abs_def] split: option.splits)

lemma reclaim_leases_tables:
  "a_leases (reclaim_leases now t ls db) =
     row_update (\<lambda>r. al_id r \<in> al_id ` set ls) (overdue now) (a_leases db)"
  "a_runs (reclaim_leases now t ls db) = a_runs db"
  "a_files (reclaim_leases now t ls db) = a_files db"
  by (induction ls arbitrary: t db) (auto simp: reclaim_lease_tables row_update_def)

definition event_head :: "advisor_event \<Rightarrow> string \<times> string \<times> string option" where
  "event_head e = (ae_type e, ae_run e, ae_step e)"

lemma append_run_event_heads:
  "map event_head (a_events (append_run_event now i ty a db)) =
     map event_head (a_events db) @ [(ty, i, strip_if (ea_step a))]"
  by (simp add: append_run_event_def event_head_def)

lemma reclaim_leases_heads:
  "map event_head (a_events (reclaim_leases now t ls db)) =
     map event_head (a_events db)
       @ map (\<lambda>l. (''step.failed'', al_run l, strip_if (Some (al_step l)))) ls"
proof (induction ls arbitrary: t db)
  case (Cons l ls)
  have "a_events (case x of None \<Rightarrow> db1 | Some s \<Rightarrow> requeue_step now' l s db1) = a_events db1" for x now' db1
    by (simp add: advisor_simps split: option.splits)
  then have "map event_head (a_events (reclaim_lease now t l db)) =
      map event_head (a_events db) @ [(''step.failed'', al_run l, strip_if (Some (al_step l)))]"
    by (simp add: reclaim_lease_def Let_def append_run_event_heads no_args_def)
  with Cons show ?case by simp
qed simp

lemma reclaim_lease_step:
  "map_option sp_status (get_step i k (reclaim_lease now t l db)) =
     map_option (\<lambda>s. if al_run l = i \<and> al_step l = k \<and> sp_status s \<in> {LEASED, EXECUTING}
                     then RETRY_WAIT else sp_status s) (get_step i k db)"
proof -
  have leases: "get_step j m (db\<lparr>a_leases := x\<rparr>) = get_step j m db" for j m x by (simp add: get_step_def)
  show ?thesis
    by (cases "get_step (al_run l) (al_step l) db"; cases "get_step i k db")
       (auto simp: reclaim_lease_def Let_def advisor_simps leases requeue_step_def)
qed

lemma reclaim_leases_step:
  "map_option sp_status (get_step i k (reclaim_leases now t ls db)) =
     map_option (\<lambda>s. if (\<exists>l \<in> set ls. al_run l = i \<and> al_step l = k) \<and> sp_status s \<in> {LEASED, EXECUTING}
                     then RETRY_WAIT else sp_status s) (get_step i k db)"
proof (induction ls arbitrary: t db)
  case (Cons l ls)
  have "map_option sp_status (get_step i k (reclaim_leases now t (l # ls) db)) =
      map_option (\<lambda>st. if (\<exists>l \<in> set ls. al_run l = i \<and> al_step l = k) \<and> st \<in> {LEASED, EXECUTING}
                     then RETRY_WAIT else st) (map_option sp_status (get_step i k (reclaim_lease now t l db)))"
    by (simp add: Cons.IH option.map_comp comp_def)
  then show ?case
    by (auto simp: reclaim_lease_step option.map_comp intro!: option.map_cong)
qed (simp add: option.map_ident_strong)

text \<open>C37. Reclaiming finds exactly the leases that are still held and whose time has passed, and marks
  them; no other lease and no run changes. A step is set to wait for a retry exactly when such a lease was on
  it and it was being worked on, and the log gets one failure per lease, in the order of expiry. Afterwards
  nothing is left to reclaim, so reclaiming again at the same time is without effect.\<close>

theorem reclaiming_is_exact:
  assumes "keys_distinct al_id (a_leases db)" and "reclaim_expired_leases now t run db = (ls, db')"
  shows "(set ls = {l \<in> set (a_leases db). lease_expired now run l} \<and> sorted (map expires_order ls))
    \<and> (a_leases db' = map (\<lambda>l. if lease_expired now run l then overdue now l else l) (a_leases db))
    \<and> (a_runs db' = a_runs db)
    \<and> (map_option sp_status (get_step i k db') =
           map_option (\<lambda>s. if (\<exists>l \<in> set (a_leases db). lease_expired now run l \<and> al_run l = i \<and> al_step l = k)
                              \<and> sp_status s \<in> {LEASED, EXECUTING}
                           then RETRY_WAIT else sp_status s) (get_step i k db))
    \<and> (map event_head (a_events db') = map event_head (a_events db)
           @ map (\<lambda>l. (''step.failed'', al_run l, strip_if (Some (al_step l)))) ls)
    \<and> (reclaim_expired_leases now t' run db' = ([], db'))"
proof -
  have ls: "ls = sort_key expires_order (filter (lease_expired now run) (a_leases db))"
    and db': "db' = reclaim_leases now t ls db"
    using assms(2) by (auto simp: reclaim_expired_leases_def Let_def)
  have set_ls: "set ls = {l \<in> set (a_leases db). lease_expired now run l}" by (simp add: ls)
  then have exact: "set ls = {l \<in> set (a_leases db). lease_expired now run l} \<and> sorted (map expires_order ls)"
    by (simp add: ls)
  have "al_id l \<in> al_id ` set ls \<longleftrightarrow> lease_expired now run l" if "l \<in> set (a_leases db)" for l
    using that assms(1) unfolding set_ls keys_distinct_def by (auto simp: distinct_map dest: inj_onD)
  then have leases: "a_leases db' = map (\<lambda>l. if lease_expired now run l then overdue now l else l) (a_leases db)"
    by (auto simp: db' reclaim_leases_tables row_update_def)
  have runs: "a_runs db' = a_runs db" by (simp add: db' reclaim_leases_tables)
  have steps: "map_option sp_status (get_step i k db') =
           map_option (\<lambda>s. if (\<exists>l \<in> set (a_leases db). lease_expired now run l \<and> al_run l = i \<and> al_step l = k)
                              \<and> sp_status s \<in> {LEASED, EXECUTING}
                           then RETRY_WAIT else sp_status s) (get_step i k db)"
    by (simp add: db' reclaim_leases_step set_ls Bex_def conj_assoc)
  have log: "map event_head (a_events db') = map event_head (a_events db)
           @ map (\<lambda>l. (''step.failed'', al_run l, strip_if (Some (al_step l)))) ls"
    by (simp add: db' reclaim_leases_heads)
  have "filter (lease_expired now run) (a_leases db') = []"
    by (auto simp: leases filter_empty_conv)
  then have again: "reclaim_expired_leases now t' run db' = ([], db')"
    by (simp add: reclaim_expired_leases_def)
  show ?thesis using exact leases runs steps log again by blast
qed

definition held_until :: "string \<Rightarrow> real \<Rightarrow> advisor_lease" where
  "held_until l e = \<lparr>al_id = l, al_run = ''r'', al_step = ''ask_primary'', al_owner = None, al_token = None,
     al_status = LEASE_LEASED, al_created_at = 0, al_updated_at = 0, al_expires_at = Some e, al_heartbeat_at = None\<rparr>"

definition two_leases :: advisor_db where
  "two_leases = empty_advisor\<lparr>a_leases := [held_until ''a'' 5, held_until ''b'' 20]\<rparr>"

theorem reclaiming_is_exact_witness:
  "set (fst (reclaim_expired_leases 10 (\<lambda>_. 11) None two_leases)) = {held_until ''a'' 5}
   \<and> fst (reclaim_expired_leases 10 (\<lambda>_. 11) None (snd (reclaim_expired_leases 10 (\<lambda>_. 11) None two_leases))) = []"
proof -
  have keys: "keys_distinct al_id (a_leases two_leases)"
    by (simp add: two_leases_def held_until_def keys_distinct_def)
  have one: "{l \<in> set (a_leases two_leases). lease_expired 10 None l} = {held_until ''a'' 5}"
    by (auto simp: two_leases_def held_until_def lease_expired_def)
  note exact = reclaiming_is_exact [where db = two_leases and now = 10 and t = "\<lambda>_. 11" and run = None,
      OF keys prod.collapse [symmetric]]
  show ?thesis using exact one by simp
qed

section \<open>The log in pages\<close>

text \<open>The contract of a log that is read in pages: a page is the next entries after a place, and the
  place to go on from is the key of the last one. Whoever reads with any page size up to \<open>widest\<close> may rely
  on it.\<close>

locale paged_log =
  fixes page :: "'k \<Rightarrow> int \<Rightarrow> int \<Rightarrow> 'db \<Rightarrow> 'e list \<times> int"
    and entries :: "'k \<Rightarrow> 'db \<Rightarrow> 'e list"
    and key :: "'e \<Rightarrow> int"
    and sound :: "'db \<Rightarrow> bool"
    and widest :: int
  assumes page_rows: "0 \<le> a \<Longrightarrow> 1 \<le> n \<Longrightarrow> n \<le> widest \<Longrightarrow>
      fst (page i a n db) = take (nat n) (filter (\<lambda>e. a < key e) (entries i db))"
    and page_next: "fst (page i a n db) \<noteq> [] \<Longrightarrow> snd (page i a n db) = key (last (fst (page i a n db)))"
    and ascending: "sound db \<Longrightarrow> sorted_wrt (\<lambda>e f. key e < key f) (entries i db)"
begin

definition after :: "'k \<Rightarrow> int \<Rightarrow> 'db \<Rightarrow> 'e list" where
  "after i a db = filter (\<lambda>e. a < key e) (entries i db)"

lemma empty_page:
  "0 \<le> a \<Longrightarrow> 1 \<le> n \<Longrightarrow> n \<le> widest \<Longrightarrow> page i a n db = ([], b) \<Longrightarrow> after i a db = []"
  using page_rows [of a n i db] by (auto simp: after_def)

lemma last_page:
  assumes "0 \<le> a" "1 \<le> n" "n \<le> widest" and "page i a n db = (rows, b)" and "length rows < nat n"
  shows "after i a db = rows"
  using page_rows [OF assms(1-3), of i db] assms(4,5) by (auto simp: after_def)

text \<open>What follows a page is what comes after its last entry.\<close>

lemma page_after_page:
  assumes "sound db" "0 \<le> a" "1 \<le> n" "n \<le> widest" and "page i a n db = (rows, b)" and "rows \<noteq> []"
  shows "after i a db = rows @ after i b db" and "a < b"
proof -
  let ?rest = "after i a db"
  have rows: "rows = take (nat n) ?rest"
    using page_rows [OF assms(2-4), of i db] assms(5) by (simp add: after_def)
  have b: "b = key (last rows)" using page_next [of i a n db] assms(5,6) by simp
  have "last rows \<in> set ?rest" using assms(6) unfolding rows by (meson in_set_takeD last_in_set)
  then show up: "a < b" by (simp add: b after_def)
  have "sorted_wrt (\<lambda>e f. key e < key f) ?rest"
    using ascending [OF assms(1)] by (simp add: after_def sorted_wrt_filter)
  then have "sorted_wrt (\<lambda>e f. key e < key f) (rows @ drop (nat n) ?rest)" by (simp add: rows)
  then have split: "\<forall>e \<in> set rows. \<forall>f \<in> set (drop (nat n) ?rest). key e < key f"
    and asc: "sorted_wrt (\<lambda>e f. key e < key f) rows"
    by (simp_all add: sorted_wrt_append)
  obtain front where front: "rows = front @ [last rows]" using assms(6) by (metis append_butlast_last_id)
  have low: "\<forall>e \<in> set rows. key e \<le> b"
    using asc by (subst (asm) front, subst front) (auto simp: sorted_wrt_append b simp del: append_butlast_last_id)
  have "filter (\<lambda>e. b < key e) ?rest = filter (\<lambda>e. b < key e) (rows @ drop (nat n) ?rest)" by (simp add: rows)
  also have "\<dots> = drop (nat n) ?rest"
    using low split assms(6) by (auto simp: b filter_empty_conv filter_id_conv)
  finally have "filter (\<lambda>e. b < key e) ?rest = drop (nat n) ?rest" .
  moreover have "after i b db = filter (\<lambda>e. b < key e) ?rest"
    using up by (auto simp: after_def intro!: filter_cong)
  ultimately show "?rest = rows @ after i b db" by (simp add: rows)
qed

end

definition events_of :: "string \<Rightarrow> advisor_db \<Rightarrow> advisor_event list" where
  "events_of i db = filter (\<lambda>e. ae_run e = i) (a_events db)"

definition log_numbered :: "advisor_db \<Rightarrow> bool" where
  "log_numbered db \<longleftrightarrow> map ae_id (a_events db) = [1..int (length (a_events db))]"

lemma log_numbered_ascending:
  assumes "log_numbered db"
  shows "sorted_wrt (\<lambda>e f. ae_id e < ae_id f) (events_of i db)"
proof -
  have "sorted_wrt (<) (map ae_id (a_events db))"
    using assms by (simp add: log_numbered_def)
  then show ?thesis unfolding events_of_def sorted_wrt_map by (rule sorted_wrt_filter)
qed

interpretation run_log: paged_log list_run_events events_of ae_id log_numbered 1000
proof
  fix a n i db
  assume "0 \<le> (a :: int)" "1 \<le> (n :: int)" "n \<le> 1000"
  then show "fst (list_run_events i a n db) = take (nat n) (filter (\<lambda>e. a < ae_id e) (events_of i db))"
    by (simp add: list_run_events_def events_of_def Let_def conj_commute)
next
  fix i a n db
  assume "fst (list_run_events i a n db) \<noteq> []"
  then show "snd (list_run_events i a n db) = ae_id (last (fst (list_run_events i a n db)))"
    by (auto simp: list_run_events_def Let_def)
next
  fix db i
  assume "log_numbered db"
  then show "sorted_wrt (\<lambda>e f. ae_id e < ae_id f) (events_of i db)" by (rule log_numbered_ascending)
qed

lemma events_after_0: "log_numbered db \<Longrightarrow> run_log.after i 0 db = events_of i db"
proof -
  assume "log_numbered db"
  then have "ae_id ` set (a_events db) \<subseteq> set [1..int (length (a_events db))]"
    unfolding log_numbered_def by (metis set_map order_refl)
  then have "0 < ae_id e" if "e \<in> set (a_events db)" for e using that by auto
  then show ?thesis unfolding run_log.after_def events_of_def filter_filter by (auto intro!: filter_cong)
qed

end
