(* ===== verification/AdvisorGates.thy ===== *)
theory AdvisorGates
  imports AdvisorRuns
begin

text \<open>
  The gates of \<open>core/advisor_gates.py\<close>: whether the answer of a step is good enough for its run. Three
  verdicts are taken - on the quality of the text, on the roles the run asks for, on the evidence - and the
  report passes when all three do. Texts are Python strings of code points below 256 (\<open>Prelude\<close>), so the
  Chinese markers of the code match nothing here and the names of the five dimensions, which are Chinese,
  are left out of the report. The facts at the end say what a passed report means.
\<close>

section \<open>Small readers\<close>

definition default_threshold :: "string \<Rightarrow> int" where
  "default_threshold mode = (if mode = ''fast'' then 14 else if mode = ''strict'' then 20 else 17)"

definition norm_mode :: "string \<Rightarrow> string" where
  "norm_mode raw =
     (let mode = lower (strip raw) in if mode \<in> {''fast'', ''balanced'', ''strict''} then mode else ''balanced'')"

definition json_bool :: "json \<Rightarrow> bool \<Rightarrow> bool" where
  "json_bool v d =
     (case v of
        JBool b \<Rightarrow> b
      | JInt n \<Rightarrow> n \<noteq> 0
      | JStr s \<Rightarrow>
          (let x = lower (strip s)
           in if x \<in> {''1'', ''true'', ''yes'', ''y'', ''on''} then True
              else if x \<in> {''0'', ''false'', ''no'', ''n'', ''off''} then False
              else d)
      | _ \<Rightarrow> d)"

text \<open>\<open>list(v or [])\<close>: the letters of a text, the keys of a dictionary.\<close>

definition list_or_empty :: "json \<Rightarrow> exn + json list" where
  "list_or_empty v =
     (if \<not> truthy v then Inr []
      else case v of
             JList xs \<Rightarrow> Inr xs
           | JStr s \<Rightarrow> Inr (map (\<lambda>c. JStr [c]) s)
           | JObj kvs \<Rightarrow> Inr (map (\<lambda>kv. JStr (fst kv)) kvs)
           | _ \<Rightarrow> Inl (TypeError ''object is not iterable''))"

text \<open>\<open>round(x)\<close>: ties to the even neighbour.\<close>

definition round_even :: "real \<Rightarrow> int" where
  "round_even x =
     (let n = \<lfloor>x\<rfloor>; d = x - real_of_int n in if d < 1 / 2 \<or> (d = 1 / 2 \<and> even n) then n else n + 1)"

section \<open>Quality\<close>

record dimension =
  dm_score :: int
  dm_passed :: bool

definition dimension_of :: "int \<Rightarrow> dimension" where
  "dimension_of score = \<lparr>dm_score = score, dm_passed = 2 \<le> score\<rparr>"

definition score_conclusion :: "nat \<Rightarrow> int" where
  "score_conclusion n =
     (if 180 \<le> n then 5 else if 120 \<le> n then 4 else if 80 \<le> n then 3 else if 40 \<le> n then 2
      else if 0 < n then 1 else 0)"

definition has_marker :: "string list \<Rightarrow> string \<Rightarrow> bool" where
  "has_marker ms s = list_ex (\<lambda>m. contains m s) ms"

definition score_evidence :: "bool \<Rightarrow> string \<Rightarrow> nat \<Rightarrow> int" where
  "score_evidence present text n =
     (let base = (if present then 2 else 0)
      in if has_marker [''http://'', ''https://'', ''[1]'', ''source'', ''reference''] text then min 5 (base + 3)
         else if 120 \<le> n then min 5 (base + 1) else base)"

definition score_uncertainty :: "string \<Rightarrow> nat \<Rightarrow> int" where
  "score_uncertainty text n =
     (if has_marker [''uncertain'', ''assumption'', ''risk'', ''limitation''] text then 5
      else if 100 \<le> n then 2 else 0)"

text \<open>\<open>^\s*\d+\.\<close> at the start of some line; the blanks may run over line ends.\<close>

definition numbered_here :: "string \<Rightarrow> bool" where
  "numbered_here s =
     (let r = dropWhile py_space s; ds = takeWhile (\<lambda>c. c \<in> set digit_chars) r
      in ds \<noteq> [] \<and> starts_with ''.'' (drop (length ds) r))"

fun numbered_line :: "bool \<Rightarrow> string \<Rightarrow> bool" where
  "numbered_line at_start [] = False"
| "numbered_line at_start (c # cs) =
     ((at_start \<and> numbered_here (c # cs)) \<or> numbered_line (c = CHR 0x0A) cs)"

definition score_actionable :: "string \<Rightarrow> string \<Rightarrow> nat \<Rightarrow> int" where
  "score_actionable raw text n =
     (if has_marker [''todo'', ''next step'', ''1.'', ''2.'', ''- ''] text \<or> numbered_line True raw then 5
      else if 120 \<le> n then 2 else 0)"

text \<open>\<open>str(item or "").strip().lower()\<close>.\<close>

definition token_of :: "runtime \<Rightarrow> json \<Rightarrow> string" where
  "token_of rt v = lower (strip (str_or (rt_repr rt) v ''''))"

definition score_constraints :: "runtime \<Rightarrow> json list \<Rightarrow> string \<Rightarrow> nat \<Rightarrow> int" where
  "score_constraints rt constraints text n =
     (let matched = length (filter (\<lambda>v. token_of rt v \<noteq> '''' \<and> contains (token_of rt v) text) constraints)
      in if constraints \<noteq> []
         then min 5 (round_even (real matched / real (max 1 (length constraints)) * 5))
         else if 60 \<le> n then 5 else 2)"

definition quality_dimensions :: "runtime \<Rightarrow> string \<Rightarrow> json \<Rightarrow> bool \<Rightarrow> exn + dimension list" where
  "quality_dimensions rt answer context present =
     (let text = lower answer; n = length (strip answer)
      in case list_or_empty (jget ''constraints'' context) of
           Inl e \<Rightarrow> Inl e
         | Inr constraints \<Rightarrow>
             Inr (map dimension_of
               [score_conclusion n, score_evidence present text n, score_uncertainty text n,
                score_actionable answer text n, score_constraints rt constraints text n]))"

section \<open>Roles and evidence\<close>

record role_report =
  rr_passed :: bool
  rr_required :: "string list"
  rr_covered :: "string list"
  rr_missing :: "string list"

text \<open>\<open>str(r).strip().lower()\<close> of the required roles, whose blanks are dropped.\<close>

definition role_gate :: "runtime \<Rightarrow> run \<Rightarrow> json \<Rightarrow> exn + role_report" where
  "role_gate rt r output =
     (case list_or_empty (jget ''required_roles'' (rn_context r)) of
        Inl e \<Rightarrow> Inl e
      | Inr roles \<Rightarrow>
          (case list_or_empty (jget ''roles_covered'' output) of
             Inl e \<Rightarrow> Inl e
           | Inr covers \<Rightarrow>
               (let required = filter (\<lambda>s. s \<noteq> '''') (map (\<lambda>v. lower (strip (py_str (rt_repr rt) v))) roles);
                    route = lower (strip (or_empty (rn_route r)));
                    covered = filter (\<lambda>s. s \<noteq> '''') (map (token_of rt) covers)
                              @ (if route = '''' then [] else [route]);
                    missing = sort (remdups (filter (\<lambda>s. s \<notin> set covered) required))
                in Inr \<lparr>rr_passed = (missing = []), rr_required = sort (remdups required),
                        rr_covered = sort (remdups covered), rr_missing = missing\<rparr>)))"

record evidence_report =
  er_passed :: bool
  er_required :: bool
  er_file :: bool
  er_inline :: bool

text \<open>\<open>has_file\<close> says whether the evidence path names a file that is not empty.\<close>

definition evidence_gate :: "run \<Rightarrow> string \<Rightarrow> bool \<Rightarrow> evidence_report" where
  "evidence_gate r answer has_file =
     (let required = norm_mode (rn_mode r) = ''strict'' \<or> json_bool (jget ''require_evidence'' (rn_context r)) False;
          inline = has_marker [''http://'', ''https://'', ''[1]'', ''source'', ''evidence''] (lower answer);
          passed = (if required then has_file \<or> inline else has_file \<or> inline \<or> strip answer \<noteq> '''')
      in \<lparr>er_passed = passed, er_required = required, er_file = has_file, er_inline = inline\<rparr>)"

section \<open>The report\<close>

record gate_report =
  gr_passed :: bool
  gr_failures :: "string list"
  gr_quality_passed :: bool
  gr_score :: int
  gr_threshold :: int
  gr_dimensions :: "dimension list"
  gr_role :: role_report
  gr_evidence :: evidence_report

definition evaluate_gate_report ::
    "runtime \<Rightarrow> run \<Rightarrow> json \<Rightarrow> string \<Rightarrow> bool \<Rightarrow> exn + gate_report" where
  "evaluate_gate_report rt r output answer has_file =
     (let mode = norm_mode (rn_mode r);
          threshold = max 0 (min 100 (case rn_threshold r of None \<Rightarrow> default_threshold mode | Some x \<Rightarrow> x));
          evidence = evidence_gate r answer has_file
      in case role_gate rt r output of
           Inl e \<Rightarrow> Inl e
         | Inr role \<Rightarrow>
             (case quality_dimensions rt answer (rn_context r) (er_file evidence) of
                Inl e \<Rightarrow> Inl e
              | Inr dims \<Rightarrow>
                  (let score = sum_list (map dm_score dims);
                       failures = (if threshold \<le> score then [] else [''quality''])
                                  @ (if rr_passed role then [] else [''role''])
                                  @ (if er_passed evidence then [] else [''evidence''])
                   in Inr \<lparr>gr_passed = (failures = []), gr_failures = failures,
                           gr_quality_passed = threshold \<le> score, gr_score = score, gr_threshold = threshold,
                           gr_dimensions = dims, gr_role = role, gr_evidence = evidence\<rparr>)))"

definition gate_json :: "gate_report \<Rightarrow> json" where
  "gate_json g = JObj
     [(''passed'', JBool (gr_passed g)), (''failures'', JList (map JStr (gr_failures g))),
      (''quality'', JObj
         [(''passed'', JBool (gr_quality_passed g)), (''score'', JInt (gr_score g)),
          (''threshold'', JInt (gr_threshold g)),
          (''dimensions'', JList (map (\<lambda>d. JObj [(''score'', JInt (dm_score d)), (''max_score'', JInt 5),
                                                   (''passed'', JBool (dm_passed d))]) (gr_dimensions g)))]),
      (''role'', JObj
         [(''passed'', JBool (rr_passed (gr_role g))), (''required_roles'', JList (map JStr (rr_required (gr_role g)))),
          (''covered_roles'', JList (map JStr (rr_covered (gr_role g)))),
          (''missing_roles'', JList (map JStr (rr_missing (gr_role g))))]),
      (''evidence'', JObj
         [(''passed'', JBool (er_passed (gr_evidence g))), (''require_evidence'', JBool (er_required (gr_evidence g))),
          (''has_file_evidence'', JBool (er_file (gr_evidence g))),
          (''has_inline_evidence_markers'', JBool (er_inline (gr_evidence g)))])]"

section \<open>Facts\<close>

lemma round_even_nonneg: "0 \<le> x \<Longrightarrow> 0 \<le> round_even x"
  by (simp add: round_even_def Let_def)

lemma quality_scores:
  assumes "quality_dimensions rt answer context present = Inr dims"
  shows "length dims = 5" and "\<forall>d \<in> set dims. 0 \<le> dm_score d \<and> dm_score d \<le> 5"
proof -
  have scores: "0 \<le> score_constraints rt cs x n \<and> score_constraints rt cs x n \<le> 5"
      "0 \<le> score_conclusion n \<and> score_conclusion n \<le> 5"
      "0 \<le> score_evidence present x n \<and> score_evidence present x n \<le> 5"
      "0 \<le> score_uncertainty x n \<and> score_uncertainty x n \<le> 5"
      "0 \<le> score_actionable raw x n \<and> score_actionable raw x n \<le> 5" for cs x raw n
    by (simp_all add: score_constraints_def score_conclusion_def score_evidence_def score_uncertainty_def
        score_actionable_def Let_def round_even_nonneg)
  show "length dims = 5" using assms by (auto simp: quality_dimensions_def Let_def split: sum.splits)
  show "\<forall>d \<in> set dims. 0 \<le> dm_score d \<and> dm_score d \<le> 5"
    using assms scores by (auto simp: quality_dimensions_def Let_def dimension_of_def split: sum.splits)
qed

lemma role_gate_result:
  assumes "role_gate rt r output = Inr role"
  shows "rr_passed role \<longleftrightarrow> set (rr_required role) \<subseteq> set (rr_covered role)"
    and "rr_missing role = sort (filter (\<lambda>s. s \<notin> set (rr_covered role)) (rr_required role))"
proof -
  have "sort (remdups (filter P xs)) = sort (filter P (sort (remdups xs)))" for P and xs :: "string list"
    by (rule sorted_distinct_set_unique) (auto simp: distinct_filter)
  then show missing: "rr_missing role = sort (filter (\<lambda>s. s \<notin> set (rr_covered role)) (rr_required role))"
    using assms by (auto simp: role_gate_def Let_def split: sum.splits)
  have "rr_passed role \<longleftrightarrow> set (rr_missing role) = {}"
    using assms by (auto simp: role_gate_def Let_def split: sum.splits)
  then show "rr_passed role \<longleftrightarrow> set (rr_required role) \<subseteq> set (rr_covered role)"
    by (auto simp: missing)
qed

text \<open>C38. A gate report passes exactly when the three gates do: the score reaches the threshold, every
  required role is covered, and there is evidence - a file or an inline reference where the mode or the
  context asks for it. The score is that of five dimensions of at most five points, so a threshold above 25,
  which the route accepts up to 100, fails every answer.\<close>

theorem gate_report_is_sound:
  assumes "evaluate_gate_report rt r output answer has_file = Inr g"
  shows "(gr_passed g \<longleftrightarrow> gr_threshold g \<le> gr_score g
           \<and> set (rr_required (gr_role g)) \<subseteq> set (rr_covered (gr_role g)) \<and> er_passed (gr_evidence g))
    \<and> (0 \<le> gr_score g \<and> gr_score g \<le> 25)
    \<and> (25 < gr_threshold g \<longrightarrow> \<not> gr_passed g)
    \<and> (er_required (gr_evidence g) \<longrightarrow> er_passed (gr_evidence g) = (has_file \<or> er_inline (gr_evidence g)))
    \<and> (rr_missing (gr_role g) = sort (filter (\<lambda>s. s \<notin> set (rr_covered (gr_role g))) (rr_required (gr_role g))))"
proof -
  obtain role dims where role: "role_gate rt r output = Inr role"
    and dims: "quality_dimensions rt answer (rn_context r) (er_file (evidence_gate r answer has_file)) = Inr dims"
    using assms by (auto simp: evaluate_gate_report_def Let_def split: sum.splits)
  have g: "gr_role g = role" "gr_score g = sum_list (map dm_score dims)" "gr_evidence g = evidence_gate r answer has_file"
    and failures: "gr_passed g \<longleftrightarrow> gr_threshold g \<le> gr_score g \<and> rr_passed role \<and> er_passed (gr_evidence g)"
    using assms by (auto simp: evaluate_gate_report_def Let_def role dims split: if_splits)
  have passed: "gr_passed g \<longleftrightarrow> gr_threshold g \<le> gr_score g
           \<and> set (rr_required (gr_role g)) \<subseteq> set (rr_covered (gr_role g)) \<and> er_passed (gr_evidence g)"
    by (simp add: failures g role_gate_result(1) [OF role])
  have "0 \<le> sum_list (map dm_score ds) \<and> sum_list (map dm_score ds) \<le> 5 * int (length ds)"
    if "\<forall>d \<in> set ds. 0 \<le> dm_score d \<and> dm_score d \<le> 5" for ds
    using that by (induction ds) auto
  then have score: "0 \<le> gr_score g \<and> gr_score g \<le> 25"
    using quality_scores [OF dims] by (fastforce simp: g)
  have useless: "25 < gr_threshold g \<longrightarrow> \<not> gr_passed g" using passed score by linarith
  have evidence: "er_required (gr_evidence g) \<longrightarrow> er_passed (gr_evidence g) = (has_file \<or> er_inline (gr_evidence g))"
    by (simp add: g evidence_gate_def Let_def)
  have missing: "rr_missing (gr_role g) = sort (filter (\<lambda>s. s \<notin> set (rr_covered (gr_role g))) (rr_required (gr_role g)))"
    by (simp add: g role_gate_result(2) [OF role])
  show ?thesis using passed score useless evidence missing by blast
qed

definition plain_runtime :: runtime where
  "plain_runtime = \<lparr>rt_env = (\<lambda>_. None), rt_sha256 = (\<lambda>s. s), rt_dumps = (\<lambda>_. ''x''), rt_repr = (\<lambda>_. ''x'')\<rparr>"

definition strict_run :: run where
  "strict_run = \<lparr>rn_id = ''r'', rn_request = None, rn_mode = ''strict'', rn_status = RUNNING, rn_route = None,
     rn_raw_question = None, rn_question = None, rn_context = JObj [], rn_threshold = Some 26, rn_crosscheck = False,
     rn_max_retries = 0, rn_orchestrate_job = None, rn_final_job = None, rn_degraded = False, rn_created_at = 0,
     rn_updated_at = 0, rn_ended_at = None, rn_error_type = None, rn_error = None\<rparr>"

lemma strict_report:
  "map_sum id (\<lambda>g. (gr_threshold g, gr_score g))
     (evaluate_gate_report plain_runtime strict_run (JObj []) ''see [1]'' False) = Inr (26, 6)"
  by code_simp

theorem gate_report_is_sound_witness:
  "\<exists>g. evaluate_gate_report plain_runtime strict_run (JObj []) ''see [1]'' False = Inr g
     \<and> 25 < gr_threshold g \<and> \<not> gr_passed g"
proof -
  obtain g where g: "evaluate_gate_report plain_runtime strict_run (JObj []) ''see [1]'' False = Inr g"
    and "gr_threshold g = 26"
    using strict_report by (cases "evaluate_gate_report plain_runtime strict_run (JObj []) ''see [1]'' False") auto
  then show ?thesis using gate_report_is_sound [OF g] by auto
qed

end
