(* ===== verification/AdvisorReplay.thy ===== *)
theory AdvisorReplay
  imports AdvisorRuns
begin

text \<open>
  \<open>replay_run\<close> of \<open>core/advisor_runs.py\<close>: the state of a run computed again from its log, read in
  pages, and on request written back to the run and its steps. The lemmas here say that every page that is
  not the last one leaves fewer events after it, so that the loop over the pages ends; that the pages give
  the whole log is shown in \<open>RunLog\<close>, and what a replay says of a completed run in \<open>RunLife\<close>.
\<close>

section \<open>Reading the log\<close>

lemma last_event_in_table:
  assumes "list_run_events i after_id limit db = (rows, after')" and "rows \<noteq> []"
  shows "\<exists>e \<in> set (a_events db). ae_id e = after' \<and> max 0 after_id < after'"
proof -
  have "last rows \<in> set rows" using assms(2) by simp
  then have "last rows \<in> set (filter (\<lambda>e. ae_run e = i \<and> max 0 after_id < ae_id e) (a_events db))"
    using assms(1) by (auto simp: list_run_events_def Let_def dest!: in_set_takeD)
  moreover have "after' = ae_id (last rows)"
    using assms by (auto simp: list_run_events_def Let_def)
  ultimately show ?thesis by auto
qed

text \<open>Every page that is not the last one leaves fewer events after it.\<close>

lemma page_leaves_fewer:
  assumes "list_run_events i after_id limit db = (rows, after')" and "rows \<noteq> []" and "\<not> after' \<le> after_id"
  shows "length (filter (\<lambda>e. after' < ae_id e) (a_events db)) < length (filter (\<lambda>e. after_id < ae_id e) (a_events db))"
proof -
  obtain e where e: "e \<in> set (a_events db)" "ae_id e = after'"
    using last_event_in_table [OF assms(1,2)] by metis
  have "length (filter (\<lambda>e. after' < ae_id e) es) < length (filter (\<lambda>e. after_id < ae_id e) es)"
    if "e \<in> set es" for es
    using that
  proof (induction es)
    case (Cons x es)
    have le: "length (filter (\<lambda>e. after' < ae_id e) es) \<le> length (filter (\<lambda>e. after_id < ae_id e) es)" for es
      using assms(3) by (induction es) auto
    show ?case
      using Cons le [of es] e(2) assms(3) by (auto simp: less_Suc_eq_le)
  qed simp
  with e(1) show ?thesis by simp
qed

function collect_events :: "string \<Rightarrow> int \<Rightarrow> advisor_db \<Rightarrow> advisor_event list" where
  "collect_events i after_id db =
     (let (chunk, next_after) = list_run_events i after_id 1000 db
      in if chunk = [] then []
         else if next_after \<le> after_id \<or> length chunk < 1000 then chunk
         else chunk @ collect_events i next_after db)"
  by pat_completeness auto
termination
  by (relation "measure (\<lambda>(i, after_id, db). length (filter (\<lambda>e. after_id < ae_id e) (a_events db)))")
     (simp_all, metis page_leaves_fewer prod.exhaust_sel)

declare collect_events.simps [simp del]

section \<open>The replayed state\<close>

record replay_step =
  rs_type :: string
  rs_status :: step_status
  rs_attempt :: int
  rs_job :: "string option"
  rs_lease :: "string option"
  rs_expires_at :: "real option"
  rs_evidence :: "string option"
  rs_created_at :: real
  rs_updated_at :: real

record replay_state =
  rp_status :: run_status
  rp_degraded :: bool
  rp_final_job :: "string option"
  rp_error_type :: "string option"
  rp_error :: "string option"
  rp_ended_at :: "real option"
  rp_steps :: "(string \<times> replay_step) list"

text \<open>\<open>str(v) if v else None\<close>.\<close>

definition str_if :: "runtime \<Rightarrow> json \<Rightarrow> string option" where
  "str_if rt v = (if truthy v then Some (py_str (rt_repr rt) v) else None)"

definition event_step :: "runtime \<Rightarrow> advisor_event \<Rightarrow> string" where
  "event_step rt e =
     strip (case or_none (or_empty (ae_step e)) of
              Some s \<Rightarrow> s
            | None \<Rightarrow> str_or (rt_repr rt) (jget ''step_id'' (ae_payload e)) '''')"

text \<open>\<open>max(0, int(payload.get("attempt") or 0))\<close>: \<open>None\<close> where it raises.\<close>

definition event_attempt :: "advisor_event \<Rightarrow> int option" where
  "event_attempt e =
     (let v = jget ''attempt'' (ae_payload e)
      in if truthy v then map_option (max 0) (py_int v) else Some 0)"

text \<open>A step seen for the first time: \<open>None\<close> where the expiry is no number.\<close>

definition new_replay_step :: "runtime \<Rightarrow> real \<Rightarrow> int \<Rightarrow> json \<Rightarrow> replay_step option" where
  "new_replay_step rt ts attempt payload =
     (let expires = jget ''lease_expires_at'' payload
      in if expires \<noteq> JNull \<and> float_of_json expires = None then None
         else Some \<lparr>rs_type = str_or (rt_repr rt) (jget ''step_type'' payload) ''task'', rs_status = STEP_PENDING,
                    rs_attempt = attempt, rs_job = str_if rt (jget ''job_id'' payload),
                    rs_lease = str_if rt (jget ''lease_id'' payload), rs_expires_at = float_of_json expires,
                    rs_evidence = str_if rt (jget ''evidence_path'' payload),
                    rs_created_at = ts, rs_updated_at = ts\<rparr>)"

definition keep_or :: "'a option \<Rightarrow> 'a option \<Rightarrow> 'a option" where
  "keep_or x y = (case x of None \<Rightarrow> y | Some v \<Rightarrow> Some v)"

definition step_status_after :: "string \<Rightarrow> step_status \<Rightarrow> step_status" where
  "step_status_after ty st =
     (if ty = ''step.dispatched'' then LEASED
      else if ty = ''step.started'' \<or> ty = ''step.heartbeat'' then EXECUTING
      else if ty = ''step.succeeded'' then STEP_SUCCEEDED
      else if ty = ''step.failed'' then STEP_FAILED
      else if ty = ''step.compensated'' then COMPENSATED
      else st)"

definition updated_replay_step :: "runtime \<Rightarrow> string \<Rightarrow> real \<Rightarrow> int \<Rightarrow> json \<Rightarrow> replay_step \<Rightarrow> replay_step" where
  "updated_replay_step rt ty ts attempt payload s =
     s\<lparr>rs_attempt := max (rs_attempt s) attempt, rs_updated_at := ts,
       rs_job := keep_or (str_if rt (jget ''job_id'' payload)) (rs_job s),
       rs_lease := keep_or (str_if rt (jget ''lease_id'' payload)) (rs_lease s),
       rs_expires_at := keep_or (float_of_json (jget ''lease_expires_at'' payload)) (rs_expires_at s),
       rs_evidence := keep_or (str_if rt (jget ''evidence_path'' payload)) (rs_evidence s),
       rs_status := step_status_after ty (rs_status s)\<rparr>"

definition replay_steps ::
    "runtime \<Rightarrow> advisor_event \<Rightarrow> real \<Rightarrow> int \<Rightarrow> replay_state \<Rightarrow> replay_state option" where
  "replay_steps rt e ts attempt s =
     (let k = event_step rt e; ty = strip (ae_type e); payload = ae_payload e
      in if k = '''' then Some s
         else case (case map_of (rp_steps s) k of
                      Some st \<Rightarrow> Some st
                    | None \<Rightarrow> new_replay_step rt ts attempt payload) of
                None \<Rightarrow> None
              | Some st \<Rightarrow>
                  Some (s\<lparr>rp_steps := alist_set k (updated_replay_step rt ty ts attempt payload st) (rp_steps s),
                          rp_status := (if ty = ''step.dispatched'' then DISPATCHING
                                        else if ty = ''step.started'' then RUNNING else rp_status s)\<rparr>))"

text \<open>What an event says of the run's status, apart from the two step events above.\<close>

definition run_status_after :: "string \<Rightarrow> run_status option" where
  "run_status_after ty =
     map_of [(''run.created'', RUN_NEW), (''run.planned'', PLAN_COMPILED), (''gate.passed'', WAITING_GATES),
             (''gate.failed'', WAITING_GATES), (''run.degraded'', DEGRADED), (''run.taken_over'', MANUAL_TAKEOVER),
             (''run.completed'', RUN_COMPLETED), (''run.failed'', RUN_FAILED), (''run.cancelled'', RUN_CANCELLED)] ty"

definition first_text :: "runtime \<Rightarrow> json list \<Rightarrow> string option \<Rightarrow> string" where
  "first_text rt vs d =
     (case find truthy vs of Some v \<Rightarrow> py_str (rt_repr rt) v | None \<Rightarrow> or_empty d)"

definition replay_run_part :: "runtime \<Rightarrow> advisor_event \<Rightarrow> real \<Rightarrow> replay_state \<Rightarrow> replay_state" where
  "replay_run_part rt e ts s =
     (let ty = strip (ae_type e); payload = ae_payload e;
          s1 = (case run_status_after ty of None \<Rightarrow> s | Some st \<Rightarrow> s\<lparr>rp_status := st\<rparr>);
          s2 = (if ty = ''run.degraded''
                then s1\<lparr>rp_degraded := True,
                        rp_error_type := Some (first_text rt [jget ''reason_type'' payload, jget ''error_type'' payload] (rp_error_type s1)),
                        rp_error := Some (first_text rt [jget ''reason'' payload, jget ''error'' payload] (rp_error s1))\<rparr>
                else if ty = ''run.taken_over'' then s1\<lparr>rp_degraded := True\<rparr>
                else if ty \<in> {''run.completed'', ''run.failed'', ''run.cancelled''} then s1\<lparr>rp_ended_at := Some ts\<rparr>
                else s1);
          s3 = (if ty = ''run.completed'' \<and> truthy (jget ''child_job_id'' payload)
                then s2\<lparr>rp_final_job := Some (py_str (rt_repr rt) (jget ''child_job_id'' payload))\<rparr> else s2)
      in if truthy (jget ''job_id'' payload) \<and> (ty = ''step.started'' \<or> ty = ''step.succeeded'')
         then s3\<lparr>rp_final_job := Some (py_str (rt_repr rt) (jget ''job_id'' payload))\<rparr> else s3)"

text \<open>One turn of the loop; \<open>now\<close> is read for an event without a time. \<open>None\<close> where it raises.\<close>

definition replay_event :: "runtime \<Rightarrow> real \<Rightarrow> advisor_event \<Rightarrow> replay_state \<Rightarrow> replay_state option" where
  "replay_event rt now e s =
     (let ts = (if ae_ts e = 0 then now else ae_ts e)
      in case event_attempt e of
           None \<Rightarrow> None
         | Some attempt \<Rightarrow> map_option (replay_run_part rt e ts) (replay_steps rt e ts attempt s))"

fun replay_events :: "runtime \<Rightarrow> clock \<Rightarrow> advisor_event list \<Rightarrow> replay_state \<Rightarrow> replay_state option" where
  "replay_events rt t [] s = Some s"
| "replay_events rt t (e # es) s =
     (case replay_event rt (t 0) e s of None \<Rightarrow> None | Some s' \<Rightarrow> replay_events rt (later 1 t) es s')"

definition replay_start :: "run \<Rightarrow> replay_state" where
  "replay_start r =
     \<lparr>rp_status = rn_status r, rp_degraded = rn_degraded r, rp_final_job = rn_final_job r,
      rp_error_type = rn_error_type r, rp_error = rn_error r, rp_ended_at = rn_ended_at r, rp_steps = []\<rparr>"

record snapshot =
  sn_run :: string
  sn_status :: run_status
  sn_degraded :: bool
  sn_final_job :: "string option"
  sn_error_type :: "string option"
  sn_error :: "string option"
  sn_ended_at :: "real option"
  sn_events_count :: nat
  sn_last_event_id :: int
  sn_steps :: "(string \<times> replay_step) list"

definition snapshot_of :: "string \<Rightarrow> advisor_event list \<Rightarrow> replay_state \<Rightarrow> snapshot" where
  "snapshot_of i events s =
     \<lparr>sn_run = i, sn_status = rp_status s, sn_degraded = rp_degraded s, sn_final_job = rp_final_job s,
      sn_error_type = or_none (or_empty (rp_error_type s)), sn_error = or_none (or_empty (rp_error s)),
      sn_ended_at = rp_ended_at s, sn_events_count = length events,
      sn_last_event_id = (if events = [] then 0 else ae_id (last events)),
      sn_steps = sort_key fst (rp_steps s)\<rparr>"

section \<open>Writing it back\<close>

definition replayed_args :: "replay_step \<Rightarrow> step_args" where
  "replayed_args s =
     \<lparr>sa_type = text_or (rs_type s) ''task'', sa_status = rs_status s, sa_attempt = max 0 (rs_attempt s),
      sa_job = or_none (or_empty (rs_job s)), sa_lease = or_none (or_empty (rs_lease s)),
      sa_expires_at = rs_expires_at s, sa_input = JObj [], sa_output = JObj [],
      sa_evidence = or_none (or_empty (rs_evidence s))\<rparr>"

fun persist_steps :: "clock \<Rightarrow> string \<Rightarrow> (string \<times> replay_step) list \<Rightarrow> advisor_db \<Rightarrow> advisor_db" where
  "persist_steps t i [] db = db"
| "persist_steps t i ((k, s) # ss) db = persist_steps (later 1 t) i ss (upsert_step (t 0) i k (replayed_args s) db)"

definition persist_snapshot :: "clock \<Rightarrow> string \<Rightarrow> snapshot \<Rightarrow> advisor_db \<Rightarrow> advisor_db" where
  "persist_snapshot t i sn db =
     persist_steps (later 2 t) i (sn_steps sn)
       (snd (update_run t i
          (no_update\<lparr>ru_status := Some (sn_status sn), ru_final_job := sn_final_job sn,
                     ru_degraded := Some (sn_degraded sn), ru_error_type := sn_error_type sn,
                     ru_error := sn_error sn, ru_ended_at := sn_ended_at sn\<rparr>) db))"

text \<open>\<open>replay_run\<close>. The events read the clock from 0 on, the writing back from the reading after them.\<close>

definition replay_run ::
    "runtime \<Rightarrow> clock \<Rightarrow> string \<Rightarrow> bool \<Rightarrow> advisor_db \<Rightarrow> (snapshot option, advisor_db) outcome" where
  "replay_run rt t i persist db =
     (case get_run i db of
        None \<Rightarrow> (Inr None, db)
      | Some r \<Rightarrow>
          (let events = collect_events i 0 db
           in case replay_events rt t events (replay_start r) of
                None \<Rightarrow> (Inl ConversionError, db)
              | Some s \<Rightarrow>
                  (let sn = snapshot_of i events s
                   in (Inr (Some sn),
                       if persist then persist_snapshot (later (length events) t) i sn db else db))))"

definition replay_step_json :: "string \<times> replay_step \<Rightarrow> json" where
  "replay_step_json x = (case x of (k, s) \<Rightarrow> JObj
     [(''step_id'', JStr k), (''step_type'', JStr (rs_type s)), (''status'', JStr (step_status_value (rs_status s))),
      (''attempt'', JInt (rs_attempt s)), (''job_id'', jopt (rs_job s)), (''lease_id'', jopt (rs_lease s)),
      (''lease_expires_at'', jopt_real (rs_expires_at s)), (''evidence_path'', jopt (rs_evidence s)),
      (''created_at'', JReal (rs_created_at s)), (''updated_at'', JReal (rs_updated_at s)),
      (''input'', JObj []), (''output'', JObj [])])"

definition snapshot_json :: "snapshot \<Rightarrow> json" where
  "snapshot_json sn = JObj
     [(''run_id'', JStr (sn_run sn)), (''status'', JStr (run_status_value (sn_status sn))),
      (''degraded'', JBool (sn_degraded sn)), (''final_job_id'', jopt (sn_final_job sn)),
      (''error_type'', jopt (sn_error_type sn)), (''error'', jopt (sn_error sn)),
      (''ended_at'', jopt_real (sn_ended_at sn)), (''events_count'', JInt (int (sn_events_count sn))),
      (''last_event_id'', JInt (sn_last_event_id sn)), (''steps'', JList (map replay_step_json (sn_steps sn)))]"

end
