(* ===== verification/RunReconcile.thy ===== *)
theory RunReconcile
  imports AdvisorGates AdvisorReplay Create Utf8
begin

text \<open>
  Reconciling a run of the advisor with the job that answers it: \<open>_reconcile_run_status\<close> and
  \<open>_dispatch_retry_step\<close> of \<open>api/routes_advisor.py\<close> and the routes that call them. The state
  is the advisor's tables together with those of the job store; the routes run in one transaction, so an
  exception leaves the tables as they were, but not the files. The answer of a job is the text under its
  path in the artifact directory; an absolute path lies outside the model and reads as no file. The
  clock's readings are named by their place in the code, not by their order.
\<close>

section \<open>State and environment\<close>

record orch_state =
  os_adv :: advisor_db
  os_world :: world

definition on_adv :: "(advisor_db \<Rightarrow> advisor_db) \<Rightarrow> orch_state \<Rightarrow> orch_state" where
  "on_adv f s = s\<lparr>os_adv := f (os_adv s)\<rparr>"

text \<open>The configuration and the outside world as one call meets them: \<open>cfg.max_attempts\<close>, whether
  writing the files of the new job fails, the identifiers \<open>uuid4\<close> returns, and how \<open>json.dumps\<close> lays out
  an indented text.\<close>

record orch_env =
  oe_max_attempts :: int
  oe_request_error :: "(string \<times> string) option"
  oe_log_ok :: bool
  oe_job_id :: string
  oe_lease_id :: string
  oe_spare_lease :: string
  oe_indented :: "json \<Rightarrow> string"

text \<open>Rolling back: the tables of \<open>s\<close>, the files of \<open>s'\<close>.\<close>

definition rolled_back :: "orch_state \<Rightarrow> orch_state \<Rightarrow> orch_state" where
  "rolled_back s s' =
     \<lparr>os_adv = (os_adv s)\<lparr>a_files := a_files (os_adv s')\<rparr>,
      os_world = (os_world s)\<lparr>event_files := event_files (os_world s'), files := files (os_world s')\<rparr>\<rparr>"

definition in_transaction ::
    "(orch_state \<Rightarrow> ('a, orch_state) outcome) \<Rightarrow> orch_state \<Rightarrow> ('a, orch_state) outcome" where
  "in_transaction f s = (case f s of (Inl e, s') \<Rightarrow> (Inl e, rolled_back s s') | (Inr x, s') \<Rightarrow> (Inr x, s'))"

text \<open>\<open>type(exc).__name__\<close> and \<open>str(exc)\<close> of the exceptions that dispatching a child catches, which
  are \<open>ConversationBusy\<close>, \<open>IdempotencyCollision\<close> and \<open>ValueError\<close> with its subclasses.\<close>

definition caught :: "exn \<Rightarrow> (string \<times> string) option" where
  "caught e =
     (case e of
        ValueError s \<Rightarrow> Some (''ValueError'', s)
      | PresetValidationError _ \<Rightarrow> Some (''PresetValidationError'', ''invalid preset'')
      | ConversationBusy _ _ _ _ updated \<Rightarrow>
          Some (''ConversationBusy'',
                if updated = None then ''parent job still running; do not enqueue follow-up yet''
                else ''conversation already has an active ask job; wait/cancel or set params.allow_queue=true'')
      | IdempotencyCollision _ jid old_hash new_hash \<Rightarrow>
          Some (''IdempotencyCollision'',
                ''idempotency_key collision: same key used with different request payload (existing_job_id=''
                @ jid @ '', existing_hash='' @ take 12 old_hash @ '', new_hash='' @ take 12 new_hash
                @ ''). Common cause: request fields differ only by representation (e.g. file_paths absolute vs relative).'')
      | _ \<Rightarrow> None)"

text \<open>\<open>dict(v or {})\<close>: an object, or a list of pairs whose keys are texts.\<close>

definition pair_of :: "json \<Rightarrow> exn + (string \<times> json)" where
  "pair_of v =
     (case v of
        JList [JStr k, x] \<Rightarrow> Inr (k, x)
      | JList [_, _] \<Rightarrow> Inl (TypeError ''key is not a text'')
      | JStr [c, d] \<Rightarrow> Inr ([c], JStr [d])
      | JObj [(k, _), (k', _)] \<Rightarrow> Inr (k, JStr k')
      | JList _ \<Rightarrow> Inl (ValueError ''dictionary update sequence element has wrong length'')
      | JStr _ \<Rightarrow> Inl (ValueError ''dictionary update sequence element has wrong length'')
      | JObj _ \<Rightarrow> Inl (ValueError ''dictionary update sequence element has wrong length'')
      | _ \<Rightarrow> Inl (TypeError ''cannot convert dictionary update sequence element to a sequence''))"

fun pairs_of :: "json list \<Rightarrow> (string \<times> json) list \<Rightarrow> exn + (string \<times> json) list" where
  "pairs_of [] d = Inr d"
| "pairs_of (v # vs) d = (case pair_of v of Inl e \<Rightarrow> Inl e | Inr (k, x) \<Rightarrow> pairs_of vs (alist_set k x d))"

definition dict_arg :: "json \<Rightarrow> exn + (string \<times> json) list" where
  "dict_arg v =
     (if \<not> truthy v then Inr []
      else case v of
             JObj kvs \<Rightarrow> Inr kvs
           | JList vs \<Rightarrow> pairs_of vs []
           | JStr s \<Rightarrow> pairs_of (map (\<lambda>c. JStr [c]) s) []
           | _ \<Rightarrow> Inl (TypeError ''object is not iterable''))"

section \<open>Answers\<close>

definition answer_file :: "string option \<Rightarrow> world \<Rightarrow> artifact option" where
  "answer_file path w = (let p = strip (or_empty path) in if p = '''' then None else files w p)"

text \<open>\<open>_read_answer_text\<close>; the file of an answer is a text.\<close>

definition read_answer_text :: "runtime \<Rightarrow> string option \<Rightarrow> world \<Rightarrow> string" where
  "read_answer_text rt path w =
     (case answer_file path w of
        None \<Rightarrow> ''''
      | Some (FText s) \<Rightarrow> map char_of (universal_newlines (map of_char s))
      | Some (FJson v) \<Rightarrow> rt_dumps rt v)"

definition answer_has_file :: "string option \<Rightarrow> world \<Rightarrow> bool" where
  "answer_has_file path w = (case answer_file path w of None \<Rightarrow> False | Some (FText s) \<Rightarrow> s \<noteq> '''' | Some (FJson v) \<Rightarrow> True)"

section \<open>Events of an attempt\<close>

text \<open>\<open>_event_seen_for_attempt\<close> over one page, and over the pages; \<open>None\<close> where an attempt is no number.\<close>

fun seen_in :: "string \<Rightarrow> string option \<Rightarrow> int \<Rightarrow> advisor_event list \<Rightarrow> bool option" where
  "seen_in ty k attempt [] = Some False"
| "seen_in ty k attempt (e # es) =
     (if ae_type e \<noteq> ty then seen_in ty k attempt es
      else if k \<noteq> None \<and> Some (or_empty (ae_step e)) \<noteq> k then seen_in ty k attempt es
      else case event_attempt e of
             None \<Rightarrow> None
           | Some a \<Rightarrow> if a = max 0 attempt then Some True else seen_in ty k attempt es)"

function seen_after :: "string \<Rightarrow> string \<Rightarrow> string option \<Rightarrow> int \<Rightarrow> int \<Rightarrow> advisor_db \<Rightarrow> bool option" where
  "seen_after i ty k attempt after_id db =
     (let (chunk, next_after) = list_run_events i after_id 500 db
      in if chunk = [] then Some False
         else case seen_in ty k attempt chunk of
                None \<Rightarrow> None
              | Some True \<Rightarrow> Some True
              | Some False \<Rightarrow>
                  if next_after \<le> after_id \<or> length chunk < 500 then Some False
                  else seen_after i ty k attempt next_after db)"
  by pat_completeness auto
termination
  by (relation "measure (\<lambda>(i, ty, k, attempt, after_id, db). length (filter (\<lambda>e. after_id < ae_id e) (a_events db)))")
     (simp_all, metis page_leaves_fewer prod.exhaust_sel)

declare seen_after.simps [simp del]

text \<open>An event is appended unless one of its type is there for the attempt.\<close>

definition append_once ::
    "real \<Rightarrow> string \<Rightarrow> string \<Rightarrow> string \<Rightarrow> int \<Rightarrow> event_args \<Rightarrow> advisor_db \<Rightarrow> advisor_db option" where
  "append_once now i ty k attempt a db =
     (case seen_after i ty (Some k) attempt 0 db of
        None \<Rightarrow> None
      | Some True \<Rightarrow> Some db
      | Some False \<Rightarrow> Some (append_run_event now i ty a db))"

definition append_if_new :: "real \<Rightarrow> string \<Rightarrow> string \<Rightarrow> event_args \<Rightarrow> advisor_db \<Rightarrow> advisor_db" where
  "append_if_new now i ty a db = (if has_event i ty None db then db else append_run_event now i ty a db)"

section \<open>Dispatching a retry\<close>

definition correlation :: "run \<Rightarrow> string" where
  "correlation r = text_or (or_empty (rn_request r)) (''advisor:'' @ rn_id r)"

definition child_key :: "string \<Rightarrow> string \<Rightarrow> int \<Rightarrow> string" where
  "child_key i k attempt = ''advisor-orchestrate:'' @ i @ '':'' @ k @ '':a'' @ int_text (max 1 attempt)"

definition child_request ::
    "orch_env \<Rightarrow> string \<Rightarrow> string \<Rightarrow> json \<Rightarrow> json \<Rightarrow> string option \<Rightarrow> json \<Rightarrow> request" where
  "child_request env key kind input params parent requested_by =
     \<lparr>rq_key = key, rq_kind = kind, rq_input = input, rq_params = params, rq_max_attempts = oe_max_attempts env,
      rq_parent = parent, rq_client = Some (JObj [(''name'', JStr ''advisor_orchestrator'')]),
      rq_requested_by = Some requested_by, rq_allow_queue = False, rq_single_flight = True,
      rq_request_error = oe_request_error env, rq_log_ok = oe_log_ok env\<rparr>"

definition requested_by :: "string \<Rightarrow> real \<Rightarrow> string \<Rightarrow> json" where
  "requested_by transport now request_id = JObj
     [(''transport'', JStr transport), (''received_at'', JReal now),
      (''headers'', JObj [(''x-request-id'', JStr request_id)])]"

text \<open>The rows and events of a retry whose child job is \<open>child\<close>. Clock: 0 the lease's expiry, 1 the step,
  2 and 3 the lease, 4 and 5 the events, 6 and 7 the run.\<close>

definition record_retry ::
    "clock \<Rightarrow> orch_env \<Rightarrow> run \<Rightarrow> step \<Rightarrow> int \<Rightarrow> string \<Rightarrow> string \<Rightarrow> string \<Rightarrow> advisor_db \<Rightarrow> advisor_db" where
  "record_retry t env r st a key kind child db =
     (let i = rn_id r; k = sp_id st; lease = oe_lease_id env; expires = t 0 + 300;
          args = no_args\<lparr>ea_step := Some k, ea_attempt := Some a, ea_correlation := Some (correlation r),
                         ea_idempotency := Some key\<rparr>
      in snd (update_run (later 6 t) i
           (no_update\<lparr>ru_status := Some RUNNING, ru_final_job := Some child, ru_degraded := Some False\<rparr>)
        (append_run_event (t 5) i ''step.started''
           (args\<lparr>ea_payload := [(''step_id'', JStr k), (''attempt'', JInt a), (''lease_id'', JStr lease),
                                (''job_id'', JStr child), (''retry'', JBool True)]\<rparr>)
        (append_run_event (t 4) i ''step.dispatched''
           (args\<lparr>ea_payload := [(''step_id'', JStr k), (''attempt'', JInt a), (''lease_id'', JStr lease),
                                (''lease_expires_at'', JReal expires), (''kind'', JStr kind), (''retry'', JBool True)]\<rparr>)
        (upsert_lease (t 3) lease i k
           \<lparr>la_owner = Some (''job:'' @ or_empty (rn_orchestrate_job r)), la_token = Some lease,
            la_status = LEASE_LEASED, la_expires_at = Some expires, la_heartbeat_at = Some (t 2)\<rparr>
        (upsert_step (t 1) i k
           \<lparr>sa_type = text_or (sp_type st) ''ask'', sa_status = EXECUTING, sa_attempt = a, sa_job = Some child,
            sa_lease = Some lease, sa_expires_at = Some expires, sa_input = sp_input st,
            sa_output = JObj [(''job_id'', JStr child), (''retry_attempt'', JInt a)],
            sa_evidence = or_none (or_empty (sp_evidence st))\<rparr> db))))))"

text \<open>The code makes dictionaries of the step's input and of two entries of it, which raises where such
  an entry is neither empty nor an object; steps are only stored with objects there, and the model
  reads anything else as empty.\<close>

definition dispatch_retry_step ::
    "runtime \<Rightarrow> clock \<Rightarrow> orch_env \<Rightarrow> run \<Rightarrow> step \<Rightarrow> int \<Rightarrow> orch_state \<Rightarrow> (run, orch_state) outcome" where
  "dispatch_retry_step rt t env r st attempt s =
     (let input = sp_input st;
          kind = str_or (rt_repr rt) (jget ''kind'' input) ''chatgpt_web.ask'';
          key = child_key (rn_id r) (sp_id st) attempt;
          q = child_request env key kind (JObj (dict_of (jget ''input'' input))) (JObj (dict_of (jget ''params'' input)))
                (or_none (or_empty (rn_orchestrate_job r)))
                (requested_by ''advisor.orchestrate.reconcile'' (t 0) (correlation r))
      in case create_job rt (later 9 t) (oe_job_id env) q (os_world s) of
           (Inl e, w) \<Rightarrow> (Inl e, s\<lparr>os_world := w\<rparr>)
         | (Inr child, w) \<Rightarrow>
             (let db = record_retry (later 1 t) env r st (max 1 attempt) key kind (j_id child) (os_adv s)
              in (Inr (case get_run (rn_id r) db of None \<Rightarrow> r | Some r' \<Rightarrow> r'), \<lparr>os_adv = db, os_world = w\<rparr>)))"

section \<open>Reconciling a run\<close>

definition finish_reconcile :: "runtime \<Rightarrow> clock \<Rightarrow> string \<Rightarrow> run \<Rightarrow> orch_state \<Rightarrow> (run option, orch_state) outcome" where
  "finish_reconcile rt t i r s =
     (case replay_run rt (later 1 t) i False (os_adv s) of
        (Inl e, _) \<Rightarrow> (Inl e, s)
      | (Inr sn, _) \<Rightarrow>
          (Inr (Some r),
           on_adv (\<lambda>db. write_snapshot_json (t 0) i r (list_steps i db) (map_option snapshot_json sn) db) s))"

definition updated_or :: "run \<Rightarrow> run option \<Rightarrow> run" where
  "updated_or r x = (case x of None \<Rightarrow> r | Some r' \<Rightarrow> r')"

text \<open>What the three outcomes write to the step \<open>ask_primary\<close>. Clock: 0 the expiry, 1 the row.\<close>

definition settle_step ::
    "clock \<Rightarrow> orch_env \<Rightarrow> string \<Rightarrow> step \<Rightarrow> step_status \<Rightarrow> int \<Rightarrow> string \<Rightarrow> json \<Rightarrow> string option
     \<Rightarrow> advisor_db \<Rightarrow> advisor_db" where
  "settle_step t env i st status attempt fj output path =
     upsert_step (t 1) i ''ask_primary''
       \<lparr>sa_type = ''ask'', sa_status = status, sa_attempt = attempt, sa_job = Some fj,
        sa_lease = Some (text_or (or_empty (sp_lease st)) (oe_spare_lease env)), sa_expires_at = Some (t 0),
        sa_input = sp_input st, sa_output = output, sa_evidence = path\<rparr>"

definition step_event :: "int \<Rightarrow> string option \<Rightarrow> (string \<times> json) list \<Rightarrow> event_args" where
  "step_event attempt path payload =
     no_args\<lparr>ea_step := Some ''ask_primary'', ea_attempt := Some attempt, ea_evidence := path,
             ea_payload := [(''step_id'', JStr ''ask_primary''), (''attempt'', JInt attempt)] @ payload\<rparr>"

text \<open>The run is degraded: one event, the row, the snapshot. Clock: 0 the event, 1 and 2 the row.\<close>

definition degrade_run ::
    "runtime \<Rightarrow> clock \<Rightarrow> run \<Rightarrow> (string \<times> json) list \<Rightarrow> string \<Rightarrow> string \<Rightarrow> orch_state
     \<Rightarrow> (run option, orch_state) outcome" where
  "degrade_run rt t r payload error_type error s =
     (let i = rn_id r;
          (r', db) = update_run (later 1 t) i
            (no_update\<lparr>ru_status := Some DEGRADED, ru_degraded := Some True, ru_error_type := Some error_type,
                       ru_error := Some error\<rparr>)
            (append_if_new (t 0) i ''run.degraded''
               (no_args\<lparr>ea_payload := payload @ [(''fallback_action'', JStr ''manual_takeover_required'')]\<rparr>) (os_adv s))
      in finish_reconcile rt (later 3 t) i (updated_or r r') (s\<lparr>os_adv := db\<rparr>))"

text \<open>The gates passed. Clock: 0 and 1 the step, 2 and 3 the events, 4 the end, 5 and 6 the row.\<close>

definition complete_run ::
    "runtime \<Rightarrow> clock \<Rightarrow> orch_env \<Rightarrow> run \<Rightarrow> step \<Rightarrow> int \<Rightarrow> string \<Rightarrow> string option \<Rightarrow> gate_report \<Rightarrow> orch_state
     \<Rightarrow> (run option, orch_state) outcome" where
  "complete_run rt t env r st attempt fj path g s =
     (let i = rn_id r; status = JStr (status_value COMPLETED);
          db1 = settle_step t env i st STEP_SUCCEEDED attempt fj
                  (JObj [(''job_id'', JStr fj), (''status'', status), (''gates'', gate_json g)]) path (os_adv s)
      in case append_once (t 2) i ''step.succeeded'' ''ask_primary'' attempt
                (step_event attempt path [(''job_id'', JStr fj)]) db1 of
           None \<Rightarrow> (Inl ConversionError, s\<lparr>os_adv := db1\<rparr>)
         | Some db2 \<Rightarrow>
             (let db3 = append_if_new (t 3) i ''run.completed''
                    (no_args\<lparr>ea_payload := [(''child_job_id'', JStr fj), (''status'', status),
                                            (''gates'', gate_json g)]\<rparr>) db2;
                  (r', db4) = update_run (later 5 t) i
                    (no_update\<lparr>ru_status := Some RUN_COMPLETED, ru_degraded := Some False,
                               ru_ended_at := Some (t 4)\<rparr>) db3
              in finish_reconcile rt (later 7 t) i (updated_or r r') (s\<lparr>os_adv := db4\<rparr>)))"

text \<open>The gates failed: the step waits for a retry, which is dispatched while the run has one left.
  The code catches the exceptions of the dispatch around the closing replay and snapshot too; after a
  dispatch these raise nothing the model knows of (a log that makes the replay raise makes it raise
  again while degrading, and the transaction is rolled back either way).
  Clock: 0 and 1 the step, 2 and 3 the row, 4 the event of a dispatch that failed.\<close>

definition retry_or_degrade ::
    "runtime \<Rightarrow> clock \<Rightarrow> orch_env \<Rightarrow> run \<Rightarrow> step \<Rightarrow> int \<Rightarrow> string \<Rightarrow> string option \<Rightarrow> gate_report \<Rightarrow> orch_state
     \<Rightarrow> (run option, orch_state) outcome" where
  "retry_or_degrade rt t env r st attempt fj path g s =
     (let i = rn_id r;
          remaining = max 0 (max 0 (rn_max_retries r) - (attempt - 1));
          db1 = settle_step t env i st RETRY_WAIT attempt fj
                  (JObj [(''job_id'', JStr fj), (''status'', JStr (status_value COMPLETED)), (''gates'', gate_json g),
                         (''retries_remaining'', JInt remaining)]) path (os_adv s);
          s1 = s\<lparr>os_adv := snd (update_run (later 2 t) i
                  (no_update\<lparr>ru_status := Some WAITING_GATES, ru_degraded := Some False\<rparr>) db1)\<rparr>
      in if 0 < remaining
         then case dispatch_retry_step rt (later 20 t) env r st (attempt + 1) s1 of
                (Inr r', s2) \<Rightarrow> finish_reconcile rt (later 40 t) i r' s2
              | (Inl e, s2) \<Rightarrow>
                  (case caught e of
                     None \<Rightarrow> (Inl e, s2)
                   | Some (ty, msg) \<Rightarrow>
                       degrade_run rt (later 5 t) r [(''reason_type'', JStr ty), (''reason'', JStr msg)] ty msg
                         (on_adv (append_run_event (t 4) i ''step.failed''
                            (step_event attempt None
                               [(''error_type'', JStr ty), (''error'', JStr msg),
                                (''reason'', JStr ''retry_dispatch_failed'')])) s2))
         else degrade_run rt (later 5 t) r
                [(''reason_type'', JStr ''GateFailed''),
                 (''reason'', JStr ''quality/role/evidence gate failed and retries exhausted''),
                 (''report'', gate_json g)]
                ''GateFailed'' ''quality/role/evidence gate failed'' s1)"

text \<open>The job completed: its answer is judged, once per attempt in the log. Clock: 0 the gate's event.\<close>

definition judge_answer ::
    "runtime \<Rightarrow> clock \<Rightarrow> orch_env \<Rightarrow> run \<Rightarrow> step \<Rightarrow> int \<Rightarrow> string \<Rightarrow> string option \<Rightarrow> orch_state
     \<Rightarrow> (run option, orch_state) outcome" where
  "judge_answer rt t env r st attempt fj path s =
     (case evaluate_gate_report rt r (sp_output st) (read_answer_text rt path (os_world s))
             (answer_has_file path (os_world s)) of
        Inl e \<Rightarrow> (Inl e, s)
      | Inr g \<Rightarrow>
          (case append_once (t 0) (rn_id r) (if gr_passed g then ''gate.passed'' else ''gate.failed'')
                  ''ask_primary'' attempt
                  ((step_event attempt path [(''report'', gate_json g)])\<lparr>ea_correlation := Some (correlation r)\<rparr>)
                  (os_adv s) of
             None \<Rightarrow> (Inl ConversionError, s)
           | Some db \<Rightarrow>
               (if gr_passed g then complete_run rt (later 1 t) env r st attempt fj path g (s\<lparr>os_adv := db\<rparr>)
                else retry_or_degrade rt (later 1 t) env r st attempt fj path g (s\<lparr>os_adv := db\<rparr>))))"

text \<open>The job stopped without an answer. Clock: 0 and 1 the step, 2 its event.\<close>

definition fail_run ::
    "runtime \<Rightarrow> clock \<Rightarrow> orch_env \<Rightarrow> run \<Rightarrow> step \<Rightarrow> int \<Rightarrow> string \<Rightarrow> string option \<Rightarrow> job \<Rightarrow> orch_state
     \<Rightarrow> (run option, orch_state) outcome" where
  "fail_run rt t env r st attempt fj path child s =
     (let i = rn_id r; status = status_value (j_status child);
          ty = or_empty (j_last_error_type child); msg = or_empty (j_last_error child);
          what = [(''job_id'', JStr fj), (''status'', JStr status), (''error_type'', JStr ty), (''error'', JStr msg)];
          db1 = settle_step t env i st STEP_FAILED attempt fj (JObj what) path (os_adv s)
      in case append_once (t 2) i ''step.failed'' ''ask_primary'' attempt (step_event attempt path what) db1 of
           None \<Rightarrow> (Inl ConversionError, s\<lparr>os_adv := db1\<rparr>)
         | Some db2 \<Rightarrow>
             degrade_run rt (later 3 t) r
               [(''child_job_id'', JStr fj), (''status'', JStr status), (''error_type'', JStr ty), (''error'', JStr msg)]
               (text_or ty status) (text_or msg status) (s\<lparr>os_adv := db2\<rparr>))"

text \<open>The step, or the dictionary that stands in for a missing one.\<close>

definition primary_step :: "clock \<Rightarrow> string \<Rightarrow> advisor_db \<Rightarrow> step" where
  "primary_step t i db =
     (case get_step i ''ask_primary'' db of
        Some st \<Rightarrow> st
      | None \<Rightarrow> \<lparr>sp_run = i, sp_id = ''ask_primary'', sp_type = ''ask'', sp_status = EXECUTING, sp_attempt = 1,
                 sp_job = None, sp_lease = None, sp_expires_at = None, sp_input = JObj [], sp_output = JObj [],
                 sp_evidence = None, sp_created_at = t 0, sp_updated_at = t 1\<rparr>)"

definition run_settled :: "run_status \<Rightarrow> bool" where
  "run_settled s \<longleftrightarrow> run_terminal s \<or> s = DEGRADED \<or> s = MANUAL_TAKEOVER"

definition reconcile_run_status ::
    "runtime \<Rightarrow> clock \<Rightarrow> orch_env \<Rightarrow> string \<Rightarrow> orch_state \<Rightarrow> (run option, orch_state) outcome" where
  "reconcile_run_status rt t env i s =
     (case get_run i (os_adv s) of
        None \<Rightarrow> (Inr None, s)
      | Some r \<Rightarrow>
          (let (ls, db) = reclaim_expired_leases (t 0) (later 1 t) (Some i) (os_adv s);
               s1 = s\<lparr>os_adv := db\<rparr>; u = later (1 + 2 * length ls) t; fj = strip (or_empty (rn_final_job r))
           in if run_settled (rn_status r) \<or> fj = '''' then finish_reconcile rt u i r s1
              else case get_job fj (os_world s1) of
                     None \<Rightarrow> (Inr (Some r), s1)
                   | Some child \<Rightarrow>
                       (let st = primary_step u i db; attempt = max 1 (sp_attempt st);
                            path = or_none (or_empty (j_answer_path child))
                        in if j_status child = COMPLETED then judge_answer rt (later 2 u) env r st attempt fj path s1
                           else if j_status child \<in> {ERROR, CANCELED, BLOCKED, COOLDOWN, NEEDS_FOLLOWUP}
                           then fail_run rt (later 2 u) env r st attempt fj path child s1
                           else (Inr (Some r), s1))))"

section \<open>Routes\<close>

text \<open>The reply of a route: the run and its steps, or \<open>None\<close> where it answers that there is no such run.\<close>

definition advisor_run_reconcile ::
    "runtime \<Rightarrow> clock \<Rightarrow> orch_env \<Rightarrow> string \<Rightarrow> orch_state \<Rightarrow> ((run \<times> step list) option, orch_state) outcome" where
  "advisor_run_reconcile rt t env i =
     in_transaction (\<lambda>s.
       case reconcile_run_status rt t env i s of
         (Inl e, s') \<Rightarrow> (Inl e, s')
       | (Inr None, s') \<Rightarrow> (Inr None, rolled_back s s')
       | (Inr (Some r), s') \<Rightarrow> (Inr (Some (r, list_steps i (os_adv s'))), s'))"

text \<open>Clock: 0 the snapshot, from 1 on the replay.\<close>

definition advisor_run_replay ::
    "runtime \<Rightarrow> clock \<Rightarrow> string \<Rightarrow> bool \<Rightarrow> orch_state
     \<Rightarrow> ((run \<times> step list \<times> snapshot option) option, orch_state) outcome" where
  "advisor_run_replay rt t i persist =
     in_transaction (\<lambda>s.
       case get_run i (os_adv s) of
         None \<Rightarrow> (Inr None, s)
       | Some r \<Rightarrow>
           (case replay_run rt (later 1 t) i persist (os_adv s) of
              (Inl e, db) \<Rightarrow> (Inl e, s\<lparr>os_adv := db\<rparr>)
            | (Inr sn, db) \<Rightarrow>
                (let r' = updated_or r (get_run i db); steps = list_steps i db
                 in (Inr (Some (r', steps, sn)),
                     s\<lparr>os_adv := write_snapshot_json (t 0) i r' steps (map_option snapshot_json sn) db\<rparr>))))"

text \<open>The takeover by hand. Clock: 0 the step, 1 and 2 the events, 3 and 4 the row, 5 the file, 6 the snapshot.\<close>

definition record_takeover :: "clock \<Rightarrow> string \<Rightarrow> string \<Rightarrow> string \<Rightarrow> json \<Rightarrow> advisor_db \<Rightarrow> run option \<times> advisor_db" where
  "record_takeover t i actor reason compensation db =
     (let db1 = upsert_step (t 0) i ''manual_takeover''
            \<lparr>sa_type = ''takeover'', sa_status = COMPENSATED, sa_attempt = 1, sa_job = None, sa_lease = None,
             sa_expires_at = None,
             sa_input = JObj [(''note'', JStr reason), (''actor'', JStr actor), (''compensation'', compensation)],
             sa_output = JObj [(''status'', JStr ''ack''), (''actor'', JStr actor)], sa_evidence = None\<rparr> db;
          db2 = append_run_event (t 1) i ''step.compensated''
            (no_args\<lparr>ea_step := Some ''manual_takeover'', ea_attempt := Some 1, ea_agent := Some actor,
                     ea_payload := [(''step_id'', JStr ''manual_takeover''), (''attempt'', JInt 1),
                                    (''note'', JStr reason), (''compensation'', compensation)]\<rparr>) db1;
          db3 = append_run_event (t 2) i ''run.taken_over''
            (no_args\<lparr>ea_agent := Some actor,
                     ea_payload := [(''actor'', JStr actor), (''note'', JStr reason),
                                    (''compensation'', compensation)]\<rparr>) db2;
          (r', db4) = update_run (later 3 t) i
            (no_update\<lparr>ru_status := Some MANUAL_TAKEOVER, ru_degraded := Some True,
                       ru_error_type := Some ''ManualTakeover'',
                       ru_error := Some (text_or reason ''manual takeover requested'')\<rparr>) db3
      in (r', write_run_json i ''takeover.json''
            (JObj [(''run_id'', JStr i), (''actor'', JStr actor), (''note'', JStr reason),
                   (''compensation'', compensation), (''ts'', JReal (t 5))]) db4))"

definition advisor_run_takeover ::
    "runtime \<Rightarrow> clock \<Rightarrow> string \<Rightarrow> json \<Rightarrow> orch_state \<Rightarrow> (run option, orch_state) outcome" where
  "advisor_run_takeover rt t i body s =
     (case dict_arg (jget ''compensation'' body) of
        Inl e \<Rightarrow> (Inl e, s)
      | Inr compensation \<Rightarrow>
          in_transaction (\<lambda>s.
            case get_run i (os_adv s) of
              None \<Rightarrow> (Inr None, s)
            | Some r \<Rightarrow>
                (let (r', db) = record_takeover t i
                       (text_or (strip (str_or (rt_repr rt) (jget ''actor'' body) ''manual'')) ''manual'')
                       (strip (str_or (rt_repr rt) (jget ''note'' body) '''')) (JObj compensation) (os_adv s)
                 in finish_reconcile rt (later 6 t) i (updated_or r r') (s\<lparr>os_adv := db\<rparr>))) s)"

end
