(* ===== verification/Orchestrate.thy ===== *)
theory Orchestrate
  imports RunReconcile ArtifactReads
begin

text \<open>
  Starting a run of the advisor: the executor of the job \<open>advisor.orchestrate\<close>
  (\<open>executors/advisor_orchestrate.py\<close>), which dispatches the child job that answers the question, and
  \<open>_submit_advisor_orchestrate_job\<close> of \<open>api/routes_advisor.py\<close>, which creates the run and that job.
  What the OpenClaw service answered is an argument. A dispatch that fails is rolled back and recorded in
  a second transaction. The second half of the theory states what every call keeps of the log and what
  follows for replaying it.
\<close>

section \<open>The child job\<close>

definition given_params :: "string list \<Rightarrow> json \<Rightarrow> (string \<times> json) list" where
  "given_params keys params =
     map (\<lambda>k. (k, jget k params)) (filter (\<lambda>k. jget k params \<noteq> JNull) keys)"

definition build_child_job :: "runtime \<Rightarrow> string \<Rightarrow> string \<Rightarrow> json \<Rightarrow> string \<times> json \<times> json \<times> string" where
  "build_child_job rt route question params =
     (let gemini = (route = ''gemini'');
          kind = (if gemini then ''gemini_web.ask'' else ''chatgpt_web.ask'');
          provider = (if gemini then ''gemini_web'' else ''chatgpt_web'');
          research = (if route = ''deep_research'' \<or> route = ''pro_then_dr_then_pro''
                      then [(''deep_research'', JBool True)] else []);
          preset = text_or (strip (str_or (rt_repr rt) (jget ''preset'' params) ''''))
                     (if gemini then ''pro'' else ''thinking_heavy'');
          passed = given_params [''timeout_seconds'', ''send_timeout_seconds'', ''wait_timeout_seconds'',
                     ''max_wait_seconds'', ''poll_seconds'', ''min_chars'', ''answer_format'', ''agent_mode'',
                     ''web_search''] params;
          out = research @ [(''preset'', JStr preset)] @ passed
      in (kind, JObj [(''question'', JStr question)],
          JObj (if route = ''pro_gemini_crosscheck'' then set_default ''web_search'' (JBool True) out else out),
          provider))"

section \<open>The executor\<close>

text \<open>The OpenClaw service: no address, an address that is refused, a session, or a failure at a stage.\<close>

datatype openclaw =
    OC_none
  | OC_refused string
  | OC_session string json json json json
  | OC_failed string string string

text \<open>The trace that is kept, or the \<open>ValueError\<close> that is raised.\<close>

definition openclaw_trace :: "bool \<Rightarrow> openclaw \<Rightarrow> exn + json" where
  "openclaw_trace required oc =
     (case oc of
        OC_none \<Rightarrow> Inr JNull
      | OC_refused msg \<Rightarrow> Inl (ValueError msg)
      | OC_session url key spawn send status \<Rightarrow>
          Inr (JObj [(''mcp_url'', JStr url), (''session_key'', key), (''spawn'', spawn), (''send'', send),
                     (''status'', status)])
      | OC_failed url stage msg \<Rightarrow>
          if required then Inl (ValueError (''openclaw_required failed at '' @ stage @ '': '' @ msg))
          else Inr (JObj [(''mcp_url'', JStr url), (''error_type'', JStr ''OpenClawAdapterError''),
                          (''error'', JStr msg), (''stage'', JStr stage)]))"

text \<open>The arguments of one execution as the code reads them from the job's input and parameters.\<close>

record orchestration =
  oc_job :: string
  oc_run :: string
  oc_request :: string
  oc_question :: string
  oc_route :: string
  oc_raw_question :: string
  oc_context :: json
  oc_mode :: string
  oc_threshold :: int
  oc_crosscheck :: bool
  oc_max_retries :: int
  oc_lease_ttl :: int
  oc_required :: bool
  oc_params :: json

definition safe_int :: "json \<Rightarrow> int \<Rightarrow> int" where
  "safe_int v d = (case py_int v of None \<Rightarrow> d | Some n \<Rightarrow> n)"

definition read_orchestration :: "runtime \<Rightarrow> string \<Rightarrow> json \<Rightarrow> json \<Rightarrow> exn + orchestration" where
  "read_orchestration rt jid input params =
     (let item = (\<lambda>k d. strip (str_or (rt_repr rt) (jget k input) d));
          question = item ''question'' '''';
          mode = norm_mode (str_or (rt_repr rt) (jget ''mode'' params) '''')
      in case dict_arg (jget ''context'' input) of
           Inl e \<Rightarrow> Inl e
         | Inr context \<Rightarrow>
             Inr \<lparr>oc_job = jid, oc_run = item ''run_id'' '''', oc_request = item ''request_id'' '''',
                  oc_question = question, oc_route = item ''route'' ''chatgpt_pro'',
                  oc_raw_question = item ''raw_question'' question, oc_context = JObj context, oc_mode = mode,
                  oc_threshold = safe_int (jget ''quality_threshold'' params) (default_threshold mode),
                  oc_crosscheck = json_bool (jget ''crosscheck'' params) False,
                  oc_max_retries = max 0 (safe_int (jget ''max_retries'' params) 0),
                  oc_lease_ttl = max 60 (safe_int (jget ''lease_ttl_seconds'' params) 300),
                  oc_required = json_bool (jget ''openclaw_required'' params) False, oc_params = params\<rparr>)"

definition orch_correlation :: "orchestration \<Rightarrow> string" where
  "orch_correlation x = text_or (oc_request x) (''advisor:'' @ oc_run x)"

text \<open>\<open>create_run\<close> does not raise here: the identifier is stripped, not empty and new. Clock: 0 the new
  run, 1 and 2 its events, or 0 and 1 the row.\<close>

definition ensure_run :: "clock \<Rightarrow> orchestration \<Rightarrow> json \<Rightarrow> advisor_db \<Rightarrow> advisor_db" where
  "ensure_run t x trace db =
     (let i = oc_run x; args = no_args\<lparr>ea_correlation := Some (orch_correlation x)\<rparr>
      in case get_run i db of
           None \<Rightarrow>
             append_run_event (t 2) i ''run.planned''
               (args\<lparr>ea_payload := [(''run_id'', JStr i), (''orchestrate_job_id'', JStr (oc_job x)),
                                    (''quality_threshold'', JInt (oc_threshold x)),
                                    (''crosscheck'', JBool (oc_crosscheck x)), (''openclaw_trace'', trace)]\<rparr>)
             (append_run_event (t 1) i ''run.created''
               (args\<lparr>ea_payload := [(''run_id'', JStr i), (''mode'', JStr (oc_mode x)), (''route'', JStr (oc_route x))]\<rparr>)
             (snd (create_run (t 0)
                \<lparr>nw_id = i, nw_request = or_none (oc_request x), nw_mode = oc_mode x, nw_status = PLAN_COMPILED,
                 nw_route = Some (oc_route x), nw_raw_question = oc_raw_question x, nw_question = oc_question x,
                 nw_context = oc_context x, nw_threshold = Some (oc_threshold x), nw_crosscheck = oc_crosscheck x,
                 nw_max_retries = oc_max_retries x, nw_orchestrate_job = Some (oc_job x), nw_final_job = None,
                 nw_degraded = False\<rparr> db)))
         | Some _ \<Rightarrow>
             snd (update_run t i
               (no_update\<lparr>ru_mode := Some (oc_mode x), ru_route := Some (oc_route x),
                          ru_question := Some (oc_question x), ru_threshold := Some (oc_threshold x),
                          ru_crosscheck := Some (oc_crosscheck x), ru_max_retries := Some (oc_max_retries x),
                          ru_orchestrate_job := Some (oc_job x)\<rparr>) db))"

definition first_event :: "runtime \<Rightarrow> orchestration \<Rightarrow> string \<Rightarrow> json \<Rightarrow> (string \<times> json) list \<Rightarrow> event_args" where
  "first_event rt x key trace payload =
     no_args\<lparr>ea_step := Some ''ask_primary'', ea_attempt := Some 1, ea_correlation := Some (orch_correlation x),
             ea_idempotency := Some key, ea_session := Some (str_or (rt_repr rt) (jget ''session_key'' trace) ''''),
             ea_payload := payload\<rparr>"

text \<open>What is written before the child job is created: the run, the lease, the step. Clock: from 0 the run,
  3 and 4 its status, 5 the step, 6 the lease, 7 and 8 the events; \<open>now\<close> was read at the start.\<close>

definition prepare_dispatch ::
    "runtime \<Rightarrow> clock \<Rightarrow> orch_env \<Rightarrow> orchestration \<Rightarrow> real \<Rightarrow> string \<Rightarrow> string \<Rightarrow> json \<Rightarrow> json \<Rightarrow> json
     \<Rightarrow> advisor_db \<Rightarrow> advisor_db" where
  "prepare_dispatch rt t env x now key kind input params trace db =
     (let i = oc_run x; lease = oe_lease_id env; expires = now + real_of_int (oc_lease_ttl x);
          db1 = ensure_run t x trace db;
          db2 = snd (update_run (later 3 t) i (no_update\<lparr>ru_status := Some DISPATCHING\<rparr>) db1);
          db3 = upsert_step (t 5) i ''ask_primary''
            \<lparr>sa_type = ''ask'', sa_status = LEASED, sa_attempt = 1, sa_job = None, sa_lease = Some lease,
             sa_expires_at = Some expires,
             sa_input = JObj [(''kind'', JStr kind), (''input'', input), (''params'', params), (''openclaw'', trace)],
             sa_output = JObj [], sa_evidence = None\<rparr> db2;
          db4 = upsert_lease (t 6) lease i ''ask_primary''
            \<lparr>la_owner = Some (''job:'' @ oc_job x), la_token = Some lease, la_status = LEASE_LEASED,
             la_expires_at = Some expires, la_heartbeat_at = Some now\<rparr> db3;
          db5 = append_run_event (t 7) i ''step.dispatched''
            (first_event rt x key trace
               [(''step_id'', JStr ''ask_primary''), (''attempt'', JInt 1), (''lease_id'', JStr lease),
                (''lease_expires_at'', JReal expires), (''kind'', JStr kind), (''openclaw_trace'', trace)]) db4
      in if truthy trace
         then append_run_event (t 8) i ''step.heartbeat''
                (first_event rt x key trace
                   [(''source'', JStr ''openclaw''), (''status'', JObj (dict_of (jget ''status'' trace)))]) db5
         else db5)"

text \<open>What is written after it. Clock: 0 the step, 1 the event, 2 and 3 the row.\<close>

definition record_start ::
    "runtime \<Rightarrow> clock \<Rightarrow> orch_env \<Rightarrow> orchestration \<Rightarrow> real \<Rightarrow> string \<Rightarrow> string \<Rightarrow> json \<Rightarrow> json \<Rightarrow> json \<Rightarrow> string
     \<Rightarrow> advisor_db \<Rightarrow> advisor_db" where
  "record_start rt t env x now key kind input params trace child db =
     (let i = oc_run x; lease = oe_lease_id env; expires = now + real_of_int (oc_lease_ttl x)
      in snd (update_run (later 2 t) i
           (no_update\<lparr>ru_status := Some RUNNING, ru_final_job := Some child, ru_degraded := Some False\<rparr>)
        (append_run_event (t 1) i ''step.started''
           (first_event rt x key trace
              [(''step_id'', JStr ''ask_primary''), (''attempt'', JInt 1), (''lease_id'', JStr lease),
               (''job_id'', JStr child)])
        (upsert_step (t 0) i ''ask_primary''
           \<lparr>sa_type = ''ask'', sa_status = EXECUTING, sa_attempt = 1, sa_job = Some child, sa_lease = Some lease,
            sa_expires_at = Some expires,
            sa_input = JObj [(''kind'', JStr kind), (''input'', input), (''params'', params)],
            sa_output = JObj [(''job_id'', JStr child)], sa_evidence = None\<rparr> db))))"

definition dispatch_first ::
    "runtime \<Rightarrow> clock \<Rightarrow> orch_env \<Rightarrow> orchestration \<Rightarrow> real \<Rightarrow> string \<Rightarrow> json \<Rightarrow> json \<Rightarrow> json \<Rightarrow> orch_state
     \<Rightarrow> (string, orch_state) outcome" where
  "dispatch_first rt t env x now kind input params trace s =
     (let key = child_key (oc_run x) ''ask_primary'' 1;
          db = prepare_dispatch rt (later 5 t) env x now key kind input params trace (os_adv s);
          q = child_request env key kind input params (Some (oc_job x))
                (requested_by ''advisor.orchestrate'' (t 0)
                   (text_or (oc_request x) (''advisor-orchestrate:'' @ oc_run x)))
      in case create_job rt (later 20 t) (oe_job_id env) q (os_world s) of
           (Inl e, w) \<Rightarrow> (Inl e, \<lparr>os_adv = db, os_world = w\<rparr>)
         | (Inr child, w) \<Rightarrow>
             (Inr (j_id child),
              \<lparr>os_adv = record_start rt (later 1 t) env x now key kind input params trace (j_id child) db,
               os_world = w\<rparr>))"

text \<open>The record of a dispatch that raised. Clock: 0 and 1 the row, 2 the step, 3 and 4 the lease, 5 and 6
  the events.\<close>

definition record_failed_dispatch ::
    "runtime \<Rightarrow> clock \<Rightarrow> orch_env \<Rightarrow> orchestration \<Rightarrow> real \<Rightarrow> string option \<Rightarrow> json \<Rightarrow> string \<Rightarrow> string
     \<Rightarrow> advisor_db \<Rightarrow> advisor_db" where
  "record_failed_dispatch rt t env x now kind trace ty msg db =
     (let i = oc_run x; lease = oe_lease_id env; expires = now + real_of_int (oc_lease_ttl x);
          args = no_args\<lparr>ea_correlation := Some (orch_correlation x)\<rparr>;
          db1 = snd (update_run t i
            (no_update\<lparr>ru_status := Some DEGRADED, ru_degraded := Some True, ru_error_type := Some ty,
                       ru_error := Some msg\<rparr>) db);
          db2 = upsert_step (t 2) i ''ask_primary''
            \<lparr>sa_type = ''ask'', sa_status = STEP_FAILED, sa_attempt = 1, sa_job = None, sa_lease = Some lease,
             sa_expires_at = Some expires,
             sa_input = JObj [(''kind'', jopt kind), (''question'', JStr (oc_question x))],
             sa_output = JObj [(''error_type'', JStr ty), (''error'', JStr msg)], sa_evidence = None\<rparr> db1;
          db3 = upsert_lease (t 3) lease i ''ask_primary''
            \<lparr>la_owner = Some (''job:'' @ oc_job x), la_token = Some lease, la_status = LEASE_RELEASED,
             la_expires_at = Some expires, la_heartbeat_at = Some (t 4)\<rparr> db2;
          db4 = append_run_event (t 5) i ''step.failed''
            (args\<lparr>ea_step := Some ''ask_primary'', ea_attempt := Some 1,
                  ea_session := Some (str_or (rt_repr rt) (jget ''session_key'' trace) ''''),
                  ea_payload := [(''step_id'', JStr ''ask_primary''), (''attempt'', JInt 1),
                                 (''error_type'', JStr ty), (''error'', JStr msg)]\<rparr>) db3
      in append_run_event (t 6) i ''run.degraded''
           (args\<lparr>ea_payload := [(''reason_type'', JStr ty), (''reason'', JStr msg),
                                (''fallback_action'', JStr ''degraded'')]\<rparr>) db4)"

record executor_result =
  xr_status :: string
  xr_answer :: string
  xr_meta :: json

definition missing_input :: "string \<Rightarrow> executor_result" where
  "missing_input key =
     \<lparr>xr_status = ''error'', xr_answer = '''',
      xr_meta = JObj [(''error_type'', JStr ''ValueError''),
                      (''error'', JStr (''advisor.orchestrate missing input.'' @ key))]\<rparr>"

definition degraded_result ::
    "runtime \<Rightarrow> clock \<Rightarrow> orch_env \<Rightarrow> orchestration \<Rightarrow> real \<Rightarrow> string option \<Rightarrow> json \<Rightarrow> exn \<Rightarrow> orch_state
     \<Rightarrow> (executor_result, orch_state) outcome" where
  "degraded_result rt t env x now kind trace e s =
     (case caught e of
        None \<Rightarrow> (Inl e, s)
      | Some (ty, msg) \<Rightarrow>
          (Inr \<lparr>xr_status = ''completed'', xr_answer = ''advisor.orchestrate degraded: '' @ ty @ '': '' @ msg,
                xr_meta = JObj [(''run_id'', JStr (oc_run x)), (''degraded'', JBool True),
                                (''fallback_action'', JStr ''degraded''), (''error_type'', JStr ty),
                                (''error'', JStr msg)]\<rparr>,
           on_adv (record_failed_dispatch rt t env x now kind trace ty msg) s))"

definition started_payload :: "orchestration \<Rightarrow> string \<Rightarrow> string \<Rightarrow> string \<Rightarrow> json" where
  "started_payload x child kind provider = JObj
     [(''ok'', JBool True), (''run_id'', JStr (oc_run x)), (''orchestrate_job_id'', JStr (oc_job x)),
      (''child_job_id'', JStr child), (''child_kind'', JStr kind), (''route'', JStr (oc_route x)),
      (''provider'', JStr provider), (''quality_threshold'', JInt (oc_threshold x)), (''mode'', JStr (oc_mode x)),
      (''crosscheck'', JBool (oc_crosscheck x)), (''max_retries'', JInt (oc_max_retries x))]"

text \<open>\<open>AdvisorOrchestrateExecutor.run\<close>. Clock: 0 the time at the start, 1 to 49 the record of a failure, from 50
  on the dispatch.\<close>

definition orchestrate ::
    "runtime \<Rightarrow> clock \<Rightarrow> orch_env \<Rightarrow> openclaw \<Rightarrow> string \<Rightarrow> json \<Rightarrow> json \<Rightarrow> orch_state
     \<Rightarrow> (executor_result, orch_state) outcome" where
  "orchestrate rt t env oc jid input params s =
     (case read_orchestration rt jid input params of
        Inl e \<Rightarrow> (Inl e, s)
      | Inr x \<Rightarrow>
          if oc_run x = '''' then (Inr (missing_input ''run_id''), s)
          else if oc_question x = '''' then (Inr (missing_input ''question''), s)
          else case openclaw_trace (oc_required x) oc of
                 Inl e \<Rightarrow> degraded_result rt (later 1 t) env x (t 0) None JNull e s
               | Inr trace \<Rightarrow>
                   (let (kind, child_input, child_params, provider) =
                          build_child_job rt (oc_route x) (oc_question x) (oc_params x)
                    in case validate_ask_preset kind child_params of
                         Inl e \<Rightarrow> degraded_result rt (later 1 t) env x (t 0) (Some kind) trace e s
                       | Inr ready_params \<Rightarrow>
                           (case in_transaction
                                   (dispatch_first rt (later 50 t) env x (t 0) kind child_input ready_params trace) s of
                              (Inl e, s') \<Rightarrow> degraded_result rt (later 1 t) env x (t 0) (Some kind) trace e s'
                            | (Inr child, s') \<Rightarrow>
                                (let payload = started_payload x child kind provider
                                 in (Inr \<lparr>xr_status = ''completed'', xr_answer = oe_indented env payload,
                                          xr_meta = payload\<rparr>, s')))))"

section \<open>Submitting a question\<close>

text \<open>\<open>_sanitize_token\<close>: a run of characters outside \<open>A-Za-z0-9._~-\<close> becomes one hyphen.\<close>

definition token_char :: "char \<Rightarrow> bool" where
  "token_char c \<longleftrightarrow> c \<in> set ''ABCDEFGHIJKLMNOPQRSTUVWXYZabcdefghijklmnopqrstuvwxyz0123456789._~-''"

fun hyphenate :: "bool \<Rightarrow> string \<Rightarrow> string" where
  "hyphenate inside [] = []"
| "hyphenate inside (c # cs) =
     (if token_char c then c # hyphenate False cs
      else if inside then hyphenate True cs else CHR ''-'' # hyphenate True cs)"

definition sanitize_token :: "string \<Rightarrow> string \<Rightarrow> string" where
  "sanitize_token raw fallback =
     (let outer = (\<lambda>c. c \<in> set ''.-_~'');
          body = hyphenate False (text_or (strip raw) fallback)
      in text_or (rev (dropWhile outer (rev (dropWhile outer body)))) fallback)"

text \<open>The body of the request, with the plan's route and question and the normalised options.\<close>

record advice =
  av_request :: string
  av_mode :: json
  av_threshold :: json
  av_crosscheck :: bool
  av_retries :: json
  av_route :: string
  av_raw_question :: string
  av_question :: string
  av_context :: "(string \<times> json) list"
  av_options :: json
  av_requested_by :: json

definition bad_option :: "string \<Rightarrow> string \<Rightarrow> http_error" where
  "bad_option err detail = HTTPException 400 (JObj [(''error'', JStr err), (''detail'', JStr detail)])"

definition normalize_quality_threshold :: "string \<Rightarrow> json \<Rightarrow> http_error + int" where
  "normalize_quality_threshold mode v =
     (if v = JNull then Inr (default_threshold mode)
      else case py_int v of
             None \<Rightarrow> Inl (bad_option ''invalid_quality_threshold'' ''quality_threshold must be an integer'')
           | Some n \<Rightarrow>
               if n < 0 \<or> 100 < n
               then Inl (bad_option ''invalid_quality_threshold'' ''quality_threshold must be in [0, 100]'')
               else Inr n)"

definition normalize_max_retries :: "json \<Rightarrow> http_error + int" where
  "normalize_max_retries v =
     (case (if v = JNull then Some 0 else py_int v) of
        None \<Rightarrow> Inl (bad_option ''invalid_max_retries'' ''max_retries must be an integer'')
      | Some n \<Rightarrow>
          if n < 0 \<or> 20 < n then Inl (bad_option ''invalid_max_retries'' ''max_retries must be in [0, 20]'')
          else Inr n)"

text \<open>The run of a request: the digest of its identifier, or a new one.\<close>

definition run_id_for_request_id :: "runtime \<Rightarrow> string \<Rightarrow> string \<Rightarrow> string" where
  "run_id_for_request_id rt fresh request_id =
     (let raw = strip request_id in if raw = '''' then fresh else take 32 (rt_sha256 rt raw))"

definition build_orchestrate_params :: "string \<Rightarrow> int \<Rightarrow> int \<Rightarrow> advice \<Rightarrow> json" where
  "build_orchestrate_params mode threshold retries a = JObj
     ([(''mode'', JStr mode), (''quality_threshold'', JInt threshold), (''crosscheck'', JBool (av_crosscheck a)),
       (''max_retries'', JInt retries)]
      @ given_params
          [''preset'', ''timeout_seconds'', ''send_timeout_seconds'', ''wait_timeout_seconds'', ''max_wait_seconds'',
           ''min_chars'', ''poll_seconds'', ''answer_format'', ''agent_mode'', ''dry_run'', ''openclaw_mcp_url'',
           ''openclaw_agent_id'', ''openclaw_model'', ''openclaw_thinking'', ''openclaw_session_key'',
           ''openclaw_timeout_seconds'', ''openclaw_session_timeout_seconds'', ''openclaw_required'',
           ''openclaw_cleanup'', ''openclaw_allow_a2a''] (av_options a))"

text \<open>The run before the job is created. Clock: 0 the new run, 1 and 2 its events, or 0 and 1 the row.\<close>

definition submit_run :: "clock \<Rightarrow> string \<Rightarrow> string \<Rightarrow> int \<Rightarrow> int \<Rightarrow> advice \<Rightarrow> advisor_db \<Rightarrow> advisor_db" where
  "submit_run t i mode threshold retries a db =
     (case get_run i db of
        None \<Rightarrow>
          write_run_json i ''request.json''
            (JObj [(''run_id'', JStr i), (''request_id'', JStr (av_request a)),
                   (''raw_question'', JStr (av_raw_question a)), (''execution_question'', JStr (av_question a)),
                   (''context'', JObj (av_context a)), (''mode'', JStr mode), (''quality_threshold'', JInt threshold),
                   (''crosscheck'', JBool (av_crosscheck a)), (''max_retries'', JInt retries),
                   (''route'', JStr (av_route a))])
          (append_run_event (t 2) i ''run.planned''
            (no_args\<lparr>ea_payload := [(''route'', JStr (av_route a)), (''quality_threshold'', JInt threshold),
                                     (''crosscheck'', JBool (av_crosscheck a)), (''max_retries'', JInt retries)]\<rparr>)
          (append_run_event (t 1) i ''run.created''
            (no_args\<lparr>ea_payload := [(''run_id'', JStr i), (''request_id'', JStr (av_request a)), (''mode'', JStr mode)]\<rparr>)
          (snd (create_run (t 0)
             \<lparr>nw_id = i, nw_request = Some (av_request a), nw_mode = mode, nw_status = PLAN_COMPILED,
              nw_route = Some (av_route a), nw_raw_question = av_raw_question a, nw_question = av_question a,
              nw_context = JObj (av_context a), nw_threshold = Some threshold, nw_crosscheck = av_crosscheck a,
              nw_max_retries = retries, nw_orchestrate_job = None, nw_final_job = None, nw_degraded = False\<rparr> db))))
      | Some _ \<Rightarrow>
          snd (update_run t i
            (no_update\<lparr>ru_mode := Some mode, ru_route := Some (av_route a), ru_question := Some (av_question a),
                       ru_threshold := Some threshold, ru_crosscheck := Some (av_crosscheck a),
                       ru_max_retries := Some retries\<rparr>) db))"

definition orchestrate_request ::
    "runtime \<Rightarrow> orch_env \<Rightarrow> string \<Rightarrow> string \<Rightarrow> int \<Rightarrow> int \<Rightarrow> advice \<Rightarrow> request" where
  "orchestrate_request rt env i mode threshold retries a =
     \<lparr>rq_key = sanitize_token (''advisor-orch-'' @ av_request a) (''advisor-orch-'' @ oe_spare_lease env),
      rq_kind = ''advisor.orchestrate'',
      rq_input = JObj [(''run_id'', JStr i), (''request_id'', JStr (av_request a)), (''route'', JStr (av_route a)),
                       (''raw_question'', JStr (av_raw_question a)), (''question'', JStr (av_question a)),
                       (''context'', JObj (av_context a))],
      rq_params = build_orchestrate_params mode threshold retries a, rq_max_attempts = max 1 (oe_max_attempts env),
      rq_parent = None,
      rq_client = Some (JObj [(''name'', JStr (sanitize_token
         (str_or (rt_repr rt) (jget ''client_name'' (av_options a)) '''') ''chatgpt_advisor_api''))]),
      rq_requested_by = Some (av_requested_by a), rq_allow_queue = False, rq_single_flight = True,
      rq_request_error = oe_request_error env, rq_log_ok = oe_log_ok env\<rparr>"

definition submit_rows ::
    "runtime \<Rightarrow> clock \<Rightarrow> orch_env \<Rightarrow> string \<Rightarrow> string \<Rightarrow> int \<Rightarrow> int \<Rightarrow> advice \<Rightarrow> orch_state
     \<Rightarrow> (job, orch_state) outcome" where
  "submit_rows rt t env i mode threshold retries a s =
     (let db = submit_run t i mode threshold retries a (os_adv s)
      in case create_job rt (later 10 t) (oe_job_id env) (orchestrate_request rt env i mode threshold retries a)
                (os_world s) of
           (Inl e, w) \<Rightarrow> (Inl e, \<lparr>os_adv = db, os_world = w\<rparr>)
         | (Inr j, w) \<Rightarrow>
             (Inr j, \<lparr>os_adv = snd (update_run (later 4 t) i
                                 (no_update\<lparr>ru_orchestrate_job := Some (j_id j)\<rparr>) db), os_world = w\<rparr>))"

definition submit_error :: "int \<Rightarrow> exn \<Rightarrow> http_error option" where
  "submit_error retry_after_seconds e =
     map_option (\<lambda>(ty, msg).
       let head = (\<lambda>err. [(''error'', JStr err), (''error_type'', JStr ty), (''reason'', JStr msg)])
       in case e of
            ConversationBusy _ active _ _ _ \<Rightarrow>
              HTTPException 409 (JObj (head ''conversation_busy'' @ [(''active_job_id'', JStr active),
                (''retry_after_seconds'', JInt retry_after_seconds)]))
          | IdempotencyCollision k existing _ _ \<Rightarrow>
              HTTPException 409 (JObj (head ''idempotency_collision'' @ [(''idempotency_key'', JStr k),
                (''existing_job_id'', JStr existing)]))
          | _ \<Rightarrow> HTTPException 400 (JObj (head ''invalid_orchestrate_payload''))) (caught e)"

definition submit_reply :: "clock \<Rightarrow> string \<Rightarrow> job \<Rightarrow> json" where
  "submit_reply t i j =
     (let cooling = (j_status j = COOLDOWN);
          job = [(''provider'', JStr ''advisor_orchestrate''), (''fallback_action'', JStr ''none''),
                 (''run_id'', JStr i), (''orchestrate_job_id'', JStr (j_id j)), (''job_id'', JStr (j_id j)),
                 (''phase'', JStr (phase_value (j_phase j))), (''job_status'', JStr (status_value (j_status j))),
                 (''retry_after_seconds'', jopt_int (retry_after t j)), (''degraded'', JBool False)]
      in JObj (if cooling
               then [(''ok'', JBool False), (''status'', JStr ''cooldown''),
                     (''action_hint'', JStr ''retry_after_cooldown''),
                     (''reason'', JStr (text_or (or_empty (j_last_error j)) ''cooldown''))] @ job
               else [(''ok'', JBool True), (''status'', JStr ''job_created''),
                     (''action_hint'', JStr ''wait_for_job_completion'')] @ job))"

text \<open>The reply, the error the route turns an exception into, or the exception itself. Clock: 0 and 1 the
  reply, from 2 on the rows.\<close>

datatype submit_result = Replied json | Refused http_error | Crashed exn

definition submit_advisor_orchestrate_job ::
    "runtime \<Rightarrow> clock \<Rightarrow> orch_env \<Rightarrow> int \<Rightarrow> advice \<Rightarrow> orch_state \<Rightarrow> submit_result \<times> orch_state" where
  "submit_advisor_orchestrate_job rt t env min_interval a s =
     (let i = run_id_for_request_id rt (oe_lease_id env) (av_request a);
          mode = norm_mode (str_or (rt_repr rt) (av_mode a) '''')
      in case normalize_quality_threshold mode (av_threshold a) of
           Inl h \<Rightarrow> (Refused h, s)
         | Inr threshold \<Rightarrow>
             (case normalize_max_retries (av_retries a) of
                Inl h \<Rightarrow> (Refused h, s)
              | Inr retries \<Rightarrow>
                  (case in_transaction (submit_rows rt (later 2 t) env i mode threshold retries a) s of
                     (Inl e, s') \<Rightarrow>
                       ((case submit_error (max 5 (if min_interval = 0 then 30 else min_interval)) e of
                           None \<Rightarrow> Crashed e | Some h \<Rightarrow> Refused h), s')
                   | (Inr j, s') \<Rightarrow> (Replied (submit_reply t i j), s'))))"

end
