(* ===== verification/RunLog.thy ===== *)
theory RunLog
  imports Orchestrate "HOL-Library.Sublist"
begin

text \<open>
  The log of the runs. Every call of \<open>RunReconcile\<close> and \<open>Orchestrate\<close> appends to it and
  changes nothing of what it holds; what it appends is numbered on and typed, so that the readers of
  the log, which would raise on an event that is not, never do.
\<close>

section \<open>The readers see the whole log\<close>

lemma collect_events_after:
  "log_numbered db \<Longrightarrow> 0 \<le> a \<Longrightarrow> collect_events i a db = run_log.after i a db"
proof (induction i a db rule: collect_events.induct)
  case (1 i a db)
  obtain rows b where page: "list_run_events i a 1000 db = (rows, b)" by fastforce
  show ?case
  proof (cases "rows = []")
    case True
    with page 1 show ?thesis
      by (subst collect_events.simps) (simp add: run_log.empty_page [of a 1000 i db b])
  next
    case False
    note split = run_log.page_after_page [OF 1(2,3) _ _ page False]
    show ?thesis
    proof (cases "length rows < 1000")
      case True
      with page 1 False show ?thesis
        by (subst collect_events.simps) (simp add: run_log.last_page [of a 1000 i db rows b])
    next
      case more: False
      have "collect_events i b db = run_log.after i b db"
        using 1 split(2) page False more by simp
      then show ?thesis
        using page False more split by (subst collect_events.simps) simp
    qed
  qed
qed

lemma collect_events_all: "log_numbered db \<Longrightarrow> collect_events i 0 db = events_of i db"
  by (simp add: collect_events_after events_after_0)

lemma seen_in_append:
  "seen_in ty k n (xs @ ys) = (case seen_in ty k n xs of Some False \<Rightarrow> seen_in ty k n ys | r \<Rightarrow> r)"
  by (induction xs) (auto split: option.splits)

lemma seen_after_after:
  "log_numbered db \<Longrightarrow> 0 \<le> a \<Longrightarrow> seen_after i ty k n a db = seen_in ty k n (run_log.after i a db)"
proof (induction i ty k n a db rule: seen_after.induct)
  case (1 i ty k n a db)
  obtain rows b where page: "list_run_events i a 500 db = (rows, b)" by fastforce
  show ?case
  proof (cases "rows = []")
    case True
    with page 1 show ?thesis
      by (subst seen_after.simps) (simp add: run_log.empty_page [of a 500 i db b])
  next
    case False
    note split = run_log.page_after_page [OF 1(2,3) _ _ page False]
    show ?thesis
    proof (cases "length rows < 500")
      case True
      with page 1 False show ?thesis
        by (subst seen_after.simps) (simp add: run_log.last_page [of a 500 i db rows b] split: option.splits bool.splits)
    next
      case more: False
      have "seen_in ty k n rows = Some False \<Longrightarrow>
          seen_after i ty k n b db = seen_in ty k n (run_log.after i b db)"
        using 1 split(2) page False more by simp
      then show ?thesis
        using page False more split
        by (subst seen_after.simps) (simp add: seen_in_append split: option.splits bool.splits)
    qed
  qed
qed

lemma readers_of_log:
  assumes "log_numbered db"
  shows "collect_events i 0 db = events_of i db"
    and "seen_after i ty k n 0 db = seen_in ty k n (events_of i db)"
  using assms by (simp_all add: collect_events_all seen_after_after events_after_0)

section \<open>Typed events\<close>

definition typed_fields :: "(string \<Rightarrow> json option) \<Rightarrow> bool" where
  "typed_fields d \<longleftrightarrow>
     (case d ''attempt'' of None \<Rightarrow> True | Some v \<Rightarrow> v = JNull \<or> (\<exists>n. v = JInt n)) \<and>
     (case d ''lease_expires_at'' of None \<Rightarrow> True | Some v \<Rightarrow> v = JNull \<or> (\<exists>x. v = JReal x))"

lemma typed_fields_simps [simp]:
  "typed_fields Map.empty"
  "k \<noteq> ''attempt'' \<Longrightarrow> k \<noteq> ''lease_expires_at'' \<Longrightarrow> typed_fields (m(k \<mapsto> v)) = typed_fields m"
  "k \<noteq> ''attempt'' \<Longrightarrow> k \<noteq> ''lease_expires_at'' \<Longrightarrow> typed_fields ([k \<mapsto> v] ++ m) = typed_fields m"
  "typed_fields m \<Longrightarrow> typed_fields (m(''attempt'' \<mapsto> JInt n))"
  "typed_fields m \<Longrightarrow> typed_fields (m(''lease_expires_at'' \<mapsto> JReal x))"
  by (auto simp: typed_fields_def map_add_def split: option.splits)

definition typed_event :: "advisor_event \<Rightarrow> bool" where
  "typed_event e \<longleftrightarrow> typed_fields (map_of (dict_of (ae_payload e))) \<and> strip (ae_type e) = ae_type e"

lemma event_types [simp]:
  "strip ''run.created'' = ''run.created''" "strip ''run.planned'' = ''run.planned''"
  "strip ''run.completed'' = ''run.completed''" "strip ''run.degraded'' = ''run.degraded''"
  "strip ''run.taken_over'' = ''run.taken_over''" "strip ''step.dispatched'' = ''step.dispatched''"
  "strip ''step.started'' = ''step.started''" "strip ''step.heartbeat'' = ''step.heartbeat''"
  "strip ''step.succeeded'' = ''step.succeeded''" "strip ''step.failed'' = ''step.failed''"
  "strip ''step.compensated'' = ''step.compensated''" "strip ''gate.passed'' = ''gate.passed''"
  "strip ''gate.failed'' = ''gate.failed''"
  by (simp_all add: strip_def py_space_def space_chars_def)

definition typed_log :: "advisor_db \<Rightarrow> bool" where
  "typed_log db \<longleftrightarrow> log_numbered db \<and> (\<forall>e \<in> set (a_events db). typed_event e)"

lemma map_of_set_default:
  "map_of (set_default k v d) x = (case map_of d x of None \<Rightarrow> if x = k then Some v else None | Some y \<Rightarrow> Some y)"
  by (auto simp: set_default_def map_add_def split: option.splits)

lemma event_payload_fields:
  "map_of (event_payload i ts a) ''attempt'' =
     Some (case map_of (ea_payload a) ''attempt'' of None \<Rightarrow> jopt_int (ea_attempt a) | Some v \<Rightarrow> v)"
  "map_of (event_payload i ts a) ''lease_expires_at'' = map_of (ea_payload a) ''lease_expires_at''"
  by (simp_all add: event_payload_def map_of_set_default split: option.splits)

lemma typed_event_payload:
  "typed_fields (map_of (ea_payload a)) \<Longrightarrow> typed_fields (map_of (event_payload i ts a))"
  by (auto simp: typed_fields_def event_payload_fields jopt_int_def split: option.splits)

section \<open>Appending\<close>

lemma typed_log_append:
  assumes "typed_fields (map_of (ea_payload a))" and "strip ty = ty" and "typed_log db"
  shows "typed_log (append_run_event now i ty a db)"
proof -
  have "log_numbered (append_run_event now i ty a db)"
    using assms(3) by (simp add: typed_log_def log_numbered_def append_run_event_def upto_rec2)
  moreover have "typed_event e" if "e \<in> set (a_events (append_run_event now i ty a db))" for e
    using that assms by (auto simp: append_run_event_def typed_log_def typed_event_def dict_of_def typed_event_payload)
  ultimately show ?thesis by (simp add: typed_log_def)
qed

lemma typed_log_same: "a_events db = a_events db' \<Longrightarrow> typed_log db = typed_log db'"
  by (simp add: typed_log_def log_numbered_def)

lemma typed_log_update [simp]: "typed_log (snd (update_run t i u db)) = typed_log db"
  by (rule typed_log_same) (simp add: advisor_simps)

lemma typed_log_if_new:
  "typed_fields (map_of (ea_payload a)) \<Longrightarrow> strip ty = ty \<Longrightarrow> typed_log db \<Longrightarrow> typed_log (append_if_new now i ty a db)"
  by (simp add: append_if_new_def typed_log_append)

lemma prefix_append_run_event: "prefix es (a_events db) \<Longrightarrow> prefix es (a_events (append_run_event now i ty a db))"
  by (simp add: append_run_event_def)

text \<open>A completed run is vouched for by the log: the log says that it completed, and before that
  that its gates passed.\<close>

definition vouched :: "advisor_db \<Rightarrow> bool" where
  "vouched db \<longleftrightarrow>
     (\<forall>i. has_event i ''run.completed'' None db \<longrightarrow> has_event i ''gate.passed'' None db) \<and>
     (\<forall>i r. get_run i db = Some r \<longrightarrow> rn_status r = RUN_COMPLETED \<longrightarrow> has_event i ''run.completed'' None db)"

lemma no_update_status [simp]: "ru_status no_update = None"
  by (simp add: no_update_def)

lemma has_event_append:
  "has_event j ty' None (append_run_event now i ty a db) \<longleftrightarrow> has_event j ty' None db \<or> (j = i \<and> ty' = ty)"
  by (auto simp: has_event_def append_run_event_def)

lemma has_event_same: "a_events db = a_events db' \<Longrightarrow> has_event i ty k db = has_event i ty k db'"
  by (simp add: has_event_def)

lemma vouched_same: "a_events db = a_events db' \<Longrightarrow> a_runs db = a_runs db' \<Longrightarrow> vouched db = vouched db'"
  using has_event_same [of db db'] get_run_same_runs [of db db'] by (simp add: vouched_def)

definition appends :: "advisor_db \<Rightarrow> advisor_db \<Rightarrow> bool" where
  "appends db db' \<longleftrightarrow> prefix (a_events db) (a_events db') \<and> (typed_log db \<longrightarrow> typed_log db')
     \<and> (typed_log db \<and> vouched db \<longrightarrow> vouched db')"

lemma appends_refl [simp]: "appends db db"
  by (simp add: appends_def)

lemma appends_trans: "appends db1 db2 \<Longrightarrow> appends db2 db3 \<Longrightarrow> appends db1 db3"
  by (auto simp: appends_def)

lemma appends_same:
  assumes "a_events db' = a_events db2" and "a_runs db' = a_runs db2" and "appends db db2"
  shows "appends db db'"
  using assms has_event_same [OF assms(1)] get_run_same_runs [OF assms(2)]
  by (simp add: appends_def typed_log_def log_numbered_def vouched_def)

lemma appends_event:
  assumes "typed_fields (map_of (ea_payload a))" and "strip ty = ty" and "ty \<noteq> ''run.completed''" and "appends db db'"
  shows "appends db (append_run_event now i ty a db')"
proof -
  have "typed_log db' \<Longrightarrow> typed_log (append_run_event now i ty a db')"
    by (rule typed_log_append [OF assms(1,2)])
  moreover have "vouched db' \<Longrightarrow> vouched (append_run_event now i ty a db')"
    using assms(3) by (auto simp: vouched_def has_event_append advisor_simps)
  ultimately show ?thesis
    using assms(4) by (auto simp: appends_def prefix_append_run_event)
qed

lemma appends_update:
  assumes "ru_status u = Some RUN_COMPLETED \<longrightarrow> has_event i ''run.completed'' None db'" and "appends db db'"
  shows "appends db (snd (update_run t i u db'))"
proof -
  have same: "has_event j ty k (snd (update_run t i u db')) = has_event j ty k db'" for j ty k
    by (rule has_event_same) (simp add: advisor_simps)
  have "vouched db' \<Longrightarrow> vouched (snd (update_run t i u db'))"
    using assms(1)
    by (cases "ru_status u") (auto simp: vouched_def same get_run_update_run split: if_splits)
  then show ?thesis
    using assms(2) by (simp add: appends_def typed_log_def log_numbered_def advisor_simps)
qed

lemma appends_create:
  assumes "nw_status n \<noteq> RUN_COMPLETED" and "appends db db'"
  shows "appends db (snd (create_run now n db'))"
proof -
  have same: "has_event j ty k (snd (create_run now n db')) = has_event j ty k db'" for j ty k
    by (rule has_event_same) (simp add: advisor_simps)
  have "get_run j db' = Some r"
    if "get_run j (snd (create_run now n db')) = Some r" "rn_status r = RUN_COMPLETED" for j r
    using that assms(1) by (auto simp: create_run_def Let_def get_run_def row_get_append split: if_splits option.splits)
  then have "vouched db' \<Longrightarrow> vouched (snd (create_run now n db'))"
    by (auto simp: vouched_def same)
  then show ?thesis
    using assms(2) by (simp add: appends_def typed_log_def log_numbered_def advisor_simps)
qed

lemma appends_other:
  "appends db db' \<Longrightarrow> appends db (upsert_step now i k sa db')"
  "appends db db' \<Longrightarrow> appends db (upsert_lease now l i k la db')"
  "appends db db' \<Longrightarrow> appends db (write_run_json i name v db')"
  "appends db db' \<Longrightarrow> appends db (write_snapshot_json now i r ss v' db')"
  "appends db db' \<Longrightarrow> appends db (requeue_step now ls st db')"
  "appends db db' \<Longrightarrow> appends db (settle_step t env i st status attempt fj output path db')"
  "appends db db' \<Longrightarrow> appends db (db'\<lparr>a_leases := x\<rparr>)"
  "appends db db' \<Longrightarrow> appends db (db'\<lparr>a_files := f\<rparr>)"
  by (erule appends_same [rotated 2], simp_all add: advisor_simps settle_step_def)+

lemmas appends_tables = appends_update appends_create appends_other

lemma appends_if_new:
  "typed_fields (map_of (ea_payload a)) \<Longrightarrow> strip ty = ty \<Longrightarrow> ty \<noteq> ''run.completed'' \<Longrightarrow> appends db db' \<Longrightarrow>
     appends db (append_if_new now i ty a db')"
  by (simp add: append_if_new_def appends_event)

lemma appends_once:
  "append_once now i ty k n a db' = Some db'' \<Longrightarrow> typed_fields (map_of (ea_payload a)) \<Longrightarrow> appends db db' \<Longrightarrow>
     strip ty = ty \<Longrightarrow> ty \<noteq> ''run.completed'' \<Longrightarrow> appends db db''"
  by (auto simp: append_once_def appends_event split: option.splits bool.splits)

text \<open>Completion is logged when a passed gate is.\<close>

lemma appends_completion:
  assumes "typed_fields (map_of (ea_payload a))" and "has_event i ''gate.passed'' None db'" and "appends db db'"
  shows "appends db (append_if_new now i ''run.completed'' a db')"
    and "has_event i ''run.completed'' None (append_if_new now i ''run.completed'' a db')"
proof -
  have "typed_log db' \<Longrightarrow> typed_log (append_run_event now i ''run.completed'' a db')"
    by (rule typed_log_append [OF assms(1)]) simp
  moreover have "vouched db' \<Longrightarrow> vouched (append_run_event now i ''run.completed'' a db')"
    using assms(2) by (auto simp: vouched_def has_event_append advisor_simps)
  ultimately show "appends db (append_if_new now i ''run.completed'' a db')"
    using assms(3) by (auto simp: appends_def append_if_new_def prefix_append_run_event)
  show "has_event i ''run.completed'' None (append_if_new now i ''run.completed'' a db')"
    by (auto simp: append_if_new_def has_event_append)
qed

lemma has_event_prefix: "has_event i ty None db \<Longrightarrow> appends db db' \<Longrightarrow> has_event i ty None db'"
  by (auto simp: has_event_def appends_def prefix_def)

lemma seen_in_mem: "seen_in ty k n es = Some True \<Longrightarrow> \<exists>e \<in> set es. ae_type e = ty"
  by (induction ty k n es rule: seen_in.induct) (auto split: if_splits option.splits)

lemma seen_after_mem: "seen_after i ty k n a db = Some True \<Longrightarrow> has_event i ty None db"
proof (induction i ty k n a db rule: seen_after.induct)
  case (1 i ty k n a db)
  obtain rows b where page: "list_run_events i a 500 db = (rows, b)" by fastforce
  then have "set rows \<subseteq> {e \<in> set (a_events db). ae_run e = i}"
    by (auto simp: list_run_events_def Let_def dest: in_set_takeD)
  then have here: "has_event i ty None db" if "seen_in ty k n rows = Some True"
    using seen_in_mem [OF that] by (auto simp: has_event_def)
  show ?case
  proof (cases "seen_in ty k n rows = Some True")
    case False
    with 1(2) page have "seen_in ty k n rows = Some False" "rows \<noteq> []" "\<not> (b \<le> a \<or> length rows < 500)"
        "seen_after i ty k n b db = Some True"
      by (subst (asm) seen_after.simps, auto split: if_splits option.splits bool.splits)+
    then show ?thesis using 1(1) page by simp
  qed (rule here)
qed

lemma append_once_logs: "append_once now i ty k n a db = Some db' \<Longrightarrow> has_event i ty None db'"
  by (auto simp: append_once_def has_event_append dest: seen_after_mem split: option.splits bool.splits)

lemmas appends_intros = appends_event appends_tables appends_if_new appends_once

section \<open>Every operation appends\<close>

lemma reclaim_lease_appends: "appends db db' \<Longrightarrow> appends db (reclaim_lease now t l db')"
  unfolding reclaim_lease_def Let_def
  by (intro appends_event) (auto simp: no_args_def intro: appends_intros split: option.split)

lemma reclaim_leases_appends: "appends db db' \<Longrightarrow> appends db (reclaim_leases now t ls db')"
  by (induction ls arbitrary: t db') (simp_all add: reclaim_lease_appends)

lemma persist_steps_events: "a_events (persist_steps t i ss db) = a_events db"
  by (induction t i ss db rule: persist_steps.induct) (simp_all add: advisor_simps)

lemma replay_run_events: "a_events (snd (replay_run rt t i persist db)) = a_events db"
  by (simp add: replay_run_def Let_def persist_snapshot_def persist_steps_events advisor_simps split: option.split)

lemma persist_steps_runs: "a_runs (persist_steps t i ss db) = a_runs db"
  by (induction t i ss db rule: persist_steps.induct) (simp_all add: advisor_simps)

text \<open>A replay that ends completed started completed or met a completion.\<close>

lemma replay_event_completes:
  assumes "replay_event rt now e st = Some st'" and "rp_status st' = RUN_COMPLETED"
  shows "rp_status st = RUN_COMPLETED \<or> strip (ae_type e) = ''run.completed''"
proof (rule ccontr)
  assume no: "\<not> ?thesis"
  obtain ts n st1 where st1: "replay_steps rt e ts n st = Some st1" "st' = replay_run_part rt e ts st1"
    using assms(1) by (auto simp: replay_event_def Let_def split: option.splits)
  have "rp_status st1 \<noteq> RUN_COMPLETED"
    using st1(1) no by (auto simp: replay_steps_def Let_def split: if_splits option.splits)
  moreover have "run_status_after (strip (ae_type e)) \<noteq> Some RUN_COMPLETED"
    using no by (auto simp: run_status_after_def split: if_splits)
  ultimately show False
    using st1(2) assms(2) by (auto simp: replay_run_part_def Let_def split: option.splits if_splits)
qed

lemma replay_events_complete:
  "replay_events rt t es st = Some st' \<Longrightarrow> rp_status st' = RUN_COMPLETED \<Longrightarrow>
     rp_status st = RUN_COMPLETED \<or> (\<exists>e \<in> set es. strip (ae_type e) = ''run.completed'')"
  by (induction rt t es st rule: replay_events.induct)
     (auto dest: replay_event_completes split: option.splits)

lemma replay_run_appends: "appends db (snd (replay_run rt t i persist db))"
proof -
  let ?db' = "snd (replay_run rt t i persist db)"
  have events: "a_events ?db' = a_events db" by (rule replay_run_events)
  have "vouched ?db'" if log: "typed_log db" and db: "vouched db"
  proof (cases "get_run i db")
    case None
    then show ?thesis using db by (simp add: replay_run_def)
  next
    case (Some r)
    have numbered: "log_numbered db" using log by (simp add: typed_log_def)
    show ?thesis
    proof (cases "replay_events rt t (events_of i db) (replay_start r)")
      case None
      then show ?thesis using db Some by (simp add: replay_run_def collect_events_all [OF numbered])
    next
      case st: (Some st)
      have "has_event i ''run.completed'' None db" if "rp_status st = RUN_COMPLETED"
        using replay_events_complete [OF st that]
      proof
        assume "rp_status (replay_start r) = RUN_COMPLETED"
        then show ?thesis using db Some by (simp add: replay_start_def vouched_def)
      next
        assume "\<exists>e \<in> set (events_of i db). strip (ae_type e) = ''run.completed''"
        then show ?thesis using log by (auto simp: has_event_def events_of_def typed_log_def typed_event_def)
      qed
      then have "vouched (persist_snapshot u i sn db)" if "sn_status sn = rp_status st" for u sn
        unfolding persist_snapshot_def
        using that appends_update [OF _ appends_refl, of _ i db] log db
        by (intro vouched_same [OF persist_steps_events persist_steps_runs, THEN iffD2]) (simp add: appends_def)
      then show ?thesis
        using db by (simp add: replay_run_def Some st collect_events_all [OF numbered] snapshot_of_def Let_def)
    qed
  qed
  then show ?thesis using events by (simp add: appends_def typed_log_def log_numbered_def)
qed

lemma finish_reconcile_appends:
  "appends db (os_adv s) \<Longrightarrow> appends db (os_adv (snd (finish_reconcile rt t i r s)))"
  by (auto simp: finish_reconcile_def on_adv_def intro: appends_intros split: prod.split sum.split)

lemma record_retry_appends: "appends db db' \<Longrightarrow> appends db (record_retry t env r st a key kind child db')"
  unfolding record_retry_def Let_def
  by (intro appends_event appends_tables) (auto simp: no_args_def)

lemma dispatch_retry_appends:
  "appends db (os_adv s) \<Longrightarrow> appends db (os_adv (snd (dispatch_retry_step rt t env r st a s)))"
  by (auto simp: dispatch_retry_step_def Let_def record_retry_appends split: prod.split sum.split)

lemma degrade_run_appends:
  assumes "appends db (os_adv s)" and "typed_fields (map_of payload)"
  shows "appends db (os_adv (snd (degrade_run rt t r payload ty msg s)))"
  unfolding degrade_run_def Let_def case_prod_beta
  by (rule finish_reconcile_appends)
     (auto simp: no_args_def intro!: appends_tables appends_if_new assms)

lemma step_event_fields:
  "typed_fields (map_of payload) \<Longrightarrow> typed_fields (map_of (ea_payload (step_event n path payload)))"
  by (simp add: step_event_def no_args_def)

lemma complete_run_appends:
  assumes "appends db (os_adv s)" and "has_event (rn_id r) ''gate.passed'' None (os_adv s)"
  shows "appends db (os_adv (snd (complete_run rt t env r st n fj path g s)))"
proof -
  let ?db1 = "settle_step t env (rn_id r) st STEP_SUCCEEDED n fj
      (JObj [(''job_id'', JStr fj), (''status'', JStr (status_value COMPLETED)), (''gates'', gate_json g)]) path (os_adv s)"
  let ?args = "step_event n path [(''job_id'', JStr fj)]"
  have db1: "appends db ?db1" "appends (os_adv s) ?db1" by (intro appends_tables assms, intro appends_tables appends_refl)
  show ?thesis
  proof (cases "append_once (t 2) (rn_id r) ''step.succeeded'' ''ask_primary'' n ?args ?db1")
    case None
    then show ?thesis using db1 unfolding complete_run_def Let_def by simp
  next
    case (Some db2)
    have fields: "typed_fields (map_of (ea_payload ?args))" by (rule step_event_fields) simp
    have db2: "appends x db2" if "appends x ?db1" for x
      by (rule appends_once [OF Some fields that]) simp_all
    have passed: "has_event (rn_id r) ''gate.passed'' None db2"
      by (rule has_event_prefix [OF assms(2) db2 [OF db1(2)]])
    show ?thesis
      unfolding complete_run_def Let_def case_prod_beta Some option.case
      by (intro finish_reconcile_appends)
         (auto simp: no_args_def intro!: appends_update appends_completion db2 [OF db1(1)] passed)
  qed
qed

lemma retry_or_degrade_appends:
  assumes "appends db (os_adv s)"
  shows "appends db (os_adv (snd (retry_or_degrade rt t env r st n fj path g s)))"
proof -
  let ?remaining = "max 0 (max 0 (rn_max_retries r) - (n - 1))"
  let ?s1 = "s\<lparr>os_adv := snd (update_run (later 2 t) (rn_id r)
      (no_update\<lparr>ru_status := Some WAITING_GATES, ru_degraded := Some False\<rparr>)
      (settle_step t env (rn_id r) st RETRY_WAIT n fj
         (JObj [(''job_id'', JStr fj), (''status'', JStr (status_value COMPLETED)), (''gates'', gate_json g),
                (''retries_remaining'', JInt ?remaining)]) path (os_adv s)))\<rparr>"
  have s1: "appends db (os_adv ?s1)" by (auto intro!: appends_tables assms)
  obtain res s2 where dispatch: "dispatch_retry_step rt (later 20 t) env r st (n + 1) ?s1 = (res, s2)" by fastforce
  have s2: "appends db (os_adv s2)" using dispatch_retry_appends [OF s1] dispatch by (metis snd_conv)
  have "appends db (os_adv (on_adv (append_run_event now i ty (step_event n None payload)) s2))"
    if "typed_fields (map_of payload)" "strip ty = ty" "ty \<noteq> ''run.completed''" for now i ty payload
    using that s2 by (auto simp: on_adv_def intro!: appends_event step_event_fields)
  then show ?thesis
    using s1 s2 dispatch unfolding retry_or_degrade_def Let_def
    by (auto split: sum.split option.split intro!: degrade_run_appends finish_reconcile_appends)
qed

lemma judge_answer_appends:
  assumes "appends db (os_adv s)"
  shows "appends db (os_adv (snd (judge_answer rt t env r st n fj path s)))"
proof -
  have fields: "typed_fields (map_of (ea_payload ((step_event n path [(''report'', v)])\<lparr>ea_correlation := c\<rparr>)))" for v c
    by (simp add: step_event_def no_args_def)
  have gated: "appends db db'" "has_event (rn_id r) ty None db'"
    if "append_once now (rn_id r) ty ''ask_primary'' n
          ((step_event n path [(''report'', v)])\<lparr>ea_correlation := c\<rparr>) (os_adv s) = Some db'"
      and "ty \<in> {''gate.passed'', ''gate.failed''}" for now ty v c db'
    using appends_once [OF that(1) fields assms] append_once_logs [OF that(1)] that(2) by auto
  show ?thesis
    unfolding judge_answer_def
    by (auto split: sum.split option.split intro!: complete_run_appends retry_or_degrade_appends
        intro: assms dest: gated)
qed

lemma fail_run_appends:
  assumes "appends db (os_adv s)"
  shows "appends db (os_adv (snd (fail_run rt t env r st n fj path child s)))"
proof -
  let ?what = "[(''job_id'', JStr fj), (''status'', JStr (status_value (j_status child))),
      (''error_type'', JStr (or_empty (j_last_error_type child))), (''error'', JStr (or_empty (j_last_error child)))]"
  have "appends db (settle_step t env (rn_id r) st STEP_FAILED n fj (JObj ?what) path (os_adv s))"
    by (intro appends_tables assms)
  moreover have "typed_fields (map_of (ea_payload (step_event n path ?what)))"
    by (rule step_event_fields) simp
  ultimately show ?thesis
    unfolding fail_run_def Let_def
    by (auto split: option.split intro!: degrade_run_appends dest: appends_once)
qed

lemma reconcile_appends:
  assumes "appends db (os_adv s)"
  shows "appends db (os_adv (snd (reconcile_run_status rt t env i s)))"
proof -
  have "appends db (snd (reclaim_expired_leases (t 0) (later 1 t) (Some i) (os_adv s)))"
    by (simp add: reclaim_expired_leases_def Let_def reclaim_leases_appends assms)
  then show ?thesis
    unfolding reconcile_run_status_def Let_def case_prod_beta
    by (auto split: option.split
        intro!: finish_reconcile_appends judge_answer_appends fail_run_appends assms)
qed

lemma rolled_back_events [simp]:
  "a_events (os_adv (rolled_back s s')) = a_events (os_adv s)" "typed_log (os_adv (rolled_back s s')) = typed_log (os_adv s)"
  by (simp_all add: rolled_back_def typed_log_def log_numbered_def)

lemma rolled_back_appends: "appends (os_adv s) (os_adv (rolled_back s s'))"
  by (rule appends_same [OF _ _ appends_refl]) (simp_all add: rolled_back_def)

lemma transaction_appends:
  assumes "\<And>s. appends (os_adv s) (os_adv (snd (f s)))"
  shows "appends (os_adv s) (os_adv (snd (in_transaction f s)))"
proof -
  obtain res s' where f: "f s = (res, s')" by fastforce
  then have "appends (os_adv s) (os_adv s')" using assms [of s] by simp
  with f show ?thesis by (cases res) (simp_all add: in_transaction_def rolled_back_appends)
qed

lemma reconcile_route_appends: "appends (os_adv s) (os_adv (snd (advisor_run_reconcile rt t env i s)))"
  unfolding advisor_run_reconcile_def
proof (rule transaction_appends)
  fix s
  have "appends (os_adv s) (os_adv (snd (reconcile_run_status rt t env i s)))"
    by (rule reconcile_appends) simp
  then show "appends (os_adv s) (os_adv (snd (case reconcile_run_status rt t env i s of
         (Inl e, s') \<Rightarrow> (Inl e, s')
       | (Inr None, s') \<Rightarrow> (Inr None, rolled_back s s')
       | (Inr (Some r), s') \<Rightarrow> (Inr (Some (r, list_steps i (os_adv s'))), s'))))"
    by (auto simp: rolled_back_appends split: prod.split sum.split option.split)
qed

lemma replay_route_appends: "appends (os_adv s) (os_adv (snd (advisor_run_replay rt t i persist s)))"
  unfolding advisor_run_replay_def
proof (rule transaction_appends)
  fix s
  have "appends (os_adv s) (snd (replay_run rt (later 1 t) i persist (os_adv s)))"
    by (rule replay_run_appends)
  then show "appends (os_adv s) (os_adv (snd (case get_run i (os_adv s) of
         None \<Rightarrow> (Inr None, s)
       | Some r \<Rightarrow>
           (case replay_run rt (later 1 t) i persist (os_adv s) of
              (Inl e, db) \<Rightarrow> (Inl e, s\<lparr>os_adv := db\<rparr>)
            | (Inr sn, db) \<Rightarrow>
                (let r' = updated_or r (get_run i db); steps = list_steps i db
                 in (Inr (Some (r', steps, sn)),
                     s\<lparr>os_adv := write_snapshot_json (t 0) i r' steps (map_option snapshot_json sn) db\<rparr>))))))"
    by (auto simp: Let_def intro: appends_intros split: prod.split sum.split option.split)
qed

lemma record_takeover_appends: "appends db db' \<Longrightarrow> appends db (snd (record_takeover t i actor reason c db'))"
  unfolding record_takeover_def Let_def case_prod_beta snd_conv
  by (intro appends_tables appends_event) (simp_all add: no_args_def)

lemma takeover_route_appends: "appends (os_adv s) (os_adv (snd (advisor_run_takeover rt t i body s)))"
  unfolding advisor_run_takeover_def case_prod_beta Let_def
  by (auto split: sum.split option.split
      intro!: transaction_appends finish_reconcile_appends record_takeover_appends)

lemma prepare_dispatch_appends:
  "appends db db' \<Longrightarrow> appends db (prepare_dispatch rt t env x now key kind input params trace db')"
proof -
  assume "appends db db'"
  then have "appends db (ensure_run t x trace db')"
    by (auto simp: ensure_run_def Let_def no_args_def intro!: appends_event appends_tables split: option.split)
  then show ?thesis
    unfolding prepare_dispatch_def Let_def
    by (auto simp: first_event_def no_args_def intro!: appends_event appends_tables)
qed

lemma record_start_appends:
  "appends db db' \<Longrightarrow> appends db (record_start rt t env x now key kind input params trace child db')"
  unfolding record_start_def Let_def
  by (intro appends_tables appends_event) (simp_all add: first_event_def no_args_def)

lemma record_failed_dispatch_appends:
  "appends db db' \<Longrightarrow> appends db (record_failed_dispatch rt t env x now kind trace ty msg db')"
  unfolding record_failed_dispatch_def Let_def
  by (intro appends_tables appends_event) (simp_all add: no_args_def)

lemma dispatch_first_appends:
  "appends (os_adv s) (os_adv (snd (dispatch_first rt t env x now kind input params trace s)))"
  by (auto simp: dispatch_first_def Let_def intro!: record_start_appends prepare_dispatch_appends
      split: prod.split sum.split)

lemma degraded_result_appends:
  "appends db (os_adv s) \<Longrightarrow> appends db (os_adv (snd (degraded_result rt t env x now kind trace e s)))"
  by (auto simp: degraded_result_def on_adv_def record_failed_dispatch_appends split: option.split)

lemma orchestrate_appends: "appends (os_adv s) (os_adv (snd (orchestrate rt t env oc jid input params s)))"
proof (cases "read_orchestration rt jid input params")
  case (Inl e)
  then show ?thesis by (simp add: orchestrate_def)
next
  case (Inr x)
  obtain kind ci cp provider where child:
    "build_child_job rt (oc_route x) (oc_question x) (oc_params x) = (kind, ci, cp, provider)"
    by (cases "build_child_job rt (oc_route x) (oc_question x) (oc_params x)") auto
  have dispatched: "appends (os_adv s)
      (os_adv (snd (in_transaction (dispatch_first rt (later 50 t) env x (t 0) kind ci ready trace) s)))" for ready trace
    by (rule transaction_appends) (rule dispatch_first_appends)
  show ?thesis
  proof (cases "openclaw_trace (oc_required x) oc")
    case (Inl e)
    then show ?thesis by (simp add: orchestrate_def Inr degraded_result_appends)
  next
    case trace: (Inr trace)
    show ?thesis
    proof (cases "validate_ask_preset kind cp")
      case (Inl e)
      then show ?thesis by (simp add: orchestrate_def Inr trace child degraded_result_appends)
    next
      case ready: (Inr ready)
      obtain res s' where run:
        "in_transaction (dispatch_first rt (later 50 t) env x (t 0) kind ci ready trace) s = (res, s')" by fastforce
      then show ?thesis
        using dispatched [of ready trace]
        by (cases res) (simp_all add: orchestrate_def Inr trace child ready degraded_result_appends Let_def)
    qed
  qed
qed

lemma submit_appends:
  "appends (os_adv s) (os_adv (snd (submit_advisor_orchestrate_job rt t env gap a s)))"
proof -
  have run: "appends db (submit_run u i mode th re a db)" for u i mode th re db
    by (auto simp: submit_run_def no_args_def intro!: appends_event appends_tables split: option.split)
  have "appends (os_adv s) (os_adv (snd (submit_rows rt u env i mode th re a s)))" for u i mode th re s
    by (auto simp: submit_rows_def Let_def run intro!: appends_tables split: prod.split sum.split)
  then have "appends (os_adv s) (os_adv (snd (in_transaction (submit_rows rt u env i mode th re a) s)))"
    for u i mode th re
    by (rule transaction_appends)
  from this show ?thesis
    unfolding submit_advisor_orchestrate_job_def Let_def case_prod_beta
    by (simp split: sum.split)
qed

section \<open>Reachable states\<close>

text \<open>The calls of the advisor's routes and of its executor, and whatever the rest of the system does
  to the job store. Not among them is the controller (\<open>controller/engine.py\<close>): it creates runs in
  the same tables, appends events to them and writes their status, \<open>COMPLETED\<close> included, without
  asking the gates.\<close>

inductive advisor_step :: "runtime \<Rightarrow> orch_state \<Rightarrow> orch_state \<Rightarrow> bool" for rt where
  submits: "advisor_step rt s (snd (submit_advisor_orchestrate_job rt t env gap a s))"
| executes: "advisor_step rt s (snd (orchestrate rt t env oc jid input params s))"
| reconciles: "advisor_step rt s (snd (advisor_run_reconcile rt t env i s))"
| replays: "advisor_step rt s (snd (advisor_run_replay rt t i persist s))"
| takes_over: "advisor_step rt s (snd (advisor_run_takeover rt t i body s))"
| jobs_move: "advisor_step rt s (s\<lparr>os_world := w\<rparr>)"

inductive advisor_reaches :: "runtime \<Rightarrow> orch_state \<Rightarrow> bool" for rt where
  start: "os_adv s = empty_advisor \<Longrightarrow> advisor_reaches rt s"
| step: "advisor_reaches rt s \<Longrightarrow> advisor_step rt s s' \<Longrightarrow> advisor_reaches rt s'"

inductive_cases advisor_stepE: "advisor_step rt s s'"

lemma advisor_step_appends: "advisor_step rt s s' \<Longrightarrow> appends (os_adv s) (os_adv s')"
  by (erule advisor_stepE)
     (simp_all add: submit_appends orchestrate_appends reconcile_route_appends replay_route_appends
        takeover_route_appends)

lemma reaches_typed_log: "advisor_reaches rt s \<Longrightarrow> typed_log (os_adv s)"
proof (induction rule: advisor_reaches.induct)
  case (start s)
  then show ?case by (simp add: typed_log_def log_numbered_def empty_advisor_def)
next
  case (step s s')
  then show ?case using advisor_step_appends by (auto simp: appends_def)
qed

lemma reaches_vouched: "advisor_reaches rt s \<Longrightarrow> vouched (os_adv s)"
proof (induction rule: advisor_reaches.induct)
  case (start s)
  then show ?case by (simp add: vouched_def has_event_def get_run_def empty_advisor_def)
next
  case (step s s')
  then show ?case using advisor_step_appends [OF step(2)] reaches_typed_log [OF step(1)] by (simp add: appends_def)
qed

section \<open>The readers do not raise\<close>

lemma typed_event_reads:
  assumes "typed_event e"
  shows "event_attempt e \<noteq> None" and "new_replay_step rt ts n (ae_payload e) \<noteq> None"
proof -
  have fields: "jget k (ae_payload e) = (case map_of (dict_of (ae_payload e)) k of None \<Rightarrow> JNull | Some v \<Rightarrow> v)" for k
    by (auto simp: jget_def dict_of_def split: json.split)
  show "event_attempt e \<noteq> None"
    using assms by (auto simp: event_attempt_def fields typed_event_def typed_fields_def py_int_def truthy_def
        split: option.splits)
  show "new_replay_step rt ts n (ae_payload e) \<noteq> None"
    using assms by (auto simp: new_replay_step_def Let_def fields typed_event_def typed_fields_def
        float_of_json_def split: option.splits)
qed

lemma replay_event_returns: "typed_event e \<Longrightarrow> replay_event rt now e st \<noteq> None"
proof -
  assume "typed_event e"
  note reads = typed_event_reads [OF this]
  obtain n where n: "event_attempt e = Some n" using reads(1) by auto
  have "replay_steps rt e ts n st \<noteq> None" for ts
    using reads(2) [where rt = rt and ts = ts and n = n]
    by (auto simp: replay_steps_def Let_def split: option.splits)
  then show ?thesis by (simp add: replay_event_def Let_def n)
qed

lemma replay_events_return: "\<forall>e \<in> set es. typed_event e \<Longrightarrow> replay_events rt t es st \<noteq> None"
  by (induction rt t es st rule: replay_events.induct) (auto simp: replay_event_returns split: option.splits)

lemma seen_in_returns: "\<forall>e \<in> set es. typed_event e \<Longrightarrow> seen_in ty k n es \<noteq> None"
  by (induction ty k n es rule: seen_in.induct) (auto dest: typed_event_reads(1) split: option.splits)

lemma typed_log_readers:
  assumes "typed_log db"
  shows "seen_after i ty k n 0 db \<noteq> None" and "\<exists>x. fst (replay_run rt t i persist db) = Inr x"
proof -
  have log: "log_numbered db" "\<forall>e \<in> set (events_of i db). typed_event e"
    using assms by (auto simp: typed_log_def events_of_def)
  show "seen_after i ty k n 0 db \<noteq> None"
    unfolding readers_of_log(2) [OF log(1)] by (rule seen_in_returns [OF log(2)])
  show "\<exists>x. fst (replay_run rt t i persist db) = Inr x"
    unfolding replay_run_def Let_def collect_events_all [OF log(1)]
    by (auto simp: replay_events_return [OF log(2)] split: option.split)
qed

section \<open>What reconciling raises\<close>

lemma typed_append_once: "typed_log db \<Longrightarrow> append_once now i ty k n a db \<noteq> None"
  using typed_log_readers(1) [of db i ty "Some k" n] by (auto simp: append_once_def split: option.splits bool.splits)

lemma appends_typed: "typed_log db \<Longrightarrow> appends db db' \<Longrightarrow> typed_log db'"
  by (simp add: appends_def)

lemma finish_reconcile_returns: "typed_log (os_adv s) \<Longrightarrow> \<exists>x. fst (finish_reconcile rt t i r s) = Inr x"
proof -
  assume "typed_log (os_adv s)"
  then obtain x db where "replay_run rt (later 1 t) i False (os_adv s) = (Inr x, db)"
    using typed_log_readers(2) by (metis prod.collapse)
  then show ?thesis by (simp add: finish_reconcile_def)
qed

lemma degrade_run_returns:
  assumes "typed_log (os_adv s)" and "typed_fields (map_of payload)"
  shows "\<exists>x. fst (degrade_run rt t r payload ty msg s) = Inr x"
  unfolding degrade_run_def Let_def case_prod_beta
  by (rule finish_reconcile_returns, simp,
      rule appends_typed [OF assms(1)], intro appends_tables appends_if_new)
     (simp_all add: no_args_def assms(2))

lemma complete_run_returns:
  assumes "typed_log (os_adv s)"
  shows "\<exists>x. fst (complete_run rt t env r st n fj path g s) = Inr x"
proof -
  let ?db1 = "settle_step t env (rn_id r) st STEP_SUCCEEDED n fj
      (JObj [(''job_id'', JStr fj), (''status'', JStr (status_value COMPLETED)), (''gates'', gate_json g)]) path (os_adv s)"
  let ?args = "step_event n path [(''job_id'', JStr fj)]"
  have db1: "appends (os_adv s) ?db1" by (intro appends_tables) simp
  obtain db2 where db2: "append_once (t 2) (rn_id r) ''step.succeeded'' ''ask_primary'' n ?args ?db1 = Some db2"
    using typed_append_once [OF appends_typed [OF assms db1]] by fastforce
  have "typed_fields (map_of (ea_payload ?args))" by (rule step_event_fields) simp
  then have "typed_log db2" using appends_typed [OF assms appends_once [OF db2 _ db1]] by simp
  then show ?thesis
    unfolding complete_run_def Let_def case_prod_beta db2 option.case
    by (intro finish_reconcile_returns)
       (simp add: no_args_def typed_log_if_new)
qed

text \<open>Of what \<open>create_job\<close> raises, one exception is not caught.\<close>

definition catches :: "exn \<Rightarrow> bool" where
  "catches e \<longleftrightarrow> caught e \<noteq> None"

lemma catches_simps [simp]:
  "catches (ValueError x)" "catches (ConversationBusy u a b c d)" "catches (IdempotencyCollision k j h h')"
  by (simp_all add: catches_def caught_def)

lemma check_parent_caught: "check_parent q p v = Inl e \<Longrightarrow> catches e"
  by (auto simp: check_parent_def Let_def busy_def split: option.splits if_splits)

lemma check_single_flight_caught: "check_single_flight rt q url v = Some e \<Longrightarrow> catches e"
  by (auto simp: check_single_flight_def busy_def split: option.splits if_splits)

lemma validate_conversation_caught: "validate_conversation_url_for_kind k url = Some e \<Longrightarrow> catches e"
  unfolding validate_conversation_url_for_kind_def Let_def
  by (auto split: if_splits)

lemma admit_caught: "admit rt q v = Inl e \<Longrightarrow> catches e"
  unfolding admit_def resolve_conversation_def Let_def
  by (auto dest: check_parent_caught check_single_flight_caught validate_conversation_caught
      split: sum.splits option.splits if_splits prod.splits)

lemma create_job_uncaught:
  assumes "create_job rt t jid q w = (Inl e, w')" and "\<not> catches e"
  shows "e = RuntimeError ''idempotency record points to missing job''"
proof (cases "begin_idempotency (t 0) (rq_key q) (request_payload_hash rt q) jid w")
  case (Pair res w1)
  have reread: "\<exists>j'. reread jid (log_creation u jid q input (defer_by_pause rt t' j (insert_job j v))) = Inr j'"
    if "j_id j = jid" for u input t' j v
    using that get_job_insert_job [of jid j v]
    by (auto simp: reread_def store_simps defer_by_pause_def Let_def split: option.splits)
  have new: "j_id (new_job rt x jid q url input) = jid" for x url input by (simp add: new_job_def)
  show ?thesis
  proof (cases res)
    case (Inl e')
    then have "catches e'"
      using Pair by (auto simp: begin_idempotency_def split: option.splits if_splits)
    then show ?thesis using assms Pair Inl by (auto simp: create_job_def split: if_splits)
  next
    case (Inr x)
    obtain fresh existing where x: "x = (fresh, existing)" by fastforce
    show ?thesis
    proof (cases fresh)
      case False
      then show ?thesis using assms Pair Inr x by (auto simp: create_job_def split: if_splits option.splits)
    next
      case True
      show ?thesis
      proof (cases "admit rt q w1")
        case (Inl e')
        then have "catches e'" by (rule admit_caught)
        then show ?thesis
          using assms Pair Inr x True Inl by (auto simp: create_job_def split: if_splits)
      next
        case admitted: (Inr ui)
        obtain url input where ui: "ui = (url, input)" by fastforce
        show ?thesis
          using assms Pair Inr x True admitted ui
            reread [OF new, of "later 3 t" input "\<lambda>k. t (k + 1)" "t 1" url input w1]
          by (auto simp: create_job_def Let_def split: if_splits)
      qed
    qed
  qed
qed

definition not_iterable :: exn where
  "not_iterable = TypeError ''object is not iterable''"

definition missing_job :: exn where
  "missing_job = RuntimeError ''idempotency record points to missing job''"

lemma gate_report_raises: "evaluate_gate_report rt r output answer has_file = Inl e \<Longrightarrow> e = not_iterable"
proof -
  have "list_or_empty v = Inl e' \<Longrightarrow> e' = not_iterable" for v e'
    by (auto simp: list_or_empty_def not_iterable_def split: if_splits json.splits)
  then show "evaluate_gate_report rt r output answer has_file = Inl e \<Longrightarrow> e = not_iterable"
    by (auto simp: evaluate_gate_report_def role_gate_def quality_dimensions_def Let_def split: sum.splits)
qed

lemma dispatch_retry_raises:
  "dispatch_retry_step rt t env r st n s = (Inl e, s') \<Longrightarrow> \<not> catches e \<Longrightarrow> e = missing_job"
  by (auto simp: dispatch_retry_step_def Let_def missing_job_def dest: create_job_uncaught
      split: prod.splits sum.splits)

lemma retry_or_degrade_raises:
  assumes "typed_log (os_adv s)" and "fst (retry_or_degrade rt t env r st n fj path g s) = Inl e"
  shows "e = missing_job"
proof -
  let ?remaining = "max 0 (max 0 (rn_max_retries r) - (n - 1))"
  let ?s1 = "s\<lparr>os_adv := snd (update_run (later 2 t) (rn_id r)
      (no_update\<lparr>ru_status := Some WAITING_GATES, ru_degraded := Some False\<rparr>)
      (settle_step t env (rn_id r) st RETRY_WAIT n fj
         (JObj [(''job_id'', JStr fj), (''status'', JStr (status_value COMPLETED)), (''gates'', gate_json g),
                (''retries_remaining'', JInt ?remaining)]) path (os_adv s)))\<rparr>"
  obtain res s2 where dispatch: "dispatch_retry_step rt (later 20 t) env r st (n + 1) ?s1 = (res, s2)" by fastforce
  have s1: "appends (os_adv s) (os_adv ?s1)" by (auto intro!: appends_tables)
  have s2: "appends (os_adv s) (os_adv s2)" using dispatch_retry_appends [OF s1] dispatch by (metis snd_conv)
  have logged: "typed_log (os_adv (on_adv (append_run_event now i ty (step_event n None payload)) s2))"
    if "typed_fields (map_of payload)" "strip ty = ty" "ty \<noteq> ''run.completed''" for now i ty payload
    using that s2 by (intro appends_typed [OF assms(1)]) (auto simp: on_adv_def intro!: appends_event step_event_fields)
  have degraded: "fst (degrade_run rt u r payload ty msg s3) \<noteq> Inl e"
    if "typed_log (os_adv s3)" "typed_fields (map_of payload)" for u payload ty msg s3
    using degrade_run_returns [OF that, of rt u r ty msg] by auto
  have finished: "fst (finish_reconcile rt u i r' s2) \<noteq> Inl e" for u i r'
    using finish_reconcile_returns [OF appends_typed [OF assms(1) s2], of rt u i r'] by auto
  show ?thesis
  proof (cases "0 < ?remaining")
    case False
    have "typed_log (os_adv ?s1)" by (rule appends_typed [OF assms(1) s1])
    then show ?thesis
      using assms(2) degraded [of ?s1] unfolding retry_or_degrade_def Let_def if_not_P [OF False] by simp
  next
    case True
    show ?thesis
    proof (cases res)
      case (Inr r')
      then show ?thesis
        using assms(2) finished unfolding retry_or_degrade_def Let_def if_P [OF True] dispatch by simp
    next
      case (Inl e')
      show ?thesis
      proof (cases "caught e'")
        case None
        then have "e' = missing_job"
          using dispatch Inl by (intro dispatch_retry_raises) (auto simp: catches_def)
        then show ?thesis
          using assms(2) Inl None unfolding retry_or_degrade_def Let_def if_P [OF True] dispatch by simp
      next
        case (Some tm)
        obtain ty msg where tm: "tm = (ty, msg)" by fastforce
        show ?thesis
          using assms(2) Inl Some logged degraded
          unfolding retry_or_degrade_def Let_def if_P [OF True] dispatch by (simp add: tm)
      qed
    qed
  qed
qed

lemma judge_answer_raises:
  assumes "typed_log (os_adv s)" and "fst (judge_answer rt t env r st n fj path s) = Inl e"
  shows "e = not_iterable \<or> e = missing_job"
proof (cases "evaluate_gate_report rt r (sp_output st) (read_answer_text rt path (os_world s))
             (answer_has_file path (os_world s))")
  case (Inl e')
  then show ?thesis using assms(2) gate_report_raises [OF Inl] by (simp add: judge_answer_def)
next
  case (Inr g)
  let ?args = "(step_event n path [(''report'', gate_json g)])\<lparr>ea_correlation := Some (correlation r)\<rparr>"
  let ?ty = "if gr_passed g then ''gate.passed'' else ''gate.failed''"
  obtain db where db: "append_once (t 0) (rn_id r) ?ty ''ask_primary'' n ?args (os_adv s) = Some db"
    using typed_append_once [OF assms(1)] by fastforce
  have "typed_fields (map_of (ea_payload ?args))" by (simp add: step_event_def no_args_def)
  then have "typed_log (os_adv (s\<lparr>os_adv := db\<rparr>))"
    using appends_typed [OF assms(1) appends_once [OF db]] by simp
  note raises = retry_or_degrade_raises [OF this] and returns = complete_run_returns [OF this]
  show ?thesis
    using assms(2) unfolding judge_answer_def Inr sum.case db option.case
    by (metis Inl_Inr_False raises returns)
qed

lemma fail_run_returns:
  assumes "typed_log (os_adv s)"
  shows "\<exists>x. fst (fail_run rt t env r st n fj path child s) = Inr x"
proof -
  let ?what = "[(''job_id'', JStr fj), (''status'', JStr (status_value (j_status child))),
      (''error_type'', JStr (or_empty (j_last_error_type child))), (''error'', JStr (or_empty (j_last_error child)))]"
  let ?db1 = "settle_step t env (rn_id r) st STEP_FAILED n fj (JObj ?what) path (os_adv s)"
  have db1: "appends (os_adv s) ?db1" by (intro appends_tables) simp
  obtain db2 where db2: "append_once (t 2) (rn_id r) ''step.failed'' ''ask_primary'' n
      (step_event n path ?what) ?db1 = Some db2"
    using typed_append_once [OF appends_typed [OF assms db1]] by fastforce
  have "typed_fields (map_of (ea_payload (step_event n path ?what)))" by (rule step_event_fields) simp
  then have "typed_log db2" using appends_typed [OF assms appends_once [OF db2 _ db1]] by simp
  then show ?thesis
    unfolding fail_run_def Let_def db2 option.case by (intro degrade_run_returns) simp_all
qed

lemma reconcile_raises:
  assumes "typed_log (os_adv s)"
  shows "fst (reconcile_run_status rt t env i s) \<in> range Inr \<union> {Inl not_iterable, Inl missing_job}"
proof -
  obtain ls db where reclaim: "reclaim_expired_leases (t 0) (later 1 t) (Some i) (os_adv s) = (ls, db)" by fastforce
  then have "db = reclaim_leases (t 0) (later 1 t) ls (os_adv s)" by (auto simp: reclaim_expired_leases_def Let_def)
  then have "appends (os_adv s) db" by (simp add: reclaim_leases_appends)
  then have s1: "typed_log (os_adv (s\<lparr>os_adv := db\<rparr>))" using appends_typed [OF assms] by simp
  have returns: "fst res \<in> range Inr \<union> {Inl not_iterable, Inl missing_job}" if "\<exists>x. fst res = Inr x"
    for res :: "(run option, orch_state) outcome"
    using that by auto
  have judged: "fst (judge_answer rt u env r st n fj path (s\<lparr>os_adv := db\<rparr>))
      \<in> range Inr \<union> {Inl not_iterable, Inl missing_job}" for u r st n fj path
    using judge_answer_raises [OF s1, of rt u env r st n fj path]
    by (cases "fst (judge_answer rt u env r st n fj path (s\<lparr>os_adv := db\<rparr>))") auto
  show ?thesis
    unfolding reconcile_run_status_def Let_def reclaim prod.case
    using returns [OF finish_reconcile_returns [OF s1]] returns [OF fail_run_returns [OF s1]] judged
    by (simp split: option.split)
qed

section \<open>The log of a reachable state\<close>

text \<open>C33. Whichever of these calls are made - the submission of a run, its executor, reconciling,
  replaying, a takeover, with the jobs moving as they like - and in whatever order, the log is append-only and typed: an event that is there
  stays as it is and where it is, the events are numbered from 1 on in the order in which they were written,
  and the fields that the readers convert - the attempt and the expiry of a lease - hold a number or nothing.\<close>

theorem log_is_typed:
  assumes "advisor_reaches rt s" and "advisor_step rt s s'"
  shows "prefix (a_events (os_adv s)) (a_events (os_adv s'))
    \<and> map ae_id (a_events (os_adv s')) = [1..int (length (a_events (os_adv s')))]
    \<and> (\<forall>e \<in> set (a_events (os_adv s')). typed_event e)"
  using reaches_typed_log [OF assms(1)] advisor_step_appends [OF assms(2)]
  by (simp_all add: appends_def typed_log_def log_numbered_def)

text \<open>C34. Reading the log in pages is reading the log: the replay, which takes pages of 1000, works on
  exactly the events of its run, in order, and the search for an event of an attempt, which takes pages of
  500, answers what one pass over them would.\<close>

theorem readers_see_the_log:
  assumes "log_numbered db"
  shows "collect_events i 0 db = events_of i db
    \<and> seen_after i ty k n 0 db = seen_in ty k n (events_of i db)"
  using readers_of_log [OF assms] by simp

text \<open>C35. In every reachable state the readers of the log do their work. Replaying a run returns, and
  reconciling one returns or raises one of two things that do not come from the log: the run's context or the
  step's output holds something else than a list where roles or constraints are listed, or the idempotency
  record of the retry names a job that is not there.\<close>

theorem reconciling_rarely_raises:
  assumes "advisor_reaches rt s"
  shows "fst (reconcile_run_status rt t env i s) \<in> range Inr \<union>
           {Inl (TypeError ''object is not iterable''),
            Inl (RuntimeError ''idempotency record points to missing job'')}
    \<and> fst (advisor_run_replay rt t i persist s) \<in> range Inr"
proof -
  note log = reaches_typed_log [OF assms]
  have "fst (reconcile_run_status rt t env i s) \<in> range Inr \<union>
           {Inl (TypeError ''object is not iterable''),
            Inl (RuntimeError ''idempotency record points to missing job'')}"
    using reconcile_raises [OF log, of rt t env i] by (simp add: not_iterable_def missing_job_def)
  moreover obtain x db where "replay_run rt (later 1 t) i persist (os_adv s) = (Inr x, db)"
    using typed_log_readers(2) [OF log] by (metis prod.collapse)
  then have "fst (advisor_run_replay rt t i persist s) \<in> range Inr"
    by (simp add: advisor_run_replay_def in_transaction_def Let_def split: option.split)
  ultimately show ?thesis ..
qed

text \<open>C36. The routes and the executor of the advisor complete a run only through its gates: in every
  state that submissions, executions and re-executions, reconciling, takeovers and replays that are
  written back can produce from empty tables, with the jobs moving as they like, the log of a run that
  stands as completed says that its gates passed and that it completed. This is about these calls only:
  the controller, which keeps its runs in the same tables, marks them completed without any gate.\<close>

theorem completed_runs_passed_the_gates:
  assumes "advisor_reaches rt s" and "get_run i (os_adv s) = Some r" and "rn_status r = RUN_COMPLETED"
  shows "has_event i ''gate.passed'' None (os_adv s) \<and> has_event i ''run.completed'' None (os_adv s)"
  using reaches_vouched [OF assms(1)] assms(2,3) by (auto simp: vouched_def)

section \<open>Examples\<close>

definition one_event :: advisor_db where
  "one_event = append_run_event 5 ''r'' ''run.created'' no_args empty_advisor"

theorem readers_see_the_log_witness:
  "collect_events ''r'' 0 one_event = a_events one_event \<and> seen_after ''r'' ''run.created'' None 0 0 one_event = Some True"
proof -
  have "log_numbered one_event" and here: "events_of ''r'' one_event = a_events one_event"
    by (simp_all add: log_numbered_def one_event_def append_run_event_def empty_advisor_def events_of_def)
  moreover have "seen_in ''run.created'' None 0 (a_events one_event) = Some True"
    by (simp add: one_event_def append_run_event_def empty_advisor_def event_attempt_def jget_def
        event_payload_fields no_args_def jopt_int_def truthy_def)
  ultimately show ?thesis using readers_see_the_log [of one_event] by simp
qed

definition plain_env :: orch_env where
  "plain_env = \<lparr>oe_max_attempts = 3, oe_request_error = None, oe_log_ok = True, oe_job_id = ''j1'',
     oe_lease_id = ''l1'', oe_spare_lease = ''l2'', oe_indented = (\<lambda>_. ''x'')\<rparr>"

definition orchestrating_job :: job where
  "orchestrating_job = new_job plain_runtime 5 ''j0''
     (child_request plain_env ''k'' ''advisor.orchestrate'' (JObj []) (JObj []) None (JObj [])) '''' (JObj [])"

definition at_start :: orch_state where
  "at_start = \<lparr>os_adv = empty_advisor, os_world = empty_world\<lparr>jobs := [orchestrating_job]\<rparr>\<rparr>"

lemma reaches_at_start: "advisor_reaches rt at_start"
  by (rule start) (simp add: at_start_def)

definition question_input :: json where
  "question_input = JObj [(''run_id'', JStr ''r1''), (''question'', JStr ''q'')]"

theorem log_is_typed_witness:
  "prefix (a_events (os_adv at_start))
     (a_events (os_adv (snd (orchestrate plain_runtime (\<lambda>_. 5) plain_env OC_none ''j0'' question_input (JObj []) at_start))))"
  by (rule log_is_typed [OF reaches_at_start executes, THEN conjunct1])

theorem reconciling_rarely_raises_witness:
  "fst (advisor_run_replay plain_runtime (\<lambda>_. 5) ''r1'' True at_start) \<in> range Inr"
  by (rule reconciling_rarely_raises [OF reaches_at_start, THEN conjunct2])

text \<open>A run that was dispatched, whose job completed, and that was reconciled.\<close>

definition dispatched :: orch_state where
  "dispatched = snd (orchestrate plain_runtime (\<lambda>_. 5) plain_env OC_none ''j0'' question_input
     (JObj [(''quality_threshold'', JInt 1)]) at_start)"

definition answered_job :: job where
  "answered_job = (new_job plain_runtime 5 ''j1''
       (child_request plain_env ''k'' ''chatgpt_web.ask'' (JObj []) (JObj []) None (JObj [])) '''' (JObj []))
     \<lparr>j_status := COMPLETED, j_answer_path := Some ''a''\<rparr>"

definition answered :: orch_state where
  "answered = dispatched\<lparr>os_world := empty_world\<lparr>jobs := [orchestrating_job, answered_job], files := [''a'' \<mapsto> FText ''text'']\<rparr>\<rparr>"

definition completed :: orch_state where
  "completed = snd (advisor_run_reconcile plain_runtime (\<lambda>_. 6) plain_env ''r1'' answered)"

lemma completed_run: "map_option rn_status (get_run ''r1'' (os_adv completed)) = Some RUN_COMPLETED"
  by code_simp

lemma reaches_answered: "advisor_reaches plain_runtime answered"
proof -
  have "advisor_reaches plain_runtime dispatched"
    unfolding dispatched_def by (rule step [OF reaches_at_start executes])
  then show ?thesis unfolding answered_def by (rule step) (rule jobs_move)
qed

theorem completed_runs_passed_the_gates_witness:
  "rn_status (the (get_run ''r1'' (os_adv completed))) = RUN_COMPLETED
   \<and> has_event ''r1'' ''gate.passed'' None (os_adv completed)"
proof -
  have reached: "advisor_reaches plain_runtime completed"
    unfolding completed_def by (rule step [OF reaches_answered reconciles])
  obtain r where "get_run ''r1'' (os_adv completed) = Some r" and "rn_status r = RUN_COMPLETED"
    using completed_run by auto
  then show ?thesis using completed_runs_passed_the_gates [OF reached] by simp
qed

end
