(* ===== verification/RunLife.thy ===== *)
theory RunLife
  imports RunLog
begin

text \<open>
  The life of a run under reconciliation: what \<open>reconcile_run_status\<close> leaves of the run's row and of
  its step in each of its outcomes, and that the replay of the log computes the state of a run that was
  just completed.
\<close>

section \<open>What each outcome leaves\<close>

lemma finish_reconcile_result:
  assumes "finish_reconcile rt t i r s = (Inr x, s')"
  shows "x = Some r" and "get_run j (os_adv s') = get_run j (os_adv s)"
    and "get_step j k (os_adv s') = get_step j k (os_adv s)" and "os_world s' = os_world s"
  using assms
  by (auto simp: finish_reconcile_def on_adv_def advisor_simps split: prod.splits sum.splits)

lemma append_once_tables:
  assumes "append_once now i ty k n a db = Some db'"
  shows "get_run j db' = get_run j db" and "get_step j m db' = get_step j m db"
  using assms by (auto simp: append_once_def advisor_simps split: option.splits bool.splits)

lemma append_if_new_sel [advisor_simps]:
  "get_run j (append_if_new now i ty a db) = get_run j db"
  "get_step j m (append_if_new now i ty a db) = get_step j m db"
  by (simp_all add: append_if_new_def advisor_simps)

lemma settle_step_sel [advisor_simps]:
  "get_run j (settle_step t env i st status n fj output path db) = get_run j db"
  by (simp add: settle_step_def advisor_simps)

text \<open>A run that is updated and then closed is the run that is stored.\<close>

lemma updated_and_closed:
  assumes "finish_reconcile rt u i (updated_or r (fst (update_run t i up db))) (s\<lparr>os_adv := snd (update_run t i up db)\<rparr>)
      = (Inr x, s')"
    and "get_run i db = Some r0"
  shows "x = Some (updated_run t up r0)" and "get_run i (os_adv s') = Some (updated_run t up r0)"
  using finish_reconcile_result [OF assms(1)] assms(2)
  by (simp_all add: fst_update_run get_run_update_run updated_or_def)

lemma degrade_run_result:
  assumes "degrade_run rt t r payload ty msg s = (Inr x, s')" and "get_run (rn_id r) (os_adv s) = Some r0"
  obtains r' where "x = Some r'" and "get_run (rn_id r) (os_adv s') = Some r'"
    and "rn_status r' = DEGRADED" and "rn_degraded r'"
proof -
  have stored: "get_run (rn_id r) (append_if_new (t 0) (rn_id r) ''run.degraded''
      (no_args\<lparr>ea_payload := payload @ [(''fallback_action'', JStr ''manual_takeover_required'')]\<rparr>) (os_adv s)) = Some r0"
    by (simp add: advisor_simps assms(2))
  note closed = updated_and_closed [OF assms(1) [unfolded degrade_run_def Let_def case_prod_beta] stored]
  show ?thesis by (rule that [OF closed]) simp_all
qed

lemma complete_run_result:
  assumes "complete_run rt t env r st n fj path g s = (Inr x, s')" and "get_run (rn_id r) (os_adv s) = Some r0"
  obtains r' where "x = Some r'" and "get_run (rn_id r) (os_adv s') = Some r'"
    and "rn_status r' = RUN_COMPLETED" and "\<not> rn_degraded r'" and "rn_final_job r' = rn_final_job r0"
proof -
  let ?db1 = "settle_step t env (rn_id r) st STEP_SUCCEEDED n fj
      (JObj [(''job_id'', JStr fj), (''status'', JStr (status_value COMPLETED)), (''gates'', gate_json g)]) path (os_adv s)"
  let ?args = "step_event n path [(''job_id'', JStr fj)]"
  obtain db2 where db2: "append_once (t 2) (rn_id r) ''step.succeeded'' ''ask_primary'' n ?args ?db1 = Some db2"
    using assms(1) unfolding complete_run_def Let_def by (cases "append_once (t 2) (rn_id r) ''step.succeeded'' ''ask_primary'' n ?args ?db1") simp_all
  have stored: "get_run (rn_id r) (append_if_new (t 3) (rn_id r) ''run.completed''
      (no_args\<lparr>ea_payload := [(''child_job_id'', JStr fj), (''status'', JStr (status_value COMPLETED)),
         (''gates'', gate_json g)]\<rparr>) db2) = Some r0"
    by (simp add: advisor_simps append_once_tables [OF db2] assms(2))
  note closed = updated_and_closed [OF assms(1) [unfolded complete_run_def Let_def case_prod_beta db2 option.case] stored]
  show ?thesis by (rule that [OF closed]) (simp_all add: no_update_def)
qed

lemma record_retry_result:
  assumes "get_run (rn_id r) db = Some r0"
  shows "get_run (rn_id r) (record_retry t env r st a key kind child db) =
      Some (updated_run (later 6 t) (no_update\<lparr>ru_status := Some RUNNING, ru_final_job := Some child, ru_degraded := Some False\<rparr>) r0)"
    and "\<exists>st'. get_step (rn_id r) (sp_id st) (record_retry t env r st a key kind child db) = Some st' \<and> sp_attempt st' = max 0 a"
  using assms by (simp_all add: record_retry_def Let_def advisor_simps split: option.split)

lemma dispatch_retry_result:
  assumes "dispatch_retry_step rt t env r st n s = (Inr r', s')" and "get_run (rn_id r) (os_adv s) = Some r0"
  shows "get_run (rn_id r) (os_adv s') = Some r'" and "rn_status r' = RUNNING" and "\<not> rn_degraded r'"
    and "\<exists>st'. get_step (rn_id r) (sp_id st) (os_adv s') = Some st' \<and> sp_attempt st' = max 1 n"
proof -
  let ?kind = "str_or (rt_repr rt) (jget ''kind'' (sp_input st)) ''chatgpt_web.ask''"
  let ?key = "child_key (rn_id r) (sp_id st) n"
  obtain child :: job where
    db: "os_adv s' = record_retry (later 1 t) env r st (max 1 n) ?key ?kind (j_id child) (os_adv s)"
    and r': "r' = (case get_run (rn_id r) (os_adv s') of None \<Rightarrow> r | Some x \<Rightarrow> x)"
    using assms(1) unfolding dispatch_retry_step_def Let_def
    by (auto split: prod.splits sum.splits)
  show "get_run (rn_id r) (os_adv s') = Some r'" "rn_status r' = RUNNING" "\<not> rn_degraded r'"
    using record_retry_result(1) [OF assms(2)] by (simp_all add: db r')
  show "\<exists>st'. get_step (rn_id r) (sp_id st) (os_adv s') = Some st' \<and> sp_attempt st' = max 1 n"
    unfolding db using record_retry_result(2) [OF assms(2), where st = st and a = "max 1 n" and t = "later 1 t"
        and env = env and key = ?key and kind = ?kind and child = "j_id child"] by simp
qed

lemma retry_or_degrade_result:
  assumes "retry_or_degrade rt t env r st n fj path g s = (Inr x, s')" and "get_run (rn_id r) (os_adv s) = Some r0"
    and "1 \<le> n"
  obtains r' where "x = Some r'" and "get_run (rn_id r) (os_adv s') = Some r'" and "rn_status r' = DEGRADED"
  | r' st' where "x = Some r'" and "get_run (rn_id r) (os_adv s') = Some r'" and "rn_status r' = RUNNING"
      and "n - 1 < rn_max_retries r" and "get_step (rn_id r) (sp_id st) (os_adv s') = Some st'"
      and "sp_attempt st' = max 1 (n + 1)"
proof -
  let ?remaining = "max 0 (max 0 (rn_max_retries r) - (n - 1))"
  let ?db1 = "settle_step t env (rn_id r) st RETRY_WAIT n fj
         (JObj [(''job_id'', JStr fj), (''status'', JStr (status_value COMPLETED)), (''gates'', gate_json g),
                (''retries_remaining'', JInt ?remaining)]) path (os_adv s)"
  let ?s1 = "s\<lparr>os_adv := snd (update_run (later 2 t) (rn_id r)
      (no_update\<lparr>ru_status := Some WAITING_GATES, ru_degraded := Some False\<rparr>) ?db1)\<rparr>"
  obtain r1 where r1: "get_run (rn_id r) (os_adv ?s1) = Some r1"
    by (simp add: advisor_simps assms(2))
  obtain res s2 where dispatch: "dispatch_retry_step rt (later 20 t) env r st (n + 1) ?s1 = (res, s2)" by fastforce
  show ?thesis
  proof (cases "0 < ?remaining")
    case False
    then show ?thesis
      using degrade_run_result [OF assms(1) [unfolded retry_or_degrade_def Let_def if_not_P [OF False]] r1] that(1)
      by metis
  next
    case True
    note res = assms(1) [unfolded retry_or_degrade_def Let_def if_P [OF True] dispatch prod.case]
    show ?thesis
    proof (cases res)
      case (Inr r')
      note closed = finish_reconcile_result [OF res [unfolded Inr sum.case]]
      note sent = dispatch_retry_result [OF dispatch [unfolded Inr] r1]
      obtain st' where "get_step (rn_id r) (sp_id st) (os_adv s2) = Some st'" "sp_attempt st' = max 1 (n + 1)"
        using sent(4) by blast
      moreover have "n - 1 < rn_max_retries r" using True assms(3) by (simp add: max_def split: if_splits)
      ultimately show ?thesis
        using that(2) [of r' st'] closed(1-3) sent(1,2) by auto
    next
      case (Inl e)
      have stored: "get_run (rn_id r) (os_adv s2) = Some r1"
        using dispatch r1 Inl by (auto simp: dispatch_retry_step_def Let_def split: prod.splits sum.splits)
      obtain ty msg where tm: "caught e = Some (ty, msg)"
        using res Inl by (cases "caught e") auto
      have "get_run (rn_id r) (os_adv (on_adv (append_run_event u j ty' a) s2)) = Some r1" for u j ty' a
        by (simp add: on_adv_def advisor_simps stored)
      then show ?thesis
        using degrade_run_result [OF res [unfolded Inl sum.case tm option.case prod.case]] that(1) by metis
    qed
  qed
qed


lemma judge_answer_result:
  assumes "judge_answer rt t env r st n fj path s = (Inr x, s')" and "get_run (rn_id r) (os_adv s) = Some r0"
    and "1 \<le> n"
  obtains g r' where "evaluate_gate_report rt r (sp_output st) (read_answer_text rt path (os_world s))
        (answer_has_file path (os_world s)) = Inr g" and "gr_passed g"
      and "x = Some r'" and "get_run (rn_id r) (os_adv s') = Some r'" and "rn_status r' = RUN_COMPLETED"
      and "rn_final_job r' = rn_final_job r0"
  | g r' where "evaluate_gate_report rt r (sp_output st) (read_answer_text rt path (os_world s))
        (answer_has_file path (os_world s)) = Inr g" and "\<not> gr_passed g"
      and "x = Some r'" and "get_run (rn_id r) (os_adv s') = Some r'" and "rn_status r' = DEGRADED"
  | g r' st' where "evaluate_gate_report rt r (sp_output st) (read_answer_text rt path (os_world s))
        (answer_has_file path (os_world s)) = Inr g" and "\<not> gr_passed g"
      and "x = Some r'" and "get_run (rn_id r) (os_adv s') = Some r'" and "rn_status r' = RUNNING"
      and "n - 1 < rn_max_retries r" and "get_step (rn_id r) (sp_id st) (os_adv s') = Some st'"
      and "sp_attempt st' = n + 1"
proof (cases "evaluate_gate_report rt r (sp_output st) (read_answer_text rt path (os_world s))
        (answer_has_file path (os_world s))")
  case (Inl e)
  then show ?thesis using assms(1) by (simp add: judge_answer_def)
next
  case (Inr g)
  let ?args = "(step_event n path [(''report'', gate_json g)])\<lparr>ea_correlation := Some (correlation r)\<rparr>"
  let ?ty = "if gr_passed g then ''gate.passed'' else ''gate.failed''"
  obtain db where db: "append_once (t 0) (rn_id r) ?ty ''ask_primary'' n ?args (os_adv s) = Some db"
    using assms(1) unfolding judge_answer_def Inr sum.case
    by (cases "append_once (t 0) (rn_id r) ?ty ''ask_primary'' n ?args (os_adv s)") simp_all
  have r0: "get_run (rn_id r) (os_adv (s\<lparr>os_adv := db\<rparr>)) = Some r0"
    by (simp add: append_once_tables [OF db] assms(2))
  note res = assms(1) [unfolded judge_answer_def Inr sum.case db option.case]
  show ?thesis
  proof (cases "gr_passed g")
    case True
    show ?thesis
      by (rule complete_run_result [OF res [unfolded if_P [OF True]] r0]) (rule that(1) [OF Inr True])
  next
    case False
    show ?thesis
    proof (rule retry_or_degrade_result [OF res [unfolded if_not_P [OF False]] r0 assms(3)], goal_cases)
      case (1 r')
      then show ?thesis using that(2) [OF Inr False] by blast
    next
      case (2 r' st')
      moreover have "max 1 (n + 1) = n + 1" using assms(3) by simp
      ultimately show ?thesis using that(3) [OF Inr False, of r' st'] by simp
    qed
  qed
qed

lemma fail_run_result:
  assumes "fail_run rt t env r st n fj path child s = (Inr x, s')" and "get_run (rn_id r) (os_adv s) = Some r0"
  obtains r' where "x = Some r'" and "get_run (rn_id r) (os_adv s') = Some r'" and "rn_status r' = DEGRADED"
proof -
  let ?what = "[(''job_id'', JStr fj), (''status'', JStr (status_value (j_status child))),
      (''error_type'', JStr (or_empty (j_last_error_type child))), (''error'', JStr (or_empty (j_last_error child)))]"
  let ?db1 = "settle_step t env (rn_id r) st STEP_FAILED n fj (JObj ?what) path (os_adv s)"
  obtain db2 where db2: "append_once (t 2) (rn_id r) ''step.failed'' ''ask_primary'' n
      (step_event n path ?what) ?db1 = Some db2"
    using assms(1) unfolding fail_run_def Let_def
    by (cases "append_once (t 2) (rn_id r) ''step.failed'' ''ask_primary'' n (step_event n path ?what) ?db1") simp_all
  have r0: "get_run (rn_id r) (os_adv (s\<lparr>os_adv := db2\<rparr>)) = Some r0"
    by (simp add: append_once_tables [OF db2] advisor_simps assms(2))
  show ?thesis
    by (rule degrade_run_result [OF assms(1) [unfolded fail_run_def Let_def db2 option.case] r0]) (rule that)
qed

text \<open>Reclaiming changes no run, no attempt and no output.\<close>

definition attempt_and_output :: "step \<Rightarrow> int \<times> (string \<times> json) list" where
  "attempt_and_output st = (max 0 (sp_attempt st), dict_of (sp_output st))"

lemma reclaim_lease_attempt:
  "map_option attempt_and_output (get_step i k (reclaim_lease now t l db)) =
     map_option attempt_and_output (get_step i k db)"
proof -
  have leases: "get_step j m (db\<lparr>a_leases := x\<rparr>) = get_step j m db" for j m x by (simp add: get_step_def)
  show ?thesis
    by (cases "get_step (al_run l) (al_step l) db"; cases "get_step i k db")
       (auto simp: reclaim_lease_def Let_def advisor_simps leases requeue_step_def attempt_and_output_def
          step_row_def dict_of_def)
qed

lemma reclaim_leases_attempt:
  "map_option attempt_and_output (get_step i k (reclaim_leases now t ls db)) =
     map_option attempt_and_output (get_step i k db)"
  by (induction ls arbitrary: t db) (simp_all add: reclaim_lease_attempt)

text \<open>The attempt a run is at, and the object its step has put out: the gates read the roles covered
  from it.\<close>

definition current_attempt :: "string \<Rightarrow> advisor_db \<Rightarrow> int" where
  "current_attempt i db = (case get_step i ''ask_primary'' db of None \<Rightarrow> 1 | Some st \<Rightarrow> max 1 (sp_attempt st))"

definition step_output :: "string \<Rightarrow> advisor_db \<Rightarrow> json" where
  "step_output i db =
     JObj (case get_step i ''ask_primary'' db of None \<Rightarrow> [] | Some st \<Rightarrow> dict_of (sp_output st))"

lemma gates_read_objects:
  "evaluate_gate_report rt r (JObj (dict_of v)) answer f = evaluate_gate_report rt r v answer f"
proof -
  have get: "jget k (JObj (dict_of v)) = jget k v" for k
    by (cases v) (simp_all add: jget_def dict_of_def)
  show ?thesis unfolding evaluate_gate_report_def role_gate_def get ..
qed

lemma primary_step_attempt:
  "max 1 (sp_attempt (primary_step t i (reclaim_leases now u ls db))) = current_attempt i db"
  "JObj (dict_of (sp_output (primary_step t i (reclaim_leases now u ls db)))) = step_output i db"
proof -
  have max1: "max 1 a = max 1 b" if "max 0 a = max 0 b" for a b :: int using that by linarith
  note same = reclaim_leases_attempt [of i "''ask_primary''" now u ls db]
  show "max 1 (sp_attempt (primary_step t i (reclaim_leases now u ls db))) = current_attempt i db"
    using same by (auto simp: primary_step_def current_attempt_def attempt_and_output_def split: option.splits intro: max1)
  show "JObj (dict_of (sp_output (primary_step t i (reclaim_leases now u ls db)))) = step_output i db"
    using same
    by (auto simp: primary_step_def step_output_def attempt_and_output_def dict_of_def [of "JObj []"] split: option.splits)
qed

lemma primary_step_id: "sp_id (primary_step t i db) = ''ask_primary''"
  by (auto simp: primary_step_def get_step_def step_key_def dest!: row_get_Some split: option.split)

text \<open>Reconciling a run whose job has stopped comes down to one of two functions.\<close>

lemma reconcile_stopped_job:
  assumes "get_run i (os_adv s) = Some r" and "\<not> run_settled (rn_status r)"
    and "strip (or_empty (rn_final_job r)) = fj" and "fj \<noteq> []" and "get_job fj (os_world s) = Some child"
    and "j_status child \<notin> {QUEUED, IN_PROGRESS}" and "or_none (or_empty (j_answer_path child)) = path"
    and "reconcile_run_status rt t env i s = (Inr x, s')"
  obtains u st s1 where "rn_id r = i" and "get_run (rn_id r) (os_adv s1) = Some r" and "os_world s1 = os_world s"
    and "sp_id st = ''ask_primary''" and "JObj (dict_of (sp_output st)) = step_output i (os_adv s)"
    and "\<And>ty. ty \<noteq> ''step.failed'' \<Longrightarrow> has_event i ty None (os_adv s1) = has_event i ty None (os_adv s)"
    and "(if j_status child = COMPLETED
          then judge_answer rt u env r st (current_attempt i (os_adv s)) fj path s1
          else fail_run rt u env r st (current_attempt i (os_adv s)) fj path child s1) = (Inr x, s')"
proof -
  have i: "rn_id r = i" using assms(1) by (auto simp: get_run_def dest: row_get_Some)
  obtain ls db where reclaim: "reclaim_expired_leases (t 0) (later 1 t) (Some i) (os_adv s) = (ls, db)" by fastforce
  then have db: "db = reclaim_leases (t 0) (later 1 t) ls (os_adv s)" by (auto simp: reclaim_expired_leases_def Let_def)
  let ?u = "later (1 + 2 * length ls) t"
  have n: "max 1 (sp_attempt (primary_step ?u i db)) = current_attempt i (os_adv s)"
    unfolding db by (rule primary_step_attempt(1))
  have heads: "has_event i ty None db' \<longleftrightarrow> (\<exists>k. (ty, i, k) \<in> set (map event_head (a_events db')))" for ty db'
    by (auto simp: has_event_def event_head_def image_iff)
  show ?thesis
  proof (rule that [of "s\<lparr>os_adv := db\<rparr>" "primary_step ?u i db" "later 2 ?u"])
    show "get_run (rn_id r) (os_adv (s\<lparr>os_adv := db\<rparr>)) = Some r"
      using assms(1) by (simp add: db i get_run_def reclaim_leases_tables)
    show "has_event i ty None (os_adv (s\<lparr>os_adv := db\<rparr>)) = has_event i ty None (os_adv s)" if "ty \<noteq> ''step.failed''" for ty
      using that unfolding heads by (auto simp: db reclaim_leases_heads)
    show "(if j_status child = COMPLETED
          then judge_answer rt (later 2 ?u) env r (primary_step ?u i db) (current_attempt i (os_adv s)) fj path (s\<lparr>os_adv := db\<rparr>)
          else fail_run rt (later 2 ?u) env r (primary_step ?u i db) (current_attempt i (os_adv s)) fj path child
            (s\<lparr>os_adv := db\<rparr>)) = (Inr x, s')"
      using assms(2-8) unfolding reconcile_run_status_def assms(1) option.case reclaim prod.case Let_def n
      by (cases "j_status child") simp_all
  qed (simp_all add: i primary_step_id db primary_step_attempt(2))
qed

lemma current_attempt_pos: "1 \<le> current_attempt i db"
  by (simp add: current_attempt_def split: option.split)

text \<open>A run that is settled is left as it is.\<close>

lemma settled_runs_stay:
  assumes "get_run i (os_adv s) = Some r" and "run_settled (rn_status r)"
    and "reconcile_run_status rt t env i s = (Inr x, s')"
  shows "x = Some r" and "get_run i (os_adv s') = Some r"
proof -
  obtain ls db where reclaim: "reclaim_expired_leases (t 0) (later 1 t) (Some i) (os_adv s) = (ls, db)" by fastforce
  then have "db = reclaim_leases (t 0) (later 1 t) ls (os_adv s)" by (auto simp: reclaim_expired_leases_def Let_def)
  then have same: "get_run i db = Some r" using assms(1) by (simp add: get_run_def reclaim_leases_tables)
  have "finish_reconcile rt (later (1 + 2 * length ls) t) i r (s\<lparr>os_adv := db\<rparr>) = (Inr x, s')"
    using assms(2,3) unfolding reconcile_run_status_def assms(1) option.case reclaim prod.case Let_def by simp
  from finish_reconcile_result [OF this] same show "x = Some r" "get_run i (os_adv s') = Some r" by simp_all
qed

section \<open>Replaying a completed run\<close>

lemma finish_reconcile_events:
  "finish_reconcile rt t i r s = (x, s') \<Longrightarrow> a_events (os_adv s') = a_events (os_adv s)"
  by (auto simp: finish_reconcile_def on_adv_def advisor_simps split: prod.splits sum.splits)

lemma complete_run_log:
  assumes "complete_run rt t env r st n fj path g s = (Inr x, s')"
    and "\<not> has_event (rn_id r) ''run.completed'' None (os_adv s)"
  obtains es e where "a_events (os_adv s') = es @ [e]" and "ae_run e = rn_id r" and "ae_type e = ''run.completed''"
    and "jget ''child_job_id'' (ae_payload e) = JStr fj"
proof -
  let ?db1 = "settle_step t env (rn_id r) st STEP_SUCCEEDED n fj
      (JObj [(''job_id'', JStr fj), (''status'', JStr (status_value COMPLETED)), (''gates'', gate_json g)]) path (os_adv s)"
  let ?args = "step_event n path [(''job_id'', JStr fj)]"
  let ?finish = "no_args\<lparr>ea_payload := [(''child_job_id'', JStr fj), (''status'', JStr (status_value COMPLETED)),
         (''gates'', gate_json g)]\<rparr>"
  obtain db2 where db2: "append_once (t 2) (rn_id r) ''step.succeeded'' ''ask_primary'' n ?args ?db1 = Some db2"
    using assms(1) unfolding complete_run_def Let_def
    by (cases "append_once (t 2) (rn_id r) ''step.succeeded'' ''ask_primary'' n ?args ?db1") simp_all
  have "\<not> has_event (rn_id r) ''run.completed'' None ?db1"
    using assms(2) by (simp add: settle_step_def has_event_def advisor_simps)
  then have new: "\<not> has_event (rn_id r) ''run.completed'' None db2"
    using db2 by (auto simp: append_once_def has_event_append split: option.splits bool.splits)
  let ?db3 = "append_run_event (t 3) (rn_id r) ''run.completed'' ?finish db2"
  have logged: "append_if_new (t 3) (rn_id r) ''run.completed'' ?finish db2 = ?db3"
    using new by (simp add: append_if_new_def)
  have "a_events (os_adv s') = a_events ?db3"
    using finish_reconcile_events
      [OF assms(1) [unfolded complete_run_def Let_def case_prod_beta db2 option.case logged]]
    by (simp add: advisor_simps)
  then show ?thesis
    by (intro that [of "a_events db2"])
       (auto simp: append_run_event_def jget_def event_payload_def map_of_set_default no_args_def)
qed

lemma replay_events_append:
  "replay_events rt t (es @ [e]) st =
     (case replay_events rt t es st of None \<Rightarrow> None | Some st' \<Rightarrow> replay_event rt (t (length es)) e st')"
  by (induction es arbitrary: t st) (auto simp: later_def split: option.split)

lemma replay_completion:
  assumes "replay_event rt now e st = Some st'" and "strip (ae_type e) = ''run.completed''"
    and "jget ''child_job_id'' (ae_payload e) = JStr fj" and "fj \<noteq> []"
  shows "rp_status st' = RUN_COMPLETED" and "rp_final_job st' = Some fj"
proof -
  obtain ts n st1 where "replay_steps rt e ts n st = Some st1" and "st' = replay_run_part rt e ts st1"
    using assms(1) by (auto simp: replay_event_def Let_def split: option.splits)
  then show "rp_status st' = RUN_COMPLETED" and "rp_final_job st' = Some fj"
    using assms(2-4) by (simp_all add: replay_run_part_def Let_def run_status_after_def truthy_def py_str_def)
qed

lemma judge_answer_completes:
  assumes "judge_answer rt t env r st n fj path s = (Inr (Some r'), s')"
    and "get_run (rn_id r) (os_adv s) = Some r0" and "1 \<le> n" and "rn_status r' = RUN_COMPLETED"
    and "\<not> has_event (rn_id r) ''run.completed'' None (os_adv s)"
  obtains es e where "a_events (os_adv s') = es @ [e]" and "ae_run e = rn_id r" and "ae_type e = ''run.completed''"
    and "jget ''child_job_id'' (ae_payload e) = JStr fj"
proof (cases "evaluate_gate_report rt r (sp_output st) (read_answer_text rt path (os_world s))
        (answer_has_file path (os_world s))")
  case (Inl e)
  then show ?thesis using assms(1) by (simp add: judge_answer_def)
next
  case (Inr g)
  let ?args = "(step_event n path [(''report'', gate_json g)])\<lparr>ea_correlation := Some (correlation r)\<rparr>"
  let ?ty = "if gr_passed g then ''gate.passed'' else ''gate.failed''"
  obtain db where db: "append_once (t 0) (rn_id r) ?ty ''ask_primary'' n ?args (os_adv s) = Some db"
    using assms(1) unfolding judge_answer_def Inr sum.case
    by (cases "append_once (t 0) (rn_id r) ?ty ''ask_primary'' n ?args (os_adv s)") simp_all
  have r0: "get_run (rn_id r) (os_adv (s\<lparr>os_adv := db\<rparr>)) = Some r0"
    by (simp add: append_once_tables [OF db] assms(2))
  note res = assms(1) [unfolded judge_answer_def Inr sum.case db option.case]
  have new: "\<not> has_event (rn_id r) ''run.completed'' None (os_adv (s\<lparr>os_adv := db\<rparr>))"
    using assms(5) db by (auto simp: append_once_def has_event_append split: option.splits bool.splits if_splits)
  show ?thesis
  proof (cases "gr_passed g")
    case True
    show ?thesis by (rule complete_run_log [OF res [unfolded if_P [OF True]] new]) (rule that)
  next
    case False
    show ?thesis
      by (rule retry_or_degrade_result [OF res [unfolded if_not_P [OF False]] r0 assms(3)])
         (use assms(4) in simp_all)
  qed
qed

lemma completed_run_replays:
  assumes "typed_log (os_adv s)" and "get_run i (os_adv s) = Some r" and "a_events (os_adv s) = es @ [e]"
    and "ae_run e = i" and "ae_type e = ''run.completed''"
    and "jget ''child_job_id'' (ae_payload e) = JStr fj" and "fj \<noteq> []"
  obtains sn where "fst (replay_run rt u i False (os_adv s)) = Inr (Some sn)"
    and "sn_status sn = RUN_COMPLETED" and "sn_final_job sn = Some fj"
proof -
  have numbered: "log_numbered (os_adv s)" and typed: "\<forall>e \<in> set (events_of i (os_adv s)). typed_event e"
    using assms(1) by (auto simp: typed_log_def events_of_def)
  obtain es' where mine: "events_of i (os_adv s) = es' @ [e]" by (simp add: events_of_def assms(3,4))
  obtain st where st: "replay_events rt u (es' @ [e]) (replay_start r) = Some st"
    using replay_events_return [OF typed, of rt u "replay_start r"] mine by auto
  then obtain st0 where "replay_event rt (u (length es')) e st0 = Some st"
    by (auto simp: replay_events_append split: option.splits)
  from replay_completion [OF this _ assms(6,7)]
  have "rp_status st = RUN_COMPLETED" "rp_final_job st = Some fj" by (simp_all add: assms(5))
  then show ?thesis
    by (intro that [of "snapshot_of i (es' @ [e]) st"])
       (simp_all add: replay_run_def assms(2) collect_events_all [OF numbered] mine st snapshot_of_def)
qed

section \<open>The outcomes\<close>

text \<open>C39. Reconciling a run whose job has stopped settles it or uses up a retry. Either the job
  completed and the gates, given the output of the run's step and the answer of that job, passed, and
  the run is completed with that job as its final one; or the run is degraded, the job having stopped
  without completing or its answer not having passed; or the job completed, the gates did not pass, the
  run is running again with its attempt raised by one, and that happens only while the attempt is within
  the retries of the run. What is returned is what is stored.\<close>

theorem reconciling_settles_or_retries:
  assumes "get_run i (os_adv s) = Some r" and "\<not> run_settled (rn_status r)"
    and "strip (or_empty (rn_final_job r)) = fj" and "fj \<noteq> []" and "get_job fj (os_world s) = Some child"
    and "j_status child \<notin> {QUEUED, IN_PROGRESS}" and "or_none (or_empty (j_answer_path child)) = path"
    and "evaluate_gate_report rt r (step_output i (os_adv s)) (read_answer_text rt path (os_world s))
           (answer_has_file path (os_world s)) = verdict"
    and "reconcile_run_status rt t env i s = (Inr x, s')"
  obtains
    (completed) r' g where "x = Some r'" "get_run i (os_adv s') = Some r'" "rn_status r' = RUN_COMPLETED"
      "rn_final_job r' = rn_final_job r" "j_status child = COMPLETED" "verdict = Inr g" "gr_passed g"
  | (degraded) r' where "x = Some r'" "get_run i (os_adv s') = Some r'" "rn_status r' = DEGRADED"
      "j_status child \<noteq> COMPLETED \<or> (\<exists>g. verdict = Inr g \<and> \<not> gr_passed g)"
  | (retried) r' g where "x = Some r'" "get_run i (os_adv s') = Some r'" "rn_status r' = RUNNING"
      "j_status child = COMPLETED" "verdict = Inr g" "\<not> gr_passed g"
      "current_attempt i (os_adv s) \<le> rn_max_retries r"
      "current_attempt i (os_adv s') = current_attempt i (os_adv s) + 1"
proof (rule reconcile_stopped_job [OF assms(1-7,9)])
  fix u st s1
  assume i: "rn_id r = i" and r: "get_run (rn_id r) (os_adv s1) = Some r" and w: "os_world s1 = os_world s"
    and st: "sp_id st = ''ask_primary''" and out: "JObj (dict_of (sp_output st)) = step_output i (os_adv s)"
    and res: "(if j_status child = COMPLETED
          then judge_answer rt u env r st (current_attempt i (os_adv s)) fj path s1
          else fail_run rt u env r st (current_attempt i (os_adv s)) fj path child s1) = (Inr x, s')"
  have verdict: "evaluate_gate_report rt r (sp_output st) (read_answer_text rt path (os_world s1))
      (answer_has_file path (os_world s1)) = verdict"
    using assms(8) by (simp add: out [symmetric] gates_read_objects w)
  show ?thesis
  proof (cases "j_status child = COMPLETED")
    case False
    show ?thesis
      by (rule fail_run_result [OF res [unfolded if_not_P [OF False]] r]) (rule degraded, simp_all add: i False)
  next
    case True
    from judge_answer_result [OF res [unfolded if_P [OF True]] r current_attempt_pos] show ?thesis
    proof cases
      case (1 g r')
      then show ?thesis using completed [of r' g] True by (simp add: i verdict)
    next
      case (2 g r')
      then show ?thesis using degraded [of r'] by (simp add: i verdict)
    next
      case (3 g r' st')
      then have "current_attempt i (os_adv s') = current_attempt i (os_adv s) + 1"
        by (simp add: current_attempt_def i st split: option.splits)
      then show ?thesis using 3 retried [of r' g] True by (simp add: i verdict)
    qed
  qed
qed

text \<open>C40. When reconciling completes a run for the first time, the log and the row agree: replaying the
  log at once computes a completed run whose final job is the job that was judged.\<close>

theorem completion_can_be_replayed:
  assumes "advisor_reaches rt s" and "get_run i (os_adv s) = Some r" and "\<not> run_settled (rn_status r)"
    and "strip (or_empty (rn_final_job r)) = fj" and "fj \<noteq> []" and "get_job fj (os_world s) = Some child"
    and "j_status child \<notin> {QUEUED, IN_PROGRESS}" and "\<not> has_event i ''run.completed'' None (os_adv s)"
    and "reconcile_run_status rt t env i s = (Inr (Some r'), s')" and "rn_status r' = RUN_COMPLETED"
  obtains sn where "fst (replay_run rt u i False (os_adv s')) = Inr (Some sn)"
    and "sn_status sn = rn_status r'" and "sn_final_job sn = Some fj"
proof (rule reconcile_stopped_job [OF assms(2-7) refl assms(9)])
  fix t' st s1
  let ?path = "or_none (or_empty (j_answer_path child))"
  assume i: "rn_id r = i" and r: "get_run (rn_id r) (os_adv s1) = Some r"
    and same: "\<And>ty. ty \<noteq> ''step.failed'' \<Longrightarrow> has_event i ty None (os_adv s1) = has_event i ty None (os_adv s)"
    and res: "(if j_status child = COMPLETED
          then judge_answer rt t' env r st (current_attempt i (os_adv s)) fj ?path s1
          else fail_run rt t' env r st (current_attempt i (os_adv s)) fj ?path child s1) = (Inr (Some r'), s')"
  have judged: "judge_answer rt t' env r st (current_attempt i (os_adv s)) fj ?path s1 = (Inr (Some r'), s')"
  proof (cases "j_status child = COMPLETED")
    case False
    show ?thesis
      by (rule fail_run_result [OF res [unfolded if_not_P [OF False]] r]) (use assms(10) in simp)
  qed (use res in simp)
  have new: "\<not> has_event (rn_id r) ''run.completed'' None (os_adv s1)" using same assms(8) i by simp
  obtain es e where log: "a_events (os_adv s') = es @ [e]" "ae_run e = i" "ae_type e = ''run.completed''"
      "jget ''child_job_id'' (ae_payload e) = JStr fj"
    using judge_answer_completes [OF judged r current_attempt_pos assms(10) new] i by metis
  have typed: "typed_log (os_adv s')"
    using appends_typed [OF reaches_typed_log [OF assms(1)] reconcile_appends [OF appends_refl]] assms(9) by (metis snd_conv)
  have "\<exists>r''. get_run i (os_adv s') = Some r''"
    by (rule judge_answer_result [OF judged r current_attempt_pos]) (simp_all add: i)
  then obtain r'' where stored: "get_run i (os_adv s') = Some r''" by blast
  show ?thesis
    by (rule completed_run_replays [OF typed stored log assms(5)]) (rule that, simp_all add: assms(10))
qed

section \<open>Examples\<close>

definition outcome_of_answered :: "(run option, orch_state) outcome" where
  "outcome_of_answered = reconcile_run_status plain_runtime (\<lambda>_. 6) plain_env ''r1'' answered"

lemma answered_run:
  "map_option (\<lambda>r. (rn_status r, rn_final_job r)) (get_run ''r1'' (os_adv answered)) = Some (RUNNING, Some ''j1'')"
  by code_simp

lemma answered_job_row:
  "map_option (\<lambda>j. (j_status j, j_answer_path j)) (get_job ''j1'' (os_world answered)) = Some (COMPLETED, Some ''a'')"
  by code_simp

lemma answered_log: "has_event ''r1'' ''run.completed'' None (os_adv answered) = False"
  by code_simp

lemma answered_outcome:
  "map_sum id (map_option rn_status) (fst outcome_of_answered) = Inr (Some RUN_COMPLETED)"
  by code_simp

lemma strip_job: "strip (or_empty (Some ''j1'')) = ''j1''"
  by code_simp

text \<open>What the two witnesses need of that state.\<close>

lemma answered_setting:
  obtains r child r' where "get_run ''r1'' (os_adv answered) = Some r" and "\<not> run_settled (rn_status r)"
    and "strip (or_empty (rn_final_job r)) = ''j1''" and "get_job ''j1'' (os_world answered) = Some child"
    and "j_status child \<notin> {QUEUED, IN_PROGRESS}"
    and "reconcile_run_status plain_runtime (\<lambda>_. 6) plain_env ''r1'' answered = (Inr (Some r'), snd outcome_of_answered)"
    and "rn_status r' = RUN_COMPLETED"
proof -
  obtain r where r: "get_run ''r1'' (os_adv answered) = Some r" "rn_status r = RUNNING" "rn_final_job r = Some ''j1''"
    using answered_run by auto
  obtain child where child: "get_job ''j1'' (os_world answered) = Some child" "j_status child = COMPLETED"
    using answered_job_row by auto
  obtain x where "fst outcome_of_answered = Inr x" and "map_option rn_status x = Some RUN_COMPLETED"
    using answered_outcome by (cases "fst outcome_of_answered") auto
  then obtain r' where "outcome_of_answered = (Inr (Some r'), snd outcome_of_answered)" and "rn_status r' = RUN_COMPLETED"
    by (metis map_option_eq_Some prod.collapse)
  then show ?thesis
    using r child strip_job by (intro that [of r child r']) (simp_all add: run_settled_def run_terminal_def outcome_of_answered_def)
qed

theorem reconciling_settles_or_retries_witness:
  "\<exists>r'. get_run ''r1'' (os_adv (snd outcome_of_answered)) = Some r' \<and> rn_status r' \<in> {RUN_COMPLETED, DEGRADED, RUNNING}"
proof (rule answered_setting)
  fix r child r'
  assume setting: "get_run ''r1'' (os_adv answered) = Some r" "\<not> run_settled (rn_status r)"
      "strip (or_empty (rn_final_job r)) = ''j1''" "get_job ''j1'' (os_world answered) = Some child"
      "j_status child \<notin> {QUEUED, IN_PROGRESS}"
      "reconcile_run_status plain_runtime (\<lambda>_. 6) plain_env ''r1'' answered = (Inr (Some r'), snd outcome_of_answered)"
  show ?thesis
    by (rule reconciling_settles_or_retries [OF setting(1-3) _ setting(4,5) refl refl setting(6)]) simp_all
qed

theorem completion_can_be_replayed_witness:
  "\<exists>sn. fst (replay_run plain_runtime (\<lambda>_. 7) ''r1'' False (os_adv (snd outcome_of_answered))) = Inr (Some sn)
     \<and> sn_final_job sn = Some ''j1''"
proof (rule answered_setting)
  fix r child r'
  assume setting: "get_run ''r1'' (os_adv answered) = Some r" "\<not> run_settled (rn_status r)"
      "strip (or_empty (rn_final_job r)) = ''j1''" "get_job ''j1'' (os_world answered) = Some child"
      "j_status child \<notin> {QUEUED, IN_PROGRESS}"
      "reconcile_run_status plain_runtime (\<lambda>_. 6) plain_env ''r1'' answered = (Inr (Some r'), snd outcome_of_answered)"
      "rn_status r' = RUN_COMPLETED"
  show ?thesis
    by (rule completion_can_be_replayed [OF reaches_answered setting(1-3) _ setting(4,5) _ setting(6,7)])
       (auto simp: answered_log)
qed

end
