(* ===== verification/Spec2Isabelle.thy ===== *)
theory Spec2Isabelle
  imports RateLimit Examples Extensions Replay WebRetry Outbox Selector MinCharsGuard TaskMachine IssueLedger Reconcile RunLife
begin

text \<open>
  ChatgptREST: a REST service that queues questions for the web front ends of language models,
  and workers that take jobs from the queue, drive a browser and store what came back. Several
  processes share one SQLite database and a directory of artifacts, so what makes the program
  correct is the discipline on the rows: who may change a job, when, and what is left behind when
  something raises. The theories model that core of \<open>src/chatgptrest\<close>.

  \<^bold>\<open>How the parts interact.\<close> A client creates a job (\<open>create_job\<close>), under an idempotency
  key. A worker claims the next job that may run (\<open>claim_next_job\<close>) and gets a lease: a row
  column with its name, a token and an expiry. Under the lease it renews, notes the conversation,
  and in the end stores an answer, an error or a retryable failure, or hands
  the job over to the phase in which the answer is awaited; the export of a conversation it records
  without the lease being asked for. Anyone may ask for a cancellation.
  Pause and hold keep jobs from being claimed, rate limits and the retry budget space what is
  sent, the guard against short answers decides whether an answer is taken. Whoever looks at a
  job first repairs its files, and clients read the answer in pieces; a failure reaches the ledger
  of issues. The advisor sits on top of the queue: a run asks one question through child jobs,
  judges the answer by its gates, retries or degrades, and writes a log from which its state can
  be computed again. Beside the queue stand the outbox of side effects, the choice of model
  providers by their health, with the tracker and the circuit breaker that feeds it, and the state
  machine and lock of long tasks.

  \<^bold>\<open>Theories and sources.\<close>
  \<^item> \<open>Prelude\<close>: Python texts, numbers, JSON values, exceptions, the clock; \<open>Table\<close>: SQLite rows
    and the statements on them (locale \<open>row_store\<close>); \<open>Deadline\<close>: deadlines that only move
    forward (locale \<open>extend_only\<close>).
  \<^item> \<open>StateMachine\<close>: \<open>core/state_machine.py\<close>, \<open>core/phase.py\<close> (locale \<open>lifecycle\<close>).
  \<^item> \<open>Providers\<close>: \<open>providers/spec.py\<close>, \<open>registry.py\<close>, \<open>policy.py\<close>; \<open>ConversationUrl\<close>: the URL
    recognisers of \<open>core/job_store.py\<close>.
  \<^item> \<open>Store\<close>: the tables \<open>jobs\<close>, \<open>job_events\<close>, \<open>idempotency\<close>, \<open>meta\<close> of \<open>core/db.py\<close> and the files
    of \<open>core/artifacts.py\<close>. The record \<open>world\<close> is their joint state.
  \<^item> \<open>Transition\<close>, \<open>Results\<close>, \<open>Lease\<close>, \<open>Claim\<close>, \<open>Create\<close>, \<open>Cancel\<close>: \<open>core/job_store.py\<close> with
    \<open>core/idempotency.py\<close>, one theory for each group of functions; \<open>Completion\<close>:
    \<open>core/completion_contract.py\<close>.
  \<^item> \<open>Utf8\<close>, \<open>ArtifactReads\<close>, \<open>Reconcile\<close>: the codec, the readers, the export copy and the repair of
    \<open>core/artifacts.py\<close>, the route of \<open>api/routes_jobs.py\<close> that gives out a conversation in pieces and
    the loop of \<open>cli.py\<close> that asks for them (locale \<open>piecewise\<close>).
  \<^item> \<open>Pause\<close>: \<open>core/pause.py\<close>, \<open>core/chatgpt_web_hold.py\<close>; \<open>RateLimit\<close>: \<open>core/rate_limit.py\<close>;
    \<open>Claim\<close> has the choice of \<open>executors/factory.py\<close> too, for the kinds the claim serves.
  \<^item> \<open>RetryPolicy\<close>, \<open>WebRetry\<close>: \<open>core/web_retry_policy.py\<close>, \<open>core/web_retry_budget.py\<close>, the readers
    of \<open>core/env.py\<close> they use, and \<open>_store_browser_retry_or_fail_closed\<close> of \<open>worker/worker.py\<close>;
    \<open>MinCharsGuard\<close>: the guard against short answers of \<open>worker/worker.py\<close>.
  \<^item> \<open>Issues\<close>, \<open>IssueLedger\<close>: \<open>core/client_issues.py\<close>, the operations and what the ledger keeps to.
  \<^item> \<open>AdvisorRuns\<close>, \<open>AdvisorReplay\<close>: \<open>core/advisor_runs.py\<close> - runs, steps, leases, log, and the replay of
    the log (locale \<open>paged_log\<close>); \<open>AdvisorGates\<close>: \<open>core/advisor_gates.py\<close>; \<open>RunReconcile\<close>: reconciliation,
    retry, replay and takeover of \<open>api/routes_advisor.py\<close>; \<open>Orchestrate\<close>: the submission of a run there
    and \<open>executors/advisor_orchestrate.py\<close>. The record \<open>orch_state\<close> joins their tables with the
    \<open>world\<close> of the job store. \<open>RunLog\<close>, \<open>RunLife\<close>: what these promise together.
  \<^item> \<open>Outbox\<close>: \<open>kernel/effects_outbox.py\<close>; \<open>Health\<close>: \<open>kernel/routing/health_tracker.py\<close>;
    \<open>Breaker\<close>: \<open>evomap/actuators/circuit_breaker.py\<close>; \<open>Selector\<close>: \<open>kernel/routing/selector.py\<close>;
    \<open>TaskMachine\<close>: \<open>task_runtime/task_state_machine.py\<close>.
  \<^item> \<open>Fence\<close> (locale \<open>leased_operation\<close>), \<open>WorkerOps\<close>, \<open>JobLife\<close>, \<open>JobSystem\<close>, \<open>History\<close>,
    \<open>Extensions\<close>, \<open>Replay\<close>: what the operations promise together. \<open>JobSystem\<close> puts the calls in one
    type (\<open>call\<close>, \<open>perform\<close>) and a step relation on worlds; \<open>JobLife\<close> is the abstract life of one
    job. \<open>Examples\<close> has the concrete values of the witnesses.

  \<^bold>\<open>What is shown.\<close>
  \<^item> Leases: a worker whose lease ended, or whose token is not the row's, changes nothing but, at most,
    the export columns (C1); while a lease runs, no sequence of calls by others moves the job or makes
    the holder's renewal fail (C2), and no single call does (C3).
  \<^item> The life of a job: each call is a step of \<open>JobLife\<close> (C4), final jobs stay (C5), attempts and
    their extensions are bounded in all reachable states (C6, C11).
  \<^item> Claims: the least claimable row is taken (C7), one job per conversation (C8), the switches
    and the other conditions of the SQL are those of the Python predicates (C9), a retry becomes claimable again (C10).
  \<^item> Results and creation: what is published and what is dropped (C12), idempotent creation (C13), what
    a refusal leaves behind (C14), one live ask per conversation (C15), \<open>transition\<close> on every branch (C17),
    the changes of a conversation URL (C18). Cancellation, the completion contract, presets, URLs, pause
    and hold have their lemmas in their theories.
  \<^item> Limits: the spacing of reservations (C16), the budget of browser retries over any window (C19), the
    end of polling a short answer (C22).
  \<^item> Beside the queue: the outbox succeeds with an effect at most once (C20), a fatal error keeps a
    provider out of use (C21) and out of the selection (C24), the task lock excludes (C23).
  \<^item> The ledger of issues: consistency in every reachable state (C25), merging by fingerprint (C26), pages
    that fit together (C27).
  \<^item> Artifacts: the route stays inside the directory (C28), the client gets the rest of the text (C29), the
    export record is exact (C30), the repair settles after one look (C31) and saves an answer from a
    crash (C32).
  \<^item> Runs of the advisor: the log is append-only and typed (C33), reading it in pages is reading it (C34),
    what reconciling may raise (C35), completion by these routes only through the gates (C36), the reclaiming of leases
    (C37), the verdict of the gates (C38), what reconciling does with a job that stopped (C39), and that a
    replay agrees with a completion (C40).

  \<^bold>\<open>Conventions.\<close> An operation that may raise returns an \<open>outcome\<close>: the exception or the value,
  and the state. The state after a raise is the one before the transaction's end: the caller
  decides on commit or rollback, and the lemmas speak of the state either way; the routes of
  \<open>RunReconcile\<close> and \<open>Orchestrate\<close> contain their transactions, with the rollback. A transaction is one
  step; SQLite's \<open>BEGIN IMMEDIATE\<close> makes the operations on one database follow each other, so an
  interleaving of processes is a sequence of calls. A clock \<open>t\<close> gives the readings of one call
  by index, without an assumption that they grow unless a property names one. Random identifiers are
  arguments; where it matters that they are new (\<open>fresh_id\<close>) the property says so. Finite floats
  are reals: rounding is not modelled, infinities and NaN are where a text may bring them in
  (\<open>py_float\<close>). Integers are unbounded, as in Python. The record \<open>runtime\<close> holds what the
  program finds around it: the environment, SHA-256, \<open>json.dumps\<close> and \<open>repr\<close>. What the job store
  hears from the issue ledger (\<open>ledger\<close>), the handlers of effects, what \<open>task_store.py\<close> brings to the
  task machine (\<open>task_env\<close>; that module is not in the repository, and C23 names what it relies on) and
  what the OpenClaw service answers are parameters. Loops run over lists, the readers of the log by a measure;
  the client's loop over pieces, which may run forever, is a \<open>partial_function\<close>, and C29 shows where
  it ends. No definition needs fuel.

  \<^bold>\<open>Not modelled.\<close> The other HTTP routes, the MCP servers and the browser automation, whose work is
  I/O (of the routes, the one that ends a pause writes to jobs: it brings the start time of queued jobs
  the pause had deferred forward to now, and touches nothing else); the other executors and the main loop of the worker; the text heuristics that classify prompts
  and answers; the advisor's planning and evaluation, which call language models; the controller, which
  also creates, logs and completes runs in the advisor's tables, so that C33 to C36 and C40 are about
  the calls of \<open>advisor_step\<close>;
  dashboards and operation scripts, some of which write job rows on their own. Failing writes of files are
  modelled where the code handles them (the publication of an answer), and succeed elsewhere;
  fields the program only logs are left out. Of the governance state and the observer of the
  circuit breaker only the list of recorded changes is kept; of the issue ledger the note that a
  closing leaves in the knowledge base is left out; of the advisor runs the ledger of outcomes, the
  listing of artifacts and the identity of an execution. Texts are of code points below 256 outside
  \<open>Utf8\<close> and \<open>ArtifactReads\<close>, so the Chinese markers of the gates match nothing.
\<close>

section \<open>Leases\<close>

text \<open>C1. A worker's call for a job, made while at none of its clock readings that job runs
  under the worker's own unexpired lease, changes no job row at all, with one exception: the
  record of a conversation export, which the code accepts from anybody, may change the export
  columns and the time of that one row, and nothing else.\<close>

theorem stale_worker_is_fenced:
  assumes "worker_call jid worker token c" and "ids_distinct w"
    and "\<And>job k. get_job jid w = Some job \<Longrightarrow> \<not> holds_lease worker token (t k) job"
  shows "(\<not> records_export c \<longrightarrow> jobs (perform rt lg t c w) = jobs w)
    \<and> list_all2 (\<lambda>j j'. j' = j \<or> j_id j = jid \<and> export_noted j j') (jobs w) (jobs (perform rt lg t c w))"
  by (rule worker_call_fence [OF assms])

theorem stale_worker_is_fenced_witness:
  "jobs (perform rt0 no_ledger (at_time 101) (RenewLease ''j1'' ''w1'' ''k1'' 60) (world_of [job0])) = [job0]"
  using stale_worker_is_fenced [of "''j1''" "''w1''" "''k1''" "RenewLease ''j1'' ''w1'' ''k1'' 60"
      "world_of [job0]" "at_time 101" rt0 no_ledger]
  by (simp add: job0_holder del: perform.simps)

text \<open>C2. While a lease runs on a job whose prompt is being sent, whatever others do leaves the
  job to its holder: after any sequence of calls up to the expiry that are not made under that
  lease - claims, cancellations, exports, creations, switches, and the calls of workers with other
  leases - the job is there for the same request, with the same status, phase, lease and attempts,
  and the holder's renewal in time succeeds.\<close>

theorem running_lease_withstands_others:
  assumes "(others_step rt lg e j)\<^sup>*\<^sup>* w w'" and "ids_distinct w" and "get_job i w = Some j"
    and "j_status j = IN_PROGRESS" and "j_phase j = Send" and "j_lease_expires_at j = Some e"
  shows "(\<exists>j'. get_job i w' = Some j' \<and> life_of j' = life_of j \<and> same_request j j')
    \<and> (\<forall>t worker token ttl. owns_lease worker token j \<and> t 0 \<le> e \<longrightarrow>
         fst (renew_lease t i worker token ttl w') = Inr True)"
proof -
  obtain j' where j': "get_job i w' = Some j'" "life_of j' = life_of j" "same_request j j'"
    using others_run [OF assms] by blast
  have "holds_lease worker token n j'" if "owns_lease worker token j" "n \<le> e" for worker token n
    using that assms(4,6) life_holds [OF j'(2)] by (simp add: holds_lease_def lease_unexpired_def)
  then show ?thesis using j' renew_succeeds by blast
qed

theorem running_lease_withstands_others_witness:
  "\<exists>w'. w' = perform rt0 no_ledger (at_time 6) (ReleaseForWait ''j1'' ''w2'' ''k2'' 7)
            (perform rt0 no_ledger (at_time 5) (RequestCancel ''j1'' None None) (world_of [job0]))
     \<and> fst (renew_lease (at_time 90) ''j1'' ''w1'' ''k1'' 60 w') = Inr True"
proof -
  let ?c = "RequestCancel ''j1'' None None" let ?d = "ReleaseForWait ''j1'' ''w2'' ''k2'' 7"
  let ?w1 = "perform rt0 no_ledger (at_time 5) ?c (world_of [job0])"
  have "others_step rt0 no_ledger 100 job0 (world_of [job0]) ?w1"
    by (rule others_step.call) simp_all
  moreover have "others_step rt0 no_ledger 100 job0 ?w1 (perform rt0 no_ledger (at_time 6) ?d ?w1)"
    by (rule others_step.call) (simp_all add: owns_lease_def del: perform.simps)
  ultimately have "(others_step rt0 no_ledger 100 job0)\<^sup>*\<^sup>* (world_of [job0]) (perform rt0 no_ledger (at_time 6) ?d ?w1)"
    by (meson converse_rtranclp_into_rtranclp rtranclp.rtrancl_refl)
  from running_lease_withstands_others [OF this, of "''j1''"] show ?thesis
    by (simp add: owns_lease_def del: perform.simps)
qed



section \<open>The life of a job\<close>

text \<open>C4. Refinement: whatever is called, an existing job stays the same request, and its
  status, phase, lease and attempts either stay or take one step of \<open>life_step\<close> by the
  caller, at one of the call's clock readings.\<close>

theorem calls_refine_job_life:
  assumes "ids_distinct w" and "fresh_id c w" and "get_job i w = Some j"
  shows "\<exists>j'. get_job i (perform rt lg t c w) = Some j' \<and> same_request j j' \<and>
    (life_of j' = life_of j \<or> (\<exists>k. \<exists>a \<in> acts_of c. life_step (t k) a (life_of j) (life_of j')))"
  using perform_job [OF assms, of rt lg t] by (auto simp: evolves_def)

theorem calls_refine_job_life_witness:
  "\<exists>j'. get_job ''j1'' (perform rt0 no_ledger (at_time 5) (ClaimNext ''k'' ''w'' 60 None None) (world_of [queued0])) = Some j'
    \<and> same_request queued0 j' \<and>
    (life_of j' = life_of queued0 \<or>
     (\<exists>k. \<exists>a \<in> acts_of (ClaimNext ''k'' ''w'' 60 None None).
        life_step (at_time 5 k) a (life_of queued0) (life_of j')))"
  by (rule calls_refine_job_life) simp_all

text \<open>C5. A completed, failed or cancelled job is final: after any sequence of calls it is
  there with the same status, phase, lease and attempts, for the same request and with the
  same answer.\<close>

theorem final_jobs_stay:
  assumes "(system_step rt lg)\<^sup>*\<^sup>* w w'" and "ids_distinct w" and "get_job i w = Some j"
    and "is_terminal (j_status j)"
  shows "\<exists>j'. get_job i w' = Some j' \<and> life_of j' = life_of j \<and> same_request j j' \<and> answer_of j' = answer_of j"
proof -
  obtain j' where "get_job i w' = Some j'" "same_request j j'" "life_move\<^sup>*\<^sup>* (life_of j) (life_of j')"
      "answer_of j' = answer_of j"
    using run_job [OF assms(1-3)] assms(4) by blast
  then show ?thesis
    using assms(4) job_lives.final_run by (metis life_final_def life_of_sel(1))
qed

theorem final_jobs_stay_witness:
  "\<exists>j'. get_job ''j1'' (perform rt0 no_ledger (at_time 5) (RequestCancel ''j1'' None None)
            (world_of [job0\<lparr>j_status := ERROR\<rparr>])) = Some j'
     \<and> life_of j' = life_of (job0\<lparr>j_status := ERROR\<rparr>) \<and> same_request (job0\<lparr>j_status := ERROR\<rparr>) j'
     \<and> answer_of j' = answer_of (job0\<lparr>j_status := ERROR\<rparr>)"
proof (rule final_jobs_stay)
  let ?w = "world_of [job0\<lparr>j_status := ERROR\<rparr>]"
  have "system_step rt0 no_ledger ?w
      (perform rt0 no_ledger (at_time 5) (RequestCancel ''j1'' None None) ?w)"
    by (rule system_step.call) simp
  then show "(system_step rt0 no_ledger)\<^sup>*\<^sup>* ?w
      (perform rt0 no_ledger (at_time 5) (RequestCancel ''j1'' None None) ?w)" ..
qed simp_all

text \<open>C6. In every state the calls can produce, a job has used no more attempts than it is
  allowed, and no negative number of them.\<close>

theorem attempts_within_allowance:
  assumes "reachable rt lg w" and "get_job i w = Some j"
  shows "0 \<le> j_attempts j \<and> j_attempts j \<le> max 0 (j_max_attempts j)"
  using reachable_sound [OF assms(1)] assms(2) by (auto simp: sound_def within_allowance_def)

theorem attempts_within_allowance_witness:
  "\<exists>j. get_job ''j1'' created0 = Some j \<and> 0 \<le> j_attempts j \<and> j_attempts j \<le> max 0 (j_max_attempts j)"
  using attempts_within_allowance [OF reachable_created0 get_created0] get_created0 by blast

section \<open>Claims\<close>

text \<open>C7. A claim returns nothing exactly when no row of the table satisfies the
  \<open>WHERE\<close> clause; otherwise it takes a row that does and whose sort key is least, gives
  it the caller's lease, counts an attempt if a prompt is to be sent, and touches no other
  row.\<close>

theorem claim_takes_least_claimable:
  assumes "ids_distinct w"
  shows "case fst (claim_next_job rt t token worker ttl ph pre w) of
      None \<Rightarrow> (\<forall>j \<in> set (jobs w). \<not> claim_where (claim_filter_now rt (t 0) ph pre w) (jobs w) j)
    | Some j' \<Rightarrow>
        \<exists>row \<in> set (jobs w).
          claim_where (claim_filter_now rt (t 0) ph pre w) (jobs w) row
          \<and> (\<forall>j \<in> set (jobs w). claim_where (claim_filter_now rt (t 0) ph pre w) (jobs w) j \<longrightarrow>
               claim_key (cf_phase (claim_filter_now rt (t 0) ph pre w)) row
                 \<le> claim_key (cf_phase (claim_filter_now rt (t 0) ph pre w)) j)
          \<and> j' = row\<lparr>j_status := IN_PROGRESS, j_updated_at := t 0, j_lease_owner := Some worker,
                     j_lease_expires_at := Some (t 0 + real_of_int ttl), j_lease_token := Some token,
                     j_attempts := (if j_phase row = Wait \<or> j_status row = IN_PROGRESS
                                    then j_attempts row else j_attempts row + 1)\<rparr>
          \<and> (\<forall>i. get_job i (snd (claim_next_job rt t token worker ttl ph pre w)) =
                   (if i = j_id row then Some j' else get_job i w))"
  using assms
proof (cases rule: claim_cases [where rt = rt and t = t and token = token and worker = worker
      and ttl = ttl and ph = ph and pre = pre])
  case nothing
  then show ?thesis by simp
next
  case (takes row w' f)
  then show ?thesis by (auto simp: claimed_def [symmetric] intro!: bexI [of _ row])
qed

theorem claim_takes_least_claimable_witness:
  "\<exists>row \<in> {queued0}. fst (claim_next_job rt0 (at_time 5) ''k'' ''w'' 60 None None (world_of [queued0])) =
     Some (row\<lparr>j_status := IN_PROGRESS, j_updated_at := 5, j_lease_owner := Some ''w'',
               j_lease_expires_at := Some 65, j_lease_token := Some ''k'', j_attempts := 1\<rparr>)"
  using claim_takes_least_claimable [where rt = rt0 and t = "at_time 5" and token = "''k''" and worker = "''w''"
      and ttl = 60 and ph = None and pre = None, OF ids_distinct_one [of queued0]] claimable_queued0
  by (simp split: option.splits)

text \<open>C8. A claimed job that is about to send a prompt to a conversation is alone there: no
  other job of its kind is running in that conversation.\<close>

theorem claim_is_single_flight:
  assumes "ids_distinct w" and "fst (claim_next_job rt t token worker ttl ph pre w) = Some j"
    and "j_phase j = Send" and "j_kind j \<in> set web_ask_kinds" and "j_conversation_id j = Some cid"
    and "j2 \<in> set (jobs w)" and "j_kind j2 = j_kind j" and "j_conversation_id j2 = Some cid"
    and "j_id j2 \<noteq> j_id j"
  shows "j_status j2 \<noteq> IN_PROGRESS"
  using assms(1)
proof (cases rule: claim_cases [where rt = rt and t = t and token = token and worker = worker
      and ttl = ttl and ph = ph and pre = pre])
  case nothing
  with assms(2) show ?thesis by simp
next
  case (takes row w' f)
  from takes(5) assms(2) have j: "j = claimed (t 0) token worker ttl row" by simp
  from takes(3) have "single_flight_free (jobs w) row" by (simp add: claim_where_def)
  with assms(3-9) show ?thesis
    by (auto simp: j claimed_def single_flight_free_def list_ex_iff)
qed

theorem claim_is_single_flight_witness:
  "j_status (queued0\<lparr>j_id := ''j2'', j_conversation_id := Some ''c''\<rparr>) \<noteq> IN_PROGRESS"
proof (rule claim_is_single_flight)
  let ?q = "queued0\<lparr>j_conversation_id := Some ''c'', j_not_before := - 1\<rparr>"
  let ?q2 = "queued0\<lparr>j_id := ''j2'', j_conversation_id := Some ''c''\<rparr>"
  let ?w = "world_of [?q, ?q2]"
  show "ids_distinct ?w" by (simp add: ids_distinct_def keys_distinct_def)
  show "fst (claim_next_job rt0 (at_time 5) ''k'' ''w'' 60 None None ?w) = Some (claimed 5 ''k'' ''w'' 60 ?q)"
    by (simp add: claim_next_job_def filter0 claim_where_def pause_clause_def attempts_clause_def
        single_flight_free_def status_clause_def claim_key_def claim_rank_def Let_def count_jobs_def
        row_count_def store_simps row_update_def get_job_def claimed_def)
  show "?q2 \<in> set (jobs ?w)" by simp
qed (simp_all add: claimed_def web_ask_kinds_simp)

text \<open>C9. For a row whose kind has an executor, the \<open>WHERE\<close> clause of the claim holds exactly when
  the row may run in the terms of the Python code: it is due, of the kind prefix and phase asked
  for, let through by \<open>pause_filter_allows_job\<close>, and by the ChatGPT web hold where
  \<open>chatgpt_web_hold_blocks_kind\<close> says it matters, has attempts left where one is counted, is alone in
  its conversation, and is queued, cooling down or left by an expired lease. So a claim blocks no
  row the Python predicates let through, and the job it returns obeys them.\<close>

theorem claim_respects_switches:
  assumes "ids_distinct w"
  shows "(\<forall>row \<in> set (jobs w). served_kind (j_kind row) \<longrightarrow>
      (claim_where (claim_filter_now rt (t 0) ph pre w) (jobs w) row \<longleftrightarrow> runnable_now rt (t 0) ph pre w row))
    \<and> (\<forall>j. fst (claim_next_job rt t token worker ttl ph pre w) = Some j \<longrightarrow> served_kind (j_kind j) \<longrightarrow>
      pause_filter_allows_job (t 0) (get_pause_state rt w) (Some (phase_value (j_phase j))) (Some (j_kind j))
      \<and> (chatgpt_web_hold_blocks_kind (Some (j_kind j)) \<longrightarrow> get_chatgpt_web_hold rt (t 0) w = None))
    \<and> (fst (claim_next_job rt t token worker ttl ph pre w) = None \<longrightarrow>
      (\<forall>row \<in> set (jobs w). served_kind (j_kind row) \<longrightarrow> \<not> runnable_now rt (t 0) ph pre w row))"
  using assms
proof (cases rule: claim_cases [where rt = rt and t = t and token = token and worker = worker
      and ttl = ttl and ph = ph and pre = pre])
  case nothing
  then show ?thesis by (simp add: claim_where_runnable) (metis claim_where_runnable)
next
  case (takes row w' f)
  have "runnable_now rt (t 0) ph pre w row" if "served_kind (j_kind row)"
    using takes(1,3) that by (simp add: claim_where_runnable)
  then show ?thesis
    using takes(5) by (auto simp: claim_where_runnable claimed_def runnable_now_def)
qed

theorem claim_respects_switches_witness:
  "runnable_now rt0 5 None None (world_of [queued0]) queued0
   \<and> pause_filter_allows_job 5 (get_pause_state rt0 (world_of [queued0])) (Some (phase_value Send))
     (Some ''chatgpt_web.ask'')
   \<and> get_chatgpt_web_hold rt0 5 (world_of [queued0]) = None"
proof -
  have k: "chatgpt_web_hold_blocks_kind (Some ''chatgpt_web.ask'')" "served_kind ''chatgpt_web.ask''"
    by code_simp+
  show ?thesis
    using claim_respects_switches [OF ids_distinct_one [of queued0], of rt0 "at_time 5" None None "''k''" "''w''" 60]
      claimable_queued0 claim_queued0 k
    by (simp add: claimed_def)
qed

section \<open>Retries\<close>

text \<open>C10. A send that fails in a retryable way and puts its job into the cooldown leaves it
  claimable again: the start time is the one asked for, and neither the status nor the number
  of attempts keeps a later claim away.\<close>

theorem retry_stays_claimable:
  assumes "ids_distinct w" and "get_job jid w = Some job" and "j_status job = IN_PROGRESS"
    and "0 < j_max_attempts job" and "j_attempts job \<le> j_max_attempts job" and "0 \<le> j_attempts job"
    and "store_retryable_result rt lg t jid worker token COOLDOWN nb ety error pa w = (Inr job', w')"
    and "j_status job' = COOLDOWN"
  shows "get_job jid w' = Some job' \<and> j_not_before job' = nb \<and> attempts_clause job' \<and> status_clause now job'"
proof -
  have st: "COOLDOWN \<in> set error_statuses" by (simp add: error_statuses_def)
  obtain ph et msg g ext where ph: "ph = (case pa of Some _ \<Rightarrow> normalize_db_phase pa | None \<Rightarrow> j_phase job)"
    and d: "(g, ext) = (if attempts_used_up ph job then extension_decision rt job et msg w else (None, None))"
    and eq: "store_retryable_result rt lg t jid worker token COOLDOWN nb ety error pa w =
      (if attempts_used_up ph job \<and> ext = None
       then store_exhausted rt lg t job worker token COOLDOWN ph et msg g w
       else store_retry t job worker token COOLDOWN nb et msg
              (map_option (\<lambda>p. normalize_db_phase (Some p)) pa) ph ext w)"
    using retry_decision [OF assms(2) st, of pa ety error rt lg t worker token nb thesis] by blast
  have "\<not> (attempts_used_up ph job \<and> ext = None)"
  proof
    assume "attempts_used_up ph job \<and> ext = None"
    then have "store_exhausted rt lg t job worker token COOLDOWN ph et msg g w = (Inr job', w')"
      using eq assms(7) by simp
    then show False
      using store_exhausted_status [OF assms(1,2)] assms(8) by fastforce
  qed
  with eq assms(7) have res: "store_retry t job worker token COOLDOWN nb et msg
      (map_option (\<lambda>p. normalize_db_phase (Some p)) pa) ph ext w = (Inr job', w')"
    and alt: "attempts_used_up ph job \<Longrightarrow> ext \<noteq> None" by auto
  note ret = store_retry_returned [OF assms(1-3) st res]
  have life: "j_phase job' = ph" "j_attempts job' = j_attempts job" "j_not_before job' = nb"
    "j_max_attempts job' = (case ext of None \<Rightarrow> j_max_attempts job
       | Some n \<Rightarrow> if n > j_max_attempts job then n else j_max_attempts job)"
    using ret ph by (auto simp: moved_def retry_updates_def split: option.splits)
  have "ph = Wait \<or> j_attempts job < j_max_attempts job'"
  proof (cases "attempts_used_up ph job")
    case True
    then obtain n where n: "ext = Some n" using alt by blast
    with d True have "extension_decision rt job et msg w = (g, Some n)" by simp
    then have "j_attempts job < n"
      using extension_leaves_room [OF _ True] assms(5,6) by (simp add: within_allowance_def)
    then show ?thesis using n life(4) by auto
  next
    case False
    then show ?thesis
      using assms(4) d life(4) by (cases ph) (auto simp: attempts_used_up_def)
  qed
  then show ?thesis
    using ret life assms(8) by (auto simp: attempts_clause_def status_clause_def)
qed

theorem retry_stays_claimable_witness:
  "\<exists>job' w'. store_retryable_result rt0 no_ledger (at_time 5) ''j1'' ''w1'' ''k1'' COOLDOWN 30 ''E'' ''m'' None
      (world_of [job0]) = (Inr job', w')
    \<and> get_job ''j1'' w' = Some job' \<and> j_not_before job' = 30 \<and> attempts_clause job' \<and> status_clause 31 job'"
proof -
  obtain w' where run: "store_retryable_result rt0 no_ledger (at_time 5) ''j1'' ''w1'' ''k1'' COOLDOWN 30 ''E'' ''m'' None
      (world_of [job0]) = (Inr cooled0, w')"
    using retry_job0 by blast
  then show ?thesis
    using retry_stays_claimable [OF ids_distinct_one _ _ _ _ _ run, of job0 31]
    by (auto simp: cooled0_def)
qed

text \<open>C11. In every reachable state the number of extensions of a job's allowance that count
  for the send phase is within the configured maximum.\<close>

theorem extensions_are_bounded:
  assumes "reachable rt lg w"
  shows "retryable_send_extensions_used rt i w \<le> retryable_send_max_extensions rt"
  using bounded_reachable [OF assms] by (simp add: bounded_extensions_def)

theorem extensions_are_bounded_witness:
  "retryable_send_extensions_used rt0 ''j1'' created0 \<le> retryable_send_max_extensions rt0"
  by (rule extensions_are_bounded [OF reachable_created0])

text \<open>Releasing a job to the wait phase succeeds exactly for the holder of its running
  lease; then the job is in the wait phase without a lease, due at the time asked for, with
  its attempts untouched, and any waiting worker may claim it from then on.\<close>

theorem release_for_wait_result:
  assumes "ids_distinct w" and "get_job jid w = Some job" and "j_status job = IN_PROGRESS"
  shows "if holds_lease worker token (t 0) job
    then (\<exists>job' w'. release_for_wait t jid worker token nb w = (Inr job', w')
            \<and> get_job jid w' = Some job'
            \<and> job' = job\<lparr>j_phase := Wait, j_not_before := nb, j_lease_owner := None,
                         j_lease_expires_at := None, j_lease_token := None, j_updated_at := t 0\<rparr>
            \<and> attempts_clause job' \<and> status_clause now job' \<and> single_flight_free (jobs w') job')
    else release_for_wait t jid worker token nb w
           = (Inl (LeaseLost ''lease lost (cannot release for wait)''), w)"
proof (cases "holds_lease worker token (t 0) job")
  case True
  define guard where "guard = running_lease_where jid worker token (t 0)"
  define s where "s = Assign None False [U_phase Wait, U_not_before nb, U_lease_owner None,
      U_lease_expires_at None, U_lease_token None, U_updated_at (t 0)]"
  have count: "count_jobs guard w \<noteq> 0"
    unfolding guard_def running_lease_0 [OF assms(1)] using assms(2) True by simp
  have row: "get_job jid (update_jobs guard s w) = Some (run_statement s job)"
    unfolding guard_def update_one_lease [OF assms(2) True] by simp
  obtain w' where w': "release_for_wait t jid worker token nb w = (reread jid w', w')"
      "get_job jid w' = get_job jid (update_jobs guard s w)"
    using assms(2,3) count
    by (cases "j_phase job = Wait")
       (auto simp: release_for_wait_def Let_def guard_def [symmetric] s_def [symmetric] store_simps)
  have "release_for_wait t jid worker token nb w = (Inr (run_statement s job), w')"
    using w' row by (simp add: reread_def)
  moreover have "run_statement s job = job\<lparr>j_phase := Wait, j_not_before := nb, j_lease_owner := None,
      j_lease_expires_at := None, j_lease_token := None, j_updated_at := t 0\<rparr>"
    by (simp add: s_def)
  ultimately show ?thesis
    using True w' row assms(3)
    by (auto simp: attempts_clause_def status_clause_def single_flight_free_def)
next
  case False
  then have "count_jobs (running_lease_where jid worker token (t 0)) w = 0"
    by (simp add: running_lease_0 [OF assms(1)] assms(2))
  with False show ?thesis using assms(2,3) by (simp add: release_for_wait_def Let_def)
qed

theorem release_for_wait_result_witness:
  "release_for_wait (at_time 101) ''j1'' ''w1'' ''k1'' 7 (world_of [job0])
     = (Inl (LeaseLost ''lease lost (cannot release for wait)''), world_of [job0])"
  using release_for_wait_result [OF ids_distinct_one [of job0], of "''j1''" job0 "''w1''" "''k1''" "at_time 101" 7]
  by (simp add: job0_holder)

section \<open>Answers\<close>

text \<open>C12. A worker's answer is published exactly when the worker still holds the lease at
  the final transition: then the job is completed with the digest of the text, the answer file
  holds that text and \<open>result.json\<close> names its digest, and no staging file is left;
  otherwise every job and every published file is as before, and no staging file is left.\<close>

theorem answer_published_or_dropped:
  assumes "ids_distinct w" and "get_job jid w = Some job" and "j_status job = IN_PROGRESS" and "token \<noteq> ''''"
  shows "let path = answer_rel_path jid (Some fmt); stage = stage_path path token;
             result_stage = stage_path (result_path jid) token; sha = rt_sha256 rt (with_newline answer)
    in if holds_lease worker token (t 3) job
    then (\<exists>job' payload w'. store_answer_result rt None t jid worker token answer fmt w = (Inr job', w')
            \<and> get_job jid w' = Some job' \<and> j_status job' = COMPLETED \<and> j_answer_sha256 job' = Some sha
            \<and> j_answer_path job' = Some path
            \<and> jget ''ok'' payload = JBool True \<and> jget ''answer_sha256'' payload = JStr sha
            \<and> files w' = (files w)(stage := None, path := Some (FText (with_newline answer)),
                            result_stage := None, result_path jid := Some (FJson payload)))
    else (\<exists>w'. store_answer_result rt None t jid worker token answer fmt w
                 = (Inl (LeaseLost ''lease lost (job was reclaimed or lease expired)''), w')
            \<and> jobs w' = jobs w \<and> files w' = (files w)(stage := None, result_stage := None))"
proof -
  obtain m tx where m: "compute_answer_meta rt jid answer (Some fmt) = (m, tx)" by fastforce
  note meta = compute_meta [OF m]
  let ?w2 = "staged_world rt job token m tx w"
  have pre: "ids_distinct ?w2" "get_job jid ?w2 = Some job"
    using assms(1,2) by (simp_all add: store_simps)
  note id = get_job_id [OF assms(2)]
  note run = store_answer_running [OF assms(2-4) m, of None t worker]
  have allowed: "may_move IN_PROGRESS COMPLETED" "disallowed_key (answer_updates m) = None"
    by (simp_all add: may_move_iff allowed_moves_def answer_updates_def)
  have ok: "transition_ok COMPLETED (answer_updates m) (Some worker) (Some token) True (later 2 t 1) job
      = holds_lease worker token (t 3) job"
    using assms(3) allowed by (simp add: transition_ok_def expected_lease_ok_def holds_lease_def later_def numeral_3_eq_3)
  show ?thesis
  proof (cases "holds_lease worker token (t 3) job")
    case True
    obtain j' w3 where tr: "transition (later 2 t) jid COMPLETED (answer_updates m) (Some worker) (Some token) True ?w2
        = (Inr j', w3)"
      using transition_ok_result [OF pre] ok True by blast
    note ret = transition_returned [OF pre tr]
    have "j_answer_sha256 j' = Some (am_sha256 m)" "j_answer_path j' = Some (am_path m)"
      by (simp_all add: ret(1) moved_def answer_updates_def)
    moreover have "store_answer_result rt None t jid worker token answer fmt w = (Inr j',
        publish_answer t jid m (stage_path (am_path m) token) (stage_path (result_path jid) token)
          (staged_contract rt job token m tx w) (staged_canonical rt job token m tx w) w3)"
      by (simp add: run tr)
    moreover define payload where "payload = answer_result_payload job m (staged_contract rt job token m tx w)
        (staged_canonical rt job token m tx w)"
    moreover have "jget ''ok'' payload = JBool True" "jget ''answer_sha256'' payload = JStr (am_sha256 m)"
      by (simp_all add: payload_def answer_result_payload_def)
    moreover have "j_status j' = COMPLETED" by (simp add: ret(1))
    moreover note published_files [OF _ ret(4) id, of "Some fmt" t _ _, folded payload_def]
    ultimately show ?thesis
      using True meta ret(3) unfolding Let_def if_P [OF True]
      by (intro exI [of _ j'] exI [of _ payload] conjI
            exI [of _ "publish_answer t jid m (stage_path (am_path m) token) (stage_path (result_path jid) token)
              (staged_contract rt job token m tx w) (staged_canonical rt job token m tx w) w3"])
         (simp_all add: store_simps)
  next
    case False
    have "transition (later 2 t) jid COMPLETED (answer_updates m) (Some worker) (Some token) True ?w2
        = (Inl (LeaseLost ''lease lost (job was reclaimed or lease expired)''), ?w2)"
      by (rule transition_fenced [OF pre]) (use False ok allowed assms(3) in simp_all)
    then show ?thesis
      using False meta unpublished_files [OF _ id] by (simp add: run Let_def store_simps)
  qed
qed

theorem answer_published_or_dropped_witness:
  "\<exists>w'. store_answer_result rt0 None (at_time 101) ''j1'' ''w1'' ''k1'' ''late'' ''text'' (world_of [job0])
          = (Inl (LeaseLost ''lease lost (job was reclaimed or lease expired)''), w')
     \<and> jobs w' = [job0] \<and> files w' = (\<lambda>_. None)"
  using answer_published_or_dropped [OF ids_distinct_one [of job0], of "''j1''" job0 "''k1''" "''text''" rt0
      "''late''" "''w1''" "at_time 101"]
  by (simp add: job0_holder Let_def fun_upd_idem)

text \<open>Storing an answer is idempotent: once it is stored, storing the same text again,
  by whomever, returns the stored job and changes nothing, and storing a text of another
  digest is refused and changes nothing.\<close>

theorem answer_stored_once:
  assumes "ids_distinct w" and "get_job jid w = Some job" and "j_status job = IN_PROGRESS"
    and "store_answer_result rt io t jid worker token answer fmt w = (Inr job', w')"
    and "rt_sha256 rt (with_newline answer) \<noteq> ''''"
  shows "store_answer_result rt io2 t2 jid worker2 token2 answer fmt2 w' = (Inr job', w')
    \<and> (rt_sha256 rt (with_newline other) \<noteq> rt_sha256 rt (with_newline answer) \<longrightarrow>
         store_answer_result rt io2 t2 jid worker2 token2 other fmt2 w' =
           (Inl (AlreadyFinished ''job already completed with different result''), w'))"
  using store_answer_returned [OF assms(1-4)] store_answer_again [of jid w' job'] assms(5) by auto

theorem answer_stored_once_witness:
  "\<exists>job' w'. store_answer_result rt0 None (at_time 5) ''j1'' ''w1'' ''k1'' ''yes'' ''text'' (world_of [job0]) = (Inr job', w')
    \<and> store_answer_result rt0 None (at_time 9) ''j1'' ''w2'' ''k2'' ''yes'' ''text'' w' = (Inr job', w')"
proof -
  have "\<exists>job' w'. store_answer_result rt0 None (at_time 5) ''j1'' ''w1'' ''k1'' ''yes'' ''text'' (world_of [job0]) = (Inr job', w')"
    using answered_job0 by blast
  then obtain job' w' where run:
    "store_answer_result rt0 None (at_time 5) ''j1'' ''w1'' ''k1'' ''yes'' ''text'' (world_of [job0]) = (Inr job', w')"
    by blast
  then show ?thesis
    using answer_stored_once [OF ids_distinct_one _ _ run, of job0 None "at_time 9" "''w2''" "''k2''" "''text''"]
    by (simp add: rt0_def with_newline_def)
qed

section \<open>Cancellation\<close>

text \<open>A cancellation request does nothing to a final job, cancels at once a job that is
  queued, between attempts, or waiting without an active lease, and only marks a job whose
  prompt is being sent.\<close>

theorem cancel_request_result:
  assumes "ids_distinct w" and "get_job jid w = Some job"
  shows
    "(is_terminal (j_status job) \<longrightarrow> request_cancel t jid by reason w = (Inr job, w)) \<and>
     (j_status job = QUEUED \<or> j_status job \<in> set error_statuses
       \<or> (j_status job = IN_PROGRESS \<and> j_phase job = Wait \<and> \<not> cancel_lease_active (t 0) job) \<longrightarrow>
       (\<exists>job' w'. request_cancel t jid by reason w = (Inr job', w') \<and> get_job jid w' = Some job'
          \<and> j_status job' = CANCELED)) \<and>
     (j_status job = IN_PROGRESS \<and> j_phase job = Send \<longrightarrow>
       (\<exists>w'. request_cancel t jid by reason w =
            (Inr (job\<lparr>j_cancel_requested_at := Some (t 0), j_updated_at := t 0\<rparr>), w')
          \<and> get_job jid w' = Some (job\<lparr>j_cancel_requested_at := Some (t 0), j_updated_at := t 0\<rparr>)))"
  using cancel_final [OF assms(2)] cancel_at_once [OF assms] cancel_marked [OF assms(2), of t "by" reason]
  by auto

theorem cancel_request_result_witness:
  "\<exists>job' w'. request_cancel (at_time 5) ''j1'' None (Some ''no'') (world_of [queued0]) = (Inr job', w')
     \<and> get_job ''j1'' w' = Some job' \<and> j_status job' = CANCELED"
  using cancel_request_result [OF ids_distinct_one [of queued0], of "''j1''" queued0 "at_time 5" None "Some ''no''"]
  by simp

section \<open>Creation\<close>

text \<open>C13. A request is carried out once: after a creation under a key, and any calls after
  it, a request under the same key with the same content returns the job of the first, as it
  is by then, and one with other content is refused with a collision; neither changes
  anything. (A request of the retired \<open>qwen_web\<close> kinds is refused before its key is looked at,
  and is not meant.)\<close>

theorem creation_is_idempotent:
  assumes "ids_distinct w" and "idem_get (rq_key q) w = None" and "get_job jid w = None"
    and "create_job rt t jid q w = (Inr j, w1)"
    and "(system_step rt lg)\<^sup>*\<^sup>* w1 w2"
    and "rq_key q2 = rq_key q" and "\<not> starts_with ''qwen_web.'' (lower (strip (rq_kind q2)))"
  shows "\<exists>j2. get_job jid w2 = Some j2 \<and> same_request j j2 \<and>
    create_job rt t2 jid2 q2 w2 =
      (if request_payload_hash rt q2 = request_payload_hash rt q then (Inr j2, w2)
       else (Inl (IdempotencyCollision (rq_key q) jid (request_payload_hash rt q) (request_payload_hash rt q2)), w2))"
proof -
  obtain row where row: "idem_get (rq_key q) w1 = Some row" "idem_job row = jid"
      "idem_hash row = request_payload_hash rt q" and j: "get_job jid w1 = Some j"
    using create_first [OF assms(2-4)] by (metis idem_row.select_convs(2,3))
  have "ids_distinct w1"
    using create_change [OF assms(1,3), of rt t q] assms(4) by simp
  then obtain j2 where "get_job jid w2 = Some j2" "same_request j j2"
    using run_job [OF assms(5) _ j] by blast
  moreover have "idem_get (rq_key q) w2 = Some row"
    using idem_run [OF assms(5) row(1)] .
  ultimately show ?thesis
    using create_taken [OF assms(7), of w2 row j2 rt t2 jid2] row assms(6) by simp
qed

theorem creation_is_idempotent_witness:
  "\<exists>j2. get_job ''j1'' created0 = Some j2 \<and>
     create_job rt0 (at_time 7) ''j9'' request0 created0 = (Inr j2, created0)"
proof -
  have run: "create_job rt0 (at_time 1) ''j1'' request0 empty_world = (Inr new0, created0)"
    by (rule create_request0)
  show ?thesis
    using creation_is_idempotent [where lg = no_ledger and ?w2.0 = created0 and ?q2.0 = request0 and ?t2.0 = "at_time 7"
        and ?jid2.0 = "''j9''", OF _ _ _ run]
      request0_kind by (auto simp: ids_distinct_def keys_distinct_def idem_get_def get_job_def empty_world_def)
qed

text \<open>C14. A creation that is refused, for whatever reason, leaves the whole state as it was;
  in particular its key is as free as it was before.\<close>

theorem refused_creation_leaves_no_trace:
  assumes "create_job rt t jid q w = (Inl e, w')"
  shows "w' = w"
  by (rule create_refused [OF assms])

theorem refused_creation_leaves_no_trace_witness:
  "snd (create_job rt0 (at_time 1) ''j1'' (request0\<lparr>rq_parent := Some ''p''\<rparr>) empty_world) = empty_world"
proof -
  have "\<exists>e w'. create_job rt0 (at_time 1) ''j1'' (request0\<lparr>rq_parent := Some ''p''\<rparr>) empty_world = (Inl e, w')"
    using orphan_refused by blast
  then show ?thesis using refused_creation_leaves_no_trace by fastforce
qed

text \<open>C15. An ask request that enforces single flight is accepted only when no job of its
  kind is queued or running in the conversation the new job belongs to.\<close>

theorem created_ask_is_single_flight:
  assumes "idem_get (rq_key q) w = None" and "get_job jid w = None"
    and "create_job rt t jid q w = (Inr j, w')"
    and "is_web_ask_kind (Some (rq_kind q))" and "rq_single_flight q" and "\<not> rq_allow_queue q"
    and "j_conversation_id j = Some cid"
    and "j2 \<in> set (jobs w)" and "j_kind j2 = j_kind j" and "j_conversation_id j2 = Some cid"
  shows "j_status j2 \<noteq> QUEUED \<and> j_status j2 \<noteq> IN_PROGRESS"
proof -
  obtain url input where ui: "admit rt q w = Inr (url, input)"
    and j: "j = deferred rt (t 1) w (new_job rt (t 1) jid q url input)"
    using create_first [OF assms(1-3)] by metis
  have kind: "j_kind j = rq_kind q"
    and cid: "conversation_id rt url = Some cid" "cid \<noteq> ''''"
    using assms(7) by (auto simp: j deferred_def new_job_def Let_def split: if_splits option.splits)
  have "check_single_flight rt q url w = None"
    using ui by (auto simp: admit_def split: sum.splits option.splits prod.splits)
  then have "active_ask (rq_kind q) cid w = None"
    using assms(4-6) cid by (auto simp: check_single_flight_def split: option.splits)
  then show ?thesis
    using assms(8-10) kind by (auto simp: active_ask_def filter_empty_conv)
qed

theorem created_ask_is_single_flight_witness:
  "j_status (job0\<lparr>j_id := ''j2'', j_status := COMPLETED, j_conversation_id := Some thread0_id\<rparr>) \<noteq> QUEUED
   \<and> j_status (job0\<lparr>j_id := ''j2'', j_status := COMPLETED, j_conversation_id := Some thread0_id\<rparr>) \<noteq> IN_PROGRESS"
proof -
  let ?o = "job0\<lparr>j_id := ''j2'', j_status := COMPLETED, j_conversation_id := Some thread0_id\<rparr>"
  obtain j w' where run: "create_job rt0 (at_time 1) ''j1'' follow_up0 (world_of [?o]) = (Inr j, w')"
    and j: "j_conversation_id j = Some thread0_id" "j_kind j = ''chatgpt_web.ask''"
    using follow_up_created by blast
  show ?thesis
    by (rule created_ask_is_single_flight [OF _ _ run _ _ _ j(1), of ?o])
       (simp_all add: idem_get_def follow_up0_def request0_def is_web_ask_kind_def j(2) ask_kind_strip
          web_ask_kinds_simp)
qed

section \<open>Transitions\<close>

text \<open>C17. \<open>transition\<close> moves its job exactly when the status machine allows the move,
  every updated column is a permitted one, and the lease it was told to expect is on the job
  and, if asked, unexpired: then that job has the new status and columns and every other job
  is untouched; otherwise it raises and nothing has changed.\<close>

theorem transition_moves_or_raises:
  assumes "ids_distinct w" and "get_job jid w = Some job"
  shows "if transition_ok dst updates owner token live (t 1) job
    then (\<exists>w'. transition t jid dst updates owner token live w = (Inr (moved (t 0) dst updates job), w')
            \<and> (\<forall>i. get_job i w' = (if i = jid then Some (moved (t 0) dst updates job) else get_job i w))
            \<and> files w' = files w \<and> ids_distinct w')
    else (\<exists>e. transition t jid dst updates owner token live w = (Inl e, w))"
proof (cases "transition_ok dst updates owner token live (t 1) job")
  case True
  obtain w' where tr: "transition t jid dst updates owner token live w = (Inr (moved (t 0) dst updates job), w')"
    using transition_ok_result [where t = t, OF assms True] by blast
  then show ?thesis
    using True transition_returned(3-5) [OF assms tr] by auto
next
  case False
  then show ?thesis using transition_not_ok [where t = t, OF assms False] by simp
qed


theorem transition_moves_or_raises_witness:
  "\<exists>w'. transition (at_time 5) ''j1'' COMPLETED [] (Some ''w1'') (Some ''k1'') True (world_of [job0])
     = (Inr (moved 5 COMPLETED [] job0), w')"
  using transition_moves_or_raises [OF ids_distinct_one [of job0], of "''j1''" job0 COMPLETED "[]" "Some ''w1''"
      "Some ''k1''" True "at_time 5"]
  by (auto simp: transition_ok_def expected_lease_ok_def owns_lease_def lease_unexpired_def may_move_iff
      allowed_moves_def)

text \<open>C18. A worker never moves a job from one conversation to another behind its back: when
  \<open>set_conversation_url\<close> returns a job with another URL than before, the worker holds
  the lease, the URL and the id are those of the URL given, and there was no URL before, or a
  Gemini job moved between Gemini threads, or the old URL was the bare application page and
  the new one a thread.\<close>

theorem conversation_changes_are_justified:
  assumes "ids_distinct w" and "get_job jid w = Some job"
    and "set_conversation_url rt t jid worker token url w = (Inr j', w')"
  shows "j' = job \<or>
    (holds_lease worker token (t 0) job \<and> j_conversation_url j' = Some (strip url)
     \<and> j_conversation_id j' = conversation_id rt url
     \<and> (let old = strip (or_empty (j_conversation_url job))
        in old = '''' \<or> (can_rebind_gemini_thread job old (strip url) \<or> can_upgrade_url old (strip url))
             \<and> \<not> same_conversation rt old (strip url)))"
  using assms(3) assign_conversation_returned [OF assms(1,2)] assms(2)
  by (auto simp: set_conversation_url_def Let_def split: if_splits)


theorem conversation_changes_are_justified_witness:
  "\<exists>j' w'. set_conversation_url rt0 (at_time 5) ''j1'' ''w1'' ''k1'' thread0 (world_of [job0]) = (Inr j', w')
     \<and> (j' = job0 \<or> j_conversation_url j' = Some thread0)"
proof -
  have "count_jobs (running_lease_where ''j1'' ''w1'' ''k1'' 5) (world_of [job0]) \<noteq> 0"
    by (simp add: running_lease_0 job0_holder)
  then obtain j' w' where
    run: "set_conversation_url rt0 (at_time 5) ''j1'' ''w1'' ''k1'' thread0 (world_of [job0]) = (Inr j', w')"
    by (simp add: set_conversation_url_def assign_conversation_def thread0_facts Let_def reread_def store_simps)
  then show ?thesis
    using conversation_changes_are_justified [OF ids_distinct_one _ run, of job0] by (auto simp: thread0_facts)
qed

text \<open>Whoever reads the result of a stored answer finds its path as the authoritative
  one, and the answer ready exactly when the guard of short answers did not speak last on the
  job.\<close>

theorem stored_answer_readiness:
  assumes "am_path m = answer_rel_path jid fmt"
    and "contract = answer_contract rt job m w"
    and "canonical = build_canonical_answer_record rt (JStr (status_value COMPLETED)) (JStr (am_format m)) contract"
  shows "get_authoritative_answer_path rt (answer_result_payload job m contract canonical) = Some (am_path m)
    \<and> (is_authoritative_answer_ready rt (answer_result_payload job m contract canonical) \<longleftrightarrow>
         strip (or_empty (latest_event_type (j_id job) w)) \<noteq> ''completion_guard_completed_under_min_chars'')"
proof -
  note v = stored_contract_verdict [OF assms(2,1)]
  have "canonical_answer_from_job_like rt (answer_result_payload job m contract canonical) = canonical"
    by (simp add: canonical_answer_from_job_like_def payload_canonical normalized_dict_def Let_def assms(3)
        canonical_is_obj)
  moreover have "stripped rt (jopt (Some (am_path m))) = Some (am_path m)"
    using stripped_again [of rt "jget ''authoritative_answer_path'' contract"] unfolding v(2) .
  ultimately show ?thesis
    using v
    by (simp add: get_authoritative_answer_path_def is_authoritative_answer_ready_def assms(3) canonical_get
        normalized_dict_def quality_texts)
qed

theorem stored_answer_readiness_witness:
  "is_authoritative_answer_ready rt0
     (answer_result_payload job0 (fst (compute_answer_meta rt0 ''j1'' ''yes'' (Some ''text'')))
        (answer_contract rt0 job0 (fst (compute_answer_meta rt0 ''j1'' ''yes'' (Some ''text''))) empty_world)
        (build_canonical_answer_record rt0 (JStr (status_value COMPLETED))
           (JStr (am_format (fst (compute_answer_meta rt0 ''j1'' ''yes'' (Some ''text'')))))
           (answer_contract rt0 job0 (fst (compute_answer_meta rt0 ''j1'' ''yes'' (Some ''text''))) empty_world)))"
proof -
  have "am_path (fst (compute_answer_meta rt0 ''j1'' ''yes'' (Some ''text''))) = answer_rel_path ''j1'' (Some ''text'')"
    by (simp add: compute_answer_meta_def Let_def)
  from stored_answer_readiness [OF this refl refl] show ?thesis
    by (simp add: latest_event_type_def empty_world_def)
qed

text \<open>When publishing an answer fails after the final transition, at whatever step, the
  call raises and leaves no staging file and none of the files it had published; files it had
  not reached are as they were.\<close>

theorem failed_publication_leaves_no_file:
  assumes "ids_distinct w" and "get_job jid w = Some job" and "j_status job = IN_PROGRESS" and "token \<noteq> ''''"
    and "holds_lease worker token (t 3) job"
  shows "\<exists>w'. store_answer_result rt (Some n) t jid worker token answer fmt w
                = (Inl (OSError ''publication failed''), w')
    \<and> files w' = (\<lambda>p.
        if p = stage_path (answer_rel_path jid (Some fmt)) token \<or> p = stage_path (result_path jid) token then None
        else if (1 \<le> n \<and> p = answer_rel_path jid (Some fmt)) \<or> (2 \<le> n \<and> p = result_path jid) then None
        else files w p)"
proof -
  obtain m tx where m: "compute_answer_meta rt jid answer (Some fmt) = (m, tx)" by fastforce
  note meta = compute_meta [OF m]
  let ?w2 = "staged_world rt job token m tx w"
  have pre: "ids_distinct ?w2" "get_job jid ?w2 = Some job"
    using assms(1,2) by (simp_all add: store_simps)
  have "transition_ok COMPLETED (answer_updates m) (Some worker) (Some token) True (later 2 t 1) job"
    using assms(3,5) by (simp add: transition_ok_def expected_lease_ok_def holds_lease_def later_def
        numeral_3_eq_3 may_move_iff allowed_moves_def answer_updates_def)
  then obtain j' w3 where tr: "transition (later 2 t) jid COMPLETED (answer_updates m) (Some worker) (Some token) True ?w2
      = (Inr j', w3)"
    using transition_ok_result [OF pre] by blast
  have "store_answer_result rt (Some n) t jid worker token answer fmt w =
      (Inl (OSError ''publication failed''),
       abort_publication n t jid m (stage_path (am_path m) token) (stage_path (result_path jid) token)
         (staged_contract rt job token m tx w) (staged_canonical rt job token m tx w) w3)"
    by (simp add: store_answer_running [OF assms(2-4) m] tr)
  moreover have path: "am_path m = answer_rel_path jid (Some fmt)" using meta by simp
  ultimately show ?thesis
    using aborted_files [OF path transition_returned(4) [OF pre tr] get_job_id [OF assms(2)]]
    unfolding path by blast
qed

theorem failed_publication_leaves_no_file_witness:
  "\<exists>w'. store_answer_result rt0 (Some 1) (at_time 5) ''j1'' ''w1'' ''k1'' ''yes'' ''text'' (world_of [job0])
          = (Inl (OSError ''publication failed''), w') \<and> files w' = (\<lambda>_. None)"
proof -
  have lease: "holds_lease ''w1'' ''k1'' (at_time 5 3) job0" by (simp add: job0_holder)
  show ?thesis
    using failed_publication_leaves_no_file [where t = "at_time 5" and worker = "''w1''" and token = "''k1''"
        and job = job0 and jid = "''j1''" and rt = rt0 and n = 1 and answer = "''yes''" and fmt = "''text''",
        OF ids_distinct_one [of job0] _ _ _ lease]
    by (simp add: fun_eq_iff cong: if_cong)
qed

section \<open>Retries in the browser\<close>

text \<open>C19. However calls of the job store and retries by workers interleave, as long as the
  clock the retries read does not go back: no window of the configured width holds more
  scheduled browser retries of one job than the budget allows, where it sets a limit (0 sets none).\<close>

theorem retry_budget_is_kept:
  assumes "retry_system rt lg now w" and "0 < web_retry_budget_max_per_job rt"
  shows "int (length (filter (in_window lo (real_of_int (web_retry_budget_window_seconds rt)))
           (job_events jid ''browser_retry_scheduled'' w))) \<le> web_retry_budget_max_per_job rt"
  using retry_system_within_budget [OF assms]
  by (simp add: within_budget_def scheduled_def scheduled_event_def)

theorem retry_budget_is_kept_witness:
  "int (length (filter (in_window 0 (real_of_int (web_retry_budget_window_seconds rt0)))
     (job_events ''j1'' ''browser_retry_scheduled''
       (snd (store_browser_retry_or_fail_closed rt0 no_ledger (at_time 5) job0 ''w'' ''k'' ''wait'' None 90
          (Some ''TimeoutError'') None True
          (perform rt0 no_ledger (at_time 2) (ClaimNext ''k'' ''w'' 60 None None)
            (perform rt0 no_ledger (at_time 1) (CreateJob ''j1'' request0) empty_world)))))))
   \<le> web_retry_budget_max_per_job rt0"
proof -
  have env: "rt_env rt0 = (\<lambda>_. None)"
    by (simp add: rt0_def)
  have "0 < web_retry_budget_max_per_job rt0"
    by (simp add: web_retry_budget_max_per_job_def registry_int_def env Let_def)
  moreover have "retry_system rt0 no_ledger (at_time 5 1)
      (snd (store_browser_retry_or_fail_closed rt0 no_ledger (at_time 5) job0 ''w'' ''k'' ''wait'' None 90
          (Some ''TimeoutError'') None True
          (perform rt0 no_ledger (at_time 2) (ClaimNext ''k'' ''w'' 60 None None)
            (perform rt0 no_ledger (at_time 1) (CreateJob ''j1'' request0) empty_world))))"
    by (intro retry_system.retry [where now = 0] retry_system.call retry_system.start) simp_all
  ultimately show ?thesis
    using retry_budget_is_kept by blast
qed

text \<open>A retry of a web job whose budget is used up is not scheduled: when the call
  returns, the job waits for a follow-up, the caller is told so, and no job has gained a
  retry event.\<close>

theorem exceeded_budget_fails_closed:
  assumes "ids_distinct w" and "get_job (j_id job) w = Some row"
    and "is_provider_web_kind (Some (j_kind job))"
    and "rb_exceeded (evaluate_web_retry_budget rt (j_id job) (Some (j_kind job)) (t 0) w)"
    and "store_browser_retry_or_fail_closed rt lg t job worker token ph st nb et e rel w = (Inr report, w')"
  shows "(\<exists>j. get_job (j_id job) w' = Some j \<and> j_status j = NEEDS_FOLLOWUP)
    \<and> fst report = ''needs_followup'' \<and> fst (snd report) = Some ''WebRetryBudgetExceeded''
    \<and> (\<forall>i. job_events i ''browser_retry_scheduled'' w' = job_events i ''browser_retry_scheduled'' w)"
  using fail_closed_parks [OF assms] by (simp add: scheduled_def scheduled_event_def)

theorem exceeded_budget_fails_closed_witness:
  "\<exists>report w'. store_browser_retry_or_fail_closed rt0 no_ledger (at_time 5) job0 ''w1'' ''k1'' ''send''
        (Some COOLDOWN) 90 (Some ''TimeoutError'') None False spent0 = (Inr report, w')
    \<and> fst report = ''needs_followup''
    \<and> job_events ''j1'' ''browser_retry_scheduled'' w' = job_events ''j1'' ''browser_retry_scheduled'' spent0"
proof -
  obtain report w' where run: "store_browser_retry_or_fail_closed rt0 no_ledger (at_time 5) job0 ''w1'' ''k1'' ''send''
      (Some COOLDOWN) 90 (Some ''TimeoutError'') None False spent0 = (Inr report, w')"
    using parked_spent0 by blast
  show ?thesis
    using exceeded_budget_fails_closed [where t = "at_time 5", OF _ _ _ _ run] run spent0_facts by auto
qed

end
